(* ===== verification/Prelude.thy ===== *)
theory Prelude
  imports Main "HOL-Library.Word"
begin

section \<open>Shared vocabulary: results, machine integers, little-endian bytes\<close>

text \<open>
  What every theory of the development uses:
  \<^item> the machine integers of the source as words (\<open>u8\<close> \<dots> \<open>u128\<close>), and the fallible and
    saturating operations of the Rust standard library on them. Each operation has one
    characteristic lemma over \<open>unat\<close> (collection \<open>int_ops\<close>), so that every proof about
    lamports and pool tokens is a proof about natural numbers;
  \<^item> Rust's \<open>Result\<close> as a sum (\<open>Inl\<close> is \<open>Err\<close>), the \<open>?\<close> operator as \<open>bindE\<close> and
    \<open>ok_or\<close>, with the inversion lemmas of a successful run (collection \<open>ok_iff\<close>);
  \<^item> little-endian encoding of numbers, with its round trips;
  \<^item> writing into the front of a buffer, as \<open>borsh::to_writer\<close> does.
\<close>

named_theorems ok_iff "inversion of computations that return Ok"
named_theorems int_ops "characteristic facts of the checked and saturating operations"

type_synonym u8 = "8 word"
type_synonym u16 = "16 word"
type_synonym u32 = "32 word"
type_synonym u64 = "64 word"
type_synonym u128 = "128 word"
type_synonym bytes = "8 word list"

text \<open>A \<open>Pubkey\<close> is an array of 32 bytes; equality of arrays is equality of the 256-bit words.\<close>

type_synonym pubkey = "256 word"

subsection \<open>Results and the question mark operator\<close>

definition bindE :: "'e + 'a \<Rightarrow> ('a \<Rightarrow> 'e + 'b) \<Rightarrow> 'e + 'b" where
  "bindE m f = (case m of Inl e \<Rightarrow> Inl e | Inr x \<Rightarrow> f x)"

definition ok_or :: "'a option \<Rightarrow> 'e \<Rightarrow> 'e + 'a" where
  "ok_or m e = (case m of None \<Rightarrow> Inl e | Some x \<Rightarrow> Inr x)"

definition is_ok :: "'e + 'a \<Rightarrow> bool" where
  "is_ok m = (case m of Inl _ \<Rightarrow> False | Inr _ \<Rightarrow> True)"

lemma bindE_simps [simp]:
  "bindE (Inl e) f = Inl e"
  "bindE (Inr x) f = f x"
  by (simp_all add: bindE_def)

lemma ok_or_simps [simp]:
  "ok_or None e = Inl e"
  "ok_or (Some x) e = Inr x"
  by (simp_all add: ok_or_def)

lemma is_ok_simps [simp]:
  "is_ok (Inl e) = False"
  "is_ok (Inr x) = True"
  by (simp_all add: is_ok_def)

lemma bindE_eq_Inr [ok_iff]: "bindE m f = Inr y \<longleftrightarrow> (\<exists>x. m = Inr x \<and> f x = Inr y)"
  by (cases m) auto

lemma bindE_pair_eq_Inr [ok_iff]:
  "bindE m (\<lambda>(a, b). f a b) = Inr y \<longleftrightarrow> (\<exists>a b. m = Inr (a, b) \<and> f a b = Inr y)"
  by (cases m) auto

lemma bindE_assoc: "bindE (bindE m f) g = bindE m (\<lambda>x. bindE (f x) g)"
  by (cases m) auto

lemma ok_or_eq_Inr [ok_iff]: "ok_or m e = Inr x \<longleftrightarrow> m = Some x"
  by (cases m) auto

lemma if_Inl_eq_Inr [ok_iff]: "(if b then Inl e else m) = Inr y \<longleftrightarrow> \<not> b \<and> m = Inr y"
  by simp

lemma if_Inr_Inl_eq_Inr [ok_iff]: "(if b then m else Inl e) = Inr y \<longleftrightarrow> b \<and> m = Inr y"
  by simp

lemma is_ok_iff: "is_ok m \<longleftrightarrow> (\<exists>x. m = Inr x)"
  by (cases m) auto

subsection \<open>Checked and saturating integer operations\<close>

definition checked_add :: "'a::len word \<Rightarrow> 'a word \<Rightarrow> 'a word option" where
  "checked_add a b = (if unat a + unat b < 2 ^ LENGTH('a) then Some (a + b) else None)"

definition checked_sub :: "'a::len word \<Rightarrow> 'a word \<Rightarrow> 'a word option" where
  "checked_sub a b = (if unat b \<le> unat a then Some (a - b) else None)"

definition checked_mul :: "'a::len word \<Rightarrow> 'a word \<Rightarrow> 'a word option" where
  "checked_mul a b = (if unat a * unat b < 2 ^ LENGTH('a) then Some (a * b) else None)"

definition checked_div :: "'a::len word \<Rightarrow> 'a word \<Rightarrow> 'a word option" where
  "checked_div a b = (if b = 0 then None else Some (a div b))"

definition saturating_add :: "'a::len word \<Rightarrow> 'a word \<Rightarrow> 'a word" where
  "saturating_add a b = (if unat a + unat b < 2 ^ LENGTH('a) then a + b else - 1)"

definition saturating_sub :: "'a::len word \<Rightarrow> 'a word \<Rightarrow> 'a word" where
  "saturating_sub a b = (if unat b \<le> unat a then a - b else 0)"

definition saturating_mul :: "'a::len word \<Rightarrow> 'a word \<Rightarrow> 'a word" where
  "saturating_mul a b = (if unat a * unat b < 2 ^ LENGTH('a) then a * b else - 1)"

text \<open>\<open>x as u128\<close> and \<open>u64::try_from(x).ok()\<close>.\<close>

definition as_u128 :: "u64 \<Rightarrow> u128" where
  "as_u128 x = ucast x"

definition u64_try_from :: "u128 \<Rightarrow> u64 option" where
  "u64_try_from x = (if unat x < 2 ^ 64 then Some (ucast x) else None)"

lemma unat_lt2p: "unat (a::'a::len word) < 2 ^ LENGTH('a)"
  by (rule unsigned_less)

lemma unat_eq_iff: "(a::'a::len word) = b \<longleftrightarrow> unat a = unat b"
  by (simp add: word_unat_eq_iff)

lemma unat_add_no_overflow:
  fixes a b :: "'a::len word"
  shows "unat a + unat b < 2 ^ LENGTH('a) \<Longrightarrow> unat (a + b) = unat a + unat b"
  by (simp add: unat_word_ariths)

lemma unat_mul_no_overflow:
  fixes a b :: "'a::len word"
  shows "unat a * unat b < 2 ^ LENGTH('a) \<Longrightarrow> unat (a * b) = unat a * unat b"
  by (simp add: unat_word_ariths)

lemma unat_sub_no_underflow:
  fixes a b :: "'a::len word"
  shows "unat b \<le> unat a \<Longrightarrow> unat (a - b) = unat a - unat b"
  by (rule unat_sub) (simp add: word_le_nat_alt)

lemma u64_less: "unat (a::u64) < 18446744073709551616"
  using unat_lt2p [of a] by simp

lemma u128_less: "unat (a::u128) < 340282366920938463463374607431768211456"
  using unat_lt2p [of a] by simp

lemma checked_add_Some [int_ops]:
  fixes a b :: "'a::len word"
  shows "checked_add a b = Some c \<longleftrightarrow> unat c = unat a + unat b"
proof
  assume "checked_add a b = Some c"
  then show "unat c = unat a + unat b"
    by (auto simp: checked_add_def unat_add_no_overflow split: if_splits)
next
  assume c: "unat c = unat a + unat b"
  then have "unat a + unat b < 2 ^ LENGTH('a)" using unat_lt2p [of c] by simp
  with c show "checked_add a b = Some c"
    by (simp add: checked_add_def unat_eq_iff unat_add_no_overflow)
qed

lemma checked_sub_Some [int_ops]:
  fixes a b :: "'a::len word"
  shows "checked_sub a b = Some c \<longleftrightarrow> unat a = unat c + unat b"
  by (auto simp: checked_sub_def unat_eq_iff unat_sub_no_underflow split: if_splits)

lemma checked_mul_Some [int_ops]:
  fixes a b :: "'a::len word"
  shows "checked_mul a b = Some c \<longleftrightarrow> unat c = unat a * unat b"
proof
  assume "checked_mul a b = Some c"
  then show "unat c = unat a * unat b"
    by (auto simp: checked_mul_def unat_mul_no_overflow split: if_splits)
next
  assume c: "unat c = unat a * unat b"
  then have "unat a * unat b < 2 ^ LENGTH('a)" using unat_lt2p [of c] by simp
  with c show "checked_mul a b = Some c"
    by (simp add: checked_mul_def unat_eq_iff unat_mul_no_overflow)
qed

lemma checked_div_Some [int_ops]:
  fixes a b :: "'a::len word"
  shows "checked_div a b = Some c \<longleftrightarrow> b \<noteq> 0 \<and> unat c = unat a div unat b"
  by (auto simp: checked_div_def unat_div word_unat_eq_iff [of _ c] word_unat_eq_iff [of c] split: if_splits)

lemma u64_try_from_Some [int_ops]: "u64_try_from x = Some c \<longleftrightarrow> unat c = unat x"
proof
  assume "u64_try_from x = Some c"
  then show "unat c = unat x"
    by (auto simp: u64_try_from_def unsigned_ucast_eq take_bit_nat_eq_self split: if_splits)
next
  assume c: "unat c = unat x"
  then have lt: "unat x < 2 ^ 64" using unat_lt2p [of c] by simp
  with c show "u64_try_from x = Some c"
    by (simp add: u64_try_from_def unat_eq_iff unsigned_ucast_eq take_bit_nat_eq_self)
qed

lemma unat_as_u128 [int_ops, simp]: "unat (as_u128 x) = unat x"
proof -
  have "unat x < 2 ^ 128" using u64_less [of x] by simp
  then show ?thesis by (simp add: as_u128_def unsigned_ucast_eq take_bit_nat_eq_self)
qed

lemma unat_saturating_sub [int_ops]:
  fixes a b :: "'a::len word"
  shows "unat (saturating_sub a b) = unat a - unat b"
  by (simp add: saturating_sub_def unat_sub_no_underflow)

lemma unat_max_word: "unat (- 1 :: 'a::len word) = 2 ^ LENGTH('a) - 1"
  by (simp add: unsigned_minus_1_eq_mask mask_eq_exp_minus_1)

lemma unat_saturating_add [int_ops]:
  fixes a b :: "'a::len word"
  shows "unat (saturating_add a b) = min (unat a + unat b) (2 ^ LENGTH('a) - 1)"
  by (simp add: saturating_add_def unat_add_no_overflow unat_max_word)

lemma unat_saturating_mul [int_ops]:
  fixes a b :: "'a::len word"
  shows "unat (saturating_mul a b) = min (unat a * unat b) (2 ^ LENGTH('a) - 1)"
  by (simp add: saturating_mul_def unat_mul_no_overflow unat_max_word)

lemma checked_add_None [int_ops]:
  fixes a b :: "'a::len word"
  shows "checked_add a b = None \<longleftrightarrow> 2 ^ LENGTH('a) \<le> unat a + unat b"
  by (auto simp: checked_add_def)

lemma checked_sub_None [int_ops]:
  fixes a b :: "'a::len word"
  shows "checked_sub a b = None \<longleftrightarrow> unat a < unat b"
  by (auto simp: checked_sub_def)

lemma checked_mul_None [int_ops]:
  fixes a b :: "'a::len word"
  shows "checked_mul a b = None \<longleftrightarrow> 2 ^ LENGTH('a) \<le> unat a * unat b"
  by (auto simp: checked_mul_def)

lemma u64_try_from_None [int_ops]: "u64_try_from x = None \<longleftrightarrow> 2 ^ 64 \<le> unat x"
  by (auto simp: u64_try_from_def)

lemma word_less_unat [int_ops]: "(a::'a::len word) < b \<longleftrightarrow> unat a < unat b"
  by (rule word_less_nat_alt)

lemma word_le_unat [int_ops]: "(a::'a::len word) \<le> b \<longleftrightarrow> unat a \<le> unat b"
  by (rule word_le_nat_alt)

text \<open>The product of two \<open>u64\<close> values always fits \<open>u128\<close>, and so does a \<open>u64\<close> added to it.\<close>

lemma u64_prod_le: "unat (a::u64) * unat (b::u64) \<le> 18446744073709551615 * 18446744073709551615"
  using u64_less [of a] u64_less [of b] by (intro mult_le_mono) simp_all

lemma u64_mul_fits: "unat (a::u64) * unat (b::u64) < 340282366920938463463374607431768211456"
  using u64_prod_le [of a b] by simp

lemma u64_mul_add_fits:
  "unat (a::u64) * unat (b::u64) + unat (c::u64) < 340282366920938463463374607431768211456"
  using u64_prod_le [of a b] u64_less [of c] by simp

subsection \<open>Little-endian bytes\<close>

fun le_bytes :: "nat \<Rightarrow> nat \<Rightarrow> bytes" where
  "le_bytes 0 x = []"
| "le_bytes (Suc n) x = word_of_nat (x mod 256) # le_bytes n (x div 256)"

fun of_le :: "bytes \<Rightarrow> nat" where
  "of_le [] = 0"
| "of_le (b # bs) = unat b + 256 * of_le bs"

lemma length_le_bytes [simp]: "length (le_bytes n x) = n"
  by (induction n arbitrary: x) auto

lemma le_bytes_0 [simp]: "le_bytes n 0 = replicate n 0"
  by (induction n) auto

lemma u8_less: "unat (b::u8) < 256"
  using unat_lt2p [of b] by simp

lemma unat_of_nat_mod_256: "unat (word_of_nat (x mod 256) :: u8) = x mod 256"
  by (simp add: unat_of_nat)

lemma of_le_le_bytes: "of_le (le_bytes n x) = x mod 256 ^ n"
proof (induction n arbitrary: x)
  case 0
  then show ?case by simp
next
  case (Suc n)
  have "of_le (le_bytes (Suc n) x) = x mod 256 + 256 * (x div 256 mod 256 ^ n)"
    by (simp add: Suc.IH unat_of_nat_mod_256)
  also have "\<dots> = x mod (256 * 256 ^ n)"
    by (simp add: mod_mult2_eq)
  finally show ?case by simp
qed

lemma of_le_less: "of_le bs < 256 ^ length bs"
proof (induction bs)
  case Nil
  then show ?case by simp
next
  case (Cons b bs)
  then show ?case using u8_less [of b] by simp
qed

lemma le_bytes_of_le: "le_bytes (length bs) (of_le bs) = bs"
proof (induction bs)
  case Nil
  then show ?case by simp
next
  case (Cons b bs)
  have "word_of_nat (unat b) = b" by simp
  then show ?case using Cons u8_less [of b] by simp
qed

definition word_to_le :: "nat \<Rightarrow> 'a::len word \<Rightarrow> bytes" where
  "word_to_le n w = le_bytes n (unat w)"

definition word_from_le :: "bytes \<Rightarrow> 'a::len word" where
  "word_from_le bs = word_of_nat (of_le bs)"

lemma length_word_to_le [simp]: "length (word_to_le n w) = n"
  by (simp add: word_to_le_def)

lemma word_from_to_le:
  fixes w :: "'a::len word"
  assumes "LENGTH('a) = 8 * n"
  shows "word_from_le (word_to_le n w) = w"
proof -
  have "(256::nat) ^ n = 2 ^ LENGTH('a)"
    unfolding assms power_mult by simp
  then have "unat w mod 256 ^ n = unat w" using unat_lt2p [of w] by simp
  then show ?thesis by (simp add: word_to_le_def word_from_le_def of_le_le_bytes)
qed

lemma word_to_from_le:
  assumes "LENGTH('a::len) = 8 * n" and "length bs = n"
  shows "word_to_le n (word_from_le bs :: 'a word) = bs"
proof -
  have "(2::nat) ^ LENGTH('a) = 256 ^ n"
    unfolding assms(1) power_mult by simp
  then have "of_le bs < 2 ^ LENGTH('a)" using of_le_less [of bs] assms(2) by simp
  then have "unat (word_from_le bs :: 'a word) = of_le bs"
    by (simp add: word_from_le_def unat_of_nat)
  then show ?thesis using le_bytes_of_le [of bs] assms(2) by (simp add: word_to_le_def)
qed

subsection \<open>Buffers\<close>

text \<open>
  \<open>overwrite ys xs\<close> is the buffer \<open>xs\<close> after \<open>ys\<close> was written at its start; the writer fails
  when the buffer is too short. \<open>splice i ys xs\<close> writes at offset \<open>i\<close>.
\<close>

definition overwrite :: "'a list \<Rightarrow> 'a list \<Rightarrow> 'a list option" where
  "overwrite ys xs = (if length ys \<le> length xs then Some (ys @ drop (length ys) xs) else None)"

definition splice :: "nat \<Rightarrow> 'a list \<Rightarrow> 'a list \<Rightarrow> 'a list" where
  "splice i ys xs = take i xs @ ys @ drop (i + length ys) xs"

lemma overwrite_Some:
  "overwrite ys xs = Some zs \<longleftrightarrow> length ys \<le> length xs \<and> zs = ys @ drop (length ys) xs"
  by (auto simp: overwrite_def)

lemma length_splice [simp]:
  "i + length ys \<le> length xs \<Longrightarrow> length (splice i ys xs) = length xs"
  by (simp add: splice_def)

lemma splice_append:
  "splice (length as) ys (as @ bs @ cs) = as @ ys @ cs" if "length bs = length ys"
  using that by (simp add: splice_def)

end
