(* ===== verification/Borsh.thy ===== *)
theory Borsh
  imports Prelude
begin

section \<open>Borsh encoding\<close>

text \<open>
  The account and instruction types of the program derive \<open>BorshSerialize\<close> and
  \<open>BorshDeserialize\<close>: fields in declaration order, integers little-endian, an enum as one
  tag byte followed by its fields, \<open>Option\<close> as a tag 0 or 1, \<open>Vec\<close> as a \<open>u32\<close> length and
  the elements. A decoder reads a prefix of its input and returns the rest
  (\<open>BorshDeserialize::deserialize\<close>), so \<open>try_from_slice_unchecked\<close> is the decoder
  and \<open>try_from_slice\<close> is the decoder with nothing left over.

  The locale \<open>codec\<close> is the interface between a type and its users: decoding what was
  encoded gives the value back, whatever follows. Its clients get that encodings are
  injective and prefix-free, that a value written over the start of a buffer
  is read back, and that two codecs compose. Every type's encoder and decoder below,
  and those of the later theories, are interpretations of it.
\<close>

subsection \<open>The interface\<close>

locale codec =
  fixes ser :: "'a \<Rightarrow> bytes"
    and de :: "bytes \<Rightarrow> ('a \<times> bytes) option"
  assumes de_ser: "de (ser x @ rest) = Some (x, rest)"
begin

lemma de_ser_exact: "de (ser x) = Some (x, [])"
  using de_ser [of x "[]"] by simp

lemma ser_prefix_free:
  assumes "ser x @ r = ser y @ s"
  shows "x = y \<and> r = s"
proof -
  have "Some (x, r) = de (ser y @ s)" using de_ser [of x r] unfolding assms by (rule sym)
  also have "\<dots> = Some (y, s)" by (rule de_ser)
  finally show ?thesis by simp
qed

lemma ser_inject: "ser x = ser y \<longleftrightarrow> x = y"
  using ser_prefix_free [of x "[]" y "[]"] by auto

lemma de_overwrite:
  "overwrite (ser x) buf = Some buf' \<Longrightarrow>
    de buf' = Some (x, drop (length (ser x)) buf) \<and> length buf' = length buf"
  by (auto simp: overwrite_Some de_ser)

end

text \<open>\<open>borsh::try_from_slice\<close>: the decoder must consume the whole input.\<close>

definition try_from_slice :: "(bytes \<Rightarrow> ('a \<times> bytes) option) \<Rightarrow> bytes \<Rightarrow> 'a option" where
  "try_from_slice de bs = (case de bs of Some (x, []) \<Rightarrow> Some x | _ \<Rightarrow> None)"

context codec
begin

lemma try_from_slice_ser: "try_from_slice de (ser x) = Some x"
  by (simp add: try_from_slice_def de_ser_exact)

end

subsection \<open>Composition\<close>

definition de_bind :: "(bytes \<Rightarrow> ('a \<times> bytes) option) \<Rightarrow> ('a \<Rightarrow> bytes \<Rightarrow> ('b \<times> bytes) option) \<Rightarrow>
    bytes \<Rightarrow> ('b \<times> bytes) option" where
  "de_bind d k bs = (case d bs of None \<Rightarrow> None | Some (x, rest) \<Rightarrow> k x rest)"

definition de_return :: "'a \<Rightarrow> bytes \<Rightarrow> ('a \<times> bytes) option" where
  "de_return x bs = Some (x, bs)"

definition de_fail :: "bytes \<Rightarrow> ('a \<times> bytes) option" where
  "de_fail bs = None"

lemma de_return_apply [simp]: "de_return x bs = Some (x, bs)"
  by (simp add: de_return_def)

lemma de_fail_apply [simp]: "de_fail bs = None"
  by (simp add: de_fail_def)

lemma de_bind_Some [ok_iff]:
  "de_bind d k bs = Some r \<longleftrightarrow> (\<exists>x rest. d bs = Some (x, rest) \<and> k x rest = Some r)"
  by (auto simp: de_bind_def split: option.splits)

context codec
begin

lemma de_bind_ser [simp]: "de_bind de k (ser x @ rest) = k x rest"
  by (simp add: de_bind_def de_ser)

end

subsection \<open>Integers and keys\<close>

definition ser_word :: "nat \<Rightarrow> 'a::len word \<Rightarrow> bytes" where
  "ser_word n w = word_to_le n w"

definition de_word :: "nat \<Rightarrow> bytes \<Rightarrow> ('a::len word \<times> bytes) option" where
  "de_word n bs = (if length bs < n then None else Some (word_from_le (take n bs), drop n bs))"

lemma de_word_ser_word:
  "LENGTH('a::len) = 8 * n \<Longrightarrow> de_word n (ser_word n (w :: 'a word) @ rest) = Some (w, rest)"
  by (simp add: de_word_def ser_word_def word_from_to_le)

lemma length_ser_word [simp]: "length (ser_word n w) = n"
  by (simp add: ser_word_def)

definition ser_u8 :: "u8 \<Rightarrow> bytes" where
  "ser_u8 = ser_word 1"

definition de_u8 :: "bytes \<Rightarrow> (u8 \<times> bytes) option" where
  "de_u8 = de_word 1"

definition ser_u32 :: "u32 \<Rightarrow> bytes" where
  "ser_u32 = ser_word 4"

definition de_u32 :: "bytes \<Rightarrow> (u32 \<times> bytes) option" where
  "de_u32 = de_word 4"

definition ser_u64 :: "u64 \<Rightarrow> bytes" where
  "ser_u64 = ser_word 8"

definition de_u64 :: "bytes \<Rightarrow> (u64 \<times> bytes) option" where
  "de_u64 = de_word 8"

definition ser_pubkey :: "pubkey \<Rightarrow> bytes" where
  "ser_pubkey = ser_word 32"

definition de_pubkey :: "bytes \<Rightarrow> (pubkey \<times> bytes) option" where
  "de_pubkey = de_word 32"

lemmas ser_int_defs = ser_u8_def ser_u32_def ser_u64_def ser_pubkey_def
lemmas de_int_defs = de_u8_def de_u32_def de_u64_def de_pubkey_def

lemma length_ser_int [simp]:
  "length (ser_u8 a) = 1"
  "length (ser_u32 b) = 4"
  "length (ser_u64 c) = 8"
  "length (ser_pubkey p) = 32"
  by (simp_all add: ser_int_defs)

interpretation cu8: codec ser_u8 de_u8
  by unfold_locales (simp add: ser_int_defs de_int_defs de_word_ser_word)

interpretation cu32: codec ser_u32 de_u32
  by unfold_locales (simp add: ser_int_defs de_int_defs de_word_ser_word)

interpretation cu64: codec ser_u64 de_u64
  by unfold_locales (simp add: ser_int_defs de_int_defs de_word_ser_word)

interpretation cpk: codec ser_pubkey de_pubkey
  by unfold_locales (simp add: ser_int_defs de_int_defs de_word_ser_word)

text \<open>Integers have one encoding each: what decodes was encoded.\<close>

lemma de_word_canonical:
  assumes "de_word n bs = Some (w :: 'a::len word, rest)" "LENGTH('a) = 8 * n"
  shows "bs = ser_word n w @ rest"
  using assms word_to_from_le [of n "take n bs", where 'a = 'a]
  by (auto simp: de_word_def ser_word_def split: if_splits)

lemma de_int_canonical:
  "de_u8 bs = Some (a, rest) \<Longrightarrow> bs = ser_u8 a @ rest"
  "de_u32 bs = Some (b, rest) \<Longrightarrow> bs = ser_u32 b @ rest"
  by (simp_all add: ser_int_defs de_int_defs de_word_canonical)

lemma de_u8_Cons: "de_u8 (b # bs) = Some (b, bs)"
  by (simp add: de_u8_def de_word_def word_from_le_def)

lemma ser_u8_single: "ser_u8 b = [b]"
  using le_bytes_of_le [of "[b]"] by (simp add: ser_u8_def ser_word_def word_to_le_def)

subsection \<open>Booleans and options\<close>

text \<open>\<open>bool\<close> is a byte 0 or 1, any other byte is refused.\<close>

definition ser_bool :: "bool \<Rightarrow> bytes" where
  "ser_bool b = ser_u8 (if b then 1 else 0)"

definition de_bool :: "bytes \<Rightarrow> (bool \<times> bytes) option" where
  "de_bool = de_bind de_u8 (\<lambda>t. if t = 0 then de_return False else if t = 1 then de_return True else de_fail)"

interpretation cbool: codec ser_bool de_bool
  by unfold_locales (simp add: ser_bool_def de_bool_def)

definition ser_option :: "('a \<Rightarrow> bytes) \<Rightarrow> 'a option \<Rightarrow> bytes" where
  "ser_option ser v = (case v of None \<Rightarrow> ser_u8 0 | Some x \<Rightarrow> ser_u8 1 @ ser x)"

definition de_option :: "(bytes \<Rightarrow> ('a \<times> bytes) option) \<Rightarrow> bytes \<Rightarrow> ('a option \<times> bytes) option" where
  "de_option de = de_bind de_u8 (\<lambda>t.
     if t = 0 then de_return None
     else if t = 1 then de_bind de (\<lambda>x. de_return (Some x))
     else de_fail)"

lemma length_ser_option:
  "length (ser_option ser v) = (case v of None \<Rightarrow> 1 | Some x \<Rightarrow> 1 + length (ser x))"
  by (simp add: ser_option_def split: option.splits)

context codec
begin

lemma codec_option: "codec (ser_option ser) (de_option de)"
  by unfold_locales (simp add: ser_option_def de_option_def split: option.splits)

end

interpretation copk: codec "ser_option ser_pubkey" "de_option de_pubkey"
  by (rule cpk.codec_option)

interpretation cou64: codec "ser_option ser_u64" "de_option de_u64"
  by (rule cu64.codec_option)

text \<open>
  A \<open>Vec\<close> is its length as \<open>u32\<close> and its elements; \<open>de_list n\<close> reads \<open>n\<close> elements.
\<close>

fun ser_list :: "('a \<Rightarrow> bytes) \<Rightarrow> 'a list \<Rightarrow> bytes" where
  "ser_list ser [] = []"
| "ser_list ser (x # xs) = ser x @ ser_list ser xs"

fun de_list :: "(bytes \<Rightarrow> ('a \<times> bytes) option) \<Rightarrow> nat \<Rightarrow> bytes \<Rightarrow> ('a list \<times> bytes) option" where
  "de_list de 0 bs = Some ([], bs)"
| "de_list de (Suc n) bs =
     (case de bs of
        None \<Rightarrow> None
      | Some (x, rest) \<Rightarrow>
          (case de_list de n rest of None \<Rightarrow> None | Some (xs, rest') \<Rightarrow> Some (x # xs, rest')))"

definition ser_vec :: "('a \<Rightarrow> bytes) \<Rightarrow> 'a list \<Rightarrow> bytes" where
  "ser_vec ser xs = ser_u32 (word_of_nat (length xs)) @ ser_list ser xs"

definition de_vec :: "(bytes \<Rightarrow> ('a \<times> bytes) option) \<Rightarrow> bytes \<Rightarrow> ('a list \<times> bytes) option" where
  "de_vec de = de_bind de_u32 (\<lambda>n. de_list de (unat n))"

lemma ser_list_append [simp]: "ser_list ser (xs @ ys) = ser_list ser xs @ ser_list ser ys"
  by (induction xs) auto

lemma ser_list_concat: "ser_list ser xs = concat (map ser xs)"
  by (induction xs) auto

lemma length_ser_list:
  "(\<And>x. length (ser x) = k) \<Longrightarrow> length (ser_list ser xs) = k * length xs"
  by (induction xs) auto

context codec
begin

lemma de_list_ser_list: "de_list de (length xs) (ser_list ser xs @ rest) = Some (xs, rest)"
  by (induction xs) (simp_all add: de_ser)

lemma de_vec_ser_vec:
  "length xs < 2 ^ 32 \<Longrightarrow> de_vec de (ser_vec ser xs @ rest) = Some (xs, rest)"
  by (simp add: de_vec_def ser_vec_def unat_of_nat de_list_ser_list)

end

end
