(* ===== verification/Errors.thy ===== *)
theory Errors
  imports Prelude
begin

section \<open>Errors\<close>

text \<open>
  \<open>StakePoolError\<close> (\<open>src/program/src/error.rs\<close>) with its variants in the order of the
  source, which is what fixes the numeric code a failed transaction shows, and the
  variants of \<open>solana_program::program_error::ProgramError\<close> the program itself returns.
  \<open>Panicked\<close> stands for a panic (an out-of-range slice, an \<open>unwrap\<close> of \<open>None\<close>):
  it aborts the transaction as an error does. \<open>OtherError\<close> carries whatever error a
  called program or the runtime returns.
\<close>

datatype stake_pool_error =
    AlreadyInUse | InvalidProgramAddress | InvalidState | CalculationFailure | FeeTooHigh
  | WrongAccountMint | WrongManager | SignatureMissing | InvalidValidatorStakeList
  | InvalidFeeAccount
  | WrongPoolMint | WrongStakeStake | UserStakeNotActive | ValidatorAlreadyAdded
  | ValidatorNotFound
  | InvalidStakeAccountAddress | StakeListOutOfDate | StakeListAndPoolOutOfDate
  | UnknownValidatorStakeAccount | WrongMintingAuthority
  | UnexpectedValidatorListAccountSize | WrongStaker | NonZeroPoolTokenSupply
  | StakeLamportsNotEqualToMinimum | IncorrectDepositVoteAddress
  | IncorrectWithdrawVoteAddress | InvalidMintFreezeAuthority | FeeIncreaseTooHigh
  | WithdrawalTooSmall | DepositTooSmall
  | InvalidStakeDepositAuthority | InvalidSolDepositAuthority | InvalidPreferredValidator
  | TransientAccountInUse | InvalidSolWithdrawAuthority
  | SolWithdrawalTooLarge | InvalidMetadataAccount | UnsupportedMintExtension
  | UnsupportedFeeAccountExtension | ExceededSlippage
  | IncorrectMintDecimals | ReserveDepleted | MissingRequiredSysvar
  | EpochRewardDistributionInProgress | TooManyValidatorsInPool
  | ExceedsMaxValidatorStake

datatype program_error =
    Custom u32
  | InvalidArgument
  | InvalidInstructionData
  | InvalidAccountData
  | AccountDataTooSmall
  | InsufficientFunds
  | IncorrectProgramId
  | InvalidSeeds
  | AccountNotRentExempt
  | NotEnoughAccountKeys
  | BorshIoError
  | Panicked
  | OtherError nat

text \<open>The list of variants gives the discriminants: \<open>e as u32\<close> is the position of \<open>e\<close>.\<close>

definition stake_pool_errors :: "stake_pool_error list" where
  "stake_pool_errors =
    [AlreadyInUse, InvalidProgramAddress, InvalidState, CalculationFailure, FeeTooHigh,
     WrongAccountMint, WrongManager, SignatureMissing, InvalidValidatorStakeList,
     InvalidFeeAccount,
     WrongPoolMint, WrongStakeStake, UserStakeNotActive, ValidatorAlreadyAdded,
     ValidatorNotFound,
     InvalidStakeAccountAddress, StakeListOutOfDate, StakeListAndPoolOutOfDate,
     UnknownValidatorStakeAccount, WrongMintingAuthority,
     UnexpectedValidatorListAccountSize, WrongStaker, NonZeroPoolTokenSupply,
     StakeLamportsNotEqualToMinimum, IncorrectDepositVoteAddress,
     IncorrectWithdrawVoteAddress, InvalidMintFreezeAuthority, FeeIncreaseTooHigh,
     WithdrawalTooSmall, DepositTooSmall,
     InvalidStakeDepositAuthority, InvalidSolDepositAuthority, InvalidPreferredValidator,
     TransientAccountInUse, InvalidSolWithdrawAuthority,
     SolWithdrawalTooLarge, InvalidMetadataAccount, UnsupportedMintExtension,
     UnsupportedFeeAccountExtension, ExceededSlippage,
     IncorrectMintDecimals, ReserveDepleted, MissingRequiredSysvar,
     EpochRewardDistributionInProgress, TooManyValidatorsInPool,
     ExceedsMaxValidatorStake]"

fun index_of :: "'a \<Rightarrow> 'a list \<Rightarrow> nat" where
  "index_of x [] = 0"
| "index_of x (y # ys) = (if x = y then 0 else Suc (index_of x ys))"

lemma nth_index_of: "x \<in> set xs \<Longrightarrow> xs ! index_of x xs = x"
  by (induction xs) auto

lemma index_of_less: "x \<in> set xs \<Longrightarrow> index_of x xs < length xs"
  by (induction xs) auto

text \<open>\<open>impl From<StakePoolError> for ProgramError\<close>.\<close>

definition error_code :: "stake_pool_error \<Rightarrow> u32" where
  "error_code e = word_of_nat (index_of e stake_pool_errors)"

definition pool_err :: "stake_pool_error \<Rightarrow> program_error" where
  "pool_err e = Custom (error_code e)"

text \<open>The question mark operator on a \<open>Result<_, StakePoolError>\<close> converts the error.\<close>

definition into_err :: "stake_pool_error + 'a \<Rightarrow> program_error + 'a" where
  "into_err m = (case m of Inl e \<Rightarrow> Inl (pool_err e) | Inr x \<Rightarrow> Inr x)"

lemma into_err_simps [simp]:
  "into_err (Inl e) = Inl (pool_err e)"
  "into_err (Inr x) = Inr x"
  by (simp_all add: into_err_def)

lemma into_err_eq_Inr [ok_iff]: "into_err m = Inr x \<longleftrightarrow> m = Inr x"
  by (cases m) auto

text \<open>\<open>num_derive::FromPrimitive\<close>, by which a client decodes the code of a failed transaction.\<close>

definition error_from_code :: "u32 \<Rightarrow> stake_pool_error option" where
  "error_from_code c =
     (if unat c < length stake_pool_errors then Some (stake_pool_errors ! unat c) else None)"

lemma stake_pool_errors_complete: "e \<in> set stake_pool_errors"
  by (cases e) (simp_all add: stake_pool_errors_def)

lemma index_of_nth: "distinct xs \<Longrightarrow> i < length xs \<Longrightarrow> index_of (xs ! i) xs = i"
  by (induction xs arbitrary: i) (auto simp: nth_Cons split: nat.splits)

lemma distinct_stake_pool_errors: "distinct stake_pool_errors"
  by (simp add: stake_pool_errors_def)

lemma length_stake_pool_errors: "length stake_pool_errors = 46"
  by (simp add: stake_pool_errors_def)

lemma unat_error_code: "unat (error_code e) = index_of e stake_pool_errors"
proof -
  have "index_of e stake_pool_errors < 46"
    using index_of_less [OF stake_pool_errors_complete] by (simp add: length_stake_pool_errors)
  then show ?thesis by (simp add: error_code_def unat_of_nat)
qed

lemma error_from_code_error_code: "error_from_code (error_code e) = Some e"
  using index_of_less [OF stake_pool_errors_complete] nth_index_of [OF stake_pool_errors_complete]
  by (simp add: error_from_code_def unat_error_code)

lemma error_from_code_Some: "error_from_code c = Some e \<longleftrightarrow> error_code e = c"
proof
  assume h: "error_from_code c = Some e"
  then have "index_of e stake_pool_errors = unat c"
    using index_of_nth [OF distinct_stake_pool_errors] by (auto simp: error_from_code_def split: if_splits)
  then show "error_code e = c" by (simp add: error_code_def)
qed (auto simp: error_from_code_error_code)

lemma error_code_inject: "error_code e = error_code e' \<longleftrightarrow> e = e'"
  using error_from_code_error_code [of e] error_from_code_error_code [of e']
  by (metis option.inject)

lemma pool_err_inject [simp]: "pool_err e = pool_err e' \<longleftrightarrow> e = e'"
  by (simp add: pool_err_def error_code_inject)

lemma pool_err_distinct [simp]:
  "pool_err e \<noteq> InvalidAccountData" "pool_err e \<noteq> IncorrectProgramId"
  "pool_err e \<noteq> NotEnoughAccountKeys" "pool_err e \<noteq> BorshIoError" "pool_err e \<noteq> Panicked"
  "pool_err e \<noteq> InsufficientFunds" "pool_err e \<noteq> AccountDataTooSmall"
  by (simp_all add: pool_err_def)

end
