(* ===== verification/Fees.thy ===== *)
theory Fees
  imports Borsh Errors
begin

section \<open>Fees and their schedule\<close>

text \<open>
  \<open>Fee\<close>, \<open>FeeType\<close> and \<open>FutureEpoch\<close> of \<open>src/program/src/state.rs\<close>, with the
  constants of \<open>src/program/src/lib.rs\<close> they use: the ceiling division that turns an
  amount into a fee, the bound on a fee, the limit on raising a withdrawal fee, and the
  counter that delays a new fee by two epoch boundaries.
\<close>

subsection \<open>Fee\<close>

record fee =
  denominator :: u64
  numerator :: u64

definition fee_default :: fee where
  "fee_default = \<lparr>denominator = 0, numerator = 0\<rparr>"

definition MAX_WITHDRAWAL_FEE_INCREASE :: fee where
  "MAX_WITHDRAWAL_FEE_INCREASE = \<lparr>denominator = 2, numerator = 3\<rparr>"

definition WITHDRAWAL_BASELINE_FEE :: fee where
  "WITHDRAWAL_BASELINE_FEE = \<lparr>denominator = 1000, numerator = 1\<rparr>"

text \<open>\<open>Fee::apply\<close>: each step may overflow, and an overflow is \<open>None\<close>.\<close>

definition fee_apply :: "fee \<Rightarrow> u64 \<Rightarrow> u128 option" where
  "fee_apply f amt =
     (if denominator f = 0 then Some 0
      else
        Option.bind (checked_mul (as_u128 amt) (as_u128 (numerator f))) (\<lambda>num.
        let denom = as_u128 (denominator f) in
        Option.bind (checked_add num denom) (\<lambda>x.
        Option.bind (checked_sub x 1) (\<lambda>y.
        checked_div y denom))))"

text \<open>
  Rust compares two \<open>Option\<close> values with \<open>None\<close> below every \<open>Some\<close>. In
  \<open>Fee::check_withdrawal\<close> the inner \<open>checked_mul\<close> sits under a \<open>map\<close>, so
  \<open>ok_or\<close> only sees the outer option and the two sides compared are \<open>Option<u128>\<close>.
\<close>

definition opt_less :: "u128 option \<Rightarrow> u128 option \<Rightarrow> bool" where
  "opt_less a b =
     (case b of None \<Rightarrow> False
      | Some y \<Rightarrow> (case a of None \<Rightarrow> True | Some x \<Rightarrow> x < y))"

definition withdrawal_fee_base :: "fee \<Rightarrow> u64 \<times> u64" where
  "withdrawal_fee_base old =
     (if denominator old = 0 \<or> numerator old = 0
      then (numerator WITHDRAWAL_BASELINE_FEE, denominator WITHDRAWAL_BASELINE_FEE)
      else (numerator old, denominator old))"

definition check_withdrawal :: "fee \<Rightarrow> fee \<Rightarrow> stake_pool_error + unit" where
  "check_withdrawal new old =
     (let (old_num, old_denom) = withdrawal_fee_base old in
      bindE (ok_or (map_option
               (\<lambda>x. checked_mul x (as_u128 (numerator MAX_WITHDRAWAL_FEE_INCREASE)))
               (checked_mul (as_u128 old_num) (as_u128 (denominator new))))
             CalculationFailure) (\<lambda>lhs.
      bindE (ok_or (map_option
               (\<lambda>x. checked_mul x (as_u128 (denominator MAX_WITHDRAWAL_FEE_INCREASE)))
               (checked_mul (as_u128 (numerator new)) (as_u128 old_denom)))
             CalculationFailure) (\<lambda>rhs.
      if opt_less lhs rhs then Inl FeeIncreaseTooHigh else Inr ())))"

definition ser_fee :: "fee \<Rightarrow> bytes" where
  "ser_fee f = ser_u64 (denominator f) @ ser_u64 (numerator f)"

definition de_fee :: "bytes \<Rightarrow> (fee \<times> bytes) option" where
  "de_fee = de_bind de_u64 (\<lambda>d. de_bind de_u64 (\<lambda>n.
     de_return \<lparr>denominator = d, numerator = n\<rparr>))"

interpretation cfee: codec ser_fee de_fee
  by unfold_locales (simp add: ser_fee_def de_fee_def)

lemma length_ser_fee [simp]: "length (ser_fee f) = 16"
  by (simp add: ser_fee_def)

text \<open>The amount of a fee, on natural numbers: the quotient rounded up.\<close>

definition fee_amount :: "fee \<Rightarrow> nat \<Rightarrow> nat" where
  "fee_amount f n =
     (if denominator f = 0 then 0
      else (n * unat (numerator f) + unat (denominator f) - 1) div unat (denominator f))"

text \<open>A fee is at most one: what \<open>FeeType::check_too_high\<close> demands.\<close>

definition fee_at_most_one :: "fee \<Rightarrow> bool" where
  "fee_at_most_one f \<longleftrightarrow> \<not> (numerator f > denominator f)"

lemma fee_apply_eq: "\<exists>r. fee_apply f amt = Some r \<and> unat r = fee_amount f (unat amt)"
proof (cases "denominator f = 0")
  case True
  then show ?thesis by (simp add: fee_apply_def fee_amount_def)
next
  case False
  let ?n = "unat (numerator f)" and ?d = "unat (denominator f)" and ?a = "unat amt"
  have d: "0 < ?d" using False by (simp add: unat_gt_0)
  have fit: "?a * ?n + ?d < 2 ^ 128" using u64_mul_add_fits [of amt "numerator f" "denominator f"] by simp
  define num where "num = as_u128 amt * as_u128 (numerator f)"
  have num: "checked_mul (as_u128 amt) (as_u128 (numerator f)) = Some num" "unat num = ?a * ?n"
    using fit by (simp_all add: num_def checked_mul_def unat_mul_no_overflow)
  define x where "x = num + as_u128 (denominator f)"
  have x: "checked_add num (as_u128 (denominator f)) = Some x" "unat x = ?a * ?n + ?d"
    using fit by (simp_all add: x_def checked_add_def unat_add_no_overflow num)
  define y where "y = x - 1"
  have y: "checked_sub x 1 = Some y" "unat y = ?a * ?n + ?d - 1"
    using d by (simp_all add: y_def checked_sub_def unat_sub_no_underflow x)
  have dne: "as_u128 (denominator f) \<noteq> 0"
    using d by (metis unat_as_u128 less_numeral_extra(3) unat_0)
  show ?thesis
    using False dne by (simp add: fee_apply_def num(1) x(1) y(1) checked_div_def Let_def unat_div y(2) fee_amount_def)
qed

lemma fee_apply_Some [int_ops]: "fee_apply f amt = Some r \<longleftrightarrow> unat r = fee_amount f (unat amt)"
  using fee_apply_eq [of f amt] by (auto simp: word_unat_eq_iff)

text \<open>The fee is the least number of units that covers the ratio: it is rounded up, never down.\<close>

lemma ceil_div_le_iff: "0 < d \<Longrightarrow> (m + d - 1) div d \<le> k \<longleftrightarrow> m \<le> k * (d::nat)"
proof -
  assume d: "0 < d"
  have "(m + d - 1) div d \<le> k \<longleftrightarrow> (m + d - 1) div d < Suc k" by (rule less_Suc_eq_le [symmetric])
  also have "\<dots> \<longleftrightarrow> m + d - 1 < Suc k * d" using d by (simp add: div_less_iff_less_mult)
  also have "\<dots> \<longleftrightarrow> m \<le> k * d" using d by auto
  finally show ?thesis .
qed

lemma fee_amount_le_iff:
  "denominator f \<noteq> 0 \<Longrightarrow>
    fee_amount f n \<le> k \<longleftrightarrow> n * unat (numerator f) \<le> k * unat (denominator f)"
  by (simp add: fee_amount_def ceil_div_le_iff [unfolded One_nat_def] unat_gt_0)

lemma fee_amount_0 [simp]: "fee_amount f 0 = 0"
  using fee_amount_le_iff [of f 0 0] by (cases "denominator f = 0") (simp_all add: fee_amount_def)

lemma fee_amount_le:
  assumes "fee_at_most_one f"
  shows "fee_amount f n \<le> n"
proof (cases "denominator f = 0")
  case True
  then show ?thesis by (simp add: fee_amount_def)
next
  case False
  have "unat (numerator f) \<le> unat (denominator f)"
    using assms by (simp add: fee_at_most_one_def word_less_unat)
  with False show ?thesis by (simp add: fee_amount_le_iff)
qed

lemma fee_amount_pos:
  assumes "denominator f \<noteq> 0" "numerator f \<noteq> 0" "0 < n"
  shows "0 < fee_amount f n"
proof (rule ccontr)
  assume "\<not> 0 < fee_amount f n"
  then have "fee_amount f n \<le> 0" by simp
  then have "n * unat (numerator f) \<le> 0 * unat (denominator f)"
    using fee_amount_le_iff [OF assms(1)] by blast
  then show False using assms(2,3) by (simp add: unsigned_eq_0_iff)
qed

text \<open>
  The check on a raised withdrawal fee compares \<open>3 * old_num * new_denom\<close> with
  \<open>2 * new_num * old_denom\<close>. When the left product overflows 128 bits it is \<open>None\<close> and
  counts as the smaller side; when the right one overflows the check passes.
\<close>

lemma check_withdrawal_eq:
  assumes "withdrawal_fee_base old = (old_num, old_denom)"
  shows "check_withdrawal new old =
    (let lhs = 3 * (unat old_num * unat (denominator new));
         rhs = 2 * (unat (numerator new) * unat old_denom)
     in if rhs < 2 ^ 128 \<and> (2 ^ 128 \<le> lhs \<or> lhs < rhs) then Inl FeeIncreaseTooHigh else Inr ())"
proof -
  obtain l where l: "checked_mul (as_u128 old_num) (as_u128 (denominator new)) = Some l"
      "unat l = unat old_num * unat (denominator new)"
    using u64_mul_fits [of old_num "denominator new"]
    by (simp add: checked_mul_def unat_mul_no_overflow)
  obtain r where r: "checked_mul (as_u128 (numerator new)) (as_u128 old_denom) = Some r"
      "unat r = unat (numerator new) * unat old_denom"
    using u64_mul_fits [of "numerator new" old_denom]
    by (simp add: checked_mul_def unat_mul_no_overflow)
  have le: "checked_mul l (as_u128 3) = (if 3 * unat l < 2 ^ 128 then Some (l * as_u128 3) else None)"
    by (simp add: checked_mul_def mult.commute)
  have lv: "3 * unat l < 2 ^ 128 \<Longrightarrow> unat (l * as_u128 3) = 3 * unat l"
    by (subst unat_mul_no_overflow) (simp_all add: mult.commute)
  have re: "checked_mul r (as_u128 2) = (if 2 * unat r < 2 ^ 128 then Some (r * as_u128 2) else None)"
    by (simp add: checked_mul_def mult.commute)
  have rv: "2 * unat r < 2 ^ 128 \<Longrightarrow> unat (r * as_u128 2) = 2 * unat r"
    by (subst unat_mul_no_overflow) (simp_all add: mult.commute)
  show ?thesis
    using lv rv
    by (simp add: check_withdrawal_def assms l(1) r(1) MAX_WITHDRAWAL_FEE_INCREASE_def le re
        opt_less_def Let_def word_less_unat l(2) r(2) not_less split: if_splits)
qed

subsection \<open>FutureEpoch\<close>

datatype 'a future_epoch = FE_None | FE_One 'a | FE_Two 'a

definition future_epoch_new :: "'a \<Rightarrow> 'a future_epoch" where
  "future_epoch_new v = FE_Two v"

fun update_epoch :: "'a future_epoch \<Rightarrow> 'a future_epoch" where
  "update_epoch FE_None = FE_None"
| "update_epoch (FE_One _) = FE_None"
| "update_epoch (FE_Two v) = FE_One v"

fun future_epoch_get :: "'a future_epoch \<Rightarrow> 'a option" where
  "future_epoch_get FE_None = None"
| "future_epoch_get (FE_Two _) = None"
| "future_epoch_get (FE_One v) = Some v"

fun option_of_future_epoch :: "'a future_epoch \<Rightarrow> 'a option" where
  "option_of_future_epoch FE_None = None"
| "option_of_future_epoch (FE_One v) = Some v"
| "option_of_future_epoch (FE_Two v) = Some v"

definition ser_future_epoch :: "('a \<Rightarrow> bytes) \<Rightarrow> 'a future_epoch \<Rightarrow> bytes" where
  "ser_future_epoch ser v =
     (case v of FE_None \<Rightarrow> ser_u8 0 | FE_One x \<Rightarrow> ser_u8 1 @ ser x | FE_Two x \<Rightarrow> ser_u8 2 @ ser x)"

definition de_future_epoch ::
    "(bytes \<Rightarrow> ('a \<times> bytes) option) \<Rightarrow> bytes \<Rightarrow> ('a future_epoch \<times> bytes) option" where
  "de_future_epoch de = de_bind de_u8 (\<lambda>t.
     if t = 0 then de_return FE_None
     else if t = 1 then de_bind de (\<lambda>x. de_return (FE_One x))
     else if t = 2 then de_bind de (\<lambda>x. de_return (FE_Two x))
     else de_fail)"

context codec
begin

lemma codec_future_epoch: "codec (ser_future_epoch ser) (de_future_epoch de)"
  by unfold_locales (simp add: ser_future_epoch_def de_future_epoch_def split: future_epoch.splits)

text \<open>A value with no countdown left over reads as the \<open>Option\<close> it replaced.\<close>

lemma future_epoch_compat:
  "de_future_epoch de (ser_option ser v @ rest) =
     Some (case v of None \<Rightarrow> FE_None | Some x \<Rightarrow> FE_One x, rest)"
  by (simp add: ser_option_def de_future_epoch_def split: option.splits)

end

interpretation cfe: codec "ser_future_epoch ser_fee" "de_future_epoch de_fee"
  by (rule cfee.codec_future_epoch)

subsection \<open>FeeType\<close>

datatype fee_type =
    SolReferral u8
  | StakeReferral u8
  | Epoch fee
  | StakeWithdrawal fee
  | SolDeposit fee
  | StakeDeposit fee
  | SolWithdrawal fee

fun too_high :: "fee_type \<Rightarrow> bool" where
  "too_high (SolReferral pct) = (pct > 100)"
| "too_high (StakeReferral pct) = (pct > 100)"
| "too_high (Epoch f) = (numerator f > denominator f)"
| "too_high (StakeWithdrawal f) = (numerator f > denominator f)"
| "too_high (SolWithdrawal f) = (numerator f > denominator f)"
| "too_high (SolDeposit f) = (numerator f > denominator f)"
| "too_high (StakeDeposit f) = (numerator f > denominator f)"

definition check_too_high :: "fee_type \<Rightarrow> stake_pool_error + unit" where
  "check_too_high ft = (if too_high ft then Inl FeeTooHigh else Inr ())"

fun can_only_change_next_epoch :: "fee_type \<Rightarrow> bool" where
  "can_only_change_next_epoch (StakeWithdrawal _) = True"
| "can_only_change_next_epoch (SolWithdrawal _) = True"
| "can_only_change_next_epoch (Epoch _) = True"
| "can_only_change_next_epoch _ = False"

subsection \<open>Properties\<close>

text \<open>The overflow of the right-hand product is accepted, where the comment in the source says
  that the program fails: when \<open>2 * new_num * old_denom\<close> exceeds 128 bits the check
  succeeds whatever the increase is. A fee of \<open>1 / (2^64 - 1)\<close> may be raised to 100\% at once.\<close>

lemma check_withdrawal_overflow_accepted:
  assumes "withdrawal_fee_base old = (old_num, old_denom)"
    and "2 ^ 128 \<le> 2 * (unat (numerator new) * unat old_denom)"
  shows "check_withdrawal new old = Inr ()"
  using assms(2) by (simp add: check_withdrawal_eq [OF assms(1)] Let_def)

lemma full_fee_accepted_at_once:
  "check_withdrawal \<lparr>denominator = 18446744073709551615, numerator = 18446744073709551615\<rparr>
     \<lparr>denominator = 18446744073709551615, numerator = 1\<rparr> = Inr () \<and>
   \<not> 2 * (unat (18446744073709551615::u64) * unat (18446744073709551615::u64))
        \<le> 3 * (unat (1::u64) * unat (18446744073709551615::u64))"
proof -
  let ?m = "18446744073709551615 :: u64"
  have b: "withdrawal_fee_base \<lparr>denominator = ?m, numerator = 1\<rparr> = (1, ?m)"
    by (simp add: withdrawal_fee_base_def)
  show ?thesis
    using check_withdrawal_overflow_accepted [OF b, of "\<lparr>denominator = ?m, numerator = ?m\<rparr>"] by simp
qed

end
