(* ===== verification/Stake_Pool.thy ===== *)
theory Stake_Pool
  imports Fees
begin

section \<open>The stake pool record and its arithmetic\<close>

text \<open>
  \<open>StakePool\<close> of \<open>src/program/src/state.rs\<close>: the record with its fields in the
  order of the source, its Borsh encoding, and the functions that price deposits,
  withdrawals and fees. The pricing functions are characterised on natural numbers
  (collection \<open>int_ops\<close>), and the properties show that no deposit, withdrawal or fee
  lowers the value of the pool tokens others hold.
\<close>

subsection \<open>Data\<close>

datatype account_type = Uninitialized | StakePool | ValidatorList

record lockup =
  unix_timestamp :: u64
  lockup_epoch :: u64
  custodian :: pubkey

definition lockup_default :: lockup where
  "lockup_default = \<lparr>unix_timestamp = 0, lockup_epoch = 0, custodian = 0\<rparr>"

record stake_pool =
  sp_version :: u8
  sp_account_type :: account_type
  sp_manager :: pubkey
  sp_staker :: pubkey
  sp_stake_deposit_authority :: pubkey
  sp_stake_withdraw_bump_seed :: u8
  sp_validator_list :: pubkey
  sp_reserve_stake :: pubkey
  sp_pool_mint :: pubkey
  sp_manager_fee_account :: pubkey
  sp_token_program_id :: pubkey
  sp_total_lamports :: u64
  sp_pool_token_supply :: u64
  sp_last_update_epoch :: u64
  sp_lockup :: lockup
  sp_epoch_fee :: fee
  sp_next_epoch_fee :: "fee future_epoch"
  sp_preferred_deposit_validator_vote_address :: "pubkey option"
  sp_preferred_withdraw_validator_vote_address :: "pubkey option"
  sp_stake_deposit_fee :: fee
  sp_stake_withdrawal_fee :: fee
  sp_next_stake_withdrawal_fee :: "fee future_epoch"
  sp_stake_referral_fee :: u8
  sp_sol_deposit_authority :: "pubkey option"
  sp_sol_deposit_fee :: fee
  sp_sol_referral_fee :: u8
  sp_sol_withdraw_authority :: "pubkey option"
  sp_sol_withdrawal_fee :: fee
  sp_next_sol_withdrawal_fee :: "fee future_epoch"
  sp_last_epoch_pool_token_supply :: u64
  sp_last_epoch_total_lamports :: u64
  sp_max_validator_stake :: "u64 option"
  sp_reserved :: "2048 word"

definition stake_pool_default :: stake_pool where
  "stake_pool_default =
    \<lparr>sp_version = 1, sp_account_type = StakePool,
     sp_manager = 0, sp_staker = 0, sp_stake_deposit_authority = 0,
     sp_stake_withdraw_bump_seed = 0, sp_validator_list = 0, sp_reserve_stake = 0,
     sp_pool_mint = 0, sp_manager_fee_account = 0, sp_token_program_id = 0,
     sp_total_lamports = 0, sp_pool_token_supply = 0, sp_last_update_epoch = 0,
     sp_lockup = lockup_default, sp_epoch_fee = fee_default, sp_next_epoch_fee = FE_None,
     sp_preferred_deposit_validator_vote_address = None,
     sp_preferred_withdraw_validator_vote_address = None,
     sp_stake_deposit_fee = fee_default, sp_stake_withdrawal_fee = fee_default,
     sp_next_stake_withdrawal_fee = FE_None, sp_stake_referral_fee = 0,
     sp_sol_deposit_authority = None, sp_sol_deposit_fee = fee_default,
     sp_sol_referral_fee = 0, sp_sol_withdraw_authority = None,
     sp_sol_withdrawal_fee = fee_default, sp_next_sol_withdrawal_fee = FE_None,
     sp_last_epoch_pool_token_supply = 0, sp_last_epoch_total_lamports = 0,
     sp_max_validator_stake = None, sp_reserved = 0\<rparr>"

definition is_valid :: "stake_pool \<Rightarrow> bool" where
  "is_valid sp \<longleftrightarrow> sp_account_type sp = StakePool"

definition is_uninitialized :: "stake_pool \<Rightarrow> bool" where
  "is_uninitialized sp \<longleftrightarrow> sp_account_type sp = Uninitialized"

subsection \<open>Encoding\<close>

definition ser_account_type :: "account_type \<Rightarrow> bytes" where
  "ser_account_type t =
     ser_u8 (case t of Uninitialized \<Rightarrow> 0 | StakePool \<Rightarrow> 1 | ValidatorList \<Rightarrow> 2)"

definition de_account_type :: "bytes \<Rightarrow> (account_type \<times> bytes) option" where
  "de_account_type = de_bind de_u8 (\<lambda>t.
     if t = 0 then de_return Uninitialized
     else if t = 1 then de_return StakePool
     else if t = 2 then de_return ValidatorList
     else de_fail)"

interpretation cat: codec ser_account_type de_account_type
  by unfold_locales (simp add: ser_account_type_def de_account_type_def split: account_type.splits)

lemma length_ser_account_type [simp]: "length (ser_account_type t) = 1"
  by (simp add: ser_account_type_def)

definition ser_lockup :: "lockup \<Rightarrow> bytes" where
  "ser_lockup l = ser_u64 (unix_timestamp l) @ ser_u64 (lockup_epoch l) @ ser_pubkey (custodian l)"

definition de_lockup :: "bytes \<Rightarrow> (lockup \<times> bytes) option" where
  "de_lockup = de_bind de_u64 (\<lambda>t. de_bind de_u64 (\<lambda>e. de_bind de_pubkey (\<lambda>c.
     de_return \<lparr>unix_timestamp = t, lockup_epoch = e, custodian = c\<rparr>)))"

interpretation clk: codec ser_lockup de_lockup
  by unfold_locales (simp add: ser_lockup_def de_lockup_def)

definition ser_reserved :: "2048 word \<Rightarrow> bytes" where
  "ser_reserved = ser_word 256"

definition de_reserved :: "bytes \<Rightarrow> (2048 word \<times> bytes) option" where
  "de_reserved = de_word 256"

interpretation crs: codec ser_reserved de_reserved
  by unfold_locales (simp add: ser_reserved_def de_reserved_def de_word_ser_word)

lemma length_ser_reserved [simp]: "length (ser_reserved r) = 256"
  by (simp add: ser_reserved_def)

definition ser_stake_pool :: "stake_pool \<Rightarrow> bytes" where
  "ser_stake_pool sp =
     ser_u8 (sp_version sp) @
     ser_account_type (sp_account_type sp) @
     ser_pubkey (sp_manager sp) @
     ser_pubkey (sp_staker sp) @
     ser_pubkey (sp_stake_deposit_authority sp) @
     ser_u8 (sp_stake_withdraw_bump_seed sp) @
     ser_pubkey (sp_validator_list sp) @
     ser_pubkey (sp_reserve_stake sp) @
     ser_pubkey (sp_pool_mint sp) @
     ser_pubkey (sp_manager_fee_account sp) @
     ser_pubkey (sp_token_program_id sp) @
     ser_u64 (sp_total_lamports sp) @
     ser_u64 (sp_pool_token_supply sp) @
     ser_u64 (sp_last_update_epoch sp) @
     ser_lockup (sp_lockup sp) @
     ser_fee (sp_epoch_fee sp) @
     ser_future_epoch ser_fee (sp_next_epoch_fee sp) @
     ser_option ser_pubkey (sp_preferred_deposit_validator_vote_address sp) @
     ser_option ser_pubkey (sp_preferred_withdraw_validator_vote_address sp) @
     ser_fee (sp_stake_deposit_fee sp) @
     ser_fee (sp_stake_withdrawal_fee sp) @
     ser_future_epoch ser_fee (sp_next_stake_withdrawal_fee sp) @
     ser_u8 (sp_stake_referral_fee sp) @
     ser_option ser_pubkey (sp_sol_deposit_authority sp) @
     ser_fee (sp_sol_deposit_fee sp) @
     ser_u8 (sp_sol_referral_fee sp) @
     ser_option ser_pubkey (sp_sol_withdraw_authority sp) @
     ser_fee (sp_sol_withdrawal_fee sp) @
     ser_future_epoch ser_fee (sp_next_sol_withdrawal_fee sp) @
     ser_u64 (sp_last_epoch_pool_token_supply sp) @
     ser_u64 (sp_last_epoch_total_lamports sp) @
     ser_option ser_u64 (sp_max_validator_stake sp) @
     ser_reserved (sp_reserved sp)"

definition de_stake_pool :: "bytes \<Rightarrow> (stake_pool \<times> bytes) option" where
  "de_stake_pool =
     de_bind de_u8 (\<lambda>version.
     de_bind de_account_type (\<lambda>account_type.
     de_bind de_pubkey (\<lambda>manager.
     de_bind de_pubkey (\<lambda>staker.
     de_bind de_pubkey (\<lambda>stake_deposit_authority.
     de_bind de_u8 (\<lambda>stake_withdraw_bump_seed.
     de_bind de_pubkey (\<lambda>validator_list.
     de_bind de_pubkey (\<lambda>reserve_stake.
     de_bind de_pubkey (\<lambda>pool_mint.
     de_bind de_pubkey (\<lambda>manager_fee_account.
     de_bind de_pubkey (\<lambda>token_program_id.
     de_bind de_u64 (\<lambda>total_lamports.
     de_bind de_u64 (\<lambda>pool_token_supply.
     de_bind de_u64 (\<lambda>last_update_epoch.
     de_bind de_lockup (\<lambda>lockup.
     de_bind de_fee (\<lambda>epoch_fee.
     de_bind (de_future_epoch de_fee) (\<lambda>next_epoch_fee.
     de_bind (de_option de_pubkey) (\<lambda>preferred_deposit.
     de_bind (de_option de_pubkey) (\<lambda>preferred_withdraw.
     de_bind de_fee (\<lambda>stake_deposit_fee.
     de_bind de_fee (\<lambda>stake_withdrawal_fee.
     de_bind (de_future_epoch de_fee) (\<lambda>next_stake_withdrawal_fee.
     de_bind de_u8 (\<lambda>stake_referral_fee.
     de_bind (de_option de_pubkey) (\<lambda>sol_deposit_authority.
     de_bind de_fee (\<lambda>sol_deposit_fee.
     de_bind de_u8 (\<lambda>sol_referral_fee.
     de_bind (de_option de_pubkey) (\<lambda>sol_withdraw_authority.
     de_bind de_fee (\<lambda>sol_withdrawal_fee.
     de_bind (de_future_epoch de_fee) (\<lambda>next_sol_withdrawal_fee.
     de_bind de_u64 (\<lambda>last_epoch_pool_token_supply.
     de_bind de_u64 (\<lambda>last_epoch_total_lamports.
     de_bind (de_option de_u64) (\<lambda>max_validator_stake.
     de_bind de_reserved (\<lambda>reserved.
     de_return
       \<lparr>sp_version = version, sp_account_type = account_type, sp_manager = manager,
        sp_staker = staker, sp_stake_deposit_authority = stake_deposit_authority,
        sp_stake_withdraw_bump_seed = stake_withdraw_bump_seed,
        sp_validator_list = validator_list, sp_reserve_stake = reserve_stake,
        sp_pool_mint = pool_mint, sp_manager_fee_account = manager_fee_account,
        sp_token_program_id = token_program_id, sp_total_lamports = total_lamports,
        sp_pool_token_supply = pool_token_supply, sp_last_update_epoch = last_update_epoch,
        sp_lockup = lockup, sp_epoch_fee = epoch_fee, sp_next_epoch_fee = next_epoch_fee,
        sp_preferred_deposit_validator_vote_address = preferred_deposit,
        sp_preferred_withdraw_validator_vote_address = preferred_withdraw,
        sp_stake_deposit_fee = stake_deposit_fee,
        sp_stake_withdrawal_fee = stake_withdrawal_fee,
        sp_next_stake_withdrawal_fee = next_stake_withdrawal_fee,
        sp_stake_referral_fee = stake_referral_fee,
        sp_sol_deposit_authority = sol_deposit_authority,
        sp_sol_deposit_fee = sol_deposit_fee, sp_sol_referral_fee = sol_referral_fee,
        sp_sol_withdraw_authority = sol_withdraw_authority,
        sp_sol_withdrawal_fee = sol_withdrawal_fee,
        sp_next_sol_withdrawal_fee = next_sol_withdrawal_fee,
        sp_last_epoch_pool_token_supply = last_epoch_pool_token_supply,
        sp_last_epoch_total_lamports = last_epoch_total_lamports,
        sp_max_validator_stake = max_validator_stake,
        sp_reserved = reserved\<rparr>)))))))))))))))))))))))))))))))))"

interpretation csp: codec ser_stake_pool de_stake_pool
  by unfold_locales (simp add: ser_stake_pool_def de_stake_pool_def)

lemma length_ser_lockup [simp]: "length (ser_lockup l) = 48"
  by (simp add: ser_lockup_def)

text \<open>
  Options and delayed fees make the encoding shorter or longer; an account that has room for
  the longest one can hold every record.
\<close>

definition STAKE_POOL_MAX_LEN :: nat where
  "STAKE_POOL_MAX_LEN = 877"

lemma length_ser_optional:
  "length (ser_option ser_pubkey k) \<le> 33" "length (ser_option ser_u64 n) \<le> 9"
  "length (ser_future_epoch ser_fee f) \<le> 17"
  by (auto simp: ser_option_def ser_future_epoch_def split: option.splits future_epoch.splits)

lemma length_ser_stake_pool_le: "length (ser_stake_pool sp) \<le> STAKE_POOL_MAX_LEN"
  unfolding STAKE_POOL_MAX_LEN_def ser_stake_pool_def length_append
  using length_ser_optional(1) [of "sp_preferred_deposit_validator_vote_address sp"]
    length_ser_optional(1) [of "sp_preferred_withdraw_validator_vote_address sp"]
    length_ser_optional(1) [of "sp_sol_deposit_authority sp"]
    length_ser_optional(1) [of "sp_sol_withdraw_authority sp"]
    length_ser_optional(2) [of "sp_max_validator_stake sp"]
    length_ser_optional(3) [of "sp_next_epoch_fee sp"]
    length_ser_optional(3) [of "sp_next_stake_withdrawal_fee sp"]
    length_ser_optional(3) [of "sp_next_sol_withdrawal_fee sp"]
  by simp

subsection \<open>Pricing\<close>

definition calc_pool_tokens_for_deposit :: "stake_pool \<Rightarrow> u64 \<Rightarrow> u64 option" where
  "calc_pool_tokens_for_deposit sp stake_lamports =
     (if sp_total_lamports sp = 0 \<or> sp_pool_token_supply sp = 0 then Some stake_lamports
      else
        Option.bind (checked_mul (as_u128 stake_lamports) (as_u128 (sp_pool_token_supply sp))) (\<lambda>x.
        Option.bind (checked_div x (as_u128 (sp_total_lamports sp))) (\<lambda>y.
        u64_try_from y)))"

definition calc_lamports_withdraw_amount :: "stake_pool \<Rightarrow> u64 \<Rightarrow> u64 option" where
  "calc_lamports_withdraw_amount sp pool_tokens =
     Option.bind (checked_mul (as_u128 pool_tokens) (as_u128 (sp_total_lamports sp))) (\<lambda>num.
     let denom = as_u128 (sp_pool_token_supply sp) in
     if num < denom \<or> denom = 0 then Some 0
     else Option.bind (checked_div num denom) (\<lambda>y. u64_try_from y))"

definition calc_pool_tokens_stake_withdrawal_fee :: "stake_pool \<Rightarrow> u64 \<Rightarrow> u64 option" where
  "calc_pool_tokens_stake_withdrawal_fee sp pool_tokens =
     Option.bind (fee_apply (sp_stake_withdrawal_fee sp) pool_tokens) u64_try_from"

definition calc_pool_tokens_sol_withdrawal_fee :: "stake_pool \<Rightarrow> u64 \<Rightarrow> u64 option" where
  "calc_pool_tokens_sol_withdrawal_fee sp pool_tokens =
     Option.bind (fee_apply (sp_sol_withdrawal_fee sp) pool_tokens) u64_try_from"

definition calc_pool_tokens_stake_deposit_fee :: "stake_pool \<Rightarrow> u64 \<Rightarrow> u64 option" where
  "calc_pool_tokens_stake_deposit_fee sp pool_tokens_minted =
     Option.bind (fee_apply (sp_stake_deposit_fee sp) pool_tokens_minted) u64_try_from"

definition calc_pool_tokens_stake_referral_fee :: "stake_pool \<Rightarrow> u64 \<Rightarrow> u64 option" where
  "calc_pool_tokens_stake_referral_fee sp stake_deposit_fee =
     Option.bind (checked_mul (as_u128 stake_deposit_fee) (ucast (sp_stake_referral_fee sp))) (\<lambda>x.
     Option.bind (checked_div x 100) (\<lambda>y. u64_try_from y))"

definition calc_pool_tokens_sol_deposit_fee :: "stake_pool \<Rightarrow> u64 \<Rightarrow> u64 option" where
  "calc_pool_tokens_sol_deposit_fee sp pool_tokens_minted =
     Option.bind (fee_apply (sp_sol_deposit_fee sp) pool_tokens_minted) u64_try_from"

definition calc_pool_tokens_sol_referral_fee :: "stake_pool \<Rightarrow> u64 \<Rightarrow> u64 option" where
  "calc_pool_tokens_sol_referral_fee sp sol_deposit_fee =
     Option.bind (checked_mul (as_u128 sol_deposit_fee) (ucast (sp_sol_referral_fee sp))) (\<lambda>x.
     Option.bind (checked_div x 100) (\<lambda>y. u64_try_from y))"

definition calc_epoch_fee_amount :: "stake_pool \<Rightarrow> u64 \<Rightarrow> u64 option" where
  "calc_epoch_fee_amount sp reward_lamports =
     (if reward_lamports = 0 then Some 0
      else
        Option.bind (checked_add (as_u128 (sp_total_lamports sp)) (as_u128 reward_lamports)) (\<lambda>total_lamports.
        Option.bind (fee_apply (sp_epoch_fee sp) reward_lamports) (\<lambda>fee_lamports.
        if total_lamports = fee_lamports \<or> sp_pool_token_supply sp = 0 then Some reward_lamports
        else
          Option.bind (checked_mul (as_u128 (sp_pool_token_supply sp)) fee_lamports) (\<lambda>x.
          Option.bind (checked_sub total_lamports fee_lamports) (\<lambda>d.
          Option.bind (checked_div x d) (\<lambda>y. u64_try_from y))))))"

definition get_lamports_per_pool_token :: "stake_pool \<Rightarrow> u64 option" where
  "get_lamports_per_pool_token sp =
     Option.bind (checked_add (sp_total_lamports sp) (sp_pool_token_supply sp)) (\<lambda>x.
     Option.bind (checked_sub x 1) (\<lambda>y.
     checked_div y (sp_pool_token_supply sp)))"

text \<open>The same quantities on natural numbers, for total lamports \<open>T\<close> and supply \<open>S\<close>.\<close>

definition deposit_tokens :: "nat \<Rightarrow> nat \<Rightarrow> nat \<Rightarrow> nat" where
  "deposit_tokens T S d = (if T = 0 \<or> S = 0 then d else d * S div T)"

definition withdraw_lamports_of :: "nat \<Rightarrow> nat \<Rightarrow> nat \<Rightarrow> nat" where
  "withdraw_lamports_of T S p = p * T div S"

definition epoch_fee_tokens :: "fee \<Rightarrow> nat \<Rightarrow> nat \<Rightarrow> nat \<Rightarrow> nat" where
  "epoch_fee_tokens f T S r =
     (if r = 0 then 0
      else if T + r = fee_amount f r \<or> S = 0 then r
      else S * fee_amount f r div (T + r - fee_amount f r))"

lemma bind_Some_iff [ok_iff]: "Option.bind m f = Some y \<longleftrightarrow> (\<exists>x. m = Some x \<and> f x = Some y)"
  by (cases m) auto

lemma u128_of_nat: "n < 2 ^ 128 \<Longrightarrow> unat (word_of_nat n :: u128) = n"
  by (simp add: unat_of_nat)

lemma as_u128_eq_0 [simp]: "as_u128 x = 0 \<longleftrightarrow> x = 0"
  by (metis unat_as_u128 unsigned_eq_0_iff)

lemma checked_mul_u64_eq:
  "\<exists>x. checked_mul (as_u128 a) (as_u128 b) = Some x \<and> unat x = unat a * unat b"
  using u64_mul_fits [of a b] by (simp add: checked_mul_def unat_mul_no_overflow)

lemma calc_pool_tokens_for_deposit_Some [int_ops]:
  "calc_pool_tokens_for_deposit sp d = Some m \<longleftrightarrow>
     unat m = deposit_tokens (unat (sp_total_lamports sp)) (unat (sp_pool_token_supply sp)) (unat d)"
proof (cases "sp_total_lamports sp = 0 \<or> sp_pool_token_supply sp = 0")
  case True
  then show ?thesis
    by (auto simp: calc_pool_tokens_for_deposit_def deposit_tokens_def word_unat_eq_iff [of m] word_unat_eq_iff [of d])
next
  case False
  obtain x where "checked_mul (as_u128 d) (as_u128 (sp_pool_token_supply sp)) = Some x"
      "unat x = unat d * unat (sp_pool_token_supply sp)"
    using checked_mul_u64_eq by blast
  then show ?thesis
    using False by (auto simp: calc_pool_tokens_for_deposit_def deposit_tokens_def ok_iff
        u64_try_from_Some unat_div unsigned_eq_0_iff checked_div_def)
qed

lemma calc_lamports_withdraw_amount_Some [int_ops]:
  "calc_lamports_withdraw_amount sp p = Some w \<longleftrightarrow>
     unat w = withdraw_lamports_of (unat (sp_total_lamports sp)) (unat (sp_pool_token_supply sp)) (unat p)"
proof -
  obtain x where x: "checked_mul (as_u128 p) (as_u128 (sp_total_lamports sp)) = Some x"
      "unat x = unat p * unat (sp_total_lamports sp)"
    using checked_mul_u64_eq by blast
  show ?thesis
  proof (cases "x < as_u128 (sp_pool_token_supply sp) \<or> sp_pool_token_supply sp = 0")
    case True
    then have "unat p * unat (sp_total_lamports sp) div unat (sp_pool_token_supply sp) = 0"
      by (auto simp: word_less_unat x(2))
    with True show ?thesis
      by (auto simp: calc_lamports_withdraw_amount_def withdraw_lamports_of_def x(1) Let_def
          unsigned_eq_0_iff)
  next
    case False
    then show ?thesis
      by (simp add: calc_lamports_withdraw_amount_def withdraw_lamports_of_def x Let_def
          checked_div_def u64_try_from_Some unat_div)
  qed
qed

lemma fee_then_u64 [int_ops]:
  "Option.bind (fee_apply f a) u64_try_from = Some m \<longleftrightarrow> unat m = fee_amount f (unat a)"
proof -
  obtain r where "fee_apply f a = Some r" "unat r = fee_amount f (unat a)"
    using fee_apply_eq by blast
  then show ?thesis by (simp add: u64_try_from_Some)
qed

lemmas calc_fee_defs =
  calc_pool_tokens_stake_withdrawal_fee_def calc_pool_tokens_sol_withdrawal_fee_def
  calc_pool_tokens_stake_deposit_fee_def calc_pool_tokens_sol_deposit_fee_def

lemma calc_fee_Some [int_ops]:
  "calc_pool_tokens_stake_withdrawal_fee sp a = Some m \<longleftrightarrow>
     unat m = fee_amount (sp_stake_withdrawal_fee sp) (unat a)"
  "calc_pool_tokens_sol_withdrawal_fee sp a = Some m \<longleftrightarrow>
     unat m = fee_amount (sp_sol_withdrawal_fee sp) (unat a)"
  "calc_pool_tokens_stake_deposit_fee sp a = Some m \<longleftrightarrow>
     unat m = fee_amount (sp_stake_deposit_fee sp) (unat a)"
  "calc_pool_tokens_sol_deposit_fee sp a = Some m \<longleftrightarrow>
     unat m = fee_amount (sp_sol_deposit_fee sp) (unat a)"
  by (simp_all add: calc_fee_defs fee_then_u64)

lemma referral_amount:
  "Option.bind (checked_mul (as_u128 a) (ucast (b::u8))) (\<lambda>x.
     Option.bind (checked_div x 100) (\<lambda>y. u64_try_from y)) = Some m \<longleftrightarrow>
   unat m = unat a * unat b div 100"
proof -
  have ub: "unat (ucast b :: u128) = unat b"
    using u8_less [of b] by (simp add: unsigned_ucast_eq take_bit_nat_eq_self)
  have "unat a * unat b \<le> 18446744073709551615 * 255"
    using u64_less [of a] u8_less [of b] by (intro mult_le_mono) simp_all
  then have fit: "unat a * unat b < 2 ^ 128" by simp
  define x where "x = as_u128 a * ucast b"
  have x: "checked_mul (as_u128 a) (ucast b) = Some x" "unat x = unat a * unat b"
    using fit by (simp_all add: x_def checked_mul_def unat_mul_no_overflow ub)
  then show ?thesis by (simp add: checked_div_def u64_try_from_Some unat_div)
qed

lemma calc_referral_Some [int_ops]:
  "calc_pool_tokens_stake_referral_fee sp a = Some m \<longleftrightarrow>
     unat m = unat a * unat (sp_stake_referral_fee sp) div 100"
  "calc_pool_tokens_sol_referral_fee sp a = Some m \<longleftrightarrow>
     unat m = unat a * unat (sp_sol_referral_fee sp) div 100"
  by (simp_all add: calc_pool_tokens_stake_referral_fee_def calc_pool_tokens_sol_referral_fee_def
      referral_amount)

lemma referral_le: "k \<le> 100 \<Longrightarrow> a * k div 100 \<le> (a::nat)"
proof -
  assume "k \<le> 100"
  then have "a * k \<le> a * 100" by simp
  then have "a * k div 100 \<le> a * 100 div 100" by (rule div_le_mono)
  then show ?thesis by simp
qed

lemma calc_epoch_fee_amount_Some:
  assumes "fee_at_most_one (sp_epoch_fee sp)"
  shows "calc_epoch_fee_amount sp r = Some m \<longleftrightarrow>
     unat m = epoch_fee_tokens (sp_epoch_fee sp) (unat (sp_total_lamports sp))
       (unat (sp_pool_token_supply sp)) (unat r)"
proof (cases "r = 0")
  case True
  then show ?thesis
    by (auto simp: calc_epoch_fee_amount_def epoch_fee_tokens_def unsigned_eq_0_iff)
next
  case False
  let ?T = "unat (sp_total_lamports sp)" and ?S = "unat (sp_pool_token_supply sp)"
  let ?L = "fee_amount (sp_epoch_fee sp) (unat r)"
  have L: "?L \<le> unat r" using assms by (rule fee_amount_le)
  obtain l where l: "fee_apply (sp_epoch_fee sp) r = Some l" "unat l = ?L"
    using fee_apply_eq by blast
  define t where "t = as_u128 (sp_total_lamports sp) + as_u128 r"
  have t: "checked_add (as_u128 (sp_total_lamports sp)) (as_u128 r) = Some t" "unat t = ?T + unat r"
    using u64_less [of "sp_total_lamports sp"] u64_less [of r]
    by (simp_all add: t_def checked_add_def unat_add_no_overflow)
  have teq: "t = l \<longleftrightarrow> ?T + unat r = ?L" by (simp add: word_unat_eq_iff t(2) l(2))
  have S0: "sp_pool_token_supply sp = 0 \<longleftrightarrow> ?S = 0" by (simp add: unsigned_eq_0_iff)
  have r0: "unat r \<noteq> 0" using False by (simp add: unsigned_eq_0_iff)
  have req: "r = m \<longleftrightarrow> unat m = unat r" by (auto simp: word_unat_eq_iff)
  show ?thesis
  proof (cases "?T + unat r = ?L \<or> ?S = 0")
    case True
    then show ?thesis using False r0 teq S0
      by (auto simp: calc_epoch_fee_amount_def epoch_fee_tokens_def t(1) l(1) req)
  next
    case nz: False
    have "?S * ?L \<le> 18446744073709551615 * 18446744073709551615"
      using u64_less [of "sp_pool_token_supply sp"] u64_less [of r] L by (intro mult_le_mono) simp_all
    then have fit: "?S * ?L < 2 ^ 128" by simp
    define x where "x = as_u128 (sp_pool_token_supply sp) * l"
    have x: "checked_mul (as_u128 (sp_pool_token_supply sp)) l = Some x" "unat x = ?S * ?L"
      using fit by (simp_all add: x_def checked_mul_def unat_mul_no_overflow l(2))
    define d where "d = t - l"
    have d: "checked_sub t l = Some d" "unat d = ?T + unat r - ?L"
      using L by (simp_all add: d_def checked_sub_def unat_sub_no_underflow t(2) l(2))
    have "d \<noteq> 0"
    proof
      assume "d = 0"
      then have "?T + unat r - ?L = 0" using d(2) by simp
      then show False using nz L by simp
    qed
    with nz show ?thesis using False r0 teq S0
      by (auto simp: calc_epoch_fee_amount_def epoch_fee_tokens_def t(1) l(1) x(1) d(1)
          checked_div_def u64_try_from_Some unat_div x(2) d(2))
  qed
qed

lemma get_lamports_per_pool_token_Some [int_ops]:
  "get_lamports_per_pool_token sp = Some k \<longleftrightarrow>
     sp_pool_token_supply sp \<noteq> 0 \<and>
     unat (sp_total_lamports sp) + unat (sp_pool_token_supply sp) < 2 ^ 64 \<and>
     unat k = (unat (sp_total_lamports sp) + unat (sp_pool_token_supply sp) - 1)
                div unat (sp_pool_token_supply sp)"
proof (cases "unat (sp_total_lamports sp) + unat (sp_pool_token_supply sp) < 2 ^ 64")
  case False
  then show ?thesis by (auto simp: get_lamports_per_pool_token_def checked_add_def)
next
  case True
  let ?T = "unat (sp_total_lamports sp)" and ?S = "unat (sp_pool_token_supply sp)"
  define x where "x = sp_total_lamports sp + sp_pool_token_supply sp"
  have x: "checked_add (sp_total_lamports sp) (sp_pool_token_supply sp) = Some x" "unat x = ?T + ?S"
    using True by (simp_all add: x_def checked_add_def unat_add_no_overflow)
  show ?thesis
  proof (cases "sp_pool_token_supply sp = 0")
    case True
    then show ?thesis by (auto simp: get_lamports_per_pool_token_def ok_iff checked_div_def)
  next
    case False
    then have "0 < ?S" by (simp add: unat_gt_0)
    then have y: "checked_sub x 1 = Some (x - 1)" "unat (x - 1) = ?T + ?S - 1"
      by (simp_all add: checked_sub_def unat_sub_no_underflow x(2))
    show ?thesis using False True
      by (simp add: get_lamports_per_pool_token_def x(1) y checked_div_Some [of "x - 1"])
  qed
qed

subsection \<open>Booking a deposit or a withdrawal\<close>

text \<open>
  The last lines of the deposit and of the withdrawal handlers, which book the pool tokens and
  the lamports in the record with checked arithmetic.
\<close>

definition credit_pool :: "stake_pool \<Rightarrow> u64 \<Rightarrow> u64 \<Rightarrow> program_error + stake_pool" where
  "credit_pool sp new_pool_tokens deposit_lamports =
     bindE (ok_or (checked_add (sp_pool_token_supply sp) new_pool_tokens) (pool_err CalculationFailure)) (\<lambda>supply.
     bindE (ok_or (checked_add (sp_total_lamports sp) deposit_lamports) (pool_err CalculationFailure)) (\<lambda>total.
     Inr (sp\<lparr>sp_pool_token_supply := supply, sp_total_lamports := total\<rparr>)))"

definition debit_pool :: "stake_pool \<Rightarrow> u64 \<Rightarrow> u64 \<Rightarrow> program_error + stake_pool" where
  "debit_pool sp pool_tokens_burnt withdraw_lamports =
     bindE (ok_or (checked_sub (sp_pool_token_supply sp) pool_tokens_burnt) (pool_err CalculationFailure)) (\<lambda>supply.
     bindE (ok_or (checked_sub (sp_total_lamports sp) withdraw_lamports) (pool_err CalculationFailure)) (\<lambda>total.
     Inr (sp\<lparr>sp_pool_token_supply := supply, sp_total_lamports := total\<rparr>)))"

abbreviation pool_total :: "stake_pool \<Rightarrow> nat" where
  "pool_total sp \<equiv> unat (sp_total_lamports sp)"

abbreviation pool_supply :: "stake_pool \<Rightarrow> nat" where
  "pool_supply sp \<equiv> unat (sp_pool_token_supply sp)"

lemma credit_pool_Inr [ok_iff]:
  "credit_pool sp m d = Inr sp' \<longleftrightarrow>
     pool_supply sp + unat m < 2 ^ 64 \<and> pool_total sp + unat d < 2 ^ 64 \<and>
     sp' = sp\<lparr>sp_pool_token_supply := sp_pool_token_supply sp + m,
               sp_total_lamports := sp_total_lamports sp + d\<rparr>"
  by (auto simp: credit_pool_def ok_iff checked_add_def)

lemma debit_pool_Inr [ok_iff]:
  "debit_pool sp p w = Inr sp' \<longleftrightarrow>
     unat p \<le> pool_supply sp \<and> unat w \<le> pool_total sp \<and>
     sp' = sp\<lparr>sp_pool_token_supply := sp_pool_token_supply sp - p,
               sp_total_lamports := sp_total_lamports sp - w\<rparr>"
  by (auto simp: debit_pool_def ok_iff checked_sub_def)

lemma credit_pool_totals:
  "credit_pool sp m d = Inr sp' \<Longrightarrow>
     pool_total sp' = pool_total sp + unat d \<and> pool_supply sp' = pool_supply sp + unat m"
  by (auto simp: ok_iff unat_add_no_overflow)

lemma debit_pool_totals:
  "debit_pool sp p w = Inr sp' \<Longrightarrow>
     pool_total sp = pool_total sp' + unat w \<and> pool_supply sp = pool_supply sp' + unat p"
  by (auto simp: ok_iff unat_sub_no_underflow)

subsection \<open>No dilution\<close>

text \<open>
  The value of a pool token is \<open>T / S\<close>. It does not fall from \<open>T / S\<close> to \<open>T' / S'\<close> when
  \<open>T * S' \<le> T' * S\<close>, which also makes sense for an empty pool.
\<close>

definition price_le :: "stake_pool \<Rightarrow> stake_pool \<Rightarrow> bool" where
  "price_le sp sp' \<longleftrightarrow> pool_total sp * pool_supply sp' \<le> pool_total sp' * pool_supply sp"

lemma price_le_refl [simp]: "price_le sp sp"
  by (simp add: price_le_def)

lemma cross_mult_trans:
  assumes "a * d \<le> c * b" "c * f \<le> e * d" "0 < (d::nat)"
  shows "a * f \<le> e * b"
proof -
  have "(a * f) * d = (a * d) * f" by simp
  also have "\<dots> \<le> (c * b) * f" using assms(1) by (rule mult_le_mono1)
  also have "\<dots> = (c * f) * b" by simp
  also have "\<dots> \<le> (e * d) * b" using assms(2) by (rule mult_le_mono1)
  finally have "(a * f) * d \<le> (e * b) * d" by (simp add: ac_simps)
  then show ?thesis using assms(3) by simp
qed

lemma price_le_trans:
  "price_le a b \<Longrightarrow> price_le b c \<Longrightarrow> 0 < pool_supply b \<Longrightarrow> price_le a c"
  unfolding price_le_def by (rule cross_mult_trans)

lemma deposit_tokens_fair: "0 < T \<Longrightarrow> 0 < S \<Longrightarrow> deposit_tokens T S d * T \<le> d * S"
  by (simp add: deposit_tokens_def)

lemma withdraw_lamports_fair: "withdraw_lamports_of T S p * S \<le> p * T"
  by (simp add: withdraw_lamports_of_def)

lemma withdraw_lamports_le:
  assumes "p \<le> S"
  shows "withdraw_lamports_of T S p \<le> T"
proof (cases "S = 0")
  case True
  then show ?thesis by (simp add: withdraw_lamports_of_def)
next
  case False
  have "p * T div S \<le> S * T div S" using assms by (intro div_le_mono mult_le_mono1)
  then show ?thesis using False by (simp add: withdraw_lamports_of_def)
qed

lemma credit_no_dilution:
  assumes m: "calc_pool_tokens_for_deposit sp d = Some m"
    and c: "credit_pool sp m d = Inr sp'"
    and S: "0 < pool_supply sp"
  shows "price_le sp sp'"
proof (cases "pool_total sp = 0")
  case True
  then show ?thesis by (simp add: price_le_def)
next
  case False
  have "unat m * pool_total sp \<le> unat d * pool_supply sp"
    using m False S by (simp add: int_ops deposit_tokens_fair)
  then show ?thesis using credit_pool_totals [OF c] by (simp add: price_le_def algebra_simps)
qed

lemma debit_no_dilution:
  assumes w: "calc_lamports_withdraw_amount sp p = Some w"
    and c: "debit_pool sp p w = Inr sp'"
  shows "price_le sp sp'"
proof -
  have "unat w * pool_supply sp \<le> unat p * pool_total sp"
    using w by (simp add: int_ops withdraw_lamports_fair)
  moreover have "pool_total sp = pool_total sp' + unat w" "pool_supply sp = pool_supply sp' + unat p"
    using debit_pool_totals [OF c] by simp_all
  ultimately show ?thesis by (simp add: price_le_def algebra_simps)
qed

text \<open>A deposit that is withdrawn again, in one or in many withdrawals, as the state tests do.\<close>

fun withdraw_run :: "stake_pool \<Rightarrow> u64 list \<Rightarrow> program_error + (stake_pool \<times> nat)" where
  "withdraw_run sp [] = Inr (sp, 0)"
| "withdraw_run sp (p # ps) =
     bindE (ok_or (calc_lamports_withdraw_amount sp p) (pool_err CalculationFailure)) (\<lambda>w.
     bindE (debit_pool sp p w) (\<lambda>sp'.
     bindE (withdraw_run sp' ps) (\<lambda>(sp'', out). Inr (sp'', unat w + out))))"

lemma withdraw_run_totals:
  "withdraw_run sp ps = Inr (sp', out) \<Longrightarrow>
     pool_total sp = pool_total sp' + out \<and>
     pool_supply sp = pool_supply sp' + sum_list (map unat ps)"
proof (induction ps arbitrary: sp sp' out)
  case Nil
  then show ?case by simp
next
  case (Cons p ps)
  from Cons.prems obtain w sp1 out1 where
      "calc_lamports_withdraw_amount sp p = Some w" and d: "debit_pool sp p w = Inr sp1"
      and r: "withdraw_run sp1 ps = Inr (sp', out1)" and out: "out = unat w + out1"
    by (auto simp: bindE_eq_Inr ok_or_eq_Inr split: prod.splits)
  show ?case using Cons.IH [OF r] debit_pool_totals [OF d] out by simp
qed

lemma withdraw_twice_int:
  fixes s w p q out T :: int
  assumes pos: "0 < s" "0 \<le> w" "0 \<le> p" "0 \<le> q" "0 \<le> T"
    and rest: "out * s \<le> q * T" and q: "q \<le> s"
    and fair: "w * (s + p) \<le> p * (T + w)"
  shows "(w + out) * (s + p) \<le> (p + q) * (T + w)"
proof -
  have f: "w * s \<le> p * T" using fair by (simp add: algebra_simps)
  have "(out * s) * (s + p) \<le> (q * T) * (s + p)" using rest pos by (intro mult_right_mono) auto
  moreover have "(s - q) * (w * s) \<le> (s - q) * (p * T)" using f q by (intro mult_left_mono) auto
  ultimately have "((w + out) * (s + p)) * s \<le> ((p + q) * (T + w)) * s"
    by (simp add: algebra_simps)
  then show ?thesis using pos by simp
qed

lemma withdraw_twice:
  fixes s w p q out T :: nat
  assumes "0 < s" "out * s \<le> q * T" "q \<le> s" "w * (s + p) \<le> p * (T + w)"
  shows "(w + out) * (s + p) \<le> (p + q) * (T + w)"
proof -
  have "int out * int s \<le> int q * int T" "int w * (int s + int p) \<le> int p * (int T + int w)"
    using assms(2,4) by (simp_all flip: of_nat_mult of_nat_add)
  then have "(int w + int out) * (int s + int p) \<le> (int p + int q) * (int T + int w)"
    using assms(1,3) by (intro withdraw_twice_int) auto
  then show ?thesis by (simp flip: of_nat_mult of_nat_add)
qed

lemma withdraw_run_no_dilution:
  "withdraw_run sp ps = Inr (sp', out) \<Longrightarrow> out * pool_supply sp \<le> sum_list (map unat ps) * pool_total sp"
proof (induction ps arbitrary: sp sp' out)
  case Nil
  then show ?case by simp
next
  case (Cons p ps)
  from Cons.prems obtain w sp1 out1 where w: "calc_lamports_withdraw_amount sp p = Some w"
      and d: "debit_pool sp p w = Inr sp1" and r: "withdraw_run sp1 ps = Inr (sp', out1)"
      and out: "out = unat w + out1"
    by (auto simp: bindE_eq_Inr ok_or_eq_Inr split: prod.splits)
  let ?q = "sum_list (map unat ps)"
  have t: "pool_total sp = pool_total sp1 + unat w" "pool_supply sp = pool_supply sp1 + unat p"
    using debit_pool_totals [OF d] by simp_all
  have fair: "unat w * pool_supply sp \<le> unat p * pool_total sp"
    using w by (simp add: int_ops withdraw_lamports_fair)
  note run = withdraw_run_totals [OF r]
  show ?case
  proof (cases "pool_supply sp1 = 0")
    case True
    have "out \<le> pool_total sp" using out t(1) run by simp
    then have "out * unat p \<le> pool_total sp * (unat p + ?q)" by (intro mult_le_mono) simp_all
    then show ?thesis using t(2) True by (simp add: mult.commute)
  next
    case False
    then have pos: "0 < pool_supply sp1" by simp
    have q: "?q \<le> pool_supply sp1" using run by simp
    have "(unat w + out1) * (pool_supply sp1 + unat p) \<le> (unat p + ?q) * (pool_total sp1 + unat w)"
      using withdraw_twice [OF pos Cons.IH [OF r] q fair [unfolded t]] .
    then show ?thesis using t out by simp
  qed
qed

text \<open>The tokens of the epoch fee, against the fee on the reward and against the reward.\<close>

lemma epoch_fee_fair:
  assumes f: "calc_epoch_fee_amount sp r = Some f"
    and fee: "fee_at_most_one (sp_epoch_fee sp)"
    and pos: "0 < pool_total sp" "0 < pool_supply sp"
  shows "unat f * (pool_total sp + unat r - fee_amount (sp_epoch_fee sp) (unat r))
      \<le> pool_supply sp * fee_amount (sp_epoch_fee sp) (unat r)"
    and "unat f * pool_total sp \<le> pool_supply sp * unat r"
proof -
  let ?T = "pool_total sp" and ?S = "pool_supply sp" and ?L = "fee_amount (sp_epoch_fee sp) (unat r)"
  have L: "?L \<le> unat r" using fee by (rule fee_amount_le)
  have "unat f = ?S * ?L div (?T + unat r - ?L)"
    using f fee pos L by (auto simp: calc_epoch_fee_amount_Some epoch_fee_tokens_def)
  then show key: "unat f * (?T + unat r - ?L) \<le> ?S * ?L" by simp
  have "unat f * ?T \<le> unat f * (?T + unat r - ?L)" using L by (intro mult_le_mono2) simp
  also note key
  also have "?S * ?L \<le> ?S * unat r" using L by simp
  finally show "unat f * ?T \<le> ?S * unat r" .
qed

subsection \<open>Properties of the pricing\<close>

definition sample_pool :: stake_pool where
  "sample_pool = stake_pool_default\<lparr>sp_total_lamports := 1100, sp_pool_token_supply := 1000,
     sp_epoch_fee := \<lparr>denominator = 10, numerator = 1\<rparr>\<rparr>"



end
