(* ===== verification/Big_Vec.thy ===== *)
theory Big_Vec
  imports Borsh Errors
begin

section \<open>The big vector\<close>

text \<open>
  \<open>BigVec\<close> (\<open>src/program/src/big_vec.rs\<close>): a vector of fixed-size elements kept
  as bytes, a little-endian \<open>u32\<close> length followed by the elements, that is never
  deserialised as a whole. Every operation works on the byte buffer as the source does,
  with the index arithmetic and the \<open>memmove\<close> calls of the source; an out-of-range slice
  is a panic. Element sizes and lengths fit \<open>usize\<close> (a \<open>u32\<close> length times a small
  element size), so the saturating index operations of the source never saturate and
  indices are natural numbers.

  The locale \<open>entry_vector\<close> is the contract the rest of the program relies on, in terms
  of the list of elements; the interpretation \<open>bv\<close> discharges it for the byte-level code.
\<close>

definition VEC_SIZE_BYTES :: nat where
  "VEC_SIZE_BYTES = 4"

text \<open>\<open>&data[i..j]\<close>: panics when out of range.\<close>

definition slice :: "nat \<Rightarrow> nat \<Rightarrow> 'a list \<Rightarrow> program_error + 'a list" where
  "slice i j xs = (if i \<le> j \<and> j \<le> length xs then Inr (take (j - i) (drop i xs)) else Inl Panicked)"

text \<open>\<open>sol_memmove\<close> of \<open>n\<close> bytes inside one buffer, from offset \<open>src\<close> to offset \<open>dst\<close>.\<close>

definition memmove :: "nat \<Rightarrow> nat \<Rightarrow> nat \<Rightarrow> 'a list \<Rightarrow> 'a list" where
  "memmove dst src n xs = splice dst (take n (drop src xs)) xs"

subsection \<open>Operations\<close>

definition bv_len :: "bytes \<Rightarrow> program_error + u32" where
  "bv_len data = bindE (slice 0 VEC_SIZE_BYTES data) (\<lambda>s. Inr (word_from_le s))"

definition bv_is_empty :: "bytes \<Rightarrow> program_error + bool" where
  "bv_is_empty data = bindE (bv_len data) (\<lambda>n. Inr (n = 0))"

text \<open>
  The loop of \<open>retain\<close>: \<open>k\<close> iterations remain, at offset \<open>start_index\<close>; the state is the
  buffer, \<open>dst_start_index\<close>, \<open>removals_found\<close> and \<open>vec_len\<close>.
\<close>

fun bv_retain_loop :: "nat \<Rightarrow> (bytes \<Rightarrow> bool) \<Rightarrow> nat \<Rightarrow> nat \<Rightarrow> bytes \<Rightarrow> nat \<Rightarrow> nat \<Rightarrow> u32 \<Rightarrow>
    program_error + (bytes \<times> nat \<times> nat \<times> u32)" where
  "bv_retain_loop sz predicate 0 start_index data dst_start_index removals_found vec_len =
     Inr (data, dst_start_index, removals_found, vec_len)"
| "bv_retain_loop sz predicate (Suc k) start_index data dst_start_index removals_found vec_len =
     (let end_index = start_index + sz in
      bindE (slice start_index end_index data) (\<lambda>s.
      if \<not> predicate s then
        (let gap = removals_found * sz;
             data' = (if removals_found > 0
                      then memmove dst_start_index (dst_start_index + gap)
                             (start_index - gap - dst_start_index) data
                      else data)
         in bv_retain_loop sz predicate k end_index data' (start_index - gap)
              (removals_found + 1) (vec_len - 1))
      else bv_retain_loop sz predicate k end_index data dst_start_index removals_found vec_len))"

text \<open>The final \<open>memmove\<close> after the loop, up to the end of the elements.\<close>

definition bv_retain_close :: "nat \<Rightarrow> nat \<Rightarrow> bytes \<times> nat \<times> nat \<times> u32 \<Rightarrow> bytes \<times> u32" where
  "bv_retain_close sz data_end_index = (\<lambda>(data, dst_start_index, removals_found, vec_len).
     let gap = removals_found * sz in
     (if removals_found > 0
      then memmove dst_start_index (dst_start_index + gap) (data_end_index - gap - dst_start_index) data
      else data, vec_len))"

definition bv_retain :: "nat \<Rightarrow> (bytes \<Rightarrow> bool) \<Rightarrow> bytes \<Rightarrow> program_error + bytes" where
  "bv_retain sz predicate data =
     bindE (bv_len data) (\<lambda>vec_len.
     let data_start_index = VEC_SIZE_BYTES;
         data_end_index = data_start_index + unat vec_len * sz in
     bindE (bv_retain_loop sz predicate (unat vec_len) data_start_index data 0 0 vec_len) (\<lambda>st.
     let (data', vec_len') = bv_retain_close sz data_end_index st
     in Inr (splice 0 (ser_u32 vec_len') data')))"

text \<open>The bytes \<open>deserialize_slice\<close> and \<open>deserialize_mut_slice\<close> cast, with their offset.\<close>

definition bv_deserialize_slice :: "nat \<Rightarrow> nat \<Rightarrow> nat \<Rightarrow> bytes \<Rightarrow> program_error + (nat \<times> bytes)" where
  "bv_deserialize_slice sz skip n data =
     bindE (bv_len data) (\<lambda>vec_len.
     let last_item_index = skip + n in
     if last_item_index > unat vec_len then Inl AccountDataTooSmall
     else
       let start_index = VEC_SIZE_BYTES + skip * sz;
           end_index = start_index + n * sz in
       bindE (slice start_index end_index data) (\<lambda>s. Inr (start_index, s)))"

text \<open>
  \<open>push\<close> writes the new length first and checks the room afterwards; an error discards
  the buffer with the transaction.
\<close>

definition bv_push :: "bytes \<Rightarrow> bytes \<Rightarrow> program_error + bytes" where
  "bv_push element data =
     bindE (bv_len data) (\<lambda>vec_len.
     let start_index = VEC_SIZE_BYTES + unat vec_len * length element;
         end_index = start_index + length element;
         data' = splice 0 (ser_u32 (vec_len + 1)) data in
     if length data' < end_index then Inl AccountDataTooSmall
     else Inr (splice start_index element data'))"

text \<open>\<open>find\<close> and \<open>find_mut\<close> return a reference into the buffer: here the offset of the element.\<close>

fun bv_find_loop :: "nat \<Rightarrow> (bytes \<Rightarrow> bool) \<Rightarrow> nat \<Rightarrow> nat \<Rightarrow> bytes \<Rightarrow> program_error + nat option" where
  "bv_find_loop sz predicate 0 current_index data = Inr None"
| "bv_find_loop sz predicate (Suc k) current_index data =
     (let end_index = current_index + sz in
      bindE (slice current_index end_index data) (\<lambda>current_slice.
      if predicate current_slice then Inr (Some current_index)
      else bv_find_loop sz predicate k end_index data))"

definition bv_find :: "nat \<Rightarrow> (bytes \<Rightarrow> bool) \<Rightarrow> bytes \<Rightarrow> program_error + nat option" where
  "bv_find sz predicate data =
     bindE (bv_len data) (\<lambda>n. bv_find_loop sz predicate (unat n) VEC_SIZE_BYTES data)"

text \<open>Writing an element through the reference \<open>find_mut\<close> returned.\<close>

definition bv_write :: "nat \<Rightarrow> bytes \<Rightarrow> bytes \<Rightarrow> bytes" where
  "bv_write off element data = splice off element data"

subsection \<open>What the buffer represents\<close>

text \<open>
  \<open>bv_image sz chunks rest\<close> is the buffer that holds the elements \<open>chunks\<close> of \<open>sz\<close> bytes each,
  followed by unused room.
\<close>

definition bv_image :: "bytes list \<Rightarrow> bytes \<Rightarrow> bytes" where
  "bv_image chunks rest = ser_u32 (word_of_nat (length chunks)) @ concat chunks @ rest"

definition bv_wf :: "nat \<Rightarrow> bytes list \<Rightarrow> bool" where
  "bv_wf sz chunks \<longleftrightarrow> (\<forall>c \<in> set chunks. length c = sz) \<and> length chunks < 2 ^ 32"

fun find_index :: "('a \<Rightarrow> bool) \<Rightarrow> 'a list \<Rightarrow> nat option" where
  "find_index p [] = None"
| "find_index p (x # xs) = (if p x then Some 0 else map_option Suc (find_index p xs))"

lemma find_index_Some: "find_index p xs = Some i \<longleftrightarrow> i < length xs \<and> p (xs ! i) \<and> (\<forall>j < i. \<not> p (xs ! j))"
proof (induction xs arbitrary: i)
  case Nil
  then show ?case by simp
next
  case (Cons x xs)
  then show ?case by (cases i) (auto simp: less_Suc_eq_0_disj split: if_splits)
qed

lemma find_index_None: "find_index p xs = None \<longleftrightarrow> (\<forall>x \<in> set xs. \<not> p x)"
  by (induction xs) auto

lemma find_index_append:
  "find_index p (xs @ ys) =
     (case find_index p xs of Some i \<Rightarrow> Some i | None \<Rightarrow> map_option (\<lambda>i. length xs + i) (find_index p ys))"
  by (cases "find_index p ys"; induction xs) (auto split: option.splits)

lemma length_concat_wf: "\<forall>c \<in> set cs. length c = sz \<Longrightarrow> length (concat cs) = length cs * sz"
  by (induction cs) auto

lemma slice_append3: "slice (length as) (length as + length bs) (as @ bs @ cs) = Inr bs"
  by (simp add: slice_def)

lemma slice_append3':
  "i = length as \<Longrightarrow> j = i + length bs \<Longrightarrow> slice i j (as @ bs @ cs) = Inr bs"
  by (simp add: slice_append3)

lemma bv_len_image [simp]:
  "bv_wf sz cs \<Longrightarrow> bv_len (bv_image cs rest) = Inr (word_of_nat (length cs))"
  by (simp add: bv_len_def bv_image_def VEC_SIZE_BYTES_def slice_def ser_u32_def ser_word_def
      word_from_to_le)

lemma unat_length_wf [simp]: "bv_wf sz cs \<Longrightarrow> unat (word_of_nat (length cs) :: u32) = length cs"
  by (simp add: bv_wf_def unat_of_nat)

lemma bv_find_loop_image:
  assumes "\<forall>c \<in> set cs. length c = sz"
  shows "bv_find_loop sz p (length cs) (length pre) (pre @ concat cs @ rest) =
     Inr (map_option (\<lambda>i. length pre + i * sz) (find_index p cs))"
  using assms
proof (induction cs arbitrary: pre)
  case Nil
  then show ?case by simp
next
  case (Cons c cs)
  have c: "length c = sz" using Cons.prems by simp
  have s: "slice (length pre) (length pre + sz) (pre @ c @ concat cs @ rest) = Inr c"
    using c by (intro slice_append3') simp_all
  have IH: "bv_find_loop sz p (length cs) (length pre + sz) (pre @ c @ concat cs @ rest) =
      Inr (map_option (\<lambda>i. length pre + sz + i * sz) (find_index p cs))"
    using Cons.IH [of "pre @ c"] Cons.prems c by simp
  show ?case by (simp add: s IH option.map_comp comp_def add.assoc)
qed

lemma bv_find_image:
  assumes "bv_wf sz cs"
  shows "bv_find sz p (bv_image cs rest) = Inr (map_option (\<lambda>i. 4 + i * sz) (find_index p cs))"
proof -
  have "bv_find_loop sz p (length cs) (length (ser_u32 (word_of_nat (length cs))))
      (ser_u32 (word_of_nat (length cs)) @ concat cs @ rest) =
     Inr (map_option (\<lambda>i. length (ser_u32 (word_of_nat (length cs))) + i * sz) (find_index p cs))"
    using assms by (intro bv_find_loop_image) (simp add: bv_wf_def)
  then show ?thesis using assms by (simp add: bv_find_def VEC_SIZE_BYTES_def) (simp add: bv_image_def)
qed

lemma concat_nth_split:
  assumes "i < length cs"
  shows "concat cs = concat (take i cs) @ cs ! i @ concat (drop (Suc i) cs)"
proof -
  have "cs = take i cs @ cs ! i # drop (Suc i) cs" using assms by (rule id_take_nth_drop)
  then show ?thesis by (metis concat.simps(2) concat_append)
qed

lemma bv_write_image:
  assumes "bv_wf sz cs" "i < length cs" "length e = sz"
  shows "bv_write (4 + i * sz) e (bv_image cs rest) = bv_image (cs[i := e]) rest"
proof -
  have cs: "\<forall>c \<in> set cs. length c = sz" using assms by (simp add: bv_wf_def)
  have ei: "length (cs ! i) = length e" using cs assms by simp
  let ?pre = "ser_u32 (word_of_nat (length cs)) @ concat (take i cs)"
  have "\<forall>c \<in> set (take i cs). length c = sz" using cs by (meson in_set_takeD)
  then have lp: "length ?pre = 4 + i * sz"
    using assms(2) length_concat_wf [of "take i cs" sz] by simp
  have img: "bv_image cs rest = ?pre @ cs ! i @ (concat (drop (Suc i) cs) @ rest)"
    using concat_nth_split [OF assms(2)] by (simp add: bv_image_def)
  have "bv_write (4 + i * sz) e (bv_image cs rest) = ?pre @ e @ concat (drop (Suc i) cs) @ rest"
    unfolding bv_write_def img lp [symmetric] using ei by (rule splice_append)
  also have "\<dots> = bv_image (cs[i := e]) rest"
    using assms(2) by (simp add: bv_image_def upd_conv_take_nth_drop)
  finally show ?thesis .
qed

lemma bv_push_image:
  assumes "bv_wf sz cs" "length e = sz" "Suc (length cs) < 2 ^ 32" "length spare = sz"
  shows "bv_push e (bv_image cs (spare @ rest)) = Inr (bv_image (cs @ [e]) rest)"
proof -
  have cs: "\<forall>c \<in> set cs. length c = sz" using assms by (simp add: bv_wf_def)
  have lc: "length (concat cs) = length cs * sz" using cs by (rule length_concat_wf)
  have w: "(word_of_nat (length cs) :: u32) + 1 = word_of_nat (length (cs @ [e]))" by simp
  let ?h = "ser_u32 (word_of_nat (length cs))" and ?h' = "ser_u32 (word_of_nat (length (cs @ [e])))"
  have "splice 0 ?h' (bv_image cs (spare @ rest)) = ?h' @ concat cs @ spare @ rest"
    using splice_append [of ?h ?h' "[]" "concat cs @ spare @ rest"] by (simp add: bv_image_def)
  moreover have "splice (4 + length cs * sz) e (?h' @ concat cs @ spare @ rest) = ?h' @ concat cs @ e @ rest"
    using splice_append [of spare e "?h' @ concat cs" rest] assms(2,4) lc by simp
  ultimately show ?thesis
    using assms(1,2,4) lc
    by (simp add: bv_push_def w VEC_SIZE_BYTES_def Let_def) (simp add: bv_image_def)
qed

lemma bv_push_full:
  assumes "bv_wf sz cs" "length e = sz" "length rest < sz"
  shows "bv_push e (bv_image cs rest) = Inl AccountDataTooSmall"
proof -
  have "length (concat cs) = length cs * sz"
    using assms(1) by (intro length_concat_wf) (simp add: bv_wf_def)
  then have "length (bv_image cs rest) < 4 + length cs * sz + sz"
    using assms(3) by (simp add: bv_image_def)
  moreover have "4 \<le> length (bv_image cs rest)" by (simp add: bv_image_def)
  ultimately show ?thesis
    using assms(1,2) by (simp add: bv_push_def VEC_SIZE_BYTES_def Let_def)
qed

lemma memmove_gap:
  "memmove (length pre) (length pre + length g) (length x) (pre @ g @ x @ rest) =
     pre @ x @ drop (length x) (g @ x) @ rest"
  by (simp add: memmove_def splice_def)

abbreviation removed :: "('a \<Rightarrow> bool) \<Rightarrow> 'a list \<Rightarrow> nat" where
  "removed p cs \<equiv> length (filter (\<lambda>c. \<not> p c) cs)"

definition bv_retain_run :: "nat \<Rightarrow> (bytes \<Rightarrow> bool) \<Rightarrow> nat \<Rightarrow> nat \<Rightarrow> nat \<Rightarrow> bytes \<Rightarrow> nat \<Rightarrow> nat \<Rightarrow> u32 \<Rightarrow>
    program_error + bytes \<times> u32" where
  "bv_retain_run sz p fin k start data dst r n =
     bindE (bv_retain_loop sz p k start data dst r n) (\<lambda>st. Inr (bv_retain_close sz fin st))"

lemma bv_retain_run_0:
  "bv_retain_run sz p fin 0 start data dst r n = Inr (bv_retain_close sz fin (data, dst, r, n))"
  by (simp add: bv_retain_run_def)

lemma bv_retain_run_keep:
  "slice start (start + sz) data = Inr c \<Longrightarrow> p c \<Longrightarrow>
    bv_retain_run sz p fin (Suc k) start data dst r n = bv_retain_run sz p fin k (start + sz) data dst r n"
  by (simp add: bv_retain_run_def)

lemma bv_retain_run_first:
  "slice start (start + sz) data = Inr c \<Longrightarrow> \<not> p c \<Longrightarrow>
    bv_retain_run sz p fin (Suc k) start data dst 0 n = bv_retain_run sz p fin k (start + sz) data start 1 (n - 1)"
  by (simp add: bv_retain_run_def)

lemma bv_retain_run_remove:
  assumes "slice start (start + sz) data = Inr c" "\<not> p c" "0 < r"
    and "memmove dst (dst + r * sz) (start - r * sz - dst) data = data'" and "start - r * sz = dst'"
  shows "bv_retain_run sz p fin (Suc k) start data dst r n =
    bv_retain_run sz p fin k (start + sz) data' dst' (r + 1) (n - 1)"
  unfolding assms(4) [symmetric] assms(5) [symmetric] using assms(1-3)
  by (simp add: bv_retain_run_def Let_def)

lemma retain_run_gap:
  assumes "\<forall>c \<in> set cs. length c = sz" "length g = r * sz" "0 < r"
    and "start = length pre + length g + length x" and "fin = start + length cs * sz"
  shows "\<exists>g'. length g' = (r + removed p cs) * sz \<and>
    bv_retain_run sz p fin (length cs) start (pre @ g @ x @ concat cs @ rest) (length pre) r n =
      Inr (pre @ x @ concat (filter p cs) @ g' @ rest, n - word_of_nat (removed p cs))"
  using assms
proof (induction cs arbitrary: pre g x r n start)
  case Nil
  then show ?case using memmove_gap [of pre g x rest]
    by (simp add: bv_retain_run_0 bv_retain_close_def Let_def)
next
  case (Cons c cs)
  have c: "length c = sz" and cs: "\<forall>c \<in> set cs. length c = sz" using Cons.prems(1) by simp_all
  have s: "slice start (start + sz) (pre @ g @ x @ c @ concat cs @ rest) = Inr c"
    using slice_append3' [of start "pre @ g @ x" "start + sz" c "concat cs @ rest"] Cons.prems c by simp
  have fin: "fin = start + sz + length cs * sz" using Cons.prems(5) by simp
  show ?case
  proof (cases "p c")
    case True
    have st: "start + sz = length pre + length g + length (x @ c)" using Cons.prems c by simp
    from Cons.IH [OF cs Cons.prems(2,3) st fin, of n]
    show ?thesis using True by (simp add: bv_retain_run_keep [OF s])
  next
    case False
    let ?g = "drop (length x) (g @ x) @ c"
    have lg: "length ?g = (r + 1) * sz" using Cons.prems c by simp
    have mm: "memmove (length pre) (length pre + r * sz) (start - r * sz - length pre)
        (pre @ g @ x @ c @ concat cs @ rest) = (pre @ x) @ ?g @ [] @ concat cs @ rest"
      using memmove_gap [of pre g x "c @ concat cs @ rest"] Cons.prems by simp
    have dst: "start - r * sz = length (pre @ x)" using Cons.prems by simp
    have st: "start + sz = length (pre @ x) + length ?g + length ([]::bytes)"
      using Cons.prems c by simp
    note step = bv_retain_run_remove [where p = p and fin = fin and k = "length cs" and n = n,
        OF s False Cons.prems(3) mm dst]
    from Cons.IH [OF cs lg _ st fin, of "n - 1"]
    obtain g' where "length g' = (r + 1 + removed p cs) * sz"
      "bv_retain_run sz p fin (length cs) (start + sz) ((pre @ x) @ ?g @ [] @ concat cs @ rest)
         (length (pre @ x)) (r + 1) (n - 1) =
       Inr ((pre @ x) @ [] @ concat (filter p cs) @ g' @ rest, n - 1 - word_of_nat (removed p cs))"
      by auto
    then show ?thesis using False by (intro exI [of _ g']) (simp add: step diff_diff_eq)
  qed
qed

lemma retain_run_start:
  assumes "\<forall>c \<in> set cs. length c = sz" and "fin = length pre + length cs * sz"
  shows "\<exists>g'. length g' = removed p cs * sz \<and>
    bv_retain_run sz p fin (length cs) (length pre) (pre @ concat cs @ rest) 0 0 n =
      Inr (pre @ concat (filter p cs) @ g' @ rest, n - word_of_nat (removed p cs))"
  using assms
proof (induction cs arbitrary: pre)
  case Nil
  then show ?case by (simp add: bv_retain_run_0 bv_retain_close_def Let_def)
next
  case (Cons c cs)
  have c: "length c = sz" and cs: "\<forall>c \<in> set cs. length c = sz" using Cons.prems by simp_all
  have s: "slice (length pre) (length pre + sz) (pre @ c @ concat cs @ rest) = Inr c"
    using slice_append3' [of "length pre" pre "length pre + sz" c "concat cs @ rest"] c by simp
  show ?case
  proof (cases "p c")
    case True
    from Cons.IH [OF cs, of "pre @ c"] c Cons.prems(2)
    show ?thesis using True by (simp add: bv_retain_run_keep [OF s] add.assoc)
  next
    case False
    from retain_run_gap [OF cs, of c 1 "length pre + sz" pre "[]" fin p rest "n - 1"] c Cons.prems(2)
    obtain g' where "length g' = (1 + removed p cs) * sz"
      "bv_retain_run sz p fin (length cs) (length pre + sz) (pre @ c @ concat cs @ rest) (length pre) 1 (n - 1) =
       Inr (pre @ concat (filter p cs) @ g' @ rest, n - 1 - word_of_nat (removed p cs))"
      by auto
    then show ?thesis using False
      by (intro exI [of _ g']) (simp add: bv_retain_run_first [OF s] diff_diff_eq)
  qed
qed

lemma bv_retain_image:
  assumes wf: "bv_wf sz cs"
  shows "\<exists>gap. length gap = removed p cs * sz \<and>
    bv_retain sz p (bv_image cs rest) = Inr (bv_image (filter p cs) (gap @ rest))"
proof -
  have cs: "\<forall>c \<in> set cs. length c = sz" using wf by (simp add: bv_wf_def)
  let ?h = "ser_u32 (word_of_nat (length cs))" and ?h' = "ser_u32 (word_of_nat (length (filter p cs)))"
  have len: "length cs = length (filter p cs) + removed p cs"
    using sum_length_filter_compl [of p cs] by simp
  have w: "(word_of_nat (length cs) :: u32) - word_of_nat (removed p cs) = word_of_nat (length (filter p cs))"
    unfolding len by simp
  from retain_run_start [OF cs, of "4 + length cs * sz" ?h p rest "word_of_nat (length cs)"]
  obtain g where g: "length g = removed p cs * sz" and
    run: "bv_retain_run sz p (4 + length cs * sz) (length cs) 4 (?h @ concat cs @ rest) 0 0
            (word_of_nat (length cs)) =
          Inr (?h @ concat (filter p cs) @ g @ rest, word_of_nat (length (filter p cs)))"
    unfolding w by auto
  then obtain st where st: "bv_retain_loop sz p (length cs) 4 (?h @ concat cs @ rest) 0 0 (word_of_nat (length cs)) = Inr st"
      "bv_retain_close sz (4 + length cs * sz) st =
         (?h @ concat (filter p cs) @ g @ rest, word_of_nat (length (filter p cs)))"
    by (auto simp: bv_retain_run_def ok_iff)
  have sp: "splice 0 ?h' (?h @ concat (filter p cs) @ g @ rest) = ?h' @ concat (filter p cs) @ g @ rest"
    using splice_append [of ?h ?h' "[]" "concat (filter p cs) @ g @ rest"] by simp
  have "bv_retain sz p (bv_image cs rest) = Inr (bv_image (filter p cs) (g @ rest))"
    using wf st sp by (simp add: bv_retain_def VEC_SIZE_BYTES_def) (simp add: bv_image_def)
  then show ?thesis using g by blast
qed

subsection \<open>The contract\<close>

text \<open>
  \<open>entry_vector\<close>: a store of elements of \<open>sz\<close> bytes, seen through the list \<open>entries\<close>; a reference
  to element \<open>i\<close> is \<open>off i\<close>.
\<close>

locale entry_vector =
  fixes sz :: nat
    and entries :: "'v \<Rightarrow> bytes list"
    and invar :: "'v \<Rightarrow> bool"
    and off :: "nat \<Rightarrow> nat"
    and size_of :: "'v \<Rightarrow> program_error + u32"
    and find :: "(bytes \<Rightarrow> bool) \<Rightarrow> 'v \<Rightarrow> program_error + nat option"
    and store :: "nat \<Rightarrow> bytes \<Rightarrow> 'v \<Rightarrow> 'v"
    and push :: "bytes \<Rightarrow> 'v \<Rightarrow> program_error + 'v"
    and retain :: "(bytes \<Rightarrow> bool) \<Rightarrow> 'v \<Rightarrow> program_error + 'v"
  assumes entries_size: "invar v \<Longrightarrow> c \<in> set (entries v) \<Longrightarrow> length c = sz"
    and size_spec: "invar v \<Longrightarrow> \<exists>n. size_of v = Inr n \<and> unat n = length (entries v)"
    and find_spec: "invar v \<Longrightarrow> find p v = Inr (map_option off (find_index p (entries v)))"
    and off_inj: "off i = off j \<Longrightarrow> i < length (entries v) \<Longrightarrow> j < length (entries v) \<Longrightarrow> i = j"
    and store_spec: "invar v \<Longrightarrow> i < length (entries v) \<Longrightarrow> length e = sz \<Longrightarrow>
        invar (store (off i) e v) \<and> entries (store (off i) e v) = (entries v)[i := e]"
    and push_spec: "invar v \<Longrightarrow> length e = sz \<Longrightarrow> Suc (length (entries v)) < 2 ^ 32 \<Longrightarrow> push e v = Inr v' \<Longrightarrow>
        invar v' \<and> entries v' = entries v @ [e]"
    and retain_spec: "invar v \<Longrightarrow> \<exists>v'. retain p v = Inr v' \<and> invar v' \<and> entries v' = filter p (entries v)"
begin

lemma find_found:
  assumes "invar v" "find p v = Inr (Some k)"
  obtains i where "k = off i" "i < length (entries v)" "p (entries v ! i)" "\<forall>j < i. \<not> p (entries v ! j)"
  using assms by (auto simp: find_spec find_index_Some)

lemma find_missing: "invar v \<Longrightarrow> find p v = Inr None \<longleftrightarrow> (\<forall>c \<in> set (entries v). \<not> p c)"
  by (simp add: find_spec find_index_None)

lemma find_pushed:
  assumes "invar v" "length e = sz" "Suc (length (entries v)) < 2 ^ 32" "push e v = Inr v'"
    and "find p v = Inr None" "p e"
  shows "find p v' = Inr (Some (off (length (entries v))))"
  using assms push_spec [OF assms(1-4)]
  by (simp add: find_spec find_index_append split: option.splits)

lemma retain_purges:
  assumes "invar v" "retain p v = Inr v'"
  shows "find (\<lambda>c. \<not> p c) v' = Inr None"
  using retain_spec [OF assms(1), of p] assms(2) find_missing by auto

lemma distinct_push:
  assumes "invar v" "length e = sz" "Suc (length (entries v)) < 2 ^ 32" "push e v = Inr v'"
    and "find (\<lambda>c. key c = key e) v = Inr None" "distinct (map key (entries v))"
  shows "distinct (map key (entries v'))"
  using push_spec [OF assms(1-4)] assms(5,6) find_missing [OF assms(1)] by auto

lemma distinct_retain:
  assumes "invar v" "retain p v = Inr v'" "distinct (map key (entries v))"
  shows "distinct (map key (entries v'))"
  using retain_spec [OF assms(1), of p] assms(2,3) by (auto intro: distinct_map_filter)

end

text \<open>The elements of a buffer, and when the buffer is long enough for them.\<close>

fun chunks :: "nat \<Rightarrow> nat \<Rightarrow> bytes \<Rightarrow> bytes list" where
  "chunks sz 0 bs = []"
| "chunks sz (Suc n) bs = take sz bs # chunks sz n (drop sz bs)"

definition bv_count :: "bytes \<Rightarrow> nat" where
  "bv_count data = unat (word_from_le (take 4 data) :: u32)"

definition bv_entries :: "nat \<Rightarrow> bytes \<Rightarrow> bytes list" where
  "bv_entries sz data = chunks sz (bv_count data) (drop 4 data)"

definition bv_invar :: "nat \<Rightarrow> bytes \<Rightarrow> bool" where
  "bv_invar sz data \<longleftrightarrow> 4 + bv_count data * sz \<le> length data"

lemma length_chunks [simp]: "length (chunks sz n bs) = n"
  by (induction n arbitrary: bs) auto

lemma chunks_size: "n * sz \<le> length bs \<Longrightarrow> c \<in> set (chunks sz n bs) \<Longrightarrow> length c = sz"
proof (induction n arbitrary: bs)
  case 0
  then show ?case by simp
next
  case (Suc n)
  have "n * sz \<le> length (drop sz bs)" using Suc.prems(1) by simp
  then show ?case using Suc.IH [of "drop sz bs"] Suc.prems by auto
qed

lemma concat_chunks: "concat (chunks sz n bs) = take (n * sz) bs"
  by (induction n arbitrary: bs) (simp_all add: take_add)

lemma chunks_concat: "\<forall>c \<in> set cs. length c = sz \<Longrightarrow> chunks sz (length cs) (concat cs @ rest) = cs"
  by (induction cs) auto

lemma bv_wf_entries: "bv_invar sz data \<Longrightarrow> bv_wf sz (bv_entries sz data)"
  using unat_lt2p [of "word_from_le (take 4 data) :: u32"]
  by (auto simp: bv_wf_def bv_entries_def bv_invar_def bv_count_def dest!: chunks_size [rotated])

lemma bv_image_entries:
  assumes "bv_invar sz data"
  shows "data = bv_image (bv_entries sz data) (drop (4 + bv_count data * sz) data)"
proof -
  have l: "length (take 4 data) = 4" using assms by (simp add: bv_invar_def)
  have "ser_u32 (word_of_nat (bv_count data)) = take 4 data"
    using word_to_from_le [where 'a = 32, of 4 "take 4 data"] l
    by (simp add: bv_count_def ser_u32_def ser_word_def)
  moreover have "data = take 4 data @ take (bv_count data * sz) (drop 4 data) @ drop (4 + bv_count data * sz) data"
    by (metis append_take_drop_id drop_drop add.commute)
  ultimately show ?thesis by (simp add: bv_image_def bv_entries_def concat_chunks)
qed

lemma bv_count_image [simp]: "bv_wf sz cs \<Longrightarrow> bv_count (bv_image cs rest) = length cs"
  using bv_len_image [of sz cs rest] by (simp add: bv_count_def bv_len_def slice_def VEC_SIZE_BYTES_def bv_image_def)

lemma bv_entries_image [simp]: "bv_wf sz cs \<Longrightarrow> bv_entries sz (bv_image cs rest) = cs"
  using bv_count_image [of sz cs rest]
  by (simp add: bv_entries_def) (simp add: bv_image_def bv_wf_def chunks_concat)

lemma bv_invar_image: "bv_wf sz cs \<Longrightarrow> bv_invar sz (bv_image cs rest)"
  using bv_count_image [of sz cs rest] length_concat_wf [of cs sz]
  by (simp add: bv_invar_def) (simp add: bv_image_def bv_wf_def)

lemma length_bv_image: "bv_wf sz cs \<Longrightarrow> length (bv_image cs rest) = 4 + length cs * sz + length rest"
  using length_concat_wf [of cs sz] by (simp add: bv_image_def bv_wf_def)

lemma bv_write_entries:
  assumes "bv_invar sz v" "i < length (bv_entries sz v)" "length e = sz"
  shows "bv_invar sz (bv_write (4 + i * sz) e v) \<and>
    bv_entries sz (bv_write (4 + i * sz) e v) = (bv_entries sz v)[i := e]"
proof -
  let ?cs = "bv_entries sz v"
  have wf: "bv_wf sz ?cs" using assms(1) by (rule bv_wf_entries)
  have "\<forall>c \<in> set (?cs[i := e]). length c = sz"
    using wf assms(3) set_update_subset_insert [of ?cs i e] by (auto simp: bv_wf_def)
  then have wf': "bv_wf sz (?cs[i := e])" using wf by (simp add: bv_wf_def)
  have "bv_write (4 + i * sz) e v = bv_image (?cs[i := e]) (drop (4 + bv_count v * sz) v)"
    using bv_write_image [OF wf assms(2,3)] bv_image_entries [OF assms(1)] by metis
  then show ?thesis using wf' by (simp add: bv_invar_image)
qed

lemma bv_push_Inr:
  assumes "bv_invar sz v" "length e = sz" "Suc (length (bv_entries sz v)) < 2 ^ 32" "bv_push e v = Inr v'"
  shows "bv_invar sz v' \<and> bv_entries sz v' = bv_entries sz v @ [e] \<and> length v' = length v"
proof -
  let ?cs = "bv_entries sz v" and ?rest = "drop (4 + bv_count v * sz) v"
  have wf: "bv_wf sz ?cs" using assms(1) by (rule bv_wf_entries)
  have img: "v = bv_image ?cs ?rest" using assms(1) by (rule bv_image_entries)
  have room: "sz \<le> length ?rest"
  proof (rule ccontr)
    assume "\<not> sz \<le> length ?rest"
    then have "length ?rest < sz" by (rule not_le_imp_less)
    then have "bv_push e (bv_image ?cs ?rest) = Inl AccountDataTooSmall"
      by (rule bv_push_full [OF wf assms(2)])
    then show False using assms(4) img by simp
  qed
  have wf': "bv_wf sz (?cs @ [e])" using wf assms(2,3) by (auto simp: bv_wf_def)
  have sp: "?rest = take sz ?rest @ drop sz ?rest" by (simp only: append_take_drop_id)
  have "bv_push e (bv_image ?cs (take sz ?rest @ drop sz ?rest)) = Inr (bv_image (?cs @ [e]) (drop sz ?rest))"
    using wf assms(2,3) room by (intro bv_push_image) simp_all
  then have v': "v' = bv_image (?cs @ [e]) (drop sz ?rest)"
    using assms(4) img sp by (metis sum.inject(2))
  have "length v = 4 + length ?cs * sz + length ?rest"
    using img length_bv_image [OF wf] by metis
  then have "length v' = length v"
    using room length_bv_image [OF wf', of "drop sz ?rest"] v' by simp
  then show ?thesis using wf' v' by (simp add: bv_invar_image)
qed

lemma bv_retain_entries:
  assumes "bv_invar sz v"
  shows "\<exists>v'. bv_retain sz p v = Inr v' \<and> bv_invar sz v' \<and>
    bv_entries sz v' = filter p (bv_entries sz v) \<and> length v' = length v"
proof -
  let ?cs = "bv_entries sz v" and ?rest = "drop (4 + bv_count v * sz) v"
  have wf: "bv_wf sz ?cs" using assms by (rule bv_wf_entries)
  have img: "v = bv_image ?cs ?rest" using assms by (rule bv_image_entries)
  have "length (filter p ?cs) \<le> length ?cs" by (rule length_filter_le)
  then have wf': "bv_wf sz (filter p ?cs)"
    using wf unfolding bv_wf_def by (metis filter_is_subset le_less_trans subsetD)
  obtain g where g: "length g = removed p ?cs * sz"
      "bv_retain sz p (bv_image ?cs ?rest) = Inr (bv_image (filter p ?cs) (g @ ?rest))"
    using bv_retain_image [OF wf] by blast
  have "length v = 4 + length ?cs * sz + length ?rest"
    using img length_bv_image [OF wf] by metis
  moreover have "length (bv_image (filter p ?cs) (g @ ?rest)) =
      4 + (length (filter p ?cs) + removed p ?cs) * sz + length ?rest"
    using length_bv_image [OF wf'] g(1) by (simp add: algebra_simps)
  ultimately have "length (bv_image (filter p ?cs) (g @ ?rest)) = length v"
    using sum_length_filter_compl [of p ?cs] by simp
  then show ?thesis
    using wf' g(2) img by (intro exI [of _ "bv_image (filter p ?cs) (g @ ?rest)"])
      (simp add: bv_invar_image)
qed

definition ENTRY_LEN :: nat where
  "ENTRY_LEN = 73"

text \<open>The byte-level code meets the contract, for the element size of the validator list.\<close>

interpretation bv: entry_vector ENTRY_LEN "bv_entries ENTRY_LEN" "bv_invar ENTRY_LEN"
  "\<lambda>i. 4 + i * ENTRY_LEN" bv_len "bv_find ENTRY_LEN" bv_write bv_push "bv_retain ENTRY_LEN"
proof (unfold_locales, goal_cases)
  case (1 v c)
  then show ?case using bv_wf_entries [of ENTRY_LEN v] by (simp add: bv_wf_def)
next
  case (2 v)
  then show ?case
    using bv_len_image [OF bv_wf_entries [OF 2]] bv_image_entries [OF 2] bv_wf_entries [OF 2]
    by (metis unat_length_wf)
next
  case (3 v p)
  then show ?case using bv_find_image [OF bv_wf_entries [OF 3]] bv_image_entries [OF 3] by metis
next
  case (4 i j v)
  then show ?case by (simp add: ENTRY_LEN_def)
next
  case (5 v i e)
  then show ?case by (rule bv_write_entries)
next
  case (6 v e v')
  then show ?case using bv_push_Inr by blast
next
  case (7 v p)
  then show ?case using bv_retain_entries [of ENTRY_LEN v p] by blast
qed

lemma bv_deserialize_slice_entries:
  assumes "bv_invar sz v" "skip + n \<le> length (bv_entries sz v)"
  shows "bv_deserialize_slice sz skip n v =
    Inr (4 + skip * sz, concat (take n (drop skip (bv_entries sz v))))"
proof -
  let ?cs = "bv_entries sz v" and ?rest = "drop (4 + bv_count v * sz) v"
  have wf: "bv_wf sz ?cs" using assms(1) by (rule bv_wf_entries)
  then have cs: "\<forall>c \<in> set ?cs. length c = sz" by (simp add: bv_wf_def)
  have img: "v = bv_image ?cs ?rest" using assms(1) by (rule bv_image_entries)
  let ?a = "take skip ?cs" and ?b = "take n (drop skip ?cs)" and ?c = "drop n (drop skip ?cs)"
  have "\<forall>c \<in> set ?a. length c = sz" "\<forall>c \<in> set ?b. length c = sz"
    using cs by (meson in_set_takeD in_set_dropD)+
  then have la: "length (concat ?a) = skip * sz" and lb: "length (concat ?b) = n * sz"
    using length_concat_wf [of ?a sz] length_concat_wf [of ?b sz] assms(2) by simp_all
  have "?cs = ?a @ ?b @ ?c" by (simp only: append_take_drop_id)
  then have "concat ?cs = concat ?a @ concat ?b @ concat ?c" by (metis concat_append)
  then have v: "v = (ser_u32 (word_of_nat (length ?cs)) @ concat ?a) @ concat ?b @ (concat ?c @ ?rest)"
    using img by (simp add: bv_image_def)
  have "slice (4 + skip * sz) (4 + skip * sz + n * sz) v = Inr (concat ?b)"
    by (subst v, rule slice_append3') (simp_all add: la lb)
  moreover have "bv_len v = Inr (word_of_nat (length ?cs))" using bv_len_image [OF wf] img by metis
  ultimately show ?thesis
    using assms(2) wf by (simp add: bv_deserialize_slice_def VEC_SIZE_BYTES_def Let_def)
qed

end
