(* ===== verification/Validator_List.thy ===== *)
theory Validator_List
  imports Stake_Pool Big_Vec
begin

section \<open>The validator list\<close>

text \<open>
  \<open>ValidatorStakeInfo\<close>, \<open>StakeStatus\<close>, \<open>PodStakeStatus\<close>, \<open>ValidatorListHeader\<close> and
  \<open>ValidatorList\<close> of \<open>src/program/src/state.rs\<close>. An entry is 73 bytes that the program
  reinterprets in place (\<open>bytemuck\<close>); the predicates \<open>memcmp_pubkey\<close>, \<open>is_active\<close>,
  \<open>is_removed\<close> and the comparisons of lamports read it at fixed offsets. The lemmas show
  that the offsets agree with the declared fields, and that the status byte only moves
  towards removal.
\<close>

subsection \<open>Status\<close>

datatype stake_status =
  Active | DeactivatingTransient | ReadyForRemoval | DeactivatingValidator | DeactivatingAll

text \<open>\<open>ToPrimitive::to_u8\<close> and \<open>FromPrimitive::from_u8\<close>: the discriminants in order.\<close>

fun status_to_u8 :: "stake_status \<Rightarrow> u8" where
  "status_to_u8 Active = 0"
| "status_to_u8 DeactivatingTransient = 1"
| "status_to_u8 ReadyForRemoval = 2"
| "status_to_u8 DeactivatingValidator = 3"
| "status_to_u8 DeactivatingAll = 4"

definition status_from_u8 :: "u8 \<Rightarrow> stake_status option" where
  "status_from_u8 b =
     (if b = 0 then Some Active else if b = 1 then Some DeactivatingTransient
      else if b = 2 then Some ReadyForRemoval else if b = 3 then Some DeactivatingValidator
      else if b = 4 then Some DeactivatingAll else None)"

definition status_try_from :: "u8 \<Rightarrow> program_error + stake_status" where
  "status_try_from pod = ok_or (status_from_u8 pod) InvalidAccountData"

fun without_validator_stake :: "stake_status \<Rightarrow> stake_status" where
  "without_validator_stake DeactivatingAll = DeactivatingTransient"
| "without_validator_stake DeactivatingValidator = ReadyForRemoval"
| "without_validator_stake s = s"

fun without_transient_stake :: "stake_status \<Rightarrow> stake_status" where
  "without_transient_stake DeactivatingAll = DeactivatingValidator"
| "without_transient_stake DeactivatingTransient = ReadyForRemoval"
| "without_transient_stake s = s"

definition remove_validator_stake :: "u8 \<Rightarrow> program_error + u8" where
  "remove_validator_stake pod =
     bindE (status_try_from pod) (\<lambda>status. Inr (status_to_u8 (without_validator_stake status)))"

definition remove_transient_stake :: "u8 \<Rightarrow> program_error + u8" where
  "remove_transient_stake pod =
     bindE (status_try_from pod) (\<lambda>status. Inr (status_to_u8 (without_transient_stake status)))"

lemma status_from_to_u8 [simp]: "status_from_u8 (status_to_u8 s) = Some s"
  by (cases s) (simp_all add: status_from_u8_def)

lemma status_to_u8_inject [simp]: "status_to_u8 s = status_to_u8 t \<longleftrightarrow> s = t"
  by (metis option.inject status_from_to_u8)

lemma status_from_u8_Some: "status_from_u8 b = Some s \<longleftrightarrow> b = status_to_u8 s"
  by (cases s) (auto simp: status_from_u8_def)

lemma status_try_from_to_u8 [simp]: "status_try_from (status_to_u8 s) = Inr s"
  by (simp add: status_try_from_def)

subsection \<open>Entries\<close>

record validator_stake_info =
  vs_active_stake_lamports :: u64
  vs_transient_stake_lamports :: u64
  vs_last_update_epoch :: u64
  vs_transient_seed_suffix :: u64
  vs_unused :: u32
  vs_validator_seed_suffix :: u32
  vs_status :: u8
  vs_vote_account_address :: pubkey

definition vsi_default :: validator_stake_info where
  "vsi_default =
     \<lparr>vs_active_stake_lamports = 0, vs_transient_stake_lamports = 0, vs_last_update_epoch = 0,
      vs_transient_seed_suffix = 0, vs_unused = 0, vs_validator_seed_suffix = 0,
      vs_status = status_to_u8 Active, vs_vote_account_address = 0\<rparr>"

definition stake_lamports :: "validator_stake_info \<Rightarrow> stake_pool_error + u64" where
  "stake_lamports v =
     ok_or (checked_add (vs_active_stake_lamports v) (vs_transient_stake_lamports v)) CalculationFailure"

definition ser_vsi :: "validator_stake_info \<Rightarrow> bytes" where
  "ser_vsi v =
     ser_u64 (vs_active_stake_lamports v) @
     ser_u64 (vs_transient_stake_lamports v) @
     ser_u64 (vs_last_update_epoch v) @
     ser_u64 (vs_transient_seed_suffix v) @
     ser_u32 (vs_unused v) @
     ser_u32 (vs_validator_seed_suffix v) @
     ser_u8 (vs_status v) @
     ser_pubkey (vs_vote_account_address v)"

definition de_vsi :: "bytes \<Rightarrow> (validator_stake_info \<times> bytes) option" where
  "de_vsi =
     de_bind de_u64 (\<lambda>active. de_bind de_u64 (\<lambda>transient. de_bind de_u64 (\<lambda>epoch.
     de_bind de_u64 (\<lambda>seed. de_bind de_u32 (\<lambda>unused. de_bind de_u32 (\<lambda>vseed.
     de_bind de_u8 (\<lambda>status. de_bind de_pubkey (\<lambda>vote.
     de_return
       \<lparr>vs_active_stake_lamports = active, vs_transient_stake_lamports = transient,
        vs_last_update_epoch = epoch, vs_transient_seed_suffix = seed, vs_unused = unused,
        vs_validator_seed_suffix = vseed, vs_status = status,
        vs_vote_account_address = vote\<rparr>))))))))"

interpretation cvsi: codec ser_vsi de_vsi
  by unfold_locales (simp add: ser_vsi_def de_vsi_def)

lemma length_ser_vsi [simp]: "length (ser_vsi v) = ENTRY_LEN"
  by (simp add: ser_vsi_def ENTRY_LEN_def)

text \<open>\<open>bytemuck::from_bytes\<close>: the same bytes read as the struct, at the offsets of \<open>repr(C)\<close>.\<close>

definition pod_vsi :: "bytes \<Rightarrow> validator_stake_info" where
  "pod_vsi bs =
     \<lparr>vs_active_stake_lamports = word_from_le (take 8 bs),
      vs_transient_stake_lamports = word_from_le (take 8 (drop 8 bs)),
      vs_last_update_epoch = word_from_le (take 8 (drop 16 bs)),
      vs_transient_seed_suffix = word_from_le (take 8 (drop 24 bs)),
      vs_unused = word_from_le (take 4 (drop 32 bs)),
      vs_validator_seed_suffix = word_from_le (take 4 (drop 36 bs)),
      vs_status = bs ! 40,
      vs_vote_account_address = word_from_le (take 32 (drop 41 bs))\<rparr>"

text \<open>The predicates that read the bytes of an entry directly.\<close>

definition memcmp_pubkey :: "bytes \<Rightarrow> pubkey \<Rightarrow> bool" where
  "memcmp_pubkey data vote_address \<longleftrightarrow> take 32 (drop 41 data) = ser_pubkey vote_address"

definition active_lamports_greater_than :: "bytes \<Rightarrow> u64 \<Rightarrow> bool" where
  "active_lamports_greater_than data lamports \<longleftrightarrow> (word_from_le (take 8 data) :: u64) > lamports"

definition transient_lamports_greater_than :: "bytes \<Rightarrow> u64 \<Rightarrow> bool" where
  "transient_lamports_greater_than data lamports \<longleftrightarrow>
     (word_from_le (take 8 (drop 8 data)) :: u64) > lamports"

definition is_removed :: "bytes \<Rightarrow> bool" where
  "is_removed data \<longleftrightarrow>
     status_from_u8 (data ! 40) = Some ReadyForRemoval \<and> take 16 data = replicate 16 0"

definition is_active :: "bytes \<Rightarrow> bool" where
  "is_active data \<longleftrightarrow> status_from_u8 (data ! 40) = Some Active"

lemma word_from_ser [simp]:
  "word_from_le (ser_u64 a) = a" "word_from_le (ser_u32 b) = b" "word_from_le (ser_pubkey p) = p"
  by (simp_all add: ser_int_defs ser_word_def word_from_to_le)

lemma ser_word_from_le:
  "length bs = 8 \<Longrightarrow> ser_u64 (word_from_le bs) = bs"
  "length bs = 4 \<Longrightarrow> ser_u32 (word_from_le bs) = bs"
  "length bs = 32 \<Longrightarrow> ser_pubkey (word_from_le bs) = bs"
  by (simp_all add: ser_int_defs ser_word_def word_to_from_le)

lemma pod_vsi_ser_vsi [simp]: "pod_vsi (ser_vsi v) = v"
  by (simp add: pod_vsi_def ser_vsi_def ser_u8_single nth_append)

lemma take_drop_rejoin: "take n (drop m bs) @ drop (m + n) bs = drop m bs"
  by (metis append_take_drop_id drop_drop add.commute)

lemma ser_vsi_pod_vsi:
  assumes "length bs = ENTRY_LEN"
  shows "ser_vsi (pod_vsi bs) = bs"
proof -
  have l: "length bs = 73" using assms by (simp add: ENTRY_LEN_def)
  have "bs = take 8 bs @ take 8 (drop 8 bs) @ take 8 (drop 16 bs) @ take 8 (drop 24 bs) @
      take 4 (drop 32 bs) @ take 4 (drop 36 bs) @ take 1 (drop 40 bs) @ take 32 (drop 41 bs)"
    using l take_drop_rejoin [of 8 0 bs] take_drop_rejoin [of 8 8 bs] take_drop_rejoin [of 8 16 bs]
      take_drop_rejoin [of 8 24 bs] take_drop_rejoin [of 4 32 bs] take_drop_rejoin [of 4 36 bs]
      take_drop_rejoin [of 1 40 bs]
    by simp
  moreover have "take 1 (drop 40 bs) = [bs ! 40]"
    using l by (simp add: take_Suc_conv_app_nth [where xs = "drop 40 bs" and i = 0, simplified])
  ultimately show ?thesis
    using l by (simp add: ser_vsi_def pod_vsi_def ser_word_from_le ser_u8_single)
qed

text \<open>Reading at the offsets is reading the fields.\<close>

lemma take8_replicate: "take 16 (ser_vsi v) = replicate 16 0 \<longleftrightarrow>
    vs_active_stake_lamports v = 0 \<and> vs_transient_stake_lamports v = 0"
proof -
  have z: "ser_u64 0 = replicate 8 0"
    by (simp add: ser_u64_def ser_word_def word_to_le_def)
  have "take 16 (ser_vsi v) = ser_u64 (vs_active_stake_lamports v) @ ser_u64 (vs_transient_stake_lamports v)"
    by (simp add: ser_vsi_def)
  moreover have "replicate 16 (0::u8) = ser_u64 0 @ ser_u64 0"
    by (simp add: z flip: replicate_add)
  ultimately show ?thesis by (simp add: cu64.ser_inject)
qed

lemma layout_ser_vsi:
  "memcmp_pubkey (ser_vsi v) k \<longleftrightarrow> vs_vote_account_address v = k"
  "active_lamports_greater_than (ser_vsi v) l \<longleftrightarrow> vs_active_stake_lamports v > l"
  "transient_lamports_greater_than (ser_vsi v) l \<longleftrightarrow> vs_transient_stake_lamports v > l"
  "is_active (ser_vsi v) \<longleftrightarrow> vs_status v = status_to_u8 Active"
  "is_removed (ser_vsi v) \<longleftrightarrow> vs_status v = status_to_u8 ReadyForRemoval \<and>
     vs_active_stake_lamports v = 0 \<and> vs_transient_stake_lamports v = 0"
proof -
  have st: "ser_vsi v ! 40 = vs_status v"
    by (simp add: ser_vsi_def nth_append ser_u8_single)
  show "memcmp_pubkey (ser_vsi v) k \<longleftrightarrow> vs_vote_account_address v = k"
    by (simp add: memcmp_pubkey_def ser_vsi_def cpk.ser_inject)
  show "active_lamports_greater_than (ser_vsi v) l \<longleftrightarrow> vs_active_stake_lamports v > l"
    by (simp add: active_lamports_greater_than_def ser_vsi_def)
  show "transient_lamports_greater_than (ser_vsi v) l \<longleftrightarrow> vs_transient_stake_lamports v > l"
    by (simp add: transient_lamports_greater_than_def ser_vsi_def)
  show "is_active (ser_vsi v) \<longleftrightarrow> vs_status v = status_to_u8 Active"
    by (simp add: is_active_def st status_from_u8_Some)
  show "is_removed (ser_vsi v) \<longleftrightarrow> vs_status v = status_to_u8 ReadyForRemoval \<and>
      vs_active_stake_lamports v = 0 \<and> vs_transient_stake_lamports v = 0"
    by (simp add: is_removed_def st status_from_u8_Some take8_replicate)
qed

lemma layout_pod:
  assumes "length bs = ENTRY_LEN"
  shows "memcmp_pubkey bs k \<longleftrightarrow> vs_vote_account_address (pod_vsi bs) = k"
    and "active_lamports_greater_than bs l \<longleftrightarrow> vs_active_stake_lamports (pod_vsi bs) > l"
    and "transient_lamports_greater_than bs l \<longleftrightarrow> vs_transient_stake_lamports (pod_vsi bs) > l"
    and "is_active bs \<longleftrightarrow> vs_status (pod_vsi bs) = status_to_u8 Active"
    and "is_removed bs \<longleftrightarrow> vs_status (pod_vsi bs) = status_to_u8 ReadyForRemoval \<and>
      vs_active_stake_lamports (pod_vsi bs) = 0 \<and> vs_transient_stake_lamports (pod_vsi bs) = 0"
  using layout_ser_vsi [of "pod_vsi bs"] by (simp_all add: ser_vsi_pod_vsi [OF assms])

subsection \<open>The list account\<close>

record validator_list_header =
  vl_account_type :: account_type
  vl_max_validators :: u32

definition header_is_valid :: "validator_list_header \<Rightarrow> bool" where
  "header_is_valid h \<longleftrightarrow> vl_account_type h = ValidatorList"

definition header_is_uninitialized :: "validator_list_header \<Rightarrow> bool" where
  "header_is_uninitialized h \<longleftrightarrow> vl_account_type h = Uninitialized"

definition HEADER_LEN :: nat where
  "HEADER_LEN = 1 + 4"

definition ser_header :: "validator_list_header \<Rightarrow> bytes" where
  "ser_header h = ser_account_type (vl_account_type h) @ ser_u32 (vl_max_validators h)"

definition de_header :: "bytes \<Rightarrow> (validator_list_header \<times> bytes) option" where
  "de_header = de_bind de_account_type (\<lambda>t. de_bind de_u32 (\<lambda>m.
     de_return \<lparr>vl_account_type = t, vl_max_validators = m\<rparr>))"

interpretation chd: codec ser_header de_header
  by unfold_locales (simp add: ser_header_def de_header_def)

lemma length_ser_header [simp]: "length (ser_header h) = HEADER_LEN"
  by (simp add: ser_header_def HEADER_LEN_def)

lemma de_header_canonical:
  assumes "de_header data = Some (h, r)"
  shows "data = ser_header h @ r"
proof -
  from assms obtain t m r1 where t: "de_account_type data = Some (t, r1)"
      and m: "de_u32 r1 = Some (m, r)" and h: "h = \<lparr>vl_account_type = t, vl_max_validators = m\<rparr>"
    by (auto simp: de_header_def ok_iff)
  from t obtain b where b: "de_u8 data = Some (b, r1)" "ser_account_type t = ser_u8 b"
    by (auto simp: de_account_type_def de_bind_def ser_account_type_def split: option.splits if_splits)
  then show ?thesis using de_int_canonical(1) [OF b(1)] de_int_canonical(2) [OF m]
    by (simp add: h ser_header_def)
qed

text \<open>
  \<open>ValidatorListHeader::deserialize_vec\<close> splits the account data into the header and the
  \<open>BigVec\<close> behind it; \<open>put_vec\<close> is the account data after the vector was changed in place.
\<close>

definition deserialize_vec :: "bytes \<Rightarrow> program_error + (validator_list_header \<times> bytes)" where
  "deserialize_vec data =
     (case de_header data of
        None \<Rightarrow> Inl BorshIoError
      | Some (header, _) \<Rightarrow> Inr (header, drop (length (ser_header header)) data))"

definition put_vec :: "bytes \<Rightarrow> bytes \<Rightarrow> bytes" where
  "put_vec data vec = take HEADER_LEN data @ vec"

record validator_list =
  vl_header :: validator_list_header
  vl_validators :: "validator_stake_info list"

definition validator_list_new :: "u32 \<Rightarrow> validator_list" where
  "validator_list_new max_validators =
     \<lparr>vl_header = \<lparr>vl_account_type = ValidatorList, vl_max_validators = max_validators\<rparr>,
      vl_validators = replicate (unat max_validators) vsi_default\<rparr>"

definition calculate_max_validators :: "nat \<Rightarrow> nat" where
  "calculate_max_validators buffer_length =
     (let header_size = HEADER_LEN + 4 in (buffer_length - header_size) div ENTRY_LEN)"

definition vl_contains :: "validator_list \<Rightarrow> pubkey \<Rightarrow> bool" where
  "vl_contains vl key \<longleftrightarrow> (\<exists>x \<in> set (vl_validators vl). vs_vote_account_address x = key)"

definition vl_find :: "validator_list \<Rightarrow> pubkey \<Rightarrow> validator_stake_info option" where
  "vl_find vl key = List.find (\<lambda>x. vs_vote_account_address x = key) (vl_validators vl)"

definition has_active_stake :: "validator_list \<Rightarrow> bool" where
  "has_active_stake vl \<longleftrightarrow> (\<exists>x \<in> set (vl_validators vl). vs_active_stake_lamports x > 0)"

definition ser_validator_list :: "validator_list \<Rightarrow> bytes" where
  "ser_validator_list vl = ser_header (vl_header vl) @ ser_vec ser_vsi (vl_validators vl)"

definition de_validator_list :: "bytes \<Rightarrow> (validator_list \<times> bytes) option" where
  "de_validator_list = de_bind de_header (\<lambda>h. de_bind (de_vec de_vsi) (\<lambda>vs.
     de_return \<lparr>vl_header = h, vl_validators = vs\<rparr>))"

lemma de_ser_validator_list:
  "length (vl_validators vl) < 2 ^ 32 \<Longrightarrow>
    de_validator_list (ser_validator_list vl @ rest) = Some (vl, rest)"
  by (simp add: de_validator_list_def ser_validator_list_def cvsi.de_vec_ser_vec de_bind_def chd.de_ser)

text \<open>What a validator list account holds, read through the byte-level vector.\<close>

definition list_infos :: "bytes \<Rightarrow> validator_stake_info list" where
  "list_infos data = map pod_vsi (bv_entries ENTRY_LEN (drop HEADER_LEN data))"

definition list_ok :: "bytes \<Rightarrow> bool" where
  "list_ok data \<longleftrightarrow> HEADER_LEN \<le> length data \<and> bv_invar ENTRY_LEN (drop HEADER_LEN data)"

definition votes :: "bytes \<Rightarrow> pubkey list" where
  "votes data = map vs_vote_account_address (list_infos data)"

end
