(* ===== verification/Runtime.thy ===== *)
theory Runtime
  imports Validator_List
begin

section \<open>Accounts, sysvars and called programs\<close>

text \<open>
  What the program sees of the chain. The state is a \<open>world\<close>: every address has an
  account with its lamports, data and owner. An \<open>AccountInfo\<close> is a key with the flags of
  the transaction; two infos with one key are views of one account, as on chain, so a
  handler that is given the same account twice is modelled with that aliasing.

  Everything the program calls and does not contain is a field of the record \<open>runtime\<close>:
  address derivation, sysvars, the decoding of stake and token accounts, and
  \<open>invoke_signed\<close> itself. The instructions the program sends are the datatype \<open>cpi\<close>;
  what the called program does with one is the function \<open>rt_invoke\<close>, which returns an
  error or the world after it. What a property relies on of those programs is a named
  hypothesis about the record (\<open>respects_owner\<close> and the like).

  A failed borrow of account data (two mutable borrows of one \<open>RefCell\<close>) is not
  modelled: such a run is an error in the code and may succeed in the model, so each
  statement about successful runs covers the runs of the code.
\<close>

subsection \<open>Accounts\<close>

record account =
  acc_lamports :: u64
  acc_data :: bytes
  acc_owner :: pubkey

type_synonym world = "pubkey \<Rightarrow> account"

record account_info =
  ai_key :: pubkey
  ai_is_signer :: bool
  ai_is_writable :: bool

definition lamports_of :: "world \<Rightarrow> account_info \<Rightarrow> u64" where
  "lamports_of w info = acc_lamports (w (ai_key info))"

definition data_of :: "world \<Rightarrow> account_info \<Rightarrow> bytes" where
  "data_of w info = acc_data (w (ai_key info))"

definition owner_of :: "world \<Rightarrow> account_info \<Rightarrow> pubkey" where
  "owner_of w info = acc_owner (w (ai_key info))"

definition set_data :: "world \<Rightarrow> pubkey \<Rightarrow> bytes \<Rightarrow> world" where
  "set_data w k bs = w(k := (w k)\<lparr>acc_data := bs\<rparr>)"

lemma set_data_apply [simp]:
  "set_data w k bs k' = (if k' = k then (w k)\<lparr>acc_data := bs\<rparr> else w k')"
  by (simp add: set_data_def)

text \<open>\<open>next_account_info\<close> on the iterator of the accounts that are left.\<close>

fun next_account_info :: "account_info list \<Rightarrow> program_error + (account_info \<times> account_info list)" where
  "next_account_info [] = Inl NotEnoughAccountKeys"
| "next_account_info (info # rest) = Inr (info, rest)"

lemma next_account_info_Inr [ok_iff]: "next_account_info it = Inr (info, rest) \<longleftrightarrow> it = info # rest"
  by (cases it) auto

subsection \<open>What other programs keep in their accounts\<close>

record stake_meta =
  rent_exempt_reserve :: u64
  auth_staker :: pubkey
  auth_withdrawer :: pubkey
  meta_lockup :: lockup

record stake_delegation =
  voter_pubkey :: pubkey
  delegated_stake :: u64
  activation_epoch :: u64
  deactivation_epoch :: u64
  credits_observed :: u64

datatype stake_state =
    SS_Uninitialized
  | SS_Initialized stake_meta
  | SS_Stake stake_meta stake_delegation
  | SS_RewardsPool

text \<open>\<open>StakeStateV2::meta\<close>.\<close>

fun state_meta :: "stake_state \<Rightarrow> stake_meta option" where
  "state_meta (SS_Initialized meta) = Some meta"
| "state_meta (SS_Stake meta _) = Some meta"
| "state_meta _ = None"

datatype extension_type =
    ExtUninitialized | TransferFeeConfig | TransferFeeAmount | ConfidentialTransferMint
  | ConfidentialTransferFeeConfig | DefaultAccountState | ImmutableOwner
  | InterestBearingConfig | CpiGuard | MetadataPointer | TokenMetadata
  | OtherExtension nat

record mint =
  mint_decimals :: u8
  mint_supply :: u64
  mint_authority :: "pubkey option"
  freeze_authority :: "pubkey option"
  mint_extensions :: "program_error + extension_type list"

record token_account =
  ta_mint :: pubkey
  ta_is_initialized :: bool
  ta_amount :: u64
  ta_extensions :: "program_error + extension_type list"

record rent =
  minimum_balance :: "nat \<Rightarrow> u64"
  is_exempt :: "u64 \<Rightarrow> nat \<Rightarrow> bool"

text \<open>\<open>Epoch::MAX\<close>: the deactivation epoch of a stake that was never deactivated.\<close>

definition EPOCH_MAX :: u64 where
  "EPOCH_MAX = - 1"

subsection \<open>Instructions sent to other programs\<close>

datatype stake_authorize_type = Staker | Withdrawer

text \<open>\<open>DataV2\<close> of the inlined metadata types, with the fields the program sets.\<close>

record data_v2 =
  md_name :: bytes
  md_symbol :: bytes
  md_uri :: bytes
  md_seller_fee_basis_points :: u16
  md_creators :: "u8 option"
  md_collection :: "u8 option"
  md_uses :: "u8 option"

text \<open>
  The keys of each instruction are in the order of the parameters of the function that
  builds it. Token instructions carry the token program they are sent to.
\<close>

datatype cpi =
    StakeDelegate pubkey pubkey pubkey
  | StakeDeactivate pubkey pubkey
  | StakeSplit pubkey pubkey u64 pubkey
  | StakeMerge pubkey pubkey pubkey
  | StakeAuthorize pubkey pubkey pubkey stake_authorize_type "pubkey option"
  | StakeWithdraw pubkey pubkey pubkey u64 "pubkey option"
  | TokenBurn pubkey pubkey pubkey pubkey u64
  | TokenMintTo pubkey pubkey pubkey pubkey u64
  | TokenTransferChecked pubkey pubkey pubkey pubkey pubkey u64 u8
  | SystemTransfer pubkey pubkey u64
  | SystemAllocate pubkey u64
  | SystemAssign pubkey pubkey
  | RawInstruction pubkey "(pubkey \<times> bool \<times> bool) list" bytes

type_synonym seeds = "bytes list"

record runtime =
  rt_find_program_address :: "seeds \<Rightarrow> pubkey \<Rightarrow> pubkey \<times> u8"
  rt_create_program_address :: "seeds \<Rightarrow> pubkey \<Rightarrow> program_error + pubkey"
  rt_clock_get :: "program_error + u64"
  rt_clock_from_account_info :: "account_info \<Rightarrow> world \<Rightarrow> program_error + u64"
  rt_rent_get :: "program_error + rent"
  rt_rent_from_account_info :: "account_info \<Rightarrow> world \<Rightarrow> program_error + rent"
  rt_epoch_rewards_active :: "program_error + bool"
  rt_get_minimum_delegation :: "program_error + u64"
  rt_stake_space :: nat
  rt_insufficient_delegation :: u32
  rt_native_mint_decimals :: u8
  rt_stake_state :: "bytes \<Rightarrow> stake_state option"
  rt_unpack_mint :: "bytes \<Rightarrow> program_error + mint"
  rt_unpack_token_account :: "bytes \<Rightarrow> program_error + token_account"
  rt_check_spl_token_program_account :: "pubkey \<Rightarrow> program_error + unit"
  rt_build_token_instruction :: "cpi \<Rightarrow> program_error + unit"
  rt_system_program :: pubkey
  rt_stake_program :: pubkey
  rt_metadata_program :: pubkey
  rt_invoke :: "cpi \<Rightarrow> account_info list \<Rightarrow> seeds list \<Rightarrow> world \<Rightarrow> program_error + world"

definition invoke_signed ::
    "runtime \<Rightarrow> cpi \<Rightarrow> account_info list \<Rightarrow> seeds list \<Rightarrow> world \<Rightarrow> program_error + world" where
  "invoke_signed rt ix infos signers w = rt_invoke rt ix infos signers w"

definition invoke :: "runtime \<Rightarrow> cpi \<Rightarrow> account_info list \<Rightarrow> world \<Rightarrow> program_error + world" where
  "invoke rt ix infos w = invoke_signed rt ix infos [] w"

subsection \<open>Reading and writing the accounts of the program\<close>

text \<open>\<open>try_from_slice_unchecked\<close> and \<open>borsh::to_writer\<close> on an account.\<close>

definition read_stake_pool :: "world \<Rightarrow> account_info \<Rightarrow> program_error + stake_pool" where
  "read_stake_pool w info =
     (case de_stake_pool (data_of w info) of None \<Rightarrow> Inl BorshIoError | Some (sp, _) \<Rightarrow> Inr sp)"

definition write_stake_pool :: "world \<Rightarrow> account_info \<Rightarrow> stake_pool \<Rightarrow> program_error + world" where
  "write_stake_pool w info sp =
     (case overwrite (ser_stake_pool sp) (data_of w info) of
        None \<Rightarrow> Inl BorshIoError
      | Some bs \<Rightarrow> Inr (set_data w (ai_key info) bs))"

definition read_validator_list :: "world \<Rightarrow> account_info \<Rightarrow> program_error + validator_list" where
  "read_validator_list w info =
     (case de_validator_list (data_of w info) of None \<Rightarrow> Inl BorshIoError | Some (vl, _) \<Rightarrow> Inr vl)"

definition write_validator_list :: "world \<Rightarrow> account_info \<Rightarrow> validator_list \<Rightarrow> program_error + world" where
  "write_validator_list w info vl =
     (case overwrite (ser_validator_list vl) (data_of w info) of
        None \<Rightarrow> Inl BorshIoError
      | Some bs \<Rightarrow> Inr (set_data w (ai_key info) bs))"

definition read_stake_state :: "runtime \<Rightarrow> world \<Rightarrow> account_info \<Rightarrow> program_error + stake_state" where
  "read_stake_state rt w info = ok_or (rt_stake_state rt (data_of w info)) BorshIoError"

text \<open>
  The vector behind the list header is borrowed for the length of a handler; a change of it
  is a change of the account's data. \<open>set_entry\<close> stores an entry at the offset that
  \<open>BigVec::find\<close> returned.
\<close>

definition list_vec :: "world \<Rightarrow> account_info \<Rightarrow> bytes" where
  "list_vec w info = drop HEADER_LEN (data_of w info)"

definition set_list_vec :: "world \<Rightarrow> account_info \<Rightarrow> bytes \<Rightarrow> world" where
  "set_list_vec w info vec = set_data w (ai_key info) (put_vec (data_of w info) vec)"

lemma read_stake_pool_Inr [ok_iff]:
  "read_stake_pool w info = Inr sp \<longleftrightarrow> (\<exists>rest. de_stake_pool (data_of w info) = Some (sp, rest))"
  by (auto simp: read_stake_pool_def split: option.splits)

lemma write_stake_pool_Inr:
  "write_stake_pool w info sp = Inr w' \<longleftrightarrow>
     length (ser_stake_pool sp) \<le> length (data_of w info) \<and>
     w' = set_data w (ai_key info)
       (ser_stake_pool sp @ drop (length (ser_stake_pool sp)) (data_of w info))"
  by (auto simp: write_stake_pool_def overwrite_def)

lemma read_written_stake_pool:
  "write_stake_pool w info sp = Inr w' \<Longrightarrow> read_stake_pool w' info = Inr sp"
  by (auto simp: write_stake_pool_Inr read_stake_pool_def data_of_def csp.de_ser)

lemma write_stake_pool_frame:
  "write_stake_pool w info sp = Inr w' \<Longrightarrow>
     (\<forall>k. k \<noteq> ai_key info \<longrightarrow> w' k = w k) \<and>
     acc_lamports (w' k) = acc_lamports (w k) \<and> acc_owner (w' k) = acc_owner (w k)"
  by (auto simp: write_stake_pool_Inr)

subsection \<open>What the called programs promise\<close>

text \<open>
  Only the owner of an account changes its data or gives it away: a call to another program leaves the
  accounts of this program as they are (they can still be credited with lamports).
\<close>

definition respects_owner :: "runtime \<Rightarrow> pubkey \<Rightarrow> bool" where
  "respects_owner rt program_id \<longleftrightarrow>
     (\<forall>ix infos signers w w'. rt_invoke rt ix infos signers w = Inr w' \<longrightarrow>
        (\<forall>k. acc_owner (w k) = program_id \<longrightarrow>
           acc_data (w' k) = acc_data (w k) \<and> acc_owner (w' k) = program_id))"

text \<open>
  The frame of a computation: accounts of the program keep their data and their owner.
\<close>

definition same_program_data :: "pubkey \<Rightarrow> world \<Rightarrow> world \<Rightarrow> bool" where
  "same_program_data program_id w w' \<longleftrightarrow>
     (\<forall>k. acc_owner (w k) = program_id \<longrightarrow>
        acc_data (w' k) = acc_data (w k) \<and> acc_owner (w' k) = program_id)"

lemma same_program_data_refl [simp, intro]: "same_program_data pid w w"
  by (simp add: same_program_data_def)

lemma same_program_data_trans [trans]:
  "same_program_data pid w w' \<Longrightarrow> same_program_data pid w' w'' \<Longrightarrow> same_program_data pid w w''"
  by (simp add: same_program_data_def)

lemma invoke_signed_frame:
  "respects_owner rt pid \<Longrightarrow> invoke_signed rt ix infos s w = Inr w' \<Longrightarrow> same_program_data pid w w'"
  by (auto simp: respects_owner_def same_program_data_def invoke_signed_def)

lemma invoke_frame:
  "respects_owner rt pid \<Longrightarrow> invoke rt ix infos w = Inr w' \<Longrightarrow> same_program_data pid w w'"
  by (auto simp: invoke_def intro: invoke_signed_frame)

lemma same_program_data_read:
  "same_program_data pid w w' \<Longrightarrow> owner_of w info = pid \<Longrightarrow>
     data_of w' info = data_of w info \<and> owner_of w' info = pid"
  by (simp add: same_program_data_def data_of_def owner_of_def)

end
