(* ===== verification/Checks.thy ===== *)
theory Checks
  imports Runtime
begin

section \<open>Derived addresses, account checks and calls\<close>

text \<open>
  The helpers the handlers are made of: the addresses and minimums of
  \<open>src/program/src/lib.rs\<close>, the checks of \<open>StakePool\<close> on the accounts of an
  instruction (\<open>src/program/src/state.rs\<close>), the free functions at the head of
  \<open>src/program/src/processor.rs\<close>, the wrappers that build and send one instruction to the
  stake, token or system program, and the metadata instructions of
  \<open>src/program/src/inline_mpl_token_metadata.rs\<close>. The collection \<open>frame\<close> holds that no
  wrapper touches the data of the program's own accounts.
\<close>

named_theorems frame "computations that leave the data of the program's accounts alone"

declare invoke_signed_frame [frame] invoke_frame [frame]

subsection \<open>Constants and derived addresses\<close>

definition ascii :: "string \<Rightarrow> bytes" where
  "ascii s = map of_char s"

definition AUTHORITY_DEPOSIT :: bytes where
  "AUTHORITY_DEPOSIT = ascii ''deposit''"

definition AUTHORITY_WITHDRAW :: bytes where
  "AUTHORITY_WITHDRAW = ascii ''withdraw''"

definition TRANSIENT_STAKE_SEED_PREFIX :: bytes where
  "TRANSIENT_STAKE_SEED_PREFIX = ascii ''transient''"

definition EPHEMERAL_STAKE_SEED_PREFIX :: bytes where
  "EPHEMERAL_STAKE_SEED_PREFIX = ascii ''ephemeral''"

definition MINIMUM_ACTIVE_STAKE :: u64 where
  "MINIMUM_ACTIVE_STAKE = 1000000"

definition MINIMUM_RESERVE_LAMPORTS :: u64 where
  "MINIMUM_RESERVE_LAMPORTS = 0"

definition MAX_VALIDATORS_IN_POOL :: u32 where
  "MAX_VALIDATORS_IN_POOL = 20000"

definition minimum_delegation :: "u64 \<Rightarrow> u64" where
  "minimum_delegation stake_program_minimum_delegation =
     max stake_program_minimum_delegation MINIMUM_ACTIVE_STAKE"

definition minimum_stake_lamports :: "stake_meta \<Rightarrow> u64 \<Rightarrow> u64" where
  "minimum_stake_lamports meta stake_program_minimum_delegation =
     saturating_add (rent_exempt_reserve meta) (minimum_delegation stake_program_minimum_delegation)"

definition minimum_reserve_lamports :: "stake_meta \<Rightarrow> u64" where
  "minimum_reserve_lamports meta = saturating_add (rent_exempt_reserve meta) MINIMUM_RESERVE_LAMPORTS"

definition find_deposit_authority_program_address :: "runtime \<Rightarrow> pubkey \<Rightarrow> pubkey \<Rightarrow> pubkey \<times> u8" where
  "find_deposit_authority_program_address rt program_id stake_pool_address =
     rt_find_program_address rt [ser_pubkey stake_pool_address, AUTHORITY_DEPOSIT] program_id"

definition find_withdraw_authority_program_address :: "runtime \<Rightarrow> pubkey \<Rightarrow> pubkey \<Rightarrow> pubkey \<times> u8" where
  "find_withdraw_authority_program_address rt program_id stake_pool_address =
     rt_find_program_address rt [ser_pubkey stake_pool_address, AUTHORITY_WITHDRAW] program_id"

text \<open>\<open>NonZeroU32::new\<close> maps 0 to \<open>None\<close>; the seed bytes of \<open>None\<close> are empty.\<close>

definition seed_bytes :: "u32 \<Rightarrow> bytes" where
  "seed_bytes seed = (if seed = 0 then [] else ser_u32 seed)"

definition find_stake_program_address ::
    "runtime \<Rightarrow> pubkey \<Rightarrow> pubkey \<Rightarrow> pubkey \<Rightarrow> u32 \<Rightarrow> pubkey \<times> u8" where
  "find_stake_program_address rt program_id vote_account_address stake_pool_address seed =
     rt_find_program_address rt
       [ser_pubkey vote_account_address, ser_pubkey stake_pool_address, seed_bytes seed] program_id"

definition find_transient_stake_program_address ::
    "runtime \<Rightarrow> pubkey \<Rightarrow> pubkey \<Rightarrow> pubkey \<Rightarrow> u64 \<Rightarrow> pubkey \<times> u8" where
  "find_transient_stake_program_address rt program_id vote_account_address stake_pool_address seed =
     rt_find_program_address rt
       [TRANSIENT_STAKE_SEED_PREFIX, ser_pubkey vote_account_address, ser_pubkey stake_pool_address,
        ser_u64 seed] program_id"

definition find_ephemeral_stake_program_address ::
    "runtime \<Rightarrow> pubkey \<Rightarrow> pubkey \<Rightarrow> u64 \<Rightarrow> pubkey \<times> u8" where
  "find_ephemeral_stake_program_address rt program_id stake_pool_address seed =
     rt_find_program_address rt
       [EPHEMERAL_STAKE_SEED_PREFIX, ser_pubkey stake_pool_address, ser_u64 seed] program_id"

subsection \<open>Checks of the stake pool on the accounts of an instruction\<close>

definition check_program_derived_authority ::
    "runtime \<Rightarrow> pubkey \<Rightarrow> pubkey \<Rightarrow> pubkey \<Rightarrow> bytes \<Rightarrow> u8 \<Rightarrow> program_error + unit" where
  "check_program_derived_authority rt authority_address program_id stake_pool_address authority_seed bump_seed =
     bindE (rt_create_program_address rt
              [ser_pubkey stake_pool_address, authority_seed, [bump_seed]] program_id) (\<lambda>expected_address.
     if authority_address = expected_address then Inr ()
     else Inl (pool_err InvalidProgramAddress))"

definition is_extension_supported_for_mint :: "extension_type \<Rightarrow> bool" where
  "is_extension_supported_for_mint e \<longleftrightarrow>
     List.member [ExtUninitialized, TransferFeeConfig, ConfidentialTransferMint,
       ConfidentialTransferFeeConfig, DefaultAccountState, InterestBearingConfig,
       MetadataPointer, TokenMetadata] e"

definition is_extension_supported_for_fee_account :: "extension_type \<Rightarrow> bool" where
  "is_extension_supported_for_fee_account e \<longleftrightarrow>
     List.member [ExtUninitialized, TransferFeeAmount, ImmutableOwner, CpiGuard] e"

definition check_manager_fee_info :: "runtime \<Rightarrow> stake_pool \<Rightarrow> world \<Rightarrow> account_info \<Rightarrow> program_error + unit" where
  "check_manager_fee_info rt sp w manager_fee_info =
     bindE (rt_unpack_token_account rt (data_of w manager_fee_info)) (\<lambda>token_account.
     if owner_of w manager_fee_info \<noteq> sp_token_program_id sp
        \<or> \<not> ta_is_initialized token_account
        \<or> ta_mint token_account \<noteq> sp_pool_mint sp
     then Inl (pool_err InvalidFeeAccount)
     else
       bindE (ta_extensions token_account) (\<lambda>extensions.
       if list_ex (\<lambda>x. \<not> is_extension_supported_for_fee_account x) extensions
       then Inl (pool_err UnsupportedFeeAccountExtension)
       else Inr ()))"

definition check_authority_withdraw ::
    "runtime \<Rightarrow> stake_pool \<Rightarrow> pubkey \<Rightarrow> pubkey \<Rightarrow> pubkey \<Rightarrow> program_error + unit" where
  "check_authority_withdraw rt sp withdraw_authority program_id stake_pool_address =
     check_program_derived_authority rt withdraw_authority program_id stake_pool_address
       AUTHORITY_WITHDRAW (sp_stake_withdraw_bump_seed sp)"

definition check_stake_deposit_authority :: "stake_pool \<Rightarrow> pubkey \<Rightarrow> program_error + unit" where
  "check_stake_deposit_authority sp stake_deposit_authority =
     (if sp_stake_deposit_authority sp = stake_deposit_authority then Inr ()
      else Inl (pool_err InvalidStakeDepositAuthority))"

definition check_sol_deposit_authority ::
    "stake_pool \<Rightarrow> program_error + account_info \<Rightarrow> program_error + unit" where
  "check_sol_deposit_authority sp maybe_sol_deposit_authority =
     (case sp_sol_deposit_authority sp of
        None \<Rightarrow> Inr ()
      | Some auth \<Rightarrow>
          bindE maybe_sol_deposit_authority (\<lambda>sol_deposit_authority.
          if auth \<noteq> ai_key sol_deposit_authority then Inl (pool_err InvalidSolDepositAuthority)
          else if \<not> ai_is_signer sol_deposit_authority then Inl (pool_err SignatureMissing)
          else Inr ()))"

definition check_sol_withdraw_authority ::
    "stake_pool \<Rightarrow> program_error + account_info \<Rightarrow> program_error + unit" where
  "check_sol_withdraw_authority sp maybe_sol_withdraw_authority =
     (case sp_sol_withdraw_authority sp of
        None \<Rightarrow> Inr ()
      | Some auth \<Rightarrow>
          bindE maybe_sol_withdraw_authority (\<lambda>sol_withdraw_authority.
          if auth \<noteq> ai_key sol_withdraw_authority then Inl (pool_err InvalidSolWithdrawAuthority)
          else if \<not> ai_is_signer sol_withdraw_authority then Inl (pool_err SignatureMissing)
          else Inr ()))"

definition check_mint :: "runtime \<Rightarrow> stake_pool \<Rightarrow> world \<Rightarrow> account_info \<Rightarrow> program_error + u8" where
  "check_mint rt sp w mint_info =
     (if ai_key mint_info \<noteq> sp_pool_mint sp then Inl (pool_err WrongPoolMint)
      else bindE (rt_unpack_mint rt (data_of w mint_info)) (\<lambda>mint. Inr (mint_decimals mint)))"

definition check_manager :: "stake_pool \<Rightarrow> account_info \<Rightarrow> program_error + unit" where
  "check_manager sp manager_info =
     (if ai_key manager_info \<noteq> sp_manager sp then Inl (pool_err WrongManager)
      else if \<not> ai_is_signer manager_info then Inl (pool_err SignatureMissing)
      else Inr ())"

definition check_staker :: "stake_pool \<Rightarrow> account_info \<Rightarrow> program_error + unit" where
  "check_staker sp staker_info =
     (if ai_key staker_info \<noteq> sp_staker sp then Inl (pool_err WrongStaker)
      else if \<not> ai_is_signer staker_info then Inl (pool_err SignatureMissing)
      else Inr ())"

definition check_validator_list :: "stake_pool \<Rightarrow> account_info \<Rightarrow> program_error + unit" where
  "check_validator_list sp validator_list_info =
     (if ai_key validator_list_info \<noteq> sp_validator_list sp
      then Inl (pool_err InvalidValidatorStakeList) else Inr ())"

definition check_reserve_stake :: "stake_pool \<Rightarrow> account_info \<Rightarrow> program_error + unit" where
  "check_reserve_stake sp reserve_stake_info =
     (if ai_key reserve_stake_info \<noteq> sp_reserve_stake sp
      then Inl (pool_err InvalidProgramAddress) else Inr ())"

text \<open>\<open>StakePool::update_fee\<close>.\<close>

fun update_fee :: "stake_pool \<Rightarrow> fee_type \<Rightarrow> stake_pool_error + stake_pool" where
  "update_fee sp (SolReferral new_fee) = Inr (sp\<lparr>sp_sol_referral_fee := new_fee\<rparr>)"
| "update_fee sp (StakeReferral new_fee) = Inr (sp\<lparr>sp_stake_referral_fee := new_fee\<rparr>)"
| "update_fee sp (Epoch new_fee) = Inr (sp\<lparr>sp_next_epoch_fee := future_epoch_new new_fee\<rparr>)"
| "update_fee sp (StakeWithdrawal new_fee) =
     bindE (check_withdrawal new_fee (sp_stake_withdrawal_fee sp)) (\<lambda>_.
     Inr (sp\<lparr>sp_next_stake_withdrawal_fee := future_epoch_new new_fee\<rparr>))"
| "update_fee sp (SolWithdrawal new_fee) =
     bindE (check_withdrawal new_fee (sp_sol_withdrawal_fee sp)) (\<lambda>_.
     Inr (sp\<lparr>sp_next_sol_withdrawal_fee := future_epoch_new new_fee\<rparr>))"
| "update_fee sp (SolDeposit new_fee) = Inr (sp\<lparr>sp_sol_deposit_fee := new_fee\<rparr>)"
| "update_fee sp (StakeDeposit new_fee) = Inr (sp\<lparr>sp_stake_deposit_fee := new_fee\<rparr>)"

subsection \<open>Free functions of the processor\<close>

definition get_stake_state :: "runtime \<Rightarrow> world \<Rightarrow> account_info \<Rightarrow> program_error + (stake_meta \<times> stake_delegation)" where
  "get_stake_state rt w stake_account_info =
     bindE (read_stake_state rt w stake_account_info) (\<lambda>stake_state.
     case stake_state of
       SS_Stake meta stake \<Rightarrow> Inr (meta, stake)
     | _ \<Rightarrow> Inl (pool_err WrongStakeStake))"

definition check_validator_stake_address ::
    "runtime \<Rightarrow> pubkey \<Rightarrow> pubkey \<Rightarrow> pubkey \<Rightarrow> pubkey \<Rightarrow> u32 \<Rightarrow> program_error + unit" where
  "check_validator_stake_address rt program_id stake_pool_address stake_account_address vote_address seed =
     (if fst (find_stake_program_address rt program_id vote_address stake_pool_address seed)
         \<noteq> stake_account_address
      then Inl (pool_err InvalidStakeAccountAddress) else Inr ())"

definition check_transient_stake_address ::
    "runtime \<Rightarrow> pubkey \<Rightarrow> pubkey \<Rightarrow> pubkey \<Rightarrow> pubkey \<Rightarrow> u64 \<Rightarrow> program_error + u8" where
  "check_transient_stake_address rt program_id stake_pool_address stake_account_address vote_address seed =
     (let (transient_stake_address, bump_seed) =
        find_transient_stake_program_address rt program_id vote_address stake_pool_address seed in
      if transient_stake_address \<noteq> stake_account_address
      then Inl (pool_err InvalidStakeAccountAddress) else Inr bump_seed)"

definition check_ephemeral_stake_address ::
    "runtime \<Rightarrow> pubkey \<Rightarrow> pubkey \<Rightarrow> pubkey \<Rightarrow> u64 \<Rightarrow> program_error + u8" where
  "check_ephemeral_stake_address rt program_id stake_pool_address stake_account_address seed =
     (let (ephemeral_stake_address, bump_seed) =
        find_ephemeral_stake_program_address rt program_id stake_pool_address seed in
      if ephemeral_stake_address \<noteq> stake_account_address
      then Inl (pool_err InvalidStakeAccountAddress) else Inr bump_seed)"

definition find_metadata_account :: "runtime \<Rightarrow> pubkey \<Rightarrow> pubkey \<times> u8" where
  "find_metadata_account rt mint =
     rt_find_program_address rt
       [ascii ''metadata'', ser_pubkey (rt_metadata_program rt), ser_pubkey mint] (rt_metadata_program rt)"

definition check_mpl_metadata_account_address :: "runtime \<Rightarrow> pubkey \<Rightarrow> pubkey \<Rightarrow> program_error + unit" where
  "check_mpl_metadata_account_address rt metadata_address pool_mint =
     (if fst (find_metadata_account rt pool_mint) \<noteq> metadata_address
      then Inl (pool_err InvalidMetadataAccount) else Inr ())"

definition check_system_program :: "runtime \<Rightarrow> pubkey \<Rightarrow> program_error + unit" where
  "check_system_program rt program_id =
     (if program_id \<noteq> rt_system_program rt then Inl IncorrectProgramId else Inr ())"

definition check_stake_program :: "runtime \<Rightarrow> pubkey \<Rightarrow> program_error + unit" where
  "check_stake_program rt program_id =
     (if program_id \<noteq> rt_stake_program rt then Inl IncorrectProgramId else Inr ())"

definition check_mpl_metadata_program :: "runtime \<Rightarrow> pubkey \<Rightarrow> program_error + unit" where
  "check_mpl_metadata_program rt program_id =
     (if program_id \<noteq> rt_metadata_program rt then Inl IncorrectProgramId else Inr ())"

definition check_account_owner :: "world \<Rightarrow> account_info \<Rightarrow> pubkey \<Rightarrow> program_error + unit" where
  "check_account_owner w account_info program_id =
     (if program_id \<noteq> owner_of w account_info then Inl IncorrectProgramId else Inr ())"

definition stake_is_usable_by_pool :: "stake_meta \<Rightarrow> pubkey \<Rightarrow> lockup \<Rightarrow> bool" where
  "stake_is_usable_by_pool meta expected_authority expected_lockup \<longleftrightarrow>
     auth_staker meta = expected_authority \<and> auth_withdrawer meta = expected_authority \<and>
     meta_lockup meta = expected_lockup"

definition stake_is_inactive_without_history :: "stake_delegation \<Rightarrow> u64 \<Rightarrow> bool" where
  "stake_is_inactive_without_history stake epoch \<longleftrightarrow>
     deactivation_epoch stake < epoch \<or>
     (activation_epoch stake = epoch \<and> deactivation_epoch stake = epoch)"

definition check_if_stake_deactivating :: "runtime \<Rightarrow> world \<Rightarrow> account_info \<Rightarrow> u64 \<Rightarrow> program_error + unit" where
  "check_if_stake_deactivating rt w account_info epoch =
     bindE (get_stake_state rt w account_info) (\<lambda>(_, stake).
     if deactivation_epoch stake \<noteq> epoch then Inl (pool_err WrongStakeStake) else Inr ())"

definition check_if_stake_activating :: "runtime \<Rightarrow> world \<Rightarrow> account_info \<Rightarrow> u64 \<Rightarrow> program_error + unit" where
  "check_if_stake_activating rt w account_info epoch =
     bindE (get_stake_state rt w account_info) (\<lambda>(_, stake).
     if deactivation_epoch stake \<noteq> EPOCH_MAX \<or> activation_epoch stake \<noteq> epoch
     then Inl (pool_err WrongStakeStake) else Inr ())"

definition check_stake_state ::
    "runtime \<Rightarrow> world \<Rightarrow> account_info \<Rightarrow> pubkey \<Rightarrow> pubkey \<Rightarrow> lockup \<Rightarrow> program_error + unit" where
  "check_stake_state rt w stake_account_info withdraw_authority vote_account_address lockup =
     bindE (get_stake_state rt w stake_account_info) (\<lambda>(meta, stake).
     if \<not> stake_is_usable_by_pool meta withdraw_authority lockup then Inl (pool_err WrongStakeStake)
     else if voter_pubkey stake \<noteq> vote_account_address then Inl (pool_err WrongStakeStake)
     else Inr ())"

definition check_validator_stake_account ::
    "runtime \<Rightarrow> world \<Rightarrow> account_info \<Rightarrow> pubkey \<Rightarrow> pubkey \<Rightarrow> pubkey \<Rightarrow> pubkey \<Rightarrow> u32 \<Rightarrow> lockup \<Rightarrow>
      program_error + unit" where
  "check_validator_stake_account rt w stake_account_info program_id stake_pool withdraw_authority
       vote_account_address seed lockup =
     bindE (check_account_owner w stake_account_info (rt_stake_program rt)) (\<lambda>_.
     bindE (check_validator_stake_address rt program_id stake_pool (ai_key stake_account_info)
              vote_account_address seed) (\<lambda>_.
     check_stake_state rt w stake_account_info withdraw_authority vote_account_address lockup))"

subsection \<open>Calls to other programs\<close>

definition create_stake_account :: "runtime \<Rightarrow> account_info \<Rightarrow> seeds \<Rightarrow> nat \<Rightarrow> world \<Rightarrow> program_error + world" where
  "create_stake_account rt stake_account_info stake_account_signer_seeds stake_space w =
     bindE (invoke_signed rt (SystemAllocate (ai_key stake_account_info) (word_of_nat stake_space))
              [stake_account_info] [stake_account_signer_seeds] w) (\<lambda>w.
     invoke_signed rt (SystemAssign (ai_key stake_account_info) (rt_stake_program rt))
       [stake_account_info] [stake_account_signer_seeds] w)"

text \<open>The seeds with which the pool signs as its withdraw or deposit authority.\<close>

definition authority_signature_seeds :: "pubkey \<Rightarrow> bytes \<Rightarrow> u8 \<Rightarrow> seeds" where
  "authority_signature_seeds stake_pool authority_type bump_seed =
     [ser_pubkey stake_pool, authority_type, [bump_seed]]"

definition stake_delegate ::
    "runtime \<Rightarrow> account_info \<Rightarrow> account_info \<Rightarrow> account_info \<Rightarrow> account_info \<Rightarrow> account_info \<Rightarrow> account_info \<Rightarrow>
      pubkey \<Rightarrow> bytes \<Rightarrow> u8 \<Rightarrow> world \<Rightarrow> program_error + world" where
  "stake_delegate rt stake_info vote_account_info clock_info stake_history_info stake_config_info
       authority_info stake_pool authority_type bump_seed w =
     invoke_signed rt
       (StakeDelegate (ai_key stake_info) (ai_key authority_info) (ai_key vote_account_info))
       [stake_info, vote_account_info, clock_info, stake_history_info, stake_config_info, authority_info]
       [authority_signature_seeds stake_pool authority_type bump_seed] w"

definition stake_deactivate ::
    "runtime \<Rightarrow> account_info \<Rightarrow> account_info \<Rightarrow> account_info \<Rightarrow> pubkey \<Rightarrow> bytes \<Rightarrow> u8 \<Rightarrow> world \<Rightarrow>
      program_error + world" where
  "stake_deactivate rt stake_info clock_info authority_info stake_pool authority_type bump_seed w =
     invoke_signed rt (StakeDeactivate (ai_key stake_info) (ai_key authority_info))
       [stake_info, clock_info, authority_info]
       [authority_signature_seeds stake_pool authority_type bump_seed] w"

definition stake_split ::
    "runtime \<Rightarrow> pubkey \<Rightarrow> account_info \<Rightarrow> account_info \<Rightarrow> bytes \<Rightarrow> u8 \<Rightarrow> u64 \<Rightarrow> account_info \<Rightarrow> world \<Rightarrow>
      program_error + world" where
  "stake_split rt stake_pool stake_account authority authority_type bump_seed amount split_stake w =
     invoke_signed rt
       (StakeSplit (ai_key stake_account) (ai_key authority) amount (ai_key split_stake))
       [stake_account, split_stake, authority]
       [authority_signature_seeds stake_pool authority_type bump_seed] w"

definition stake_merge ::
    "runtime \<Rightarrow> pubkey \<Rightarrow> account_info \<Rightarrow> account_info \<Rightarrow> bytes \<Rightarrow> u8 \<Rightarrow> account_info \<Rightarrow> account_info \<Rightarrow>
      account_info \<Rightarrow> world \<Rightarrow> program_error + world" where
  "stake_merge rt stake_pool source_account authority authority_type bump_seed destination_account
       clock stake_history w =
     invoke_signed rt
       (StakeMerge (ai_key destination_account) (ai_key source_account) (ai_key authority))
       [destination_account, source_account, clock, stake_history, authority]
       [authority_signature_seeds stake_pool authority_type bump_seed] w"

definition stake_authorize ::
    "runtime \<Rightarrow> account_info \<Rightarrow> account_info \<Rightarrow> pubkey \<Rightarrow> account_info \<Rightarrow> world \<Rightarrow> program_error + world" where
  "stake_authorize rt stake_account stake_authority new_stake_authority clock w =
     bindE (invoke rt
       (StakeAuthorize (ai_key stake_account) (ai_key stake_authority) new_stake_authority Staker None)
       [stake_account, clock, stake_authority] w) (\<lambda>w.
     invoke rt
       (StakeAuthorize (ai_key stake_account) (ai_key stake_authority) new_stake_authority Withdrawer None)
       [stake_account, clock, stake_authority] w)"

definition stake_authorize_signed ::
    "runtime \<Rightarrow> pubkey \<Rightarrow> account_info \<Rightarrow> account_info \<Rightarrow> bytes \<Rightarrow> u8 \<Rightarrow> pubkey \<Rightarrow> account_info \<Rightarrow> world \<Rightarrow>
      program_error + world" where
  "stake_authorize_signed rt stake_pool stake_account stake_authority authority_type bump_seed
       new_stake_authority clock w =
     bindE (invoke_signed rt
       (StakeAuthorize (ai_key stake_account) (ai_key stake_authority) new_stake_authority Staker None)
       [stake_account, clock, stake_authority]
       [authority_signature_seeds stake_pool authority_type bump_seed] w) (\<lambda>w.
     invoke_signed rt
       (StakeAuthorize (ai_key stake_account) (ai_key stake_authority) new_stake_authority Withdrawer None)
       [stake_account, clock, stake_authority]
       [authority_signature_seeds stake_pool authority_type bump_seed] w)"

definition stake_withdraw ::
    "runtime \<Rightarrow> pubkey \<Rightarrow> account_info \<Rightarrow> account_info \<Rightarrow> bytes \<Rightarrow> u8 \<Rightarrow> account_info \<Rightarrow> account_info \<Rightarrow>
      account_info \<Rightarrow> u64 \<Rightarrow> world \<Rightarrow> program_error + world" where
  "stake_withdraw rt stake_pool source_account authority authority_type bump_seed destination_account
       clock stake_history lamports w =
     invoke_signed rt
       (StakeWithdraw (ai_key source_account) (ai_key authority) (ai_key destination_account) lamports None)
       [source_account, destination_account, clock, stake_history, authority]
       [authority_signature_seeds stake_pool authority_type bump_seed] w"

definition token_burn ::
    "runtime \<Rightarrow> account_info \<Rightarrow> account_info \<Rightarrow> account_info \<Rightarrow> account_info \<Rightarrow> u64 \<Rightarrow> world \<Rightarrow>
      program_error + world" where
  "token_burn rt token_program burn_account mint authority amount w =
     (let ix = TokenBurn (ai_key token_program) (ai_key burn_account) (ai_key mint) (ai_key authority) amount in
      bindE (rt_build_token_instruction rt ix) (\<lambda>_.
      invoke rt ix [burn_account, mint, authority] w))"

definition token_mint_to ::
    "runtime \<Rightarrow> pubkey \<Rightarrow> account_info \<Rightarrow> account_info \<Rightarrow> account_info \<Rightarrow> account_info \<Rightarrow> bytes \<Rightarrow> u8 \<Rightarrow> u64 \<Rightarrow>
      world \<Rightarrow> program_error + world" where
  "token_mint_to rt stake_pool token_program mint destination authority authority_type bump_seed amount w =
     (let ix = TokenMintTo (ai_key token_program) (ai_key mint) (ai_key destination) (ai_key authority) amount in
      bindE (rt_build_token_instruction rt ix) (\<lambda>_.
      invoke_signed rt ix [mint, destination, authority]
        [authority_signature_seeds stake_pool authority_type bump_seed] w))"

definition token_transfer ::
    "runtime \<Rightarrow> account_info \<Rightarrow> account_info \<Rightarrow> account_info \<Rightarrow> account_info \<Rightarrow> account_info \<Rightarrow> u64 \<Rightarrow> u8 \<Rightarrow>
      world \<Rightarrow> program_error + world" where
  "token_transfer rt token_program source mint destination authority amount decimals w =
     (let ix = TokenTransferChecked (ai_key token_program) (ai_key source) (ai_key mint)
                 (ai_key destination) (ai_key authority) amount decimals in
      bindE (rt_build_token_instruction rt ix) (\<lambda>_.
      invoke rt ix [source, mint, destination, authority] w))"

definition sol_transfer :: "runtime \<Rightarrow> account_info \<Rightarrow> account_info \<Rightarrow> u64 \<Rightarrow> world \<Rightarrow> program_error + world" where
  "sol_transfer rt source destination amount w =
     invoke rt (SystemTransfer (ai_key source) (ai_key destination) amount) [source, destination] w"

subsection \<open>Metadata instructions\<close>

definition ser_string :: "bytes \<Rightarrow> bytes" where
  "ser_string s = ser_vec ser_u8 s"

definition ser_u16 :: "u16 \<Rightarrow> bytes" where
  "ser_u16 = ser_word 2"

definition ser_data_v2 :: "data_v2 \<Rightarrow> bytes" where
  "ser_data_v2 d =
     ser_string (md_name d) @ ser_string (md_symbol d) @ ser_string (md_uri d) @
     ser_u16 (md_seller_fee_basis_points d) @ ser_option ser_u8 (md_creators d) @
     ser_option ser_u8 (md_collection d) @ ser_option ser_u8 (md_uses d)"

definition new_data_v2 :: "bytes \<Rightarrow> bytes \<Rightarrow> bytes \<Rightarrow> data_v2" where
  "new_data_v2 name symbol uri =
     \<lparr>md_name = name, md_symbol = symbol, md_uri = uri, md_seller_fee_basis_points = 0,
      md_creators = None, md_collection = None, md_uses = None\<rparr>"

text \<open>An account of an instruction: key, signer, writable.\<close>

definition create_metadata_accounts_v3 ::
    "runtime \<Rightarrow> pubkey \<Rightarrow> pubkey \<Rightarrow> pubkey \<Rightarrow> pubkey \<Rightarrow> pubkey \<Rightarrow> pubkey \<Rightarrow> bytes \<Rightarrow> bytes \<Rightarrow> bytes \<Rightarrow> cpi" where
  "create_metadata_accounts_v3 rt program_id metadata_account mint mint_auth payer
       update_authority name symbol uri =
     RawInstruction program_id
       [(metadata_account, False, True), (mint, False, False), (mint_auth, True, False),
        (payer, True, True), (update_authority, True, False), (rt_system_program rt, False, False)]
       (33 # ser_data_v2 (new_data_v2 name symbol uri) @ ser_bool True @ ser_option ser_u8 None)"

definition update_metadata_accounts_v2 ::
    "pubkey \<Rightarrow> pubkey \<Rightarrow> pubkey \<Rightarrow> pubkey option \<Rightarrow> data_v2 option \<Rightarrow> bool option \<Rightarrow> bool option \<Rightarrow> cpi" where
  "update_metadata_accounts_v2 program_id metadata_account update_authority new_update_authority
       metadata primary_sale_happened is_mutable =
     RawInstruction program_id
       [(metadata_account, False, True), (update_authority, True, False)]
       (15 # ser_option ser_data_v2 metadata @ ser_option ser_pubkey new_update_authority @
        ser_option ser_bool primary_sale_happened @ ser_option ser_bool is_mutable)"

subsection \<open>Inversion of the checks\<close>

lemma check_manager_Inr [ok_iff]:
  "check_manager sp info = Inr x \<longleftrightarrow> ai_key info = sp_manager sp \<and> ai_is_signer info"
  by (simp add: check_manager_def)

lemma check_staker_Inr [ok_iff]:
  "check_staker sp info = Inr x \<longleftrightarrow> ai_key info = sp_staker sp \<and> ai_is_signer info"
  by (simp add: check_staker_def)

lemma check_account_owner_Inr [ok_iff]:
  "check_account_owner w info pid = Inr x \<longleftrightarrow> owner_of w info = pid"
  by (auto simp: check_account_owner_def)

lemma check_list_reserve_Inr [ok_iff]:
  "check_validator_list sp info = Inr x \<longleftrightarrow> ai_key info = sp_validator_list sp"
  "check_reserve_stake sp info = Inr x \<longleftrightarrow> ai_key info = sp_reserve_stake sp"
  by (simp_all add: check_validator_list_def check_reserve_stake_def)

lemma check_programs_Inr [ok_iff]:
  "check_system_program rt p = Inr x \<longleftrightarrow> p = rt_system_program rt"
  "check_stake_program rt p = Inr x \<longleftrightarrow> p = rt_stake_program rt"
  "check_mpl_metadata_program rt p = Inr x \<longleftrightarrow> p = rt_metadata_program rt"
  by (simp_all add: check_system_program_def check_stake_program_def check_mpl_metadata_program_def)

lemma check_sol_deposit_authority_Inr [ok_iff]:
  "check_sol_deposit_authority sp m = Inr x \<longleftrightarrow>
     (\<forall>auth. sp_sol_deposit_authority sp = Some auth \<longrightarrow>
        (\<exists>info. m = Inr info \<and> ai_key info = auth \<and> ai_is_signer info))"
  by (auto simp: check_sol_deposit_authority_def ok_iff split: option.splits)

lemma check_sol_withdraw_authority_Inr [ok_iff]:
  "check_sol_withdraw_authority sp m = Inr x \<longleftrightarrow>
     (\<forall>auth. sp_sol_withdraw_authority sp = Some auth \<longrightarrow>
        (\<exists>info. m = Inr info \<and> ai_key info = auth \<and> ai_is_signer info))"
  by (auto simp: check_sol_withdraw_authority_def ok_iff split: option.splits)

lemma get_stake_state_Inr [ok_iff]:
  "get_stake_state rt w info = Inr (meta, stake) \<longleftrightarrow>
     rt_stake_state rt (data_of w info) = Some (SS_Stake meta stake)"
  by (cases "rt_stake_state rt (data_of w info)")
    (auto simp: get_stake_state_def read_stake_state_def split: stake_state.splits)

lemma check_mint_Inr [ok_iff]:
  "check_mint rt sp w info = Inr d \<longleftrightarrow> ai_key info = sp_pool_mint sp \<and>
     (\<exists>mint. rt_unpack_mint rt (data_of w info) = Inr mint \<and> mint_decimals mint = d)"
  by (auto simp: check_mint_def ok_iff)

lemma check_stake_deposit_authority_Inr [ok_iff]:
  "check_stake_deposit_authority sp k = Inr x \<longleftrightarrow> sp_stake_deposit_authority sp = k"
  by (simp add: check_stake_deposit_authority_def)

subsection \<open>Frames\<close>

text \<open>
  What a client relies on of the calls: a relation between the worlds before and after that every call
  outside minting and burning keeps. The lemmas of the locale lift it from one call to the
  wrappers and, in the theories that follow, to the stages of the handlers.
\<close>

fun changes_supply :: "cpi \<Rightarrow> bool" where
  "changes_supply (TokenBurn _ _ _ _ _) = True"
| "changes_supply (TokenMintTo _ _ _ _ _) = True"
| "changes_supply _ = False"

locale call_frame =
  fixes rt :: runtime and keeps :: "world \<Rightarrow> world \<Rightarrow> bool"
  assumes keeps_refl: "keeps w w"
    and keeps_trans: "keeps w w1 \<Longrightarrow> keeps w1 w2 \<Longrightarrow> keeps w w2"
    and keeps_call: "rt_invoke rt ix infos s w = Inr w' \<Longrightarrow> \<not> changes_supply ix \<Longrightarrow> keeps w w'"
begin

lemma keeps_if_call:
  "(b \<Longrightarrow> m = Inr w' \<Longrightarrow> keeps w w') \<Longrightarrow> (if b then m else Inr w) = Inr w' \<Longrightarrow> keeps w w'"
  using keeps_refl by (auto split: if_splits)

lemma single_call:
  "stake_delegate rt a b c d e f k t u w = Inr w' \<Longrightarrow> keeps w w'"
  "stake_deactivate rt a b c k t u w = Inr w' \<Longrightarrow> keeps w w'"
  "stake_split rt k a b t u amt c w = Inr w' \<Longrightarrow> keeps w w'"
  "stake_merge rt k a b t u c d e w = Inr w' \<Longrightarrow> keeps w w'"
  "stake_withdraw rt k a b t u c d e amt w = Inr w' \<Longrightarrow> keeps w w'"
  "sol_transfer rt a b amt w = Inr w' \<Longrightarrow> keeps w w'"
  "token_transfer rt a b c d e amt dec w = Inr w' \<Longrightarrow> keeps w w'"
  by (auto simp: stake_delegate_def stake_deactivate_def stake_split_def stake_merge_def Let_def ok_iff
      stake_withdraw_def sol_transfer_def token_transfer_def invoke_def invoke_signed_def intro: keeps_call)

lemma keeps_two:
  assumes "rt_invoke rt ix infos s w = Inr w1" "rt_invoke rt ix' infos' s' w1 = Inr w2"
    and "\<not> changes_supply ix" "\<not> changes_supply ix'"
  shows "keeps w w2"
  using keeps_trans [OF keeps_call [OF assms(1,3)] keeps_call [OF assms(2,4)]] .

lemma double_call:
  "create_stake_account rt a s n w = Inr w' \<Longrightarrow> keeps w w'"
  "stake_authorize rt a b k c w = Inr w' \<Longrightarrow> keeps w w'"
  "stake_authorize_signed rt p a b t u k c w = Inr w' \<Longrightarrow> keeps w w'"
  by (auto simp: create_stake_account_def stake_authorize_def stake_authorize_signed_def invoke_def
      invoke_signed_def bindE_eq_Inr elim!: keeps_two)

lemmas call_keeps = single_call double_call

end

text \<open>The accounts of the program are kept by every call, when calls respect ownership.\<close>

interpretation owner_frame: call_frame rt "\<lambda>w w'. respects_owner rt pid \<longrightarrow> same_program_data pid w w'" for rt pid
  by unfold_locales
    (auto simp: respects_owner_def same_program_data_def)

lemma supply_call_frame [frame]:
  assumes "respects_owner rt pid"
  shows "token_burn rt a b c d amt w = Inr w' \<Longrightarrow> same_program_data pid w w'"
    and "token_mint_to rt k a b c d t u amt w = Inr w' \<Longrightarrow> same_program_data pid w w'"
  using assms by (auto simp: token_burn_def token_mint_to_def Let_def ok_iff intro: frame)

lemmas own_call_frame [frame] = owner_frame.call_keeps [THEN mp, rotated]

end
