(* ===== verification/Processor_Admin.thy ===== *)
theory Processor_Admin
  imports Checks
begin

section \<open>Creating and administering a pool\<close>

text \<open>
  The handlers of \<open>src/program/src/processor.rs\<close> that create a pool, change its manager,
  staker, fees, limits and authorities, and write the metadata of its token. A handler
  takes the runtime, the program id, the accounts of the instruction, its arguments and
  the world, and returns an error or the new world; \<open>bindE\<close> is the question mark operator and
  \<open>if c then Inl e else\<close> an early return.

  The locale \<open>pool_setter\<close> is the contract of the handlers that change settings: who must
  have signed, what may change in the record, and that nothing else on chain changes.
  Every setter of the program is an interpretation of it.
\<close>

subsection \<open>Initialize\<close>

text \<open>The three statements most handlers start with: owner, decoding, account type.\<close>

definition load_stake_pool :: "pubkey \<Rightarrow> world \<Rightarrow> account_info \<Rightarrow> program_error + stake_pool" where
  "load_stake_pool program_id w stake_pool_info =
     bindE (check_account_owner w stake_pool_info program_id) (\<lambda>_.
     bindE (read_stake_pool w stake_pool_info) (\<lambda>stake_pool.
     if \<not> is_valid stake_pool then Inl (pool_err InvalidState) else Inr stake_pool))"

definition initialize_list ::
    "pubkey \<Rightarrow> world \<Rightarrow> account_info \<Rightarrow> u32 \<Rightarrow> program_error + validator_list" where
  "initialize_list program_id w validator_list_info max_validators =
     bindE (check_account_owner w validator_list_info program_id) (\<lambda>_.
     bindE (read_validator_list w validator_list_info) (\<lambda>validator_list.
     if \<not> header_is_uninitialized (vl_header validator_list) then Inl (pool_err AlreadyInUse)
     else
       let data_length = length (data_of w validator_list_info);
           expected_max_validators = calculate_max_validators data_length in
       if expected_max_validators \<noteq> unat max_validators \<or> max_validators = 0
       then Inl (pool_err UnexpectedValidatorListAccountSize)
       else if max_validators > MAX_VALIDATORS_IN_POOL then Inl (pool_err TooManyValidatorsInPool)
       else Inr \<lparr>vl_header = \<lparr>vl_account_type = ValidatorList, vl_max_validators = max_validators\<rparr>,
                 vl_validators = []\<rparr>))"

definition initialize_mint_check ::
    "runtime \<Rightarrow> world \<Rightarrow> account_info \<Rightarrow> pubkey \<Rightarrow> program_error + unit" where
  "initialize_mint_check rt w pool_mint_info withdraw_authority_key =
     bindE (rt_unpack_mint rt (data_of w pool_mint_info)) (\<lambda>pool_mint.
     if mint_supply pool_mint \<noteq> 0 then Inl (pool_err NonZeroPoolTokenSupply)
     else if mint_decimals pool_mint \<noteq> rt_native_mint_decimals rt then Inl (pool_err IncorrectMintDecimals)
     else if mint_authority pool_mint \<noteq> Some withdraw_authority_key then Inl (pool_err WrongMintingAuthority)
     else if freeze_authority pool_mint \<noteq> None then Inl (pool_err InvalidMintFreezeAuthority)
     else
       bindE (mint_extensions pool_mint) (\<lambda>extensions.
       if list_ex (\<lambda>x. \<not> is_extension_supported_for_mint x) extensions
       then Inl (pool_err UnsupportedMintExtension)
       else Inr ()))"

text \<open>The lamports of the reserve above its minimum, which become the first pool tokens.\<close>

definition initialize_reserve ::
    "runtime \<Rightarrow> world \<Rightarrow> account_info \<Rightarrow> pubkey \<Rightarrow> program_error + u64" where
  "initialize_reserve rt w reserve_stake_info withdraw_authority_key =
     (if owner_of w reserve_stake_info \<noteq> rt_stake_program rt then Inl IncorrectProgramId
      else
        bindE (read_stake_state rt w reserve_stake_info) (\<lambda>stake_state.
        case stake_state of
          SS_Initialized meta \<Rightarrow>
            if meta_lockup meta \<noteq> lockup_default then Inl (pool_err WrongStakeStake)
            else if auth_staker meta \<noteq> withdraw_authority_key then Inl (pool_err WrongStakeStake)
            else if auth_withdrawer meta \<noteq> withdraw_authority_key then Inl (pool_err WrongStakeStake)
            else ok_or (checked_sub (lamports_of w reserve_stake_info) (minimum_reserve_lamports meta))
                   (pool_err CalculationFailure)
        | _ \<Rightarrow> Inl (pool_err WrongStakeStake)))"

definition initialize_authorities ::
    "runtime \<Rightarrow> pubkey \<Rightarrow> pubkey \<Rightarrow> account_info list \<Rightarrow> pubkey \<times> pubkey option" where
  "initialize_authorities rt program_id stake_pool_key it =
     (case next_account_info it of
        Inr (deposit_authority_info, _) \<Rightarrow>
          (ai_key deposit_authority_info, Some (ai_key deposit_authority_info))
      | Inl _ \<Rightarrow> (fst (find_deposit_authority_program_address rt program_id stake_pool_key), None))"

text \<open>The assignments to the record at the end of the handler.\<close>

definition initialized_pool ::
    "stake_pool \<Rightarrow> pubkey \<Rightarrow> pubkey \<Rightarrow> pubkey \<Rightarrow> u8 \<Rightarrow> pubkey \<Rightarrow> pubkey \<Rightarrow> pubkey \<Rightarrow> pubkey option \<Rightarrow>
      u64 \<Rightarrow> u64 \<Rightarrow> fee \<Rightarrow> fee \<Rightarrow> fee \<Rightarrow> u8 \<Rightarrow> stake_pool" where
  "initialized_pool stake_pool manager staker stake_deposit_authority stake_withdraw_bump_seed
       validator_list reserve_stake manager_fee_account sol_deposit_authority
       total_lamports epoch epoch_fee withdrawal_fee deposit_fee referral_fee =
     stake_pool
       \<lparr>sp_version := 1, sp_account_type := StakePool, sp_manager := manager, sp_staker := staker,
        sp_stake_deposit_authority := stake_deposit_authority,
        sp_stake_withdraw_bump_seed := stake_withdraw_bump_seed,
        sp_validator_list := validator_list, sp_reserve_stake := reserve_stake,
        sp_manager_fee_account := manager_fee_account,
        sp_total_lamports := total_lamports, sp_pool_token_supply := total_lamports,
        sp_last_update_epoch := epoch, sp_lockup := lockup_default,
        sp_epoch_fee := epoch_fee, sp_next_epoch_fee := FE_None,
        sp_preferred_deposit_validator_vote_address := None,
        sp_preferred_withdraw_validator_vote_address := None,
        sp_stake_deposit_fee := deposit_fee, sp_stake_withdrawal_fee := withdrawal_fee,
        sp_next_stake_withdrawal_fee := FE_None, sp_stake_referral_fee := referral_fee,
        sp_sol_deposit_authority := sol_deposit_authority, sp_sol_deposit_fee := deposit_fee,
        sp_sol_referral_fee := referral_fee, sp_sol_withdraw_authority := None,
        sp_sol_withdrawal_fee := withdrawal_fee, sp_next_sol_withdrawal_fee := FE_None,
        sp_last_epoch_pool_token_supply := 0, sp_last_epoch_total_lamports := 0,
        sp_reserved := 0\<rparr>"

definition process_initialize ::
    "runtime \<Rightarrow> pubkey \<Rightarrow> account_info list \<Rightarrow> fee \<Rightarrow> fee \<Rightarrow> fee \<Rightarrow> u8 \<Rightarrow> u32 \<Rightarrow> world \<Rightarrow> program_error + world" where
  "process_initialize rt program_id accounts epoch_fee withdrawal_fee deposit_fee referral_fee max_validators w =
     bindE (next_account_info accounts) (\<lambda>(stake_pool_info, it).
     bindE (next_account_info it) (\<lambda>(manager_info, it).
     bindE (next_account_info it) (\<lambda>(staker_info, it).
     bindE (next_account_info it) (\<lambda>(withdraw_authority_info, it).
     bindE (next_account_info it) (\<lambda>(validator_list_info, it).
     bindE (next_account_info it) (\<lambda>(reserve_stake_info, it).
     bindE (next_account_info it) (\<lambda>(pool_mint_info, it).
     bindE (next_account_info it) (\<lambda>(manager_fee_info, it).
     bindE (next_account_info it) (\<lambda>(token_program_info, it).
     bindE (rt_rent_get rt) (\<lambda>rent.
     if \<not> ai_is_signer manager_info then Inl (pool_err SignatureMissing)
     else if ai_key stake_pool_info = ai_key validator_list_info then Inl (pool_err AlreadyInUse)
     else
     bindE (check_account_owner w stake_pool_info program_id) (\<lambda>_.
     bindE (read_stake_pool w stake_pool_info) (\<lambda>stake_pool.
     if \<not> is_uninitialized stake_pool then Inl (pool_err AlreadyInUse)
     else
     bindE (initialize_list program_id w validator_list_info max_validators) (\<lambda>validator_list.
     if \<not> is_exempt rent (lamports_of w stake_pool_info) (length (data_of w stake_pool_info))
     then Inl AccountNotRentExempt
     else if \<not> is_exempt rent (lamports_of w validator_list_info) (length (data_of w validator_list_info))
     then Inl AccountNotRentExempt
     else if numerator epoch_fee > denominator epoch_fee
        \<or> numerator withdrawal_fee > denominator withdrawal_fee
        \<or> numerator deposit_fee > denominator deposit_fee
        \<or> referral_fee > 100
     then Inl (pool_err FeeTooHigh)
     else
     bindE (rt_check_spl_token_program_account rt (ai_key token_program_info)) (\<lambda>_.
     if owner_of w pool_mint_info \<noteq> ai_key token_program_info then Inl IncorrectProgramId
     else
     let stake_pool = stake_pool\<lparr>sp_token_program_id := ai_key token_program_info,
                                 sp_pool_mint := ai_key pool_mint_info\<rparr>;
         (stake_deposit_authority, sol_deposit_authority) =
           initialize_authorities rt program_id (ai_key stake_pool_info) it;
         (withdraw_authority_key, stake_withdraw_bump_seed) =
           find_withdraw_authority_program_address rt program_id (ai_key stake_pool_info) in
     if withdraw_authority_key \<noteq> ai_key withdraw_authority_info then Inl (pool_err InvalidProgramAddress)
     else
     bindE (initialize_mint_check rt w pool_mint_info withdraw_authority_key) (\<lambda>_.
     bindE (check_manager_fee_info rt stake_pool w manager_fee_info) (\<lambda>_.
     bindE (initialize_reserve rt w reserve_stake_info withdraw_authority_key) (\<lambda>total_lamports.
     bindE (if total_lamports > 0 then
              token_mint_to rt (ai_key stake_pool_info) token_program_info pool_mint_info manager_fee_info
                withdraw_authority_info AUTHORITY_WITHDRAW stake_withdraw_bump_seed total_lamports w
            else Inr w) (\<lambda>w.
     bindE (write_validator_list w validator_list_info validator_list) (\<lambda>w.
     bindE (rt_clock_get rt) (\<lambda>epoch.
     write_stake_pool w stake_pool_info
       (initialized_pool stake_pool (ai_key manager_info) (ai_key staker_info) stake_deposit_authority
          stake_withdraw_bump_seed (ai_key validator_list_info) (ai_key reserve_stake_info)
          (ai_key manager_fee_info) sol_deposit_authority total_lamports epoch epoch_fee
          withdrawal_fee deposit_fee referral_fee)))))))))))))))))))))"

subsection \<open>Settings\<close>

definition process_set_manager ::
    "runtime \<Rightarrow> pubkey \<Rightarrow> account_info list \<Rightarrow> world \<Rightarrow> program_error + world" where
  "process_set_manager rt program_id accounts w =
     bindE (next_account_info accounts) (\<lambda>(stake_pool_info, it).
     bindE (next_account_info it) (\<lambda>(manager_info, it).
     bindE (next_account_info it) (\<lambda>(new_manager_info, it).
     bindE (next_account_info it) (\<lambda>(new_manager_fee_info, it).
     bindE (check_account_owner w stake_pool_info program_id) (\<lambda>_.
     bindE (read_stake_pool w stake_pool_info) (\<lambda>stake_pool.
     bindE (check_account_owner w new_manager_fee_info (sp_token_program_id stake_pool)) (\<lambda>_.
     if \<not> is_valid stake_pool then Inl (pool_err InvalidState)
     else
     bindE (check_manager stake_pool manager_info) (\<lambda>_.
     if \<not> ai_is_signer new_manager_info then Inl (pool_err SignatureMissing)
     else
     bindE (check_manager_fee_info rt stake_pool w new_manager_fee_info) (\<lambda>_.
     write_stake_pool w stake_pool_info
       (stake_pool\<lparr>sp_manager := ai_key new_manager_info,
                   sp_manager_fee_account := ai_key new_manager_fee_info\<rparr>))))))))))"

definition process_set_fee ::
    "runtime \<Rightarrow> pubkey \<Rightarrow> account_info list \<Rightarrow> fee_type \<Rightarrow> world \<Rightarrow> program_error + world" where
  "process_set_fee rt program_id accounts ft w =
     bindE (next_account_info accounts) (\<lambda>(stake_pool_info, it).
     bindE (next_account_info it) (\<lambda>(manager_info, it).
     bindE (rt_clock_get rt) (\<lambda>clock_epoch.
     bindE (load_stake_pool program_id w stake_pool_info) (\<lambda>stake_pool.
     bindE (check_manager stake_pool manager_info) (\<lambda>_.
     if can_only_change_next_epoch ft \<and> sp_last_update_epoch stake_pool < clock_epoch
     then Inl (pool_err StakeListAndPoolOutOfDate)
     else
     bindE (into_err (check_too_high ft)) (\<lambda>_.
     bindE (into_err (update_fee stake_pool ft)) (\<lambda>stake_pool.
     write_stake_pool w stake_pool_info stake_pool)))))))"

definition process_set_max_validator_stake ::
    "runtime \<Rightarrow> pubkey \<Rightarrow> account_info list \<Rightarrow> u64 option \<Rightarrow> world \<Rightarrow> program_error + world" where
  "process_set_max_validator_stake rt program_id accounts max_stake w =
     bindE (next_account_info accounts) (\<lambda>(stake_pool_info, it).
     bindE (next_account_info it) (\<lambda>(manager_info, it).
     bindE (load_stake_pool program_id w stake_pool_info) (\<lambda>stake_pool.
     bindE (check_manager stake_pool manager_info) (\<lambda>_.
     write_stake_pool w stake_pool_info (stake_pool\<lparr>sp_max_validator_stake := max_stake\<rparr>)))))"

definition process_set_staker ::
    "runtime \<Rightarrow> pubkey \<Rightarrow> account_info list \<Rightarrow> world \<Rightarrow> program_error + world" where
  "process_set_staker rt program_id accounts w =
     bindE (next_account_info accounts) (\<lambda>(stake_pool_info, it).
     bindE (next_account_info it) (\<lambda>(set_staker_authority_info, it).
     bindE (next_account_info it) (\<lambda>(new_staker_info, it).
     bindE (load_stake_pool program_id w stake_pool_info) (\<lambda>stake_pool.
     let staker_signed = check_staker stake_pool set_staker_authority_info;
         manager_signed = check_manager stake_pool set_staker_authority_info in
     if \<not> is_ok staker_signed \<and> \<not> is_ok manager_signed then Inl (pool_err SignatureMissing)
     else write_stake_pool w stake_pool_info (stake_pool\<lparr>sp_staker := ai_key new_staker_info\<rparr>)))))"

datatype funding_type = FundingStakeDeposit | FundingSolDeposit | FundingSolWithdraw

definition set_funding ::
    "runtime \<Rightarrow> pubkey \<Rightarrow> pubkey \<Rightarrow> funding_type \<Rightarrow> pubkey option \<Rightarrow> stake_pool \<Rightarrow> stake_pool" where
  "set_funding rt program_id stake_pool_key ft new_authority stake_pool =
     (case ft of
        FundingStakeDeposit \<Rightarrow>
          stake_pool\<lparr>sp_stake_deposit_authority :=
            (case new_authority of
               Some k \<Rightarrow> k
             | None \<Rightarrow> fst (find_deposit_authority_program_address rt program_id stake_pool_key))\<rparr>
      | FundingSolDeposit \<Rightarrow> stake_pool\<lparr>sp_sol_deposit_authority := new_authority\<rparr>
      | FundingSolWithdraw \<Rightarrow> stake_pool\<lparr>sp_sol_withdraw_authority := new_authority\<rparr>)"

definition process_set_funding_authority ::
    "runtime \<Rightarrow> pubkey \<Rightarrow> account_info list \<Rightarrow> funding_type \<Rightarrow> world \<Rightarrow> program_error + world" where
  "process_set_funding_authority rt program_id accounts ft w =
     bindE (next_account_info accounts) (\<lambda>(stake_pool_info, it).
     bindE (next_account_info it) (\<lambda>(manager_info, it).
     let new_authority = (case next_account_info it of
           Inr (new_authority_account_info, _) \<Rightarrow> Some (ai_key new_authority_account_info)
         | Inl _ \<Rightarrow> None) in
     bindE (load_stake_pool program_id w stake_pool_info) (\<lambda>stake_pool.
     bindE (check_manager stake_pool manager_info) (\<lambda>_.
     write_stake_pool w stake_pool_info
       (set_funding rt program_id (ai_key stake_pool_info) ft new_authority stake_pool)))))"

subsection \<open>Token metadata\<close>

definition process_create_pool_token_metadata ::
    "runtime \<Rightarrow> pubkey \<Rightarrow> account_info list \<Rightarrow> bytes \<Rightarrow> bytes \<Rightarrow> bytes \<Rightarrow> world \<Rightarrow> program_error + world" where
  "process_create_pool_token_metadata rt program_id accounts name symbol uri w =
     bindE (next_account_info accounts) (\<lambda>(stake_pool_info, it).
     bindE (next_account_info it) (\<lambda>(manager_info, it).
     bindE (next_account_info it) (\<lambda>(withdraw_authority_info, it).
     bindE (next_account_info it) (\<lambda>(pool_mint_info, it).
     bindE (next_account_info it) (\<lambda>(payer_info, it).
     bindE (next_account_info it) (\<lambda>(metadata_info, it).
     bindE (next_account_info it) (\<lambda>(mpl_token_metadata_program_info, it).
     bindE (next_account_info it) (\<lambda>(system_program_info, it).
     if \<not> ai_is_signer payer_info then Inl (pool_err SignatureMissing)
     else
     bindE (check_system_program rt (ai_key system_program_info)) (\<lambda>_.
     bindE (check_account_owner w payer_info (rt_system_program rt)) (\<lambda>_.
     bindE (check_account_owner w stake_pool_info program_id) (\<lambda>_.
     bindE (check_mpl_metadata_program rt (ai_key mpl_token_metadata_program_info)) (\<lambda>_.
     bindE (read_stake_pool w stake_pool_info) (\<lambda>stake_pool.
     if \<not> is_valid stake_pool then Inl (pool_err InvalidState)
     else
     bindE (check_manager stake_pool manager_info) (\<lambda>_.
     bindE (check_authority_withdraw rt stake_pool (ai_key withdraw_authority_info) program_id
              (ai_key stake_pool_info)) (\<lambda>_.
     bindE (check_mint rt stake_pool w pool_mint_info) (\<lambda>_.
     bindE (check_mpl_metadata_account_address rt (ai_key metadata_info) (sp_pool_mint stake_pool)) (\<lambda>_.
     let new_metadata_instruction =
           create_metadata_accounts_v3 rt (ai_key mpl_token_metadata_program_info) (ai_key metadata_info)
             (ai_key pool_mint_info) (ai_key withdraw_authority_info) (ai_key payer_info)
             (ai_key withdraw_authority_info) name symbol uri;
         stake_withdraw_bump_seed =
           snd (find_withdraw_authority_program_address rt program_id (ai_key stake_pool_info)) in
     invoke_signed rt new_metadata_instruction
       [metadata_info, pool_mint_info, withdraw_authority_info, payer_info, withdraw_authority_info,
        system_program_info]
       [authority_signature_seeds (ai_key stake_pool_info) AUTHORITY_WITHDRAW stake_withdraw_bump_seed]
       w)))))))))))))))))"

definition process_update_pool_token_metadata ::
    "runtime \<Rightarrow> pubkey \<Rightarrow> account_info list \<Rightarrow> bytes \<Rightarrow> bytes \<Rightarrow> bytes \<Rightarrow> world \<Rightarrow> program_error + world" where
  "process_update_pool_token_metadata rt program_id accounts name symbol uri w =
     bindE (next_account_info accounts) (\<lambda>(stake_pool_info, it).
     bindE (next_account_info it) (\<lambda>(manager_info, it).
     bindE (next_account_info it) (\<lambda>(withdraw_authority_info, it).
     bindE (next_account_info it) (\<lambda>(metadata_info, it).
     bindE (next_account_info it) (\<lambda>(mpl_token_metadata_program_info, it).
     bindE (check_account_owner w stake_pool_info program_id) (\<lambda>_.
     bindE (check_mpl_metadata_program rt (ai_key mpl_token_metadata_program_info)) (\<lambda>_.
     bindE (read_stake_pool w stake_pool_info) (\<lambda>stake_pool.
     if \<not> is_valid stake_pool then Inl (pool_err InvalidState)
     else
     bindE (check_manager stake_pool manager_info) (\<lambda>_.
     bindE (check_authority_withdraw rt stake_pool (ai_key withdraw_authority_info) program_id
              (ai_key stake_pool_info)) (\<lambda>_.
     bindE (check_mpl_metadata_account_address rt (ai_key metadata_info) (sp_pool_mint stake_pool)) (\<lambda>_.
     let update_metadata_accounts_instruction =
           update_metadata_accounts_v2 (ai_key mpl_token_metadata_program_info) (ai_key metadata_info)
             (ai_key withdraw_authority_info) None (Some (new_data_v2 name symbol uri)) None (Some True);
         stake_withdraw_bump_seed =
           snd (find_withdraw_authority_program_address rt program_id (ai_key stake_pool_info)) in
     invoke_signed rt update_metadata_accounts_instruction
       [metadata_info, withdraw_authority_info]
       [authority_signature_seeds (ai_key stake_pool_info) AUTHORITY_WITHDRAW stake_withdraw_bump_seed]
       w)))))))))))"

subsection \<open>The contract of the setters\<close>

text \<open>
  What no setting touches: the books of the pool (total lamports, supply, epoch of the last
  update and the snapshots) and its identity (type, list, reserve, mint, token program,
  withdraw authority).
\<close>

definition same_books :: "stake_pool \<Rightarrow> stake_pool \<Rightarrow> bool" where
  "same_books sp sp' \<longleftrightarrow>
     sp_account_type sp' = sp_account_type sp \<and> sp_validator_list sp' = sp_validator_list sp \<and>
     sp_reserve_stake sp' = sp_reserve_stake sp \<and> sp_pool_mint sp' = sp_pool_mint sp \<and>
     sp_token_program_id sp' = sp_token_program_id sp \<and>
     sp_stake_withdraw_bump_seed sp' = sp_stake_withdraw_bump_seed sp \<and>
     sp_total_lamports sp' = sp_total_lamports sp \<and>
     sp_pool_token_supply sp' = sp_pool_token_supply sp \<and>
     sp_last_update_epoch sp' = sp_last_update_epoch sp \<and>
     sp_last_epoch_pool_token_supply sp' = sp_last_epoch_pool_token_supply sp \<and>
     sp_last_epoch_total_lamports sp' = sp_last_epoch_total_lamports sp"

lemma same_books_refl [simp]: "same_books sp sp"
  by (simp add: same_books_def)

lemma load_stake_pool_Inr:
  "load_stake_pool pid w info = Inr sp \<longleftrightarrow>
     owner_of w info = pid \<and> read_stake_pool w info = Inr sp \<and> is_valid sp"
  by (auto simp: load_stake_pool_def ok_iff)

locale pool_setter =
  fixes run :: "runtime \<Rightarrow> pubkey \<Rightarrow> account_info list \<Rightarrow> world \<Rightarrow> program_error + world"
    and gate :: "stake_pool \<Rightarrow> pubkey \<Rightarrow> bool"
    and change :: "stake_pool \<Rightarrow> stake_pool \<Rightarrow> bool"
  assumes run_ok: "run rt pid accounts w = Inr w' \<Longrightarrow>
      \<exists>pool_info auth rest sp sp'. accounts = pool_info # auth # rest \<and>
        load_stake_pool pid w pool_info = Inr sp \<and> gate sp (ai_key auth) \<and> ai_is_signer auth \<and>
        change sp sp' \<and> write_stake_pool w pool_info sp' = Inr w'"
    and change_books: "change sp sp' \<Longrightarrow> same_books sp sp'"
begin

lemma unsigned_fails:
  assumes "read_stake_pool w pool_info = Inr sp"
    and "\<not> (gate sp (ai_key auth) \<and> ai_is_signer auth)"
  shows "\<not> is_ok (run rt pid (pool_info # auth # rest) w)"
  using assms run_ok [of rt pid "pool_info # auth # rest" w] by (fastforce simp: is_ok_iff load_stake_pool_Inr)

lemma changes_only_pool:
  assumes "run rt pid (pool_info # auth # rest) w = Inr w'" and "k \<noteq> ai_key pool_info"
  shows "w' k = w k"
  using assms run_ok [OF assms(1)] write_stake_pool_frame by fastforce

lemma updates_pool:
  assumes "run rt pid (pool_info # auth # rest) w = Inr w'"
  shows "\<exists>sp sp'. read_stake_pool w pool_info = Inr sp \<and> read_stake_pool w' pool_info = Inr sp' \<and>
    change sp sp' \<and> is_valid sp' \<and> same_books sp sp' \<and> gate sp (ai_key auth) \<and> ai_is_signer auth"
proof -
  from run_ok [OF assms] obtain sp sp' where l: "load_stake_pool pid w pool_info = Inr sp"
    and g: "gate sp (ai_key auth)" "ai_is_signer auth" and c: "change sp sp'"
    and wr: "write_stake_pool w pool_info sp' = Inr w'" by auto
  have "is_valid sp'" using l change_books [OF c] by (auto simp: load_stake_pool_Inr same_books_def is_valid_def)
  then show ?thesis using l g c change_books [OF c] read_written_stake_pool [OF wr]
    by (fastforce simp: load_stake_pool_Inr)
qed

lemma keeps_books:
  assumes "run rt pid (pool_info # rest) w = Inr w'"
  shows "\<exists>sp sp'. read_stake_pool w pool_info = Inr sp \<and> read_stake_pool w' pool_info = Inr sp' \<and> same_books sp sp'"
proof -
  from run_ok [OF assms] obtain auth rest' where "rest = auth # rest'" by auto
  then show ?thesis using updates_pool assms by blast
qed

end

text \<open>The interpretations: each setter, with its signer and the fields it may change.\<close>

definition is_manager :: "stake_pool \<Rightarrow> pubkey \<Rightarrow> bool" where
  "is_manager sp k \<longleftrightarrow> k = sp_manager sp"

definition is_staker_or_manager :: "stake_pool \<Rightarrow> pubkey \<Rightarrow> bool" where
  "is_staker_or_manager sp k \<longleftrightarrow> k = sp_staker sp \<or> k = sp_manager sp"

lemma update_fee_books: "update_fee sp ft = Inr sp' \<Longrightarrow> same_books sp sp'"
  by (cases ft) (auto simp: same_books_def ok_iff)

lemma set_funding_books: "same_books sp (set_funding rt pid k ft a sp)"
  by (cases ft) (simp_all add: same_books_def set_funding_def)

interpretation set_manager: pool_setter process_set_manager is_manager
  "\<lambda>sp sp'. \<exists>m f. sp' = sp\<lparr>sp_manager := m, sp_manager_fee_account := f\<rparr>"
proof unfold_locales
  fix rt pid accounts w w'
  assume "process_set_manager rt pid accounts w = Inr w'"
  then show "\<exists>pool_info auth rest sp sp'. accounts = pool_info # auth # rest \<and>
      load_stake_pool pid w pool_info = Inr sp \<and> is_manager sp (ai_key auth) \<and> ai_is_signer auth \<and>
      (\<exists>m f. sp' = sp\<lparr>sp_manager := m, sp_manager_fee_account := f\<rparr>) \<and>
      write_stake_pool w pool_info sp' = Inr w'"
    by (simp add: process_set_manager_def ok_iff is_manager_def load_stake_pool_Inr) blast
qed (auto simp: same_books_def)

interpretation set_fee: pool_setter "\<lambda>rt pid accounts. process_set_fee rt pid accounts ft" is_manager
  "\<lambda>sp sp'. \<not> too_high ft \<and> update_fee sp ft = Inr sp'" for ft
proof unfold_locales
  fix rt pid accounts w w'
  assume "process_set_fee rt pid accounts ft w = Inr w'"
  then show "\<exists>pool_info auth rest sp sp'. accounts = pool_info # auth # rest \<and>
      load_stake_pool pid w pool_info = Inr sp \<and> is_manager sp (ai_key auth) \<and> ai_is_signer auth \<and>
      (\<not> too_high ft \<and> update_fee sp ft = Inr sp') \<and> write_stake_pool w pool_info sp' = Inr w'"
    by (simp add: process_set_fee_def ok_iff is_manager_def check_too_high_def) blast
qed (auto intro: update_fee_books)

interpretation set_max: pool_setter
  "\<lambda>rt pid accounts. process_set_max_validator_stake rt pid accounts m" is_manager
  "\<lambda>sp sp'. sp' = sp\<lparr>sp_max_validator_stake := m\<rparr>" for m
proof unfold_locales
  fix rt pid accounts w w'
  assume "process_set_max_validator_stake rt pid accounts m w = Inr w'"
  then show "\<exists>pool_info auth rest sp sp'. accounts = pool_info # auth # rest \<and>
      load_stake_pool pid w pool_info = Inr sp \<and> is_manager sp (ai_key auth) \<and> ai_is_signer auth \<and>
      sp' = sp\<lparr>sp_max_validator_stake := m\<rparr> \<and> write_stake_pool w pool_info sp' = Inr w'"
    by (simp add: process_set_max_validator_stake_def ok_iff is_manager_def) blast
qed (auto simp: same_books_def)

interpretation set_staker: pool_setter process_set_staker is_staker_or_manager
  "\<lambda>sp sp'. \<exists>k. sp' = sp\<lparr>sp_staker := k\<rparr>"
proof unfold_locales
  fix rt pid accounts w w'
  assume "process_set_staker rt pid accounts w = Inr w'"
  then show "\<exists>pool_info auth rest sp sp'. accounts = pool_info # auth # rest \<and>
      load_stake_pool pid w pool_info = Inr sp \<and> is_staker_or_manager sp (ai_key auth) \<and>
      ai_is_signer auth \<and> (\<exists>k. sp' = sp\<lparr>sp_staker := k\<rparr>) \<and> write_stake_pool w pool_info sp' = Inr w'"
    by (simp add: process_set_staker_def ok_iff is_ok_iff is_staker_or_manager_def Let_def) blast
qed (auto simp: same_books_def)

interpretation set_funding_auth: pool_setter
  "\<lambda>rt pid accounts. process_set_funding_authority rt pid accounts ft" is_manager
  "\<lambda>sp sp'. \<exists>rt pid k a. sp' = set_funding rt pid k ft a sp" for ft
proof unfold_locales
  fix rt pid accounts w w'
  assume "process_set_funding_authority rt pid accounts ft w = Inr w'"
  then show "\<exists>pool_info auth rest sp sp'. accounts = pool_info # auth # rest \<and>
      load_stake_pool pid w pool_info = Inr sp \<and> is_manager sp (ai_key auth) \<and> ai_is_signer auth \<and>
      (\<exists>rt pid k a. sp' = set_funding rt pid k ft a sp) \<and> write_stake_pool w pool_info sp' = Inr w'"
    by (simp add: process_set_funding_authority_def ok_iff is_manager_def Let_def) blast
qed (auto intro: set_funding_books)

end
