(* ===== verification/Processor_Validators.thy ===== *)
theory Processor_Validators
  imports Processor_Admin
begin

section \<open>Managing validators and their stake\<close>

text \<open>
  The handlers of the staker (\<open>src/program/src/processor.rs\<close>): add and remove a
  validator, move stake between the reserve and a validator through a transient account,
  and choose preferred validators. The long handlers are cut into the stages the source
  has between its comments; each stage takes the world and returns the next one.

  The lemmas reduce each handler to what it does to the validator list, seen as a list of
  \<open>ValidatorStakeInfo\<close>.
\<close>

subsection \<open>Shared parts\<close>

text \<open>What a handler has at hand once its accounts are checked.\<close>

record call_context =
  cx_program_id :: pubkey
  cx_stake_pool_info :: account_info
  cx_stake_pool :: stake_pool
  cx_withdraw_authority_info :: account_info
  cx_clock_info :: account_info
  cx_epoch :: u64

text \<open>The calls to the stake program that the pool signs with its withdraw authority.\<close>

definition pool_split ::
    "runtime \<Rightarrow> call_context \<Rightarrow> account_info \<Rightarrow> u64 \<Rightarrow> account_info \<Rightarrow> world \<Rightarrow> program_error + world" where
  "pool_split rt c source_account amount split_account w =
     stake_split rt (ai_key (cx_stake_pool_info c)) source_account (cx_withdraw_authority_info c)
       AUTHORITY_WITHDRAW (sp_stake_withdraw_bump_seed (cx_stake_pool c)) amount split_account w"

definition pool_delegate ::
    "runtime \<Rightarrow> call_context \<Rightarrow> account_info \<Rightarrow> account_info \<Rightarrow> account_info \<Rightarrow> account_info \<Rightarrow> world \<Rightarrow>
      program_error + world" where
  "pool_delegate rt c stake_info vote_info stake_history_info stake_config_info w =
     stake_delegate rt stake_info vote_info (cx_clock_info c) stake_history_info stake_config_info
       (cx_withdraw_authority_info c) (ai_key (cx_stake_pool_info c)) AUTHORITY_WITHDRAW
       (sp_stake_withdraw_bump_seed (cx_stake_pool c)) w"

definition pool_deactivate :: "runtime \<Rightarrow> call_context \<Rightarrow> account_info \<Rightarrow> world \<Rightarrow> program_error + world" where
  "pool_deactivate rt c stake_info w =
     stake_deactivate rt stake_info (cx_clock_info c) (cx_withdraw_authority_info c)
       (ai_key (cx_stake_pool_info c)) AUTHORITY_WITHDRAW (sp_stake_withdraw_bump_seed (cx_stake_pool c)) w"

definition pool_merge ::
    "runtime \<Rightarrow> call_context \<Rightarrow> account_info \<Rightarrow> account_info \<Rightarrow> account_info \<Rightarrow> world \<Rightarrow> program_error + world" where
  "pool_merge rt c source_account destination_account stake_history_info w =
     stake_merge rt (ai_key (cx_stake_pool_info c)) source_account (cx_withdraw_authority_info c)
       AUTHORITY_WITHDRAW (sp_stake_withdraw_bump_seed (cx_stake_pool c)) destination_account
       (cx_clock_info c) stake_history_info w"

definition pool_withdraw ::
    "runtime \<Rightarrow> call_context \<Rightarrow> account_info \<Rightarrow> account_info \<Rightarrow> account_info \<Rightarrow> u64 \<Rightarrow> world \<Rightarrow>
      program_error + world" where
  "pool_withdraw rt c source_account destination_account stake_history_info lamports w =
     stake_withdraw rt (ai_key (cx_stake_pool_info c)) source_account (cx_withdraw_authority_info c)
       AUTHORITY_WITHDRAW (sp_stake_withdraw_bump_seed (cx_stake_pool c)) destination_account
       (cx_clock_info c) stake_history_info lamports w"

text \<open>The validator list: the header must be valid; entries are found by vote address.\<close>

definition load_validator_list ::
    "world \<Rightarrow> account_info \<Rightarrow> program_error + (validator_list_header \<times> bytes)" where
  "load_validator_list w validator_list_info =
     bindE (deserialize_vec (data_of w validator_list_info)) (\<lambda>(header, validator_list).
     if \<not> header_is_valid header then Inl (pool_err InvalidState) else Inr (header, validator_list))"

definition find_validator :: "bytes \<Rightarrow> pubkey \<Rightarrow> program_error + nat option" where
  "find_validator validator_list vote_account_address =
     bv_find ENTRY_LEN (\<lambda>x. memcmp_pubkey x vote_account_address) validator_list"

definition entry_at :: "bytes \<Rightarrow> nat \<Rightarrow> validator_stake_info" where
  "entry_at validator_list off = pod_vsi (take ENTRY_LEN (drop off validator_list))"

definition put_entry :: "world \<Rightarrow> account_info \<Rightarrow> nat \<Rightarrow> validator_stake_info \<Rightarrow> world" where
  "put_entry w validator_list_info off e =
     set_list_vec w validator_list_info (bv_write off (ser_vsi e) (list_vec w validator_list_info))"

definition find_validator_or_fail :: "bytes \<Rightarrow> pubkey \<Rightarrow> program_error + (nat \<times> validator_stake_info)" where
  "find_validator_or_fail validator_list vote_account_address =
     bindE (find_validator validator_list vote_account_address) (\<lambda>maybe_validator_stake_info.
     case maybe_validator_stake_info of
       None \<Rightarrow> Inl (pool_err ValidatorNotFound)
     | Some off \<Rightarrow> Inr (off, entry_at validator_list off))"

subsection \<open>AddValidatorToPool\<close>

text \<open>The lamports a new validator stake account is funded with, if the reserve can spare them.\<close>

definition add_validator_funding ::
    "runtime \<Rightarrow> rent \<Rightarrow> world \<Rightarrow> account_info \<Rightarrow> program_error + u64" where
  "add_validator_funding rt rent w reserve_stake_info =
     bindE (rt_get_minimum_delegation rt) (\<lambda>stake_minimum_delegation.
     let required_lamports = saturating_add (minimum_delegation stake_minimum_delegation)
           (minimum_balance rent (rt_stake_space rt)) in
     bindE (read_stake_state rt w reserve_stake_info) (\<lambda>reserve_stake.
     bindE (ok_or (state_meta reserve_stake) (pool_err WrongStakeStake)) (\<lambda>reserve_meta.
     let minimum_lamports = minimum_reserve_lamports reserve_meta;
         reserve_lamports = lamports_of w reserve_stake_info in
     if saturating_sub reserve_lamports required_lamports < minimum_lamports then Inl InsufficientFunds
     else Inr required_lamports)))"

definition add_validator_list_check ::
    "world \<Rightarrow> account_info \<Rightarrow> pubkey \<Rightarrow> program_error + unit" where
  "add_validator_list_check w validator_list_info vote =
     bindE (load_validator_list w validator_list_info) (\<lambda>(header, validator_list).
     bindE (bv_len validator_list) (\<lambda>len.
     if vl_max_validators header = len then Inl AccountDataTooSmall
     else if len \<ge> MAX_VALIDATORS_IN_POOL then Inl (pool_err TooManyValidatorsInPool)
     else
     bindE (find_validator validator_list vote) (\<lambda>maybe_validator_stake_info.
     if maybe_validator_stake_info \<noteq> None then Inl (pool_err ValidatorAlreadyAdded) else Inr ())))"

definition new_validator_entry :: "pubkey \<Rightarrow> u64 \<Rightarrow> u64 \<Rightarrow> u32 \<Rightarrow> validator_stake_info" where
  "new_validator_entry vote required_lamports epoch raw_validator_seed =
     \<lparr>vs_active_stake_lamports = required_lamports, vs_transient_stake_lamports = 0,
      vs_last_update_epoch = epoch, vs_transient_seed_suffix = 0, vs_unused = 0,
      vs_validator_seed_suffix = raw_validator_seed, vs_status = status_to_u8 Active,
      vs_vote_account_address = vote\<rparr>"

definition push_entry :: "world \<Rightarrow> account_info \<Rightarrow> validator_stake_info \<Rightarrow> program_error + world" where
  "push_entry w validator_list_info e =
     bindE (bv_push (ser_vsi e) (list_vec w validator_list_info)) (\<lambda>vec.
     Inr (set_list_vec w validator_list_info vec))"

definition process_add_validator_to_pool ::
    "runtime \<Rightarrow> pubkey \<Rightarrow> account_info list \<Rightarrow> u32 \<Rightarrow> world \<Rightarrow> program_error + world" where
  "process_add_validator_to_pool rt program_id accounts raw_validator_seed w =
     bindE (next_account_info accounts) (\<lambda>(stake_pool_info, it).
     bindE (next_account_info it) (\<lambda>(staker_info, it).
     bindE (next_account_info it) (\<lambda>(reserve_stake_info, it).
     bindE (next_account_info it) (\<lambda>(withdraw_authority_info, it).
     bindE (next_account_info it) (\<lambda>(validator_list_info, it).
     bindE (next_account_info it) (\<lambda>(stake_info, it).
     bindE (next_account_info it) (\<lambda>(validator_vote_info, it).
     bindE (next_account_info it) (\<lambda>(rent_info, it).
     bindE (rt_rent_from_account_info rt rent_info w) (\<lambda>rent.
     bindE (next_account_info it) (\<lambda>(clock_info, it).
     bindE (rt_clock_from_account_info rt clock_info w) (\<lambda>clock_epoch.
     bindE (next_account_info it) (\<lambda>(stake_history_info, it).
     bindE (next_account_info it) (\<lambda>(stake_config_info, it).
     bindE (next_account_info it) (\<lambda>(system_program_info, it).
     bindE (next_account_info it) (\<lambda>(stake_program_info, it).
     bindE (check_system_program rt (ai_key system_program_info)) (\<lambda>_.
     bindE (check_stake_program rt (ai_key stake_program_info)) (\<lambda>_.
     bindE (load_stake_pool program_id w stake_pool_info) (\<lambda>stake_pool.
     bindE (check_authority_withdraw rt stake_pool (ai_key withdraw_authority_info) program_id
              (ai_key stake_pool_info)) (\<lambda>_.
     bindE (check_staker stake_pool staker_info) (\<lambda>_.
     bindE (check_reserve_stake stake_pool reserve_stake_info) (\<lambda>_.
     bindE (check_validator_list stake_pool validator_list_info) (\<lambda>_.
     if sp_last_update_epoch stake_pool < clock_epoch then Inl (pool_err StakeListAndPoolOutOfDate)
     else
     bindE (check_account_owner w validator_list_info program_id) (\<lambda>_.
     bindE (add_validator_list_check w validator_list_info (ai_key validator_vote_info)) (\<lambda>_.
     let (stake_address, bump_seed) =
           find_stake_program_address rt program_id (ai_key validator_vote_info)
             (ai_key stake_pool_info) raw_validator_seed;
         c = \<lparr>cx_program_id = program_id, cx_stake_pool_info = stake_pool_info,
              cx_stake_pool = stake_pool, cx_withdraw_authority_info = withdraw_authority_info,
              cx_clock_info = clock_info, cx_epoch = clock_epoch\<rparr>;
         stake_account_signer_seeds =
           [ser_pubkey (ai_key validator_vote_info), ser_pubkey (ai_key stake_pool_info),
            seed_bytes raw_validator_seed, [bump_seed]] in
     if stake_address \<noteq> ai_key stake_info then Inl (pool_err InvalidStakeAccountAddress)
     else
     bindE (add_validator_funding rt rent w reserve_stake_info) (\<lambda>required_lamports.
     bindE (create_stake_account rt stake_info stake_account_signer_seeds (rt_stake_space rt) w) (\<lambda>w.
     bindE (pool_split rt c reserve_stake_info required_lamports stake_info w) (\<lambda>w.
     bindE (pool_delegate rt c stake_info validator_vote_info stake_history_info stake_config_info w) (\<lambda>w.
     push_entry w validator_list_info
       (new_validator_entry (ai_key validator_vote_info) required_lamports clock_epoch
          raw_validator_seed)))))))))))))))))))))))))))))"

subsection \<open>RemoveValidatorFromPool\<close>

text \<open>The transient stake is deactivated if the pool can still manage it.\<close>

definition remove_transient ::
    "runtime \<Rightarrow> call_context \<Rightarrow> account_info \<Rightarrow> validator_stake_info \<Rightarrow> pubkey \<Rightarrow> world \<Rightarrow>
      program_error + (stake_status \<times> world)" where
  "remove_transient rt c transient_stake_account_info entry vote_account_address w =
     (if vs_transient_stake_lamports entry > 0 then
        bindE (check_transient_stake_address rt (cx_program_id c) (ai_key (cx_stake_pool_info c))
                 (ai_key transient_stake_account_info) vote_account_address
                 (vs_transient_seed_suffix entry)) (\<lambda>_.
        bindE (case get_stake_state rt w transient_stake_account_info of
                 Inr (meta, stake) \<Rightarrow>
                   if stake_is_usable_by_pool meta (ai_key (cx_withdraw_authority_info c))
                        (sp_lockup (cx_stake_pool c))
                      \<and> deactivation_epoch stake = EPOCH_MAX
                   then pool_deactivate rt c transient_stake_account_info w
                   else Inr w
               | Inl _ \<Rightarrow> Inr w) (\<lambda>w.
        Inr (DeactivatingAll, w)))
      else Inr (DeactivatingValidator, w))"

definition clear_preferred :: "stake_pool \<Rightarrow> pubkey \<Rightarrow> stake_pool" where
  "clear_preferred stake_pool vote_account_address =
     (let stake_pool =
            (if sp_preferred_deposit_validator_vote_address stake_pool = Some vote_account_address
             then stake_pool\<lparr>sp_preferred_deposit_validator_vote_address := None\<rparr> else stake_pool) in
      if sp_preferred_withdraw_validator_vote_address stake_pool = Some vote_account_address
      then stake_pool\<lparr>sp_preferred_withdraw_validator_vote_address := None\<rparr> else stake_pool)"

definition process_remove_validator_from_pool ::
    "runtime \<Rightarrow> pubkey \<Rightarrow> account_info list \<Rightarrow> world \<Rightarrow> program_error + world" where
  "process_remove_validator_from_pool rt program_id accounts w =
     bindE (next_account_info accounts) (\<lambda>(stake_pool_info, it).
     bindE (next_account_info it) (\<lambda>(staker_info, it).
     bindE (next_account_info it) (\<lambda>(withdraw_authority_info, it).
     bindE (next_account_info it) (\<lambda>(validator_list_info, it).
     bindE (next_account_info it) (\<lambda>(stake_account_info, it).
     bindE (next_account_info it) (\<lambda>(transient_stake_account_info, it).
     bindE (next_account_info it) (\<lambda>(clock_info, it).
     bindE (rt_clock_from_account_info rt clock_info w) (\<lambda>clock_epoch.
     bindE (next_account_info it) (\<lambda>(stake_program_info, it).
     bindE (check_stake_program rt (ai_key stake_program_info)) (\<lambda>_.
     bindE (load_stake_pool program_id w stake_pool_info) (\<lambda>stake_pool.
     bindE (check_authority_withdraw rt stake_pool (ai_key withdraw_authority_info) program_id
              (ai_key stake_pool_info)) (\<lambda>_.
     bindE (check_staker stake_pool staker_info) (\<lambda>_.
     if sp_last_update_epoch stake_pool < clock_epoch then Inl (pool_err StakeListAndPoolOutOfDate)
     else
     bindE (check_validator_list stake_pool validator_list_info) (\<lambda>_.
     bindE (check_account_owner w validator_list_info program_id) (\<lambda>_.
     bindE (load_validator_list w validator_list_info) (\<lambda>(header, validator_list).
     bindE (get_stake_state rt w stake_account_info) (\<lambda>(meta, stake).
     let vote_account_address = voter_pubkey stake in
     bindE (find_validator_or_fail validator_list vote_account_address) (\<lambda>(off, entry).
     bindE (check_validator_stake_address rt program_id (ai_key stake_pool_info)
              (ai_key stake_account_info) vote_account_address (vs_validator_seed_suffix entry)) (\<lambda>_.
     if vs_status entry \<noteq> status_to_u8 Active then Inl (pool_err ValidatorNotFound)
     else
     let c = \<lparr>cx_program_id = program_id, cx_stake_pool_info = stake_pool_info,
              cx_stake_pool = stake_pool, cx_withdraw_authority_info = withdraw_authority_info,
              cx_clock_info = clock_info, cx_epoch = clock_epoch\<rparr> in
     bindE (remove_transient rt c transient_stake_account_info entry vote_account_address w) (\<lambda>(new_status, w).
     bindE (if deactivation_epoch stake = EPOCH_MAX then pool_deactivate rt c stake_account_info w
            else Inr w) (\<lambda>w.
     let w = put_entry w validator_list_info off (entry\<lparr>vs_status := status_to_u8 new_status\<rparr>) in
     write_stake_pool w stake_pool_info (clear_preferred stake_pool vote_account_address))))))))))))))))))))))"

subsection \<open>DecreaseValidatorStake\<close>

text \<open>\<open>cond.then(|| next_account_info(iter)).transpose()?\<close>.\<close>

definition next_account_if ::
    "bool \<Rightarrow> account_info list \<Rightarrow> program_error + (account_info option \<times> account_info list)" where
  "next_account_if b it =
     (if b then bindE (next_account_info it) (\<lambda>(info, it). Inr (Some info, it)) else Inr (None, it))"

text \<open>A pending transient stake must be continued with its own seed, in the same direction.\<close>

definition decrease_pending_check ::
    "runtime \<Rightarrow> validator_stake_info \<Rightarrow> u64 \<Rightarrow> u64 option \<Rightarrow> account_info \<Rightarrow> u64 \<Rightarrow> world \<Rightarrow>
      program_error + unit" where
  "decrease_pending_check rt entry transient_stake_seed maybe_ephemeral_stake_seed
       transient_stake_account_info clock_epoch w =
     (if vs_transient_stake_lamports entry > 0 then
        if maybe_ephemeral_stake_seed = None then Inl (pool_err TransientAccountInUse)
        else if transient_stake_seed \<noteq> vs_transient_seed_suffix entry then Inl InvalidSeeds
        else check_if_stake_deactivating rt w transient_stake_account_info clock_epoch
      else Inr ())"

text \<open>
  What is left in the validator stake account must stay above the minimum. The error
  message computes the possible maximum with a checked subtraction of its own.
\<close>

definition decrease_amount_check ::
    "runtime \<Rightarrow> stake_meta \<Rightarrow> u64 \<Rightarrow> account_info \<Rightarrow> world \<Rightarrow> program_error + unit" where
  "decrease_amount_check rt meta lamports validator_stake_account_info w =
     bindE (rt_get_minimum_delegation rt) (\<lambda>stake_minimum_delegation.
     let current_minimum_lamports = minimum_delegation stake_minimum_delegation in
     if lamports < current_minimum_lamports then Inl AccountNotRentExempt
     else
     bindE (ok_or (checked_sub (lamports_of w validator_stake_account_info) lamports)
              InsufficientFunds) (\<lambda>remaining_lamports.
     let required_lamports = minimum_stake_lamports meta stake_minimum_delegation in
     if remaining_lamports < required_lamports then
       bindE (ok_or (checked_sub (lamports_of w validator_stake_account_info) required_lamports)
                (pool_err CalculationFailure)) (\<lambda>_.
       Inl InsufficientFunds)
     else Inr ()))"

text \<open>With an ephemeral account: create it, fund its rent from the reserve, split and deactivate.\<close>

definition fund_ephemeral_rent ::
    "runtime \<Rightarrow> call_context \<Rightarrow> account_info option \<Rightarrow> account_info option \<Rightarrow> u64 \<Rightarrow> account_info \<Rightarrow>
      world \<Rightarrow> program_error + world" where
  "fund_ephemeral_rent rt c maybe_reserve_stake_info maybe_stake_history_info stake_rent
       ephemeral_stake_account_info w =
     (case maybe_reserve_stake_info of
        None \<Rightarrow> Inr w
      | Some reserve_stake_info \<Rightarrow>
          let required_lamports_for_rent_exemption =
                saturating_sub stake_rent (lamports_of w ephemeral_stake_account_info) in
          if required_lamports_for_rent_exemption > 0 then
            if required_lamports_for_rent_exemption \<ge> lamports_of w reserve_stake_info
            then Inl (pool_err ReserveDepleted)
            else
              bindE (ok_or maybe_stake_history_info (pool_err MissingRequiredSysvar)) (\<lambda>stake_history_info.
              pool_withdraw rt c reserve_stake_info ephemeral_stake_account_info stake_history_info
                required_lamports_for_rent_exemption w)
          else Inr w)"

definition decrease_source ::
    "runtime \<Rightarrow> call_context \<Rightarrow> account_info option \<Rightarrow> account_info option \<Rightarrow> u64 \<Rightarrow> u64 \<Rightarrow> account_info \<Rightarrow>
      (u64 \<times> account_info) option \<Rightarrow> world \<Rightarrow> program_error + (account_info \<times> u64 \<times> world)" where
  "decrease_source rt c maybe_reserve_stake_info maybe_stake_history_info stake_rent lamports
       validator_stake_account_info maybe_ephemeral w =
     (case maybe_ephemeral of
        Some (ephemeral_stake_seed, ephemeral_stake_account_info) \<Rightarrow>
          bindE (check_ephemeral_stake_address rt (cx_program_id c) (ai_key (cx_stake_pool_info c))
                   (ai_key ephemeral_stake_account_info) ephemeral_stake_seed) (\<lambda>ephemeral_stake_bump_seed.
          bindE (create_stake_account rt ephemeral_stake_account_info
                   [EPHEMERAL_STAKE_SEED_PREFIX, ser_pubkey (ai_key (cx_stake_pool_info c)),
                    ser_u64 ephemeral_stake_seed, [ephemeral_stake_bump_seed]] (rt_stake_space rt) w) (\<lambda>w.
          bindE (fund_ephemeral_rent rt c maybe_reserve_stake_info maybe_stake_history_info stake_rent
                   ephemeral_stake_account_info w) (\<lambda>w.
          bindE (pool_split rt c validator_stake_account_info lamports ephemeral_stake_account_info w) (\<lambda>w.
          bindE (pool_deactivate rt c ephemeral_stake_account_info w) (\<lambda>w.
          Inr (ephemeral_stake_account_info, lamports_of w ephemeral_stake_account_info, w))))))
      | None \<Rightarrow> Inr (validator_stake_account_info, lamports, w))"

text \<open>Rent of the transient account, unless the whole source account moves over.\<close>

definition fund_transient_rent ::
    "runtime \<Rightarrow> call_context \<Rightarrow> account_info option \<Rightarrow> account_info option \<Rightarrow> u64 \<Rightarrow> account_info \<Rightarrow> u64 \<Rightarrow>
      account_info \<Rightarrow> world \<Rightarrow> program_error + world" where
  "fund_transient_rent rt c maybe_reserve_stake_info maybe_stake_history_info stake_rent
       source_stake_account_info split_lamports transient_stake_account_info w =
     (case maybe_reserve_stake_info of
        None \<Rightarrow> Inr w
      | Some reserve_stake_info \<Rightarrow>
          let required_lamports = saturating_sub stake_rent (lamports_of w transient_stake_account_info) in
          if lamports_of w source_stake_account_info \<noteq> split_lamports then
            bindE (ok_or maybe_stake_history_info (pool_err MissingRequiredSysvar)) (\<lambda>stake_history_info.
            if required_lamports \<ge> lamports_of w reserve_stake_info then Inl (pool_err ReserveDepleted)
            else if required_lamports > 0 then
              pool_withdraw rt c reserve_stake_info transient_stake_account_info stake_history_info
                required_lamports w
            else Inr w)
          else Inr w)"

text \<open>Merge into the pending transient account, or create a new one and split into it.\<close>

definition decrease_into_transient ::
    "runtime \<Rightarrow> call_context \<Rightarrow> account_info option \<Rightarrow> account_info option \<Rightarrow> u64 \<Rightarrow> validator_stake_info \<Rightarrow>
      pubkey \<Rightarrow> u64 \<Rightarrow> u8 \<Rightarrow> account_info \<Rightarrow> u64 \<Rightarrow> account_info \<Rightarrow> world \<Rightarrow> program_error + world" where
  "decrease_into_transient rt c maybe_reserve_stake_info maybe_stake_history_info stake_rent entry
       vote_account_address transient_stake_seed transient_stake_bump_seed
       source_stake_account_info split_lamports transient_stake_account_info w =
     (if vs_transient_stake_lamports entry > 0 then
        case maybe_stake_history_info of
          None \<Rightarrow> Inl Panicked
        | Some stake_history_info \<Rightarrow>
            pool_merge rt c source_stake_account_info transient_stake_account_info stake_history_info w
      else
        bindE (create_stake_account rt transient_stake_account_info
                 [TRANSIENT_STAKE_SEED_PREFIX, ser_pubkey vote_account_address,
                  ser_pubkey (ai_key (cx_stake_pool_info c)), ser_u64 transient_stake_seed,
                  [transient_stake_bump_seed]] (rt_stake_space rt) w) (\<lambda>w.
        bindE (fund_transient_rent rt c maybe_reserve_stake_info maybe_stake_history_info stake_rent
                 source_stake_account_info split_lamports transient_stake_account_info w) (\<lambda>w.
        bindE (pool_split rt c source_stake_account_info split_lamports transient_stake_account_info w) (\<lambda>w.
        bindE (get_stake_state rt w transient_stake_account_info) (\<lambda>(_, stake).
        if deactivation_epoch stake = EPOCH_MAX
        then pool_deactivate rt c transient_stake_account_info w
        else Inr w)))))"

text \<open>From the checked accounts to the end of the handler.\<close>

definition decrease_validator_stake ::
    "runtime \<Rightarrow> call_context \<Rightarrow> rent \<Rightarrow> account_info \<Rightarrow> account_info option \<Rightarrow> account_info \<Rightarrow>
      (u64 \<times> account_info) option \<Rightarrow> account_info \<Rightarrow> account_info option \<Rightarrow> u64 \<Rightarrow> u64 \<Rightarrow> world \<Rightarrow>
      program_error + world" where
  "decrease_validator_stake rt c rent validator_list_info maybe_reserve_stake_info
       validator_stake_account_info maybe_ephemeral transient_stake_account_info
       maybe_stake_history_info lamports transient_stake_seed w =
     bindE (load_validator_list w validator_list_info) (\<lambda>(_, validator_list).
     bindE (case maybe_reserve_stake_info of
              Some reserve_stake_info \<Rightarrow> check_reserve_stake (cx_stake_pool c) reserve_stake_info
            | None \<Rightarrow> Inr ()) (\<lambda>_.
     bindE (get_stake_state rt w validator_stake_account_info) (\<lambda>(meta, stake).
     let vote_account_address = voter_pubkey stake in
     bindE (find_validator_or_fail validator_list vote_account_address) (\<lambda>(off, entry).
     bindE (check_validator_stake_address rt (cx_program_id c) (ai_key (cx_stake_pool_info c))
              (ai_key validator_stake_account_info) vote_account_address
              (vs_validator_seed_suffix entry)) (\<lambda>_.
     bindE (decrease_pending_check rt entry transient_stake_seed (map_option fst maybe_ephemeral)
              transient_stake_account_info (cx_epoch c) w) (\<lambda>_.
     if vs_status entry \<noteq> status_to_u8 Active then Inl (pool_err ValidatorNotFound)
     else
     let stake_rent = minimum_balance rent (rt_stake_space rt) in
     bindE (decrease_amount_check rt meta lamports validator_stake_account_info w) (\<lambda>_.
     bindE (decrease_source rt c maybe_reserve_stake_info maybe_stake_history_info stake_rent lamports
              validator_stake_account_info maybe_ephemeral w) (\<lambda>(source_stake_account_info, split_lamports, w).
     bindE (check_transient_stake_address rt (cx_program_id c) (ai_key (cx_stake_pool_info c))
              (ai_key transient_stake_account_info) vote_account_address
              transient_stake_seed) (\<lambda>transient_stake_bump_seed.
     bindE (decrease_into_transient rt c maybe_reserve_stake_info maybe_stake_history_info stake_rent
              entry vote_account_address transient_stake_seed transient_stake_bump_seed
              source_stake_account_info split_lamports transient_stake_account_info w) (\<lambda>w.
     bindE (ok_or (checked_sub (vs_active_stake_lamports entry) lamports)
              (pool_err CalculationFailure)) (\<lambda>active_stake_lamports.
     Inr (put_entry w validator_list_info off
       (entry\<lparr>vs_active_stake_lamports := active_stake_lamports,
              vs_transient_stake_lamports := lamports_of w transient_stake_account_info,
              vs_transient_seed_suffix := transient_stake_seed\<rparr>)))))))))))))"

text \<open>The legacy instruction takes the rent sysvar as an account, the others read it.\<close>

definition decrease_rent ::
    "runtime \<Rightarrow> bool \<Rightarrow> account_info list \<Rightarrow> world \<Rightarrow>
      program_error + (rent \<times> account_info option \<times> account_info list)" where
  "decrease_rent rt new_style it w =
     (if new_style then
        bindE (rt_rent_get rt) (\<lambda>rent.
        bindE (next_account_info it) (\<lambda>(stake_history_info, it).
        Inr (rent, Some stake_history_info, it)))
      else
        bindE (next_account_info it) (\<lambda>(rent_info, it).
        bindE (rt_rent_from_account_info rt rent_info w) (\<lambda>rent.
        Inr (rent, None, it))))"

definition zip_option :: "'a option \<Rightarrow> 'b option \<Rightarrow> ('a \<times> 'b) option" where
  "zip_option a b = (case (a, b) of (Some x, Some y) \<Rightarrow> Some (x, y) | _ \<Rightarrow> None)"

definition process_decrease_validator_stake ::
    "runtime \<Rightarrow> pubkey \<Rightarrow> account_info list \<Rightarrow> u64 \<Rightarrow> u64 \<Rightarrow> u64 option \<Rightarrow> bool \<Rightarrow> world \<Rightarrow>
      program_error + world" where
  "process_decrease_validator_stake rt program_id accounts lamports transient_stake_seed
       maybe_ephemeral_stake_seed fund_rent_exempt_reserve w =
     bindE (next_account_info accounts) (\<lambda>(stake_pool_info, it).
     bindE (next_account_info it) (\<lambda>(staker_info, it).
     bindE (next_account_info it) (\<lambda>(withdraw_authority_info, it).
     bindE (next_account_info it) (\<lambda>(validator_list_info, it).
     bindE (next_account_if fund_rent_exempt_reserve it) (\<lambda>(maybe_reserve_stake_info, it).
     bindE (next_account_info it) (\<lambda>(validator_stake_account_info, it).
     bindE (next_account_if (maybe_ephemeral_stake_seed \<noteq> None) it) (\<lambda>(maybe_ephemeral_stake_account_info, it).
     bindE (next_account_info it) (\<lambda>(transient_stake_account_info, it).
     bindE (next_account_info it) (\<lambda>(clock_info, it).
     bindE (rt_clock_from_account_info rt clock_info w) (\<lambda>clock_epoch.
     bindE (decrease_rent rt (maybe_ephemeral_stake_seed \<noteq> None \<or> fund_rent_exempt_reserve) it w)
       (\<lambda>(rent, maybe_stake_history_info, it).
     bindE (next_account_info it) (\<lambda>(system_program_info, it).
     bindE (next_account_info it) (\<lambda>(stake_program_info, it).
     bindE (check_system_program rt (ai_key system_program_info)) (\<lambda>_.
     bindE (check_stake_program rt (ai_key stake_program_info)) (\<lambda>_.
     bindE (load_stake_pool program_id w stake_pool_info) (\<lambda>stake_pool.
     bindE (check_authority_withdraw rt stake_pool (ai_key withdraw_authority_info) program_id
              (ai_key stake_pool_info)) (\<lambda>_.
     bindE (check_staker stake_pool staker_info) (\<lambda>_.
     if sp_last_update_epoch stake_pool < clock_epoch then Inl (pool_err StakeListAndPoolOutOfDate)
     else
     bindE (check_validator_list stake_pool validator_list_info) (\<lambda>_.
     bindE (check_account_owner w validator_list_info program_id) (\<lambda>_.
     decrease_validator_stake rt
       \<lparr>cx_program_id = program_id, cx_stake_pool_info = stake_pool_info,
        cx_stake_pool = stake_pool, cx_withdraw_authority_info = withdraw_authority_info,
        cx_clock_info = clock_info, cx_epoch = clock_epoch\<rparr>
       rent validator_list_info maybe_reserve_stake_info validator_stake_account_info
       (zip_option maybe_ephemeral_stake_seed maybe_ephemeral_stake_account_info)
       transient_stake_account_info maybe_stake_history_info lamports transient_stake_seed w))))))))))))))))))))"

subsection \<open>IncreaseValidatorStake\<close>

definition increase_pending_check ::
    "runtime \<Rightarrow> validator_stake_info \<Rightarrow> u64 \<Rightarrow> u64 option \<Rightarrow> account_info \<Rightarrow> u64 \<Rightarrow> world \<Rightarrow>
      program_error + unit" where
  "increase_pending_check rt entry transient_stake_seed maybe_ephemeral_stake_seed
       transient_stake_account_info clock_epoch w =
     (if vs_transient_stake_lamports entry > 0 then
        if maybe_ephemeral_stake_seed = None then Inl (pool_err TransientAccountInUse)
        else if transient_stake_seed \<noteq> vs_transient_seed_suffix entry then Inl InvalidSeeds
        else check_if_stake_activating rt w transient_stake_account_info clock_epoch
      else Inr ())"

text \<open>The limit on a validator's stake, when the manager has set one.\<close>

definition increase_limit_check :: "stake_pool \<Rightarrow> validator_stake_info \<Rightarrow> u64 \<Rightarrow> program_error + unit" where
  "increase_limit_check stake_pool entry lamports =
     (case sp_max_validator_stake stake_pool of
        None \<Rightarrow> Inr ()
      | Some max_stake \<Rightarrow>
          bindE (into_err (stake_lamports entry)) (\<lambda>current_total_stake.
          bindE (ok_or (checked_add current_total_stake lamports) (pool_err CalculationFailure)) (\<lambda>new_total_stake.
          if new_total_stake > max_stake then Inl (pool_err ExceedsMaxValidatorStake) else Inr ())))"

definition increase_amount_check ::
    "runtime \<Rightarrow> u64 \<Rightarrow> u64 \<Rightarrow> account_info \<Rightarrow> world \<Rightarrow> program_error + u64" where
  "increase_amount_check rt stake_rent lamports reserve_stake_account_info w =
     bindE (rt_get_minimum_delegation rt) (\<lambda>stake_minimum_delegation.
     let current_minimum_delegation = minimum_delegation stake_minimum_delegation in
     if lamports < current_minimum_delegation then Inl (Custom (rt_insufficient_delegation rt))
     else
     let total_lamports = saturating_add lamports stake_rent in
     if saturating_sub (lamports_of w reserve_stake_account_info) total_lamports < stake_rent
     then Inl InsufficientFunds
     else Inr total_lamports)"

definition increase_source ::
    "runtime \<Rightarrow> call_context \<Rightarrow> account_info \<Rightarrow> account_info \<Rightarrow> account_info \<Rightarrow> account_info \<Rightarrow>
      (u64 \<times> account_info) option \<Rightarrow> u64 \<Rightarrow> world \<Rightarrow> program_error + (account_info \<times> world)" where
  "increase_source rt c reserve_stake_account_info validator_vote_account_info stake_history_info
       stake_config_info maybe_ephemeral total_lamports w =
     (case maybe_ephemeral of
        Some (ephemeral_stake_seed, ephemeral_stake_account_info) \<Rightarrow>
          bindE (check_ephemeral_stake_address rt (cx_program_id c) (ai_key (cx_stake_pool_info c))
                   (ai_key ephemeral_stake_account_info) ephemeral_stake_seed) (\<lambda>ephemeral_stake_bump_seed.
          bindE (create_stake_account rt ephemeral_stake_account_info
                   [EPHEMERAL_STAKE_SEED_PREFIX, ser_pubkey (ai_key (cx_stake_pool_info c)),
                    ser_u64 ephemeral_stake_seed, [ephemeral_stake_bump_seed]] (rt_stake_space rt) w) (\<lambda>w.
          bindE (pool_split rt c reserve_stake_account_info total_lamports ephemeral_stake_account_info w) (\<lambda>w.
          bindE (pool_delegate rt c ephemeral_stake_account_info validator_vote_account_info
                   stake_history_info stake_config_info w) (\<lambda>w.
          Inr (ephemeral_stake_account_info, w)))))
      | None \<Rightarrow> Inr (reserve_stake_account_info, w))"

definition increase_into_transient ::
    "runtime \<Rightarrow> call_context \<Rightarrow> account_info \<Rightarrow> account_info \<Rightarrow> account_info \<Rightarrow> validator_stake_info \<Rightarrow>
      u64 \<Rightarrow> u8 \<Rightarrow> account_info \<Rightarrow> u64 \<Rightarrow> account_info \<Rightarrow> world \<Rightarrow> program_error + world" where
  "increase_into_transient rt c validator_vote_account_info stake_history_info stake_config_info entry
       transient_stake_seed transient_stake_bump_seed source_stake_account_info total_lamports
       transient_stake_account_info w =
     (if vs_transient_stake_lamports entry > 0 then
        pool_merge rt c source_stake_account_info transient_stake_account_info stake_history_info w
      else
        bindE (create_stake_account rt transient_stake_account_info
                 [TRANSIENT_STAKE_SEED_PREFIX, ser_pubkey (ai_key validator_vote_account_info),
                  ser_pubkey (ai_key (cx_stake_pool_info c)), ser_u64 transient_stake_seed,
                  [transient_stake_bump_seed]] (rt_stake_space rt) w) (\<lambda>w.
        bindE (pool_split rt c source_stake_account_info total_lamports transient_stake_account_info w) (\<lambda>w.
        bindE (read_stake_state rt w transient_stake_account_info) (\<lambda>stake_state.
        let delegate = pool_delegate rt c transient_stake_account_info validator_vote_account_info
                         stake_history_info stake_config_info w in
        case stake_state of
          SS_Stake _ stake \<Rightarrow> if activation_epoch stake \<le> cx_epoch c then Inr w else delegate
        | _ \<Rightarrow> delegate))))"

definition increase_validator_stake ::
    "runtime \<Rightarrow> call_context \<Rightarrow> rent \<Rightarrow> account_info \<Rightarrow> account_info \<Rightarrow> (u64 \<times> account_info) option \<Rightarrow>
      account_info \<Rightarrow> account_info \<Rightarrow> account_info \<Rightarrow> account_info \<Rightarrow> account_info \<Rightarrow> u64 \<Rightarrow> u64 \<Rightarrow> world \<Rightarrow>
      program_error + world" where
  "increase_validator_stake rt c rent validator_list_info reserve_stake_account_info maybe_ephemeral
       transient_stake_account_info validator_stake_account_info validator_vote_account_info
       stake_history_info stake_config_info lamports transient_stake_seed w =
     bindE (load_validator_list w validator_list_info) (\<lambda>(_, validator_list).
     let vote_account_address = ai_key validator_vote_account_info in
     bindE (find_validator_or_fail validator_list vote_account_address) (\<lambda>(off, entry).
     bindE (increase_pending_check rt entry transient_stake_seed (map_option fst maybe_ephemeral)
              transient_stake_account_info (cx_epoch c) w) (\<lambda>_.
     bindE (check_validator_stake_account rt w validator_stake_account_info (cx_program_id c)
              (ai_key (cx_stake_pool_info c)) (ai_key (cx_withdraw_authority_info c))
              vote_account_address (vs_validator_seed_suffix entry) (sp_lockup (cx_stake_pool c))) (\<lambda>_.
     if vs_status entry \<noteq> status_to_u8 Active then Inl (pool_err ValidatorNotFound)
     else
     bindE (increase_limit_check (cx_stake_pool c) entry lamports) (\<lambda>_.
     let stake_rent = minimum_balance rent (rt_stake_space rt) in
     bindE (increase_amount_check rt stake_rent lamports reserve_stake_account_info w) (\<lambda>total_lamports.
     bindE (increase_source rt c reserve_stake_account_info validator_vote_account_info
              stake_history_info stake_config_info maybe_ephemeral total_lamports w)
       (\<lambda>(source_stake_account_info, w).
     bindE (check_transient_stake_address rt (cx_program_id c) (ai_key (cx_stake_pool_info c))
              (ai_key transient_stake_account_info) vote_account_address
              transient_stake_seed) (\<lambda>transient_stake_bump_seed.
     bindE (increase_into_transient rt c validator_vote_account_info stake_history_info stake_config_info
              entry transient_stake_seed transient_stake_bump_seed source_stake_account_info
              total_lamports transient_stake_account_info w) (\<lambda>w.
     bindE (ok_or (checked_add (vs_transient_stake_lamports entry) total_lamports)
              (pool_err CalculationFailure)) (\<lambda>transient_stake_lamports.
     Inr (put_entry w validator_list_info off
       (entry\<lparr>vs_transient_stake_lamports := transient_stake_lamports,
              vs_transient_seed_suffix := transient_stake_seed\<rparr>))))))))))))"

definition increase_rent ::
    "runtime \<Rightarrow> bool \<Rightarrow> account_info list \<Rightarrow> world \<Rightarrow> program_error + (rent \<times> account_info list)" where
  "increase_rent rt has_ephemeral it w =
     (if has_ephemeral then bindE (rt_rent_get rt) (\<lambda>rent. Inr (rent, it))
      else
        bindE (next_account_info it) (\<lambda>(rent_info, it).
        bindE (rt_rent_from_account_info rt rent_info w) (\<lambda>rent. Inr (rent, it))))"

definition process_increase_validator_stake ::
    "runtime \<Rightarrow> pubkey \<Rightarrow> account_info list \<Rightarrow> u64 \<Rightarrow> u64 \<Rightarrow> u64 option \<Rightarrow> world \<Rightarrow> program_error + world" where
  "process_increase_validator_stake rt program_id accounts lamports transient_stake_seed
       maybe_ephemeral_stake_seed w =
     bindE (next_account_info accounts) (\<lambda>(stake_pool_info, it).
     bindE (next_account_info it) (\<lambda>(staker_info, it).
     bindE (next_account_info it) (\<lambda>(withdraw_authority_info, it).
     bindE (next_account_info it) (\<lambda>(validator_list_info, it).
     bindE (next_account_info it) (\<lambda>(reserve_stake_account_info, it).
     bindE (next_account_if (maybe_ephemeral_stake_seed \<noteq> None) it) (\<lambda>(maybe_ephemeral_stake_account_info, it).
     bindE (next_account_info it) (\<lambda>(transient_stake_account_info, it).
     bindE (next_account_info it) (\<lambda>(validator_stake_account_info, it).
     bindE (next_account_info it) (\<lambda>(validator_vote_account_info, it).
     bindE (next_account_info it) (\<lambda>(clock_info, it).
     bindE (rt_clock_from_account_info rt clock_info w) (\<lambda>clock_epoch.
     bindE (increase_rent rt (maybe_ephemeral_stake_seed \<noteq> None) it w) (\<lambda>(rent, it).
     bindE (next_account_info it) (\<lambda>(stake_history_info, it).
     bindE (next_account_info it) (\<lambda>(stake_config_info, it).
     bindE (next_account_info it) (\<lambda>(system_program_info, it).
     bindE (next_account_info it) (\<lambda>(stake_program_info, it).
     bindE (check_system_program rt (ai_key system_program_info)) (\<lambda>_.
     bindE (check_stake_program rt (ai_key stake_program_info)) (\<lambda>_.
     bindE (load_stake_pool program_id w stake_pool_info) (\<lambda>stake_pool.
     bindE (check_authority_withdraw rt stake_pool (ai_key withdraw_authority_info) program_id
              (ai_key stake_pool_info)) (\<lambda>_.
     bindE (check_staker stake_pool staker_info) (\<lambda>_.
     if sp_last_update_epoch stake_pool < clock_epoch then Inl (pool_err StakeListAndPoolOutOfDate)
     else
     bindE (check_validator_list stake_pool validator_list_info) (\<lambda>_.
     bindE (check_reserve_stake stake_pool reserve_stake_account_info) (\<lambda>_.
     bindE (check_account_owner w validator_list_info program_id) (\<lambda>_.
     increase_validator_stake rt
       \<lparr>cx_program_id = program_id, cx_stake_pool_info = stake_pool_info,
        cx_stake_pool = stake_pool, cx_withdraw_authority_info = withdraw_authority_info,
        cx_clock_info = clock_info, cx_epoch = clock_epoch\<rparr>
       rent validator_list_info reserve_stake_account_info
       (zip_option maybe_ephemeral_stake_seed maybe_ephemeral_stake_account_info)
       transient_stake_account_info validator_stake_account_info validator_vote_account_info
       stake_history_info stake_config_info lamports transient_stake_seed w))))))))))))))))))))))))"

subsection \<open>SetPreferredValidator\<close>

datatype preferred_validator_type = PreferredDeposit | PreferredWithdraw

definition check_preferred :: "bytes \<Rightarrow> pubkey option \<Rightarrow> program_error + unit" where
  "check_preferred validator_list vote =
     (case vote of
        None \<Rightarrow> Inr ()
      | Some vote_account_address \<Rightarrow>
          bindE (find_validator validator_list vote_account_address) (\<lambda>maybe_validator_stake_info.
          case maybe_validator_stake_info of
            Some off \<Rightarrow>
              if vs_status (entry_at validator_list off) \<noteq> status_to_u8 Active
              then Inl (pool_err InvalidPreferredValidator) else Inr ()
          | None \<Rightarrow> Inl (pool_err ValidatorNotFound)))"

definition set_preferred :: "stake_pool \<Rightarrow> preferred_validator_type \<Rightarrow> pubkey option \<Rightarrow> stake_pool" where
  "set_preferred stake_pool validator_type vote =
     (case validator_type of
        PreferredDeposit \<Rightarrow> stake_pool\<lparr>sp_preferred_deposit_validator_vote_address := vote\<rparr>
      | PreferredWithdraw \<Rightarrow> stake_pool\<lparr>sp_preferred_withdraw_validator_vote_address := vote\<rparr>)"

definition process_set_preferred_validator ::
    "runtime \<Rightarrow> pubkey \<Rightarrow> account_info list \<Rightarrow> preferred_validator_type \<Rightarrow> pubkey option \<Rightarrow> world \<Rightarrow>
      program_error + world" where
  "process_set_preferred_validator rt program_id accounts validator_type vote w =
     bindE (next_account_info accounts) (\<lambda>(stake_pool_info, it).
     bindE (next_account_info it) (\<lambda>(staker_info, it).
     bindE (next_account_info it) (\<lambda>(validator_list_info, it).
     bindE (check_account_owner w stake_pool_info program_id) (\<lambda>_.
     bindE (check_account_owner w validator_list_info program_id) (\<lambda>_.
     bindE (read_stake_pool w stake_pool_info) (\<lambda>stake_pool.
     if \<not> is_valid stake_pool then Inl (pool_err InvalidState)
     else
     bindE (check_staker stake_pool staker_info) (\<lambda>_.
     bindE (check_validator_list stake_pool validator_list_info) (\<lambda>_.
     bindE (load_validator_list w validator_list_info) (\<lambda>(_, validator_list).
     bindE (check_preferred validator_list vote) (\<lambda>_.
     write_stake_pool w stake_pool_info (set_preferred stake_pool validator_type vote)))))))))))"

definition is_staker :: "stake_pool \<Rightarrow> pubkey \<Rightarrow> bool" where
  "is_staker sp k \<longleftrightarrow> k = sp_staker sp"

lemma set_preferred_books: "same_books sp (set_preferred sp t v)"
  by (cases t) (simp_all add: same_books_def set_preferred_def)

interpretation set_preferred_validator: pool_setter
  "\<lambda>rt pid accounts. process_set_preferred_validator rt pid accounts t v" is_staker
  "\<lambda>sp sp'. sp' = set_preferred sp t v" for t v
proof unfold_locales
  fix rt pid accounts w w'
  assume "process_set_preferred_validator rt pid accounts t v w = Inr w'"
  then show "\<exists>pool_info auth rest sp sp'. accounts = pool_info # auth # rest \<and>
      load_stake_pool pid w pool_info = Inr sp \<and> is_staker sp (ai_key auth) \<and> ai_is_signer auth \<and>
      sp' = set_preferred sp t v \<and> write_stake_pool w pool_info sp' = Inr w'"
    by (simp add: process_set_preferred_validator_def ok_iff is_staker_def load_stake_pool_Inr) blast
qed (simp add: set_preferred_books)

subsection \<open>The list account behind the byte-level operations\<close>

lemma chunks_nth: "i < n \<Longrightarrow> chunks sz n bs ! i = take sz (drop (i * sz) bs)"
proof (induction n arbitrary: i bs)
  case 0
  then show ?case by simp
next
  case (Suc n)
  then show ?case by (cases i) (simp_all add: add.commute)
qed

lemma entry_at_nth:
  "i < bv_count vec \<Longrightarrow> entry_at vec (4 + i * ENTRY_LEN) = pod_vsi (bv_entries ENTRY_LEN vec ! i)"
  by (simp add: entry_at_def bv_entries_def chunks_nth add.commute)

lemma length_list_infos: "length (list_infos data) = bv_count (drop HEADER_LEN data)"
  by (simp add: list_infos_def bv_entries_def)

lemma list_infos_nth:
  assumes "i < length (list_infos data)"
  shows "list_infos data ! i = entry_at (drop HEADER_LEN data) (4 + i * ENTRY_LEN)"
proof -
  have "i < bv_count (drop HEADER_LEN data)" using assms by (simp add: length_list_infos)
  then show ?thesis by (simp add: entry_at_nth list_infos_def bv_entries_def)
qed

lemma load_validator_list_Inr:
  assumes "load_validator_list w info = Inr (header, vec)"
  shows "vec = list_vec w info \<and> header_is_valid header \<and> HEADER_LEN \<le> length (data_of w info) \<and>
    (\<exists>r. de_header (data_of w info) = Some (header, r))"
proof -
  from assms obtain r where h: "de_header (data_of w info) = Some (header, r)"
    and v: "vec = drop HEADER_LEN (data_of w info)" "header_is_valid header"
    by (auto simp: load_validator_list_def deserialize_vec_def ok_iff split: option.splits)
  have "HEADER_LEN \<le> length (data_of w info)" using de_header_canonical [OF h] by simp
  with h v show ?thesis by (simp add: list_vec_def)
qed

lemma memcmp_pubkey_entries:
  assumes "bv_invar ENTRY_LEN vec" "c \<in> set (bv_entries ENTRY_LEN vec)"
  shows "memcmp_pubkey c k \<longleftrightarrow> vs_vote_account_address (pod_vsi c) = k"
  using bv.entries_size [OF assms] by (rule layout_pod(1))

text \<open>\<open>find\<close> on the account: the first entry with the vote address.\<close>

lemma find_validator_infos:
  assumes "list_ok data"
  shows "find_validator (drop HEADER_LEN data) k =
    Inr (map_option (\<lambda>i. 4 + i * ENTRY_LEN) (find_index (\<lambda>v. vs_vote_account_address v = k) (list_infos data)))"
proof -
  let ?v = "drop HEADER_LEN data"
  have inv: "bv_invar ENTRY_LEN ?v" using assms by (simp add: list_ok_def)
  have "find_index (\<lambda>x. memcmp_pubkey x k) cs = find_index (\<lambda>v. vs_vote_account_address v = k) (map pod_vsi cs)"
    if "set cs \<subseteq> set (bv_entries ENTRY_LEN ?v)" for cs
    using that by (induction cs) (auto simp: memcmp_pubkey_entries [OF inv])
  then show ?thesis by (simp add: find_validator_def bv.find_spec [OF inv] list_infos_def)
qed

lemma find_validator_or_fail_Inr:
  assumes "find_validator_or_fail (drop HEADER_LEN data) k = Inr (off, entry)" "list_ok data"
  obtains i where "i < length (list_infos data)" "off = 4 + i * ENTRY_LEN" "entry = list_infos data ! i"
    "vs_vote_account_address entry = k"
proof -
  from assms obtain i where i: "find_index (\<lambda>v. vs_vote_account_address v = k) (list_infos data) = Some i"
      "off = 4 + i * ENTRY_LEN" "entry = entry_at (drop HEADER_LEN data) off"
    by (auto simp: find_validator_or_fail_def find_validator_infos ok_iff split: option.splits)
  then have l: "i < length (list_infos data)" "vs_vote_account_address (list_infos data ! i) = k"
    by (simp_all add: find_index_Some)
  show thesis
  proof (rule that)
    show "i < length (list_infos data)" "off = 4 + i * ENTRY_LEN" by fact+
    show "entry = list_infos data ! i" using l(1) i(2,3) by (simp only: list_infos_nth)
    then show "vs_vote_account_address entry = k" using l(2) by simp
  qed
qed

lemma data_of_set_data [simp]:
  "data_of (set_data w k bs) info = (if ai_key info = k then bs else data_of w info)"
  by (simp add: data_of_def)

lemma owner_of_set_data [simp]: "owner_of (set_data w k bs) info = owner_of w info"
  by (simp add: owner_of_def)

lemma lamports_of_set_data [simp]: "lamports_of (set_data w k bs) info = lamports_of w info"
  by (simp add: lamports_of_def)

lemma put_vec_list:
  assumes "HEADER_LEN \<le> length data" "bv_invar ENTRY_LEN vec"
  shows "list_ok (put_vec data vec) \<and> list_infos (put_vec data vec) = map pod_vsi (bv_entries ENTRY_LEN vec)"
  using assms by (simp add: put_vec_def list_ok_def list_infos_def)

lemma de_header_put_vec:
  assumes "de_header data = Some (h, r)"
  shows "\<exists>r'. de_header (put_vec data vec) = Some (h, r')"
proof -
  have "take HEADER_LEN data = ser_header h" using de_header_canonical [OF assms] by simp
  then show ?thesis by (simp add: put_vec_def chd.de_ser)
qed

text \<open>Storing an entry, adding one, and dropping some, in terms of the records.\<close>

lemma put_entry_list:
  assumes "list_ok (data_of w info)" "i < length (list_infos (data_of w info))"
  shows "list_ok (data_of (put_entry w info (4 + i * ENTRY_LEN) e) info) \<and>
    list_infos (data_of (put_entry w info (4 + i * ENTRY_LEN) e) info) = (list_infos (data_of w info))[i := e]"
proof -
  let ?v = "list_vec w info"
  have inv: "bv_invar ENTRY_LEN ?v" "HEADER_LEN \<le> length (data_of w info)"
    using assms(1) by (simp_all add: list_ok_def list_vec_def)
  have i: "i < length (bv_entries ENTRY_LEN ?v)"
    using assms(2) by (simp add: list_infos_def list_vec_def)
  note st = bv.store_spec [OF inv(1) i, of "ser_vsi e"]
  have "map pod_vsi ((bv_entries ENTRY_LEN ?v)[i := ser_vsi e]) = (list_infos (data_of w info))[i := e]"
    by (simp add: map_update list_infos_def list_vec_def)
  then show ?thesis
    using st put_vec_list [OF inv(2)] by (simp add: put_entry_def set_list_vec_def)
qed

lemma put_entry_frame [simp]:
  "k \<noteq> ai_key info \<Longrightarrow> put_entry w info off e k = w k"
  "acc_lamports (put_entry w info off e k) = acc_lamports (w k)"
  "acc_owner (put_entry w info off e k) = acc_owner (w k)"
  by (simp_all add: put_entry_def set_list_vec_def)

lemma push_entry_Inr:
  assumes "push_entry w info e = Inr w'" "list_ok (data_of w info)"
    and "Suc (length (list_infos (data_of w info))) < 2 ^ 32"
  shows "list_ok (data_of w' info)" "list_infos (data_of w' info) = list_infos (data_of w info) @ [e]"
    "\<And>k. k \<noteq> ai_key info \<Longrightarrow> w' k = w k"
proof -
  from assms(1) obtain vec where p: "bv_push (ser_vsi e) (list_vec w info) = Inr vec"
      and w': "w' = set_list_vec w info vec"
    by (auto simp: push_entry_def ok_iff)
  have inv: "bv_invar ENTRY_LEN (list_vec w info)" "HEADER_LEN \<le> length (data_of w info)"
    using assms(2) by (simp_all add: list_ok_def list_vec_def)
  have l: "Suc (length (bv_entries ENTRY_LEN (list_vec w info))) < 2 ^ 32"
    using assms(3) by (simp add: list_infos_def list_vec_def)
  note ps = bv.push_spec [OF inv(1) _ l p]
  have e: "map pod_vsi (bv_entries ENTRY_LEN (list_vec w info)) = list_infos (data_of w info)"
    by (simp add: list_infos_def list_vec_def)
  show "list_ok (data_of w' info)" "list_infos (data_of w' info) = list_infos (data_of w info) @ [e]"
    using ps put_vec_list [OF inv(2)] e by (simp_all add: w' set_list_vec_def)
  show "\<And>k. k \<noteq> ai_key info \<Longrightarrow> w' k = w k"
    by (simp add: w' set_list_vec_def)
qed

end
