(* ===== verification/Processor_Update.thy ===== *)
theory Processor_Update
  imports Processor_Validators
begin

section \<open>The epoch update\<close>

text \<open>
  The three permissionless handlers that bring the books in line with the stake accounts
  at the start of an epoch (\<open>src/program/src/processor.rs\<close>):
  \<open>UpdateValidatorListBalance\<close> rereads a slice of the validator list,
  \<open>UpdateStakePoolBalance\<close> sums the list and the reserve, mints the epoch fee and moves
  the fee schedule, \<open>CleanupRemovedValidatorEntries\<close> drops the entries that are done.
\<close>

subsection \<open>UpdateValidatorListBalance\<close>

text \<open>The decoded state of an account, \<open>.ok()\<close> of the decoder.\<close>

definition stake_state_of :: "runtime \<Rightarrow> world \<Rightarrow> account_info \<Rightarrow> stake_state option" where
  "stake_state_of rt w info = rt_stake_state rt (data_of w info)"

definition usable :: "call_context \<Rightarrow> stake_meta \<Rightarrow> bool" where
  "usable c meta \<longleftrightarrow>
     stake_is_usable_by_pool meta (ai_key (cx_withdraw_authority_info c)) (sp_lockup (cx_stake_pool c))"

text \<open>
  A delegated transient stake: inactive ones go to the reserve, active ones of an active
  validator to the validator stake, and those of a validator that is leaving are deactivated.
\<close>

definition update_transient_delegated ::
    "runtime \<Rightarrow> call_context \<Rightarrow> account_info \<Rightarrow> account_info \<Rightarrow> account_info \<Rightarrow> account_info \<Rightarrow>
      stake_state option \<Rightarrow> stake_delegation \<Rightarrow> u8 \<Rightarrow> world \<Rightarrow> program_error + (u8 \<times> world)" where
  "update_transient_delegated rt c reserve_stake_info stake_history_info validator_stake_info
       transient_stake_info validator_stake_state stake status w =
     (if stake_is_inactive_without_history stake (cx_epoch c) then
        bindE (pool_merge rt c transient_stake_info reserve_stake_info stake_history_info w) (\<lambda>w.
        bindE (remove_transient_stake status) (\<lambda>status. Inr (status, w)))
      else if status_try_from status = Inr Active then
        if activation_epoch stake < cx_epoch c then
          case validator_stake_state of
            Some (SS_Stake _ validator_stake) \<Rightarrow>
              if activation_epoch validator_stake < cx_epoch c then
                bindE (pool_merge rt c transient_stake_info validator_stake_info stake_history_info w)
                  (\<lambda>w. Inr (status, w))
              else Inr (status, w)
          | _ \<Rightarrow> Inr (status, w)
        else Inr (status, w)
      else if deactivation_epoch stake = EPOCH_MAX then
        bindE (pool_deactivate rt c transient_stake_info w) (\<lambda>w. Inr (status, w))
      else Inr (status, w))"

text \<open>The transient part of one entry: its lamports, the status and the world.\<close>

definition update_transient ::
    "runtime \<Rightarrow> call_context \<Rightarrow> account_info \<Rightarrow> account_info \<Rightarrow> bool \<Rightarrow> account_info \<Rightarrow> account_info \<Rightarrow>
      validator_stake_info \<Rightarrow> world \<Rightarrow> program_error + (u64 \<times> u8 \<times> world)" where
  "update_transient rt c reserve_stake_info stake_history_info no_merge validator_stake_info
       transient_stake_info record w =
     (if vs_transient_stake_lamports record \<noteq> 0 then
        case stake_state_of rt w transient_stake_info of
          Some (SS_Initialized meta) \<Rightarrow>
            if usable c meta then
              if no_merge then Inr (lamports_of w transient_stake_info, vs_status record, w)
              else
                bindE (pool_merge rt c transient_stake_info reserve_stake_info stake_history_info w) (\<lambda>w.
                bindE (remove_transient_stake (vs_status record)) (\<lambda>status. Inr (0, status, w)))
            else Inr (0, vs_status record, w)
        | Some (SS_Stake meta stake) \<Rightarrow>
            if usable c meta then
              bindE (if \<not> no_merge then
                       update_transient_delegated rt c reserve_stake_info stake_history_info
                         validator_stake_info transient_stake_info
                         (stake_state_of rt w validator_stake_info) stake (vs_status record) w
                     else Inr (vs_status record, w)) (\<lambda>(status, w).
              Inr (lamports_of w transient_stake_info, status, w))
            else Inr (0, vs_status record, w)
        | _ \<Rightarrow> Inr (0, vs_status record, w)
      else Inr (0, vs_status record, w))"

text \<open>A usable validator stake, after its extra lamports were moved to the reserve.\<close>

definition update_active_delegated ::
    "runtime \<Rightarrow> call_context \<Rightarrow> account_info \<Rightarrow> account_info \<Rightarrow> bool \<Rightarrow> account_info \<Rightarrow>
      stake_delegation \<Rightarrow> u8 \<Rightarrow> world \<Rightarrow> program_error + (u64 \<times> u8 \<times> world)" where
  "update_active_delegated rt c reserve_stake_info stake_history_info no_merge validator_stake_info
       stake status w =
     bindE (status_try_from status) (\<lambda>st.
     case st of
       Active \<Rightarrow> Inr (lamports_of w validator_stake_info, status, w)
     | DeactivatingTransient \<Rightarrow> Inr (0, status, w)
     | ReadyForRemoval \<Rightarrow> Inr (0, status, w)
     | _ \<Rightarrow>
         if no_merge then Inr (lamports_of w validator_stake_info, status, w)
         else if stake_is_inactive_without_history stake (cx_epoch c) then
           bindE (pool_merge rt c validator_stake_info reserve_stake_info stake_history_info w) (\<lambda>w.
           bindE (remove_validator_stake status) (\<lambda>status. Inr (0, status, w)))
         else Inr (lamports_of w validator_stake_info, status, w))"

definition update_active ::
    "runtime \<Rightarrow> call_context \<Rightarrow> account_info \<Rightarrow> account_info \<Rightarrow> bool \<Rightarrow> account_info \<Rightarrow> u64 \<Rightarrow> u8 \<Rightarrow>
      world \<Rightarrow> program_error + (u64 \<times> u8 \<times> world)" where
  "update_active rt c reserve_stake_info stake_history_info no_merge validator_stake_info
       transient_stake_lamports status w =
     (case stake_state_of rt w validator_stake_info of
        Some (SS_Stake meta stake) \<Rightarrow>
          if usable c meta then
            let additional_lamports =
                  saturating_sub (saturating_sub (lamports_of w validator_stake_info) (delegated_stake stake))
                    (rent_exempt_reserve meta) in
            bindE (if additional_lamports > 0 then
                     pool_withdraw rt c validator_stake_info reserve_stake_info stake_history_info
                       additional_lamports w
                   else Inr w) (\<lambda>w.
            update_active_delegated rt c reserve_stake_info stake_history_info no_merge
              validator_stake_info stake status w)
          else Inr (0, status, w)
      | Some (SS_Initialized meta) \<Rightarrow>
          if usable c meta then
            bindE (pool_merge rt c validator_stake_info reserve_stake_info stake_history_info w) (\<lambda>w.
            Inr (0, (if transient_stake_lamports \<noteq> 0 then status_to_u8 DeactivatingTransient
                     else status_to_u8 ReadyForRemoval), w))
          else Inr (0, status, w)
      | _ \<Rightarrow> Inr (0, status, w))"

text \<open>One turn of the loop: an entry whose accounts do not match is skipped.\<close>

definition update_record ::
    "runtime \<Rightarrow> call_context \<Rightarrow> account_info \<Rightarrow> account_info \<Rightarrow> bool \<Rightarrow> account_info \<Rightarrow> account_info \<Rightarrow>
      validator_stake_info \<Rightarrow> world \<Rightarrow> program_error + (validator_stake_info \<times> world)" where
  "update_record rt c reserve_stake_info stake_history_info no_merge validator_stake_info
       transient_stake_info record w =
     (if \<not> is_ok (check_validator_stake_address rt (cx_program_id c) (ai_key (cx_stake_pool_info c))
                    (ai_key validator_stake_info) (vs_vote_account_address record)
                    (vs_validator_seed_suffix record))
      then Inr (record, w)
      else if \<not> is_ok (check_transient_stake_address rt (cx_program_id c) (ai_key (cx_stake_pool_info c))
                    (ai_key transient_stake_info) (vs_vote_account_address record)
                    (vs_transient_seed_suffix record))
      then Inr (record, w)
      else
        bindE (update_transient rt c reserve_stake_info stake_history_info no_merge validator_stake_info
                 transient_stake_info record w) (\<lambda>(transient_stake_lamports, status, w).
        bindE (update_active rt c reserve_stake_info stake_history_info no_merge validator_stake_info
                 transient_stake_lamports status w) (\<lambda>(active_stake_lamports, status, w).
        Inr (record\<lparr>vs_status := status, vs_last_update_epoch := cx_epoch c,
                    vs_active_stake_lamports := active_stake_lamports,
                    vs_transient_stake_lamports := transient_stake_lamports\<rparr>, w))))"

text \<open>The loop over the entries of the slice, from offset \<open>off\<close>, with a pair of accounts each.\<close>

fun update_records ::
    "runtime \<Rightarrow> call_context \<Rightarrow> account_info \<Rightarrow> account_info \<Rightarrow> bool \<Rightarrow> account_info \<Rightarrow> nat \<Rightarrow>
      account_info list \<Rightarrow> world \<Rightarrow> program_error + world" where
  "update_records rt c reserve_stake_info stake_history_info no_merge validator_list_info off
       (validator_stake_info # transient_stake_info # rest) w =
     bindE (update_record rt c reserve_stake_info stake_history_info no_merge validator_stake_info
              transient_stake_info (entry_at (list_vec w validator_list_info) off) w) (\<lambda>(record, w).
     update_records rt c reserve_stake_info stake_history_info no_merge validator_list_info
       (off + ENTRY_LEN) rest (put_entry w validator_list_info off record))"
| "update_records rt c reserve_stake_info stake_history_info no_merge validator_list_info off _ w = Inr w"

definition process_update_validator_list_balance ::
    "runtime \<Rightarrow> pubkey \<Rightarrow> account_info list \<Rightarrow> u32 \<Rightarrow> bool \<Rightarrow> world \<Rightarrow> program_error + world" where
  "process_update_validator_list_balance rt program_id accounts start_index no_merge w =
     bindE (next_account_info accounts) (\<lambda>(stake_pool_info, it).
     bindE (next_account_info it) (\<lambda>(withdraw_authority_info, it).
     bindE (next_account_info it) (\<lambda>(validator_list_info, it).
     bindE (next_account_info it) (\<lambda>(reserve_stake_info, it).
     bindE (next_account_info it) (\<lambda>(clock_info, it).
     bindE (rt_clock_from_account_info rt clock_info w) (\<lambda>clock_epoch.
     bindE (next_account_info it) (\<lambda>(stake_history_info, it).
     bindE (next_account_info it) (\<lambda>(stake_program_info, validator_stake_accounts).
     bindE (load_stake_pool program_id w stake_pool_info) (\<lambda>stake_pool.
     bindE (check_validator_list stake_pool validator_list_info) (\<lambda>_.
     bindE (check_authority_withdraw rt stake_pool (ai_key withdraw_authority_info) program_id
              (ai_key stake_pool_info)) (\<lambda>_.
     bindE (check_reserve_stake stake_pool reserve_stake_info) (\<lambda>_.
     bindE (check_stake_program rt (ai_key stake_program_info)) (\<lambda>_.
     bindE (rt_epoch_rewards_active rt) (\<lambda>rewards_active.
     if rewards_active then Inl (pool_err EpochRewardDistributionInProgress)
     else if length validator_stake_accounts mod 2 \<noteq> 0
     then Inl (pool_err UnexpectedValidatorListAccountSize)
     else
     bindE (check_account_owner w validator_list_info program_id) (\<lambda>_.
     bindE (deserialize_vec (data_of w validator_list_info)) (\<lambda>(validator_list_header, big_vec).
     bindE (bv_deserialize_slice ENTRY_LEN (unat start_index) (length validator_stake_accounts div 2)
              big_vec) (\<lambda>(off, _).
     if \<not> header_is_valid validator_list_header then Inl (pool_err InvalidState)
     else
     update_records rt
       \<lparr>cx_program_id = program_id, cx_stake_pool_info = stake_pool_info,
        cx_stake_pool = stake_pool, cx_withdraw_authority_info = withdraw_authority_info,
        cx_clock_info = clock_info, cx_epoch = clock_epoch\<rparr>
       reserve_stake_info stake_history_info no_merge validator_list_info off
       validator_stake_accounts w)))))))))))))))))"

subsection \<open>UpdateStakePoolBalance\<close>

text \<open>The sum over the entries, each of which must be up to date.\<close>

fun sum_records :: "u64 \<Rightarrow> validator_stake_info list \<Rightarrow> u64 \<Rightarrow> program_error + u64" where
  "sum_records clock_epoch [] total_lamports = Inr total_lamports"
| "sum_records clock_epoch (record # records) total_lamports =
     (if vs_last_update_epoch record < clock_epoch then Inl (pool_err StakeListOutOfDate)
      else
        bindE (into_err (stake_lamports record)) (\<lambda>lamports.
        bindE (ok_or (checked_add total_lamports lamports) (pool_err CalculationFailure)) (\<lambda>total_lamports.
        sum_records clock_epoch records total_lamports)))"

definition reserve_total :: "runtime \<Rightarrow> world \<Rightarrow> account_info \<Rightarrow> program_error + u64" where
  "reserve_total rt w reserve_stake_info =
     bindE (read_stake_state rt w reserve_stake_info) (\<lambda>reserve_stake.
     case reserve_stake of
       SS_Initialized meta \<Rightarrow>
         ok_or (checked_sub (lamports_of w reserve_stake_info) (minimum_reserve_lamports meta))
           (pool_err CalculationFailure)
     | _ \<Rightarrow> Inl (pool_err WrongStakeStake))"

text \<open>The records of the whole vector, as \<open>deserialize_slice(0, len)\<close> returns them.\<close>

definition all_records :: "bytes \<Rightarrow> program_error + validator_stake_info list" where
  "all_records validator_list =
     bindE (bv_len validator_list) (\<lambda>n.
     bindE (bv_deserialize_slice ENTRY_LEN 0 (unat n) validator_list) (\<lambda>(_, bs).
     Inr (map pod_vsi (chunks ENTRY_LEN (unat n) bs))))"

text \<open>If the manager's account is not valid the manager gets no fee.\<close>

definition epoch_fee_of ::
    "runtime \<Rightarrow> stake_pool \<Rightarrow> world \<Rightarrow> account_info \<Rightarrow> u64 \<Rightarrow> program_error + u64" where
  "epoch_fee_of rt stake_pool w manager_fee_info reward_lamports =
     (if is_ok (check_manager_fee_info rt stake_pool w manager_fee_info)
      then ok_or (calc_epoch_fee_amount stake_pool reward_lamports) (pool_err CalculationFailure)
      else Inr 0)"

definition take_fee :: "fee future_epoch \<Rightarrow> fee \<Rightarrow> fee" where
  "take_fee next current = (case future_epoch_get next of Some f \<Rightarrow> f | None \<Rightarrow> current)"

text \<open>The first update of an epoch moves the fee schedule and takes the snapshots.\<close>

definition advance_epoch :: "stake_pool \<Rightarrow> u64 \<Rightarrow> u64 \<Rightarrow> u64 \<Rightarrow> stake_pool" where
  "advance_epoch stake_pool clock_epoch previous_lamports previous_pool_token_supply =
     (if sp_last_update_epoch stake_pool < clock_epoch then
        stake_pool
          \<lparr>sp_epoch_fee := take_fee (sp_next_epoch_fee stake_pool) (sp_epoch_fee stake_pool),
           sp_next_epoch_fee := update_epoch (sp_next_epoch_fee stake_pool),
           sp_stake_withdrawal_fee :=
             take_fee (sp_next_stake_withdrawal_fee stake_pool) (sp_stake_withdrawal_fee stake_pool),
           sp_next_stake_withdrawal_fee := update_epoch (sp_next_stake_withdrawal_fee stake_pool),
           sp_sol_withdrawal_fee :=
             take_fee (sp_next_sol_withdrawal_fee stake_pool) (sp_sol_withdrawal_fee stake_pool),
           sp_next_sol_withdrawal_fee := update_epoch (sp_next_sol_withdrawal_fee stake_pool),
           sp_last_update_epoch := clock_epoch,
           sp_last_epoch_total_lamports := previous_lamports,
           sp_last_epoch_pool_token_supply := previous_pool_token_supply\<rparr>
      else stake_pool)"

definition process_update_stake_pool_balance ::
    "runtime \<Rightarrow> pubkey \<Rightarrow> account_info list \<Rightarrow> world \<Rightarrow> program_error + world" where
  "process_update_stake_pool_balance rt program_id accounts w =
     bindE (next_account_info accounts) (\<lambda>(stake_pool_info, it).
     bindE (next_account_info it) (\<lambda>(withdraw_info, it).
     bindE (next_account_info it) (\<lambda>(validator_list_info, it).
     bindE (next_account_info it) (\<lambda>(reserve_stake_info, it).
     bindE (next_account_info it) (\<lambda>(manager_fee_info, it).
     bindE (next_account_info it) (\<lambda>(pool_mint_info, it).
     bindE (next_account_info it) (\<lambda>(token_program_info, it).
     bindE (rt_clock_get rt) (\<lambda>clock_epoch.
     bindE (load_stake_pool program_id w stake_pool_info) (\<lambda>stake_pool.
     bindE (check_mint rt stake_pool w pool_mint_info) (\<lambda>_.
     bindE (check_authority_withdraw rt stake_pool (ai_key withdraw_info) program_id
              (ai_key stake_pool_info)) (\<lambda>_.
     bindE (check_reserve_stake stake_pool reserve_stake_info) (\<lambda>_.
     if sp_manager_fee_account stake_pool \<noteq> ai_key manager_fee_info then Inl (pool_err InvalidFeeAccount)
     else if ai_key validator_list_info \<noteq> sp_validator_list stake_pool
     then Inl (pool_err InvalidValidatorStakeList)
     else if sp_token_program_id stake_pool \<noteq> ai_key token_program_info then Inl IncorrectProgramId
     else
     bindE (check_account_owner w validator_list_info program_id) (\<lambda>_.
     bindE (load_validator_list w validator_list_info) (\<lambda>(_, validator_list).
     let previous_lamports = sp_total_lamports stake_pool;
         previous_pool_token_supply = sp_pool_token_supply stake_pool in
     bindE (reserve_total rt w reserve_stake_info) (\<lambda>total_lamports.
     bindE (all_records validator_list) (\<lambda>records.
     bindE (sum_records clock_epoch records total_lamports) (\<lambda>total_lamports.
     let reward_lamports = saturating_sub total_lamports previous_lamports in
     bindE (epoch_fee_of rt stake_pool w manager_fee_info reward_lamports) (\<lambda>epoch_fee.
     bindE (if epoch_fee > 0 then
              token_mint_to rt (ai_key stake_pool_info) token_program_info pool_mint_info manager_fee_info
                withdraw_info AUTHORITY_WITHDRAW (sp_stake_withdraw_bump_seed stake_pool) epoch_fee w
            else Inr w) (\<lambda>w.
     let stake_pool =
           (advance_epoch stake_pool clock_epoch previous_lamports previous_pool_token_supply)
             \<lparr>sp_total_lamports := total_lamports\<rparr> in
     bindE (rt_unpack_mint rt (data_of w pool_mint_info)) (\<lambda>pool_mint.
     write_stake_pool w stake_pool_info
       (stake_pool\<lparr>sp_pool_token_supply := mint_supply pool_mint\<rparr>)))))))))))))))))))))"

subsection \<open>CleanupRemovedValidatorEntries\<close>

text \<open>A preferred validator is kept only while it is in the list and active.\<close>

definition recheck_preferred :: "bytes \<Rightarrow> pubkey option \<Rightarrow> program_error + pubkey option" where
  "recheck_preferred validator_list preferred =
     (case preferred of
        None \<Rightarrow> Inr None
      | Some vote \<Rightarrow>
          bindE (find_validator validator_list vote) (\<lambda>maybe_validator.
          case maybe_validator of
            Some off \<Rightarrow>
              Inr (if status_try_from (vs_status (entry_at validator_list off)) = Inr Active
                   then preferred else None)
          | None \<Rightarrow> Inr None))"

definition process_cleanup_removed_validator_entries ::
    "runtime \<Rightarrow> pubkey \<Rightarrow> account_info list \<Rightarrow> world \<Rightarrow> program_error + world" where
  "process_cleanup_removed_validator_entries rt program_id accounts w =
     bindE (next_account_info accounts) (\<lambda>(stake_pool_info, it).
     bindE (next_account_info it) (\<lambda>(validator_list_info, it).
     bindE (load_stake_pool program_id w stake_pool_info) (\<lambda>stake_pool.
     bindE (check_validator_list stake_pool validator_list_info) (\<lambda>_.
     bindE (check_account_owner w validator_list_info program_id) (\<lambda>_.
     bindE (load_validator_list w validator_list_info) (\<lambda>(_, validator_list).
     bindE (bv_retain ENTRY_LEN (\<lambda>x. \<not> is_removed x) validator_list) (\<lambda>validator_list.
     let w = set_list_vec w validator_list_info validator_list in
     if ai_is_writable stake_pool_info then
       bindE (read_stake_pool w stake_pool_info) (\<lambda>stake_pool.
       bindE (recheck_preferred validator_list
                (sp_preferred_deposit_validator_vote_address stake_pool)) (\<lambda>preferred_deposit.
       bindE (recheck_preferred validator_list
                (sp_preferred_withdraw_validator_vote_address stake_pool)) (\<lambda>preferred_withdraw.
       write_stake_pool w stake_pool_info
         (stake_pool\<lparr>sp_preferred_deposit_validator_vote_address := preferred_deposit,
                     sp_preferred_withdraw_validator_vote_address := preferred_withdraw\<rparr>))))
     else Inr w)))))))"

end
