(* ===== verification/Validator_Effects.thy ===== *)
theory Validator_Effects
  imports Processor_Validators Processor_Update
begin

section \<open>What the handlers do to the validator list\<close>

text \<open>
  Each handler of the staker and of the epoch update, reduced to its effect on the
  validator list as a list of records.
\<close>

subsection \<open>Frames of the stages\<close>

text \<open>The relations of \<open>call_frame\<close>, lifted from the wrappers to the stages of the handlers.\<close>

context call_frame begin

lemma pool_call:
  "pool_split rt c a amt b w = Inr w' \<Longrightarrow> keeps w w'"
  "pool_delegate rt c a b d e w = Inr w' \<Longrightarrow> keeps w w'"
  "pool_deactivate rt c a w = Inr w' \<Longrightarrow> keeps w w'"
  "pool_merge rt c a b d w = Inr w' \<Longrightarrow> keeps w w'"
  "pool_withdraw rt c a b d amt w = Inr w' \<Longrightarrow> keeps w w'"
  unfolding pool_split_def pool_delegate_def pool_deactivate_def pool_merge_def pool_withdraw_def
  by (blast intro: single_call)+

lemma fund_rent:
  "fund_ephemeral_rent rt c a b d e w = Inr w' \<Longrightarrow> keeps w w'"
  "fund_transient_rent rt c a b d e f g w = Inr w' \<Longrightarrow> keeps w w'"
  unfolding fund_ephemeral_rent_def fund_transient_rent_def
  by (auto simp: Let_def ok_iff keeps_refl intro: pool_call(5) split: option.splits if_splits)

lemma stage_decrease_source:
  assumes "decrease_source rt c a b d e f g w = Inr (x, y, w')"
  shows "keeps w w'"
proof (cases g)
  case None
  then show ?thesis using assms keeps_refl by (auto simp: decrease_source_def)
next
  case (Some p)
  then obtain s i where g: "g = Some (s, i)" by (cases p) auto
  from assms obtain seeds w1 w2 w3 where "create_stake_account rt i seeds (rt_stake_space rt) w = Inr w1"
      "fund_ephemeral_rent rt c a b d i w1 = Inr w2" "pool_split rt c f e i w2 = Inr w3"
      "pool_deactivate rt c i w3 = Inr w'"
    by (auto simp: decrease_source_def g ok_iff)
  then show ?thesis by (meson double_call fund_rent pool_call keeps_trans)
qed

lemma stage_decrease_into_transient:
  assumes run: "decrease_into_transient rt c a b d e f g h i j k w = Inr w'"
  shows "keeps w w'"
proof (cases "vs_transient_stake_lamports e > 0")
  case True
  then show ?thesis using run pool_call(4)
    by (auto simp: decrease_into_transient_def split: option.splits)
next
  case False
  with run obtain seeds w1 w2 w3 where
      w1: "create_stake_account rt k seeds (rt_stake_space rt) w = Inr w1"
      and w2: "fund_transient_rent rt c a b d i j k w1 = Inr w2" and w3: "pool_split rt c i j k w2 = Inr w3"
      and last: "w' = w3 \<or> pool_deactivate rt c k w3 = Inr w'"
    by (auto simp: decrease_into_transient_def ok_iff split: if_splits)
  have "keeps w w3" using w1 w2 w3 by (meson double_call fund_rent pool_call keeps_trans)
  moreover have "keeps w3 w'" using last pool_call(3) keeps_refl by auto
  ultimately show ?thesis by (rule keeps_trans)
qed

lemma stage_increase_source:
  assumes "increase_source rt c a b d e g f w = Inr (x, w')"
  shows "keeps w w'"
proof (cases g)
  case None
  then show ?thesis using assms keeps_refl by (auto simp: increase_source_def)
next
  case (Some p)
  then obtain s i where g: "g = Some (s, i)" by (cases p) auto
  from assms obtain seeds w1 w2 where "create_stake_account rt i seeds (rt_stake_space rt) w = Inr w1"
      "pool_split rt c a f i w1 = Inr w2" "pool_delegate rt c i b d e w2 = Inr w'"
    by (auto simp: increase_source_def g ok_iff)
  then show ?thesis by (meson double_call pool_call keeps_trans)
qed

lemma case_stake_state_Inr:
  "(case s of SS_Stake _ stake \<Rightarrow> if p stake then Inr w else m | _ \<Rightarrow> m) = Inr w' \<Longrightarrow> w' = w \<or> m = Inr w'"
  by (auto split: stake_state.splits if_splits)

lemma stage_increase_into_transient:
  assumes run: "increase_into_transient rt c a b d e f g h i j w = Inr w'"
  shows "keeps w w'"
proof (cases "vs_transient_stake_lamports e > 0")
  case True
  then show ?thesis using run pool_call(4) by (auto simp: increase_into_transient_def)
next
  case False
  with run obtain seeds w1 w2 where
      w1: "create_stake_account rt j seeds (rt_stake_space rt) w = Inr w1"
      and w2: "pool_split rt c h i j w1 = Inr w2"
      and last: "w' = w2 \<or> pool_delegate rt c j a b d w2 = Inr w'"
    by (auto simp: increase_into_transient_def Let_def bindE_eq_Inr dest!: case_stake_state_Inr)
  have "keeps w w2" using w1 w2 by (meson double_call pool_call keeps_trans)
  moreover have "keeps w2 w'" using last pool_call(2) keeps_refl by auto
  ultimately show ?thesis by (rule keeps_trans)
qed

lemma stage_remove_transient:
  assumes "remove_transient rt c a e v w = Inr (s, w')"
  shows "keeps w w'"
proof -
  have "w' = w \<or> pool_deactivate rt c a w = Inr w'"
    using assms unfolding remove_transient_def by (auto simp: ok_iff split: if_splits sum.splits prod.splits)
  then show ?thesis using pool_call(3) keeps_refl by auto
qed

lemmas stage_keeps = pool_call fund_rent stage_decrease_source stage_decrease_into_transient
  stage_increase_source stage_increase_into_transient stage_remove_transient

end

lemmas own_stage_frame [frame] = owner_frame.stage_keeps [THEN mp, rotated]
lemmas pool_call_frame = owner_frame.pool_call [THEN mp, rotated]
lemmas remove_transient_frame = owner_frame.stage_remove_transient [THEN mp, rotated]

lemma same_program_list:
  assumes "same_program_data pid w w'" "owner_of w info = pid"
  shows "data_of w' info = data_of w info" "list_vec w' info = list_vec w info" "owner_of w' info = pid"
  using same_program_data_read [OF assms] by (simp_all add: list_vec_def)

lemma add_validator_list_check_Inr:
  assumes "add_validator_list_check w info vote = Inr u" "list_ok (data_of w info)"
  shows "vote \<notin> set (votes (data_of w info)) \<and> length (list_infos (data_of w info)) < 20000"
proof -
  from assms(1) obtain h vec len where l: "load_validator_list w info = Inr (h, vec)"
      and len: "bv_len vec = Inr len" "len < MAX_VALIDATORS_IN_POOL"
      and f: "find_validator vec vote = Inr None"
    by (auto simp: add_validator_list_check_def ok_iff split: if_splits)
  have vec: "vec = drop HEADER_LEN (data_of w info)"
    using load_validator_list_Inr [OF l] by (simp add: list_vec_def)
  have inv: "bv_invar ENTRY_LEN vec" using assms(2) by (simp add: list_ok_def vec)
  have "vote \<notin> set (votes (data_of w info))"
    using f find_validator_infos [OF assms(2), of vote]
    by (auto simp: vec find_index_None votes_def)
  moreover have "length (list_infos (data_of w info)) = unat len"
    using bv.size_spec [OF inv] len(1) by (auto simp: list_infos_def vec)
  moreover have "unat len < 20000"
    using len(2) by (simp add: MAX_VALIDATORS_IN_POOL_def word_less_nat_alt)
  ultimately show ?thesis by simp
qed

lemma add_validator_effect:
  assumes own: "respects_owner rt pid"
    and run: "process_add_validator_to_pool rt pid
      (pool # staker # reserve # auth # list # stake # vote # rest) seed w = Inr w'"
    and ok: "list_ok (data_of w list)"
  shows "\<exists>sp required epoch. read_stake_pool w pool = Inr sp \<and>
    ai_key staker = sp_staker sp \<and> ai_is_signer staker \<and> ai_key list = sp_validator_list sp \<and>
    ai_key vote \<notin> set (votes (data_of w list)) \<and> length (list_infos (data_of w list)) < 20000 \<and>
    list_ok (data_of w' list) \<and>
    list_infos (data_of w' list) =
      list_infos (data_of w list) @ [new_validator_entry (ai_key vote) required epoch seed]"
proof -
  from run obtain sp required epoch w1 w2 w3 c s a b where
      sp: "load_stake_pool pid w pool = Inr sp" and st: "ai_key staker = sp_staker sp" "ai_is_signer staker"
      and li: "ai_key list = sp_validator_list sp" "owner_of w list = pid"
      and chk: "add_validator_list_check w list (ai_key vote) = Inr ()"
      and w1: "create_stake_account rt stake s (rt_stake_space rt) w = Inr w1"
      and w2: "pool_split rt c reserve required stake w1 = Inr w2"
      and w3: "pool_delegate rt c stake vote a b w2 = Inr w3"
      and p: "push_entry w3 list (new_validator_entry (ai_key vote) required epoch seed) = Inr w'"
    by (simp add: process_add_validator_to_pool_def ok_iff Let_def case_prod_beta) blast
  have "same_program_data pid w w3"
    using w1 w2 w3 own by (meson frame same_program_data_trans)
  note same = same_program_list [OF this li(2)]
  note c = add_validator_list_check_Inr [OF chk ok]
  have "list_ok (data_of w3 list)" "Suc (length (list_infos (data_of w3 list))) < 2 ^ 32"
    using ok c same by simp_all
  note pe = push_entry_Inr [OF p this]
  show ?thesis using sp st li c pe same by (auto simp: load_stake_pool_Inr)
qed

lemma remove_transient_status:
  "remove_transient rt c a e v w = Inr (s, w') \<Longrightarrow>
     s = (if vs_transient_stake_lamports e > 0 then DeactivatingAll else DeactivatingValidator)"
  unfolding remove_transient_def by (fastforce simp: ok_iff split: if_splits)

lemma clear_preferred_books: "same_books sp (clear_preferred sp v)"
  by (simp add: clear_preferred_def same_books_def Let_def)

lemma write_stake_pool_same_data:
  "write_stake_pool w info sp = Inr w' \<Longrightarrow> ai_key i \<noteq> ai_key info \<Longrightarrow> data_of w' i = data_of w i"
  by (auto simp: write_stake_pool_Inr)

lemma remove_validator_effect:
  assumes own: "respects_owner rt pid"
    and run: "process_remove_validator_from_pool rt pid
      (pool # staker # auth # list # stake # rest) w = Inr w'"
    and ok: "list_ok (data_of w list)" and ne: "ai_key pool \<noteq> ai_key list"
  shows "\<exists>sp i e. read_stake_pool w pool = Inr sp \<and>
    ai_key staker = sp_staker sp \<and> ai_is_signer staker \<and> ai_key list = sp_validator_list sp \<and>
    i < length (list_infos (data_of w list)) \<and> e = list_infos (data_of w list) ! i \<and>
    vs_status e = status_to_u8 Active \<and>
    list_ok (data_of w' list) \<and>
    list_infos (data_of w' list) = (list_infos (data_of w list))
      [i := e\<lparr>vs_status := status_to_u8 (if vs_transient_stake_lamports e > 0 then DeactivatingAll
                                           else DeactivatingValidator)\<rparr>] \<and>
    read_stake_pool w' pool = Inr (clear_preferred sp (vs_vote_account_address e))"
proof -
  from run obtain sp h vec off e c t new_status w1 w2 and st :: stake_delegation where
      sp: "load_stake_pool pid w pool = Inr sp" and sg: "ai_key staker = sp_staker sp" "ai_is_signer staker"
      and li: "ai_key list = sp_validator_list sp" "owner_of w list = pid"
      and ld: "load_validator_list w list = Inr (h, vec)"
      and f: "find_validator_or_fail vec (voter_pubkey st) = Inr (off, e)"
      and act: "vs_status e = status_to_u8 Active"
      and w1: "remove_transient rt c t e (voter_pubkey st) w = Inr (new_status, w1)"
      and w2: "(if deactivation_epoch st = EPOCH_MAX then pool_deactivate rt c stake w1 else Inr w1) = Inr w2"
      and wr: "write_stake_pool (put_entry w2 list off (e\<lparr>vs_status := status_to_u8 new_status\<rparr>)) pool
        (clear_preferred sp (voter_pubkey st)) = Inr w'"
    by (simp add: process_remove_validator_from_pool_def ok_iff Let_def case_prod_beta
        del: status_to_u8.simps cong: if_cong split del: if_split) blast
  have vec: "vec = drop HEADER_LEN (data_of w list)"
    using load_validator_list_Inr [OF ld] by (simp add: list_vec_def)
  obtain i where i: "i < length (list_infos (data_of w list))" "off = 4 + i * ENTRY_LEN"
      "e = list_infos (data_of w list) ! i" "vs_vote_account_address e = voter_pubkey st"
    using find_validator_or_fail_Inr [OF f [unfolded vec] ok] by metis
  have "same_program_data pid w1 w2" using w2 pool_call_frame(3) [OF own] by (auto split: if_splits)
  then have "same_program_data pid w w2"
    using remove_transient_frame [OF own w1] by (meson same_program_data_trans)
  note same = same_program_list [OF this li(2)]
  note pe = put_entry_list [of w2 list i, unfolded same(1), OF ok i(1)]
  have "data_of w' list = data_of (put_entry w2 list off (e\<lparr>vs_status := status_to_u8 new_status\<rparr>)) list"
    using wr ne by (intro write_stake_pool_same_data) auto
  then have "list_ok (data_of w' list)"
      "list_infos (data_of w' list) = (list_infos (data_of w list))[i := e\<lparr>vs_status := status_to_u8 new_status\<rparr>]"
    using pe i(2) by simp_all
  moreover have "read_stake_pool w' pool = Inr (clear_preferred sp (vs_vote_account_address e))"
    using read_written_stake_pool [OF wr] i(4) by simp
  ultimately show ?thesis
    using sp sg li i act remove_transient_status [OF w1] unfolding load_stake_pool_Inr by blast
qed

text \<open>An active entry found in the list, and the list after it was replaced.\<close>

definition replaces_active ::
    "bytes \<Rightarrow> bytes \<Rightarrow> validator_stake_info \<Rightarrow> validator_stake_info \<Rightarrow> bool" where
  "replaces_active data data' e e' \<longleftrightarrow>
     (\<exists>i. i < length (list_infos data) \<and> e = list_infos data ! i \<and> vs_status e = status_to_u8 Active \<and>
        list_ok data' \<and> list_infos data' = (list_infos data)[i := e'])"

lemma found_entry_replaced:
  assumes f: "find_validator_or_fail vec k = Inr (off, e)"
    and ld: "load_validator_list w info = Inr (h, vec)"
    and ok: "list_ok (data_of w info)" and act: "vs_status e = status_to_u8 Active"
    and same: "data_of w1 info = data_of w info"
  shows "replaces_active (data_of w info) (data_of (put_entry w1 info off e') info) e e'"
    and "vs_vote_account_address e = k"
proof -
  have vec: "vec = drop HEADER_LEN (data_of w info)"
    using load_validator_list_Inr [OF ld] by (simp add: list_vec_def)
  obtain i where i: "i < length (list_infos (data_of w info))" "off = 4 + i * ENTRY_LEN"
      "e = list_infos (data_of w info) ! i" "vs_vote_account_address e = k"
    using find_validator_or_fail_Inr [OF f [unfolded vec] ok] by metis
  then show "replaces_active (data_of w info) (data_of (put_entry w1 info off e') info) e e'"
    using put_entry_list [of w1 info i e', unfolded same, OF ok i(1)] act
    by (auto simp: replaces_active_def)
  show "vs_vote_account_address e = k" by (fact i(4))
qed

lemma decrease_core_effect:
  assumes own: "respects_owner rt pid"
    and run: "decrease_validator_stake rt c rent list res vstake eph t hist lamports seed w = Inr w'"
    and ok: "list_ok (data_of w list)" and pid: "owner_of w list = pid"
  shows "\<exists>e. unat lamports \<le> unat (vs_active_stake_lamports e) \<and>
    (vs_transient_stake_lamports e > 0 \<longrightarrow> seed = vs_transient_seed_suffix e) \<and>
    replaces_active (data_of w list) (data_of w' list) e
      (e\<lparr>vs_active_stake_lamports := vs_active_stake_lamports e - lamports,
         vs_transient_stake_lamports := lamports_of w' t, vs_transient_seed_suffix := seed\<rparr>)"
proof -
  from run obtain h vec off e src amt r b w1 w2 m l and st :: stake_delegation where
      ld: "load_validator_list w list = Inr (h, vec)"
      and f: "find_validator_or_fail vec (voter_pubkey st) = Inr (off, e)"
      and pc: "decrease_pending_check rt e seed m t (cx_epoch c) w = Inr ()"
      and act: "vs_status e = status_to_u8 Active"
      and w1: "decrease_source rt c res hist r lamports vstake eph w = Inr (src, amt, w1)"
      and w2: "decrease_into_transient rt c res hist r e (voter_pubkey st) seed b src amt t w1 = Inr w2"
      and sub: "checked_sub (vs_active_stake_lamports e) lamports = Some l"
      and w': "w' = put_entry w2 list off (e\<lparr>vs_active_stake_lamports := l,
        vs_transient_stake_lamports := lamports_of w2 t, vs_transient_seed_suffix := seed\<rparr>)"
    by (simp add: decrease_validator_stake_def ok_iff Let_def del: status_to_u8.simps) blast
  have "same_program_data pid w w2" using w1 w2 own by (meson frame same_program_data_trans)
  then have same: "data_of w2 list = data_of w list" by (rule same_program_list(1) [OF _ pid])
  have sd: "vs_transient_stake_lamports e > 0 \<longrightarrow> seed = vs_transient_seed_suffix e"
    using pc by (auto simp: decrease_pending_check_def split: if_splits)
  have l: "unat lamports \<le> unat (vs_active_stake_lamports e)" "l = vs_active_stake_lamports e - lamports"
    using sub by (auto simp: checked_sub_def split: if_splits)
  have "lamports_of w' t = lamports_of w2 t" by (simp add: w' lamports_of_def)
  then show ?thesis
    using found_entry_replaced(1) [OF f ld ok act same] sd l unfolding w' by metis
qed

lemma decrease_validator_effect:
  assumes own: "respects_owner rt pid"
    and run: "process_decrease_validator_stake rt pid (pool # staker # auth # list # rest) lamports seed
      eph fund w = Inr w'"
    and ok: "list_ok (data_of w list)"
  shows "\<exists>sp e t. read_stake_pool w pool = Inr sp \<and>
    ai_key staker = sp_staker sp \<and> ai_is_signer staker \<and> ai_key list = sp_validator_list sp \<and>
    unat lamports \<le> unat (vs_active_stake_lamports e) \<and>
    (vs_transient_stake_lamports e > 0 \<longrightarrow> seed = vs_transient_seed_suffix e) \<and>
    replaces_active (data_of w list) (data_of w' list) e
      (e\<lparr>vs_active_stake_lamports := vs_active_stake_lamports e - lamports,
         vs_transient_stake_lamports := lamports_of w' t, vs_transient_seed_suffix := seed\<rparr>)"
proof -
  from run obtain sp c rent res vstake m t hist where
      sp: "load_stake_pool pid w pool = Inr sp" and sg: "ai_key staker = sp_staker sp" "ai_is_signer staker"
      and li: "ai_key list = sp_validator_list sp" "owner_of w list = pid"
      and core: "decrease_validator_stake rt c rent list res vstake m t hist lamports seed w = Inr w'"
    by (simp add: process_decrease_validator_stake_def ok_iff Let_def case_prod_beta) blast
  show ?thesis
    using decrease_core_effect [OF own core ok li(2)] sp sg li unfolding load_stake_pool_Inr by blast
qed

lemma increase_limit_check_Inr:
  assumes "increase_limit_check sp e lamports = Inr u" "sp_max_validator_stake sp = Some m"
  shows "unat (vs_active_stake_lamports e) + unat (vs_transient_stake_lamports e) + unat lamports \<le> unat m"
  using assms by (auto simp: increase_limit_check_def stake_lamports_def ok_iff int_ops)

lemma increase_core_effect:
  assumes own: "respects_owner rt pid"
    and run: "increase_validator_stake rt c rent list res eph t vstake vote hist conf lamports seed w = Inr w'"
    and ok: "list_ok (data_of w list)" and pid: "owner_of w list = pid"
  shows "\<exists>e total. total = saturating_add lamports (minimum_balance rent (rt_stake_space rt)) \<and>
    vs_vote_account_address e = ai_key vote \<and>
    (vs_transient_stake_lamports e > 0 \<longrightarrow> seed = vs_transient_seed_suffix e) \<and>
    (\<forall>m. sp_max_validator_stake (cx_stake_pool c) = Some m \<longrightarrow>
       unat (vs_active_stake_lamports e) + unat (vs_transient_stake_lamports e) + unat lamports \<le> unat m) \<and>
    unat (vs_transient_stake_lamports e) + unat total < 2 ^ 64 \<and>
    replaces_active (data_of w list) (data_of w' list) e
      (e\<lparr>vs_transient_stake_lamports := vs_transient_stake_lamports e + total,
         vs_transient_seed_suffix := seed\<rparr>)"
proof -
  from run obtain h vec off e src b w1 w2 m l total where
      ld: "load_validator_list w list = Inr (h, vec)"
      and f: "find_validator_or_fail vec (ai_key vote) = Inr (off, e)"
      and pc: "increase_pending_check rt e seed m t (cx_epoch c) w = Inr ()"
      and act: "vs_status e = status_to_u8 Active"
      and lim: "increase_limit_check (cx_stake_pool c) e lamports = Inr ()"
      and am: "increase_amount_check rt (minimum_balance rent (rt_stake_space rt)) lamports res w = Inr total"
      and w1: "increase_source rt c res vote hist conf eph total w = Inr (src, w1)"
      and w2: "increase_into_transient rt c vote hist conf e seed b src total t w1 = Inr w2"
      and add: "checked_add (vs_transient_stake_lamports e) total = Some l"
      and w': "w' = put_entry w2 list off
        (e\<lparr>vs_transient_stake_lamports := l, vs_transient_seed_suffix := seed\<rparr>)"
    by (simp add: increase_validator_stake_def ok_iff Let_def del: status_to_u8.simps) blast
  have "same_program_data pid w w2" using w1 w2 own by (meson frame same_program_data_trans)
  then have same: "data_of w2 list = data_of w list" by (rule same_program_list(1) [OF _ pid])
  have sd: "vs_transient_stake_lamports e > 0 \<longrightarrow> seed = vs_transient_seed_suffix e"
    using pc by (auto simp: increase_pending_check_def split: if_splits)
  have l: "unat (vs_transient_stake_lamports e) + unat total < 2 ^ 64" "l = vs_transient_stake_lamports e + total"
    using add by (auto simp: checked_add_def split: if_splits)
  have tot: "total = saturating_add lamports (minimum_balance rent (rt_stake_space rt))"
    using am by (auto simp: increase_amount_check_def ok_iff Let_def)
  have "\<forall>m. sp_max_validator_stake (cx_stake_pool c) = Some m \<longrightarrow>
      unat (vs_active_stake_lamports e) + unat (vs_transient_stake_lamports e) + unat lamports \<le> unat m"
    using increase_limit_check_Inr [OF lim] by blast
  then show ?thesis
    using found_entry_replaced [OF f ld ok act same] sd l tot unfolding w' by metis
qed

lemma increase_validator_effect:
  assumes own: "respects_owner rt pid"
    and run: "process_increase_validator_stake rt pid (pool # staker # auth # list # reserve # rest)
      lamports seed eph w = Inr w'"
    and ok: "list_ok (data_of w list)"
  shows "\<exists>sp (rent :: rent) e total. read_stake_pool w pool = Inr sp \<and>
    ai_key staker = sp_staker sp \<and> ai_is_signer staker \<and> ai_key list = sp_validator_list sp \<and>
    total = saturating_add lamports (minimum_balance rent (rt_stake_space rt)) \<and>
    (vs_transient_stake_lamports e > 0 \<longrightarrow> seed = vs_transient_seed_suffix e) \<and>
    (\<forall>m. sp_max_validator_stake sp = Some m \<longrightarrow>
       unat (vs_active_stake_lamports e) + unat (vs_transient_stake_lamports e) + unat lamports \<le> unat m) \<and>
    unat (vs_transient_stake_lamports e) + unat total < 2 ^ 64 \<and>
    replaces_active (data_of w list) (data_of w' list) e
      (e\<lparr>vs_transient_stake_lamports := vs_transient_stake_lamports e + total,
         vs_transient_seed_suffix := seed\<rparr>)"
proof -
  from run obtain sp ck ep rent m t vstake vote hist conf where
      sp: "load_stake_pool pid w pool = Inr sp" and sg: "ai_key staker = sp_staker sp" "ai_is_signer staker"
      and li: "ai_key list = sp_validator_list sp" "owner_of w list = pid"
      and core: "increase_validator_stake rt
        \<lparr>cx_program_id = pid, cx_stake_pool_info = pool, cx_stake_pool = sp,
         cx_withdraw_authority_info = auth, cx_clock_info = ck, cx_epoch = ep\<rparr> rent list reserve m t vstake vote hist conf lamports seed w = Inr w'"
    by (simp add: process_increase_validator_stake_def ok_iff Let_def case_prod_beta) blast
  have "read_stake_pool w pool = Inr sp" using sp by (simp add: load_stake_pool_Inr)
  then show ?thesis
    using increase_core_effect [OF own core ok li(2)] sg li by (simp only: call_context.simps) blast
qed

end
