(* ===== verification/Update_Effects.thy ===== *)
theory Update_Effects
  imports Validator_Effects
begin

section \<open>What the epoch update does\<close>

text \<open>
  The effect of the three permissionless handlers: an update of the list keeps the
  identity of every entry and never revives one that is leaving; the pool total becomes
  the reserve above its minimum plus the stake of every entry; a cleanup drops exactly the
  finished entries.
\<close>

subsection \<open>UpdateValidatorListBalance\<close>

lemma update_active_delegated_cases:
  assumes "update_active_delegated rt c a b d e f s w = Inr (l, s', w')"
  shows "(w' = w \<and> s' = s) \<or> (pool_merge rt c e a b w = Inr w' \<and> remove_validator_stake s = Inr s')"
proof -
  from assms obtain st where "status_try_from s = Inr st"
    by (auto simp: update_active_delegated_def ok_iff)
  then show ?thesis using assms
    by (cases st) (auto simp: update_active_delegated_def ok_iff split: if_splits)
qed

context call_frame begin

lemma stage_update_transient_delegated:
  assumes "update_transient_delegated rt c a b d e f g s w = Inr (s', w')"
  shows "keeps w w'"
proof -
  from assms have "(\<exists>x. pool_merge rt c e a b w = Inr x \<and> w' = x) \<or> (\<exists>x. pool_merge rt c e d b w = Inr x \<and> w' = x)
      \<or> pool_deactivate rt c e w = Inr w' \<or> w' = w"
    by (auto simp: update_transient_delegated_def ok_iff split: if_splits option.splits stake_state.splits)
  then show ?thesis by (auto intro: pool_call keeps_refl)
qed

lemma stage_update_transient:
  assumes "update_transient rt c a b d e f r w = Inr (l, s, w')"
  shows "keeps w w'"
proof -
  from assms have "(\<exists>x. pool_merge rt c f a b w = Inr x \<and> w' = x)
      \<or> (\<exists>g h. update_transient_delegated rt c a b e f g h (vs_status r) w = Inr (s, w')) \<or> w' = w"
    by (auto simp: update_transient_def ok_iff split: if_splits option.splits stake_state.splits)
  then show ?thesis by (auto intro: pool_call keeps_refl stage_update_transient_delegated)
qed

lemma stage_update_active_delegated:
  "update_active_delegated rt c a b d e f s w = Inr (l, s', w') \<Longrightarrow> keeps w w'"
  using update_active_delegated_cases pool_call(4) keeps_refl by blast

lemma stage_update_active:
  assumes "update_active rt c a b d e tla s w = Inr (l, s', w')"
  shows "keeps w w'"
proof -
  from assms have "(\<exists>x. pool_merge rt c e a b w = Inr x \<and> w' = x) \<or> w' = w
      \<or> (\<exists>x f. (x = w \<or> (\<exists>m. pool_withdraw rt c e a b m w = Inr x)) \<and>
            update_active_delegated rt c a b d e f s x = Inr (l, s', w'))"
    by (auto simp: update_active_def ok_iff Let_def split: if_splits option.splits stake_state.splits)
  then show ?thesis by (meson pool_call stage_update_active_delegated keeps_trans keeps_refl)
qed

lemma stage_update_record:
  assumes "update_record rt c a b d e f r w = Inr (r', w')"
  shows "keeps w w'"
proof -
  from assms have "w' = w \<or> (\<exists>l s x l' s'. update_transient rt c a b d e f r w = Inr (l, s, x) \<and>
      update_active rt c a b d e l s x = Inr (l', s', w'))"
    by (auto simp: update_record_def ok_iff split: if_splits)
  then show ?thesis by (meson stage_update_transient stage_update_active keeps_trans keeps_refl)
qed

end

lemmas update_record_frame = owner_frame.stage_update_record [THEN mp, rotated]

text \<open>Who an entry is: the vote account and the seeds of its two stake accounts.\<close>

definition same_identity :: "validator_stake_info \<Rightarrow> validator_stake_info \<Rightarrow> bool" where
  "same_identity r r' \<longleftrightarrow>
     vs_vote_account_address r' = vs_vote_account_address r \<and>
     vs_validator_seed_suffix r' = vs_validator_seed_suffix r \<and>
     vs_transient_seed_suffix r' = vs_transient_seed_suffix r"

definition entry_updated :: "u64 \<Rightarrow> validator_stake_info \<Rightarrow> validator_stake_info \<Rightarrow> bool" where
  "entry_updated epoch r r' \<longleftrightarrow>
     r' = r \<or> (same_identity r r' \<and> vs_last_update_epoch r' = epoch \<and>
       (vs_status r' = status_to_u8 Active \<longrightarrow> vs_status r = status_to_u8 Active))"

lemma without_stake_Active:
  "without_transient_stake x = Active \<Longrightarrow> x = Active"
  "without_validator_stake x = Active \<Longrightarrow> x = Active"
  by (cases x; simp)+

lemma remove_stake_active:
  "remove_transient_stake s = Inr (status_to_u8 Active) \<Longrightarrow> s = status_to_u8 Active"
  "remove_validator_stake s = Inr (status_to_u8 Active) \<Longrightarrow> s = status_to_u8 Active"
  by (auto simp: remove_transient_stake_def remove_validator_stake_def status_try_from_def ok_iff
      status_from_u8_Some simp del: status_to_u8.simps dest: without_stake_Active)

lemma update_transient_status:
  assumes "update_transient rt c a b d e f r w = Inr (l, s, w')" "s = status_to_u8 Active"
  shows "vs_status r = status_to_u8 Active"
proof -
  from assms(1) have "s = vs_status r \<or> remove_transient_stake (vs_status r) = Inr s"
    by (auto simp: update_transient_def update_transient_delegated_def ok_iff
        split: if_splits option.splits stake_state.splits)
  then show ?thesis using assms(2) remove_stake_active(1) by metis
qed

lemma update_active_status:
  assumes "update_active rt c a b d e tla s w = Inr (l, s', w')" "s' = status_to_u8 Active"
  shows "s = status_to_u8 Active"
proof -
  from assms(1) consider "s' = s" | "s' = status_to_u8 DeactivatingTransient"
    | "s' = status_to_u8 ReadyForRemoval" | x f where "update_active_delegated rt c a b d e f s x = Inr (l, s', w')"
    by (auto simp: update_active_def ok_iff Let_def split: if_splits option.splits stake_state.splits)
  then show ?thesis
  proof cases
    case 4
    from update_active_delegated_cases [OF 4] assms(2) show ?thesis
      by (auto simp del: status_to_u8.simps intro: remove_stake_active(2))
  qed (use assms(2) in simp_all)
qed

lemma update_record_updated:
  assumes "update_record rt c a b d e f r w = Inr (r', w')"
  shows "entry_updated (cx_epoch c) r r'"
proof -
  from assms have "r' = r \<or> (\<exists>l s x l' s'. update_transient rt c a b d e f r w = Inr (l, s, x) \<and>
      update_active rt c a b d e l s x = Inr (l', s', w') \<and>
      r' = r\<lparr>vs_status := s', vs_last_update_epoch := cx_epoch c, vs_active_stake_lamports := l',
              vs_transient_stake_lamports := l\<rparr>)" (is "_ \<or> ?upd")
    by (simp add: update_record_def bindE_pair_eq_Inr split: if_splits) blast+
  moreover {
    assume ?upd
    then have "entry_updated (cx_epoch c) r r'"
      using update_transient_status update_active_status
      by (fastforce simp: entry_updated_def same_identity_def simp del: status_to_u8.simps)
  }
  ultimately show ?thesis by (auto simp: entry_updated_def)
qed

text \<open>The slice of the list that an update covers, entry by entry.\<close>

definition slice_updated ::
    "u64 \<Rightarrow> nat \<Rightarrow> nat \<Rightarrow> validator_stake_info list \<Rightarrow> validator_stake_info list \<Rightarrow> bool" where
  "slice_updated epoch i n xs ys \<longleftrightarrow>
     length ys = length xs \<and>
     (\<forall>j < length xs. if i \<le> j \<and> j < i + n then entry_updated epoch (xs ! j) (ys ! j) else ys ! j = xs ! j)"

lemma slice_updated_step:
  assumes "entry_updated epoch (xs ! i) r" "i < length xs"
    and "slice_updated epoch (Suc i) n (xs[i := r]) ys"
  shows "slice_updated epoch i (Suc n) xs ys"
  unfolding slice_updated_def
proof (intro conjI allI impI)
  show "length ys = length xs" using assms(3) by (simp add: slice_updated_def)
  fix j assume j: "j < length xs"
  then have "if Suc i \<le> j \<and> j < Suc i + n then entry_updated epoch (xs[i := r] ! j) (ys ! j)
      else ys ! j = xs[i := r] ! j"
    using assms(3) unfolding slice_updated_def length_list_update by blast
  then show "if i \<le> j \<and> j < i + Suc n then entry_updated epoch (xs ! j) (ys ! j) else ys ! j = xs ! j"
    using assms(1,2) j by (cases "j = i") (auto split: if_splits)
qed

text \<open>One turn of the loop: the entry at index \<open>i\<close> is updated, and the loop goes on after it.\<close>

lemma update_records_step:
  assumes own: "respects_owner rt pid"
    and run: "update_records rt c a b d list (4 + i * ENTRY_LEN) (v # t # rest) w = Inr w'"
    and i: "i < length (list_infos (data_of w list))"
    and ok: "list_ok (data_of w list)" "owner_of w list = pid"
  obtains r w1 w2 where
    "update_record rt c a b d v t (list_infos (data_of w list) ! i) w = Inr (r, w1)"
    "update_records rt c a b d list (4 + Suc i * ENTRY_LEN) rest w2 = Inr w'"
    "list_ok (data_of w2 list)" "list_infos (data_of w2 list) = (list_infos (data_of w list))[i := r]"
    "owner_of w2 list = pid"
proof -
  let ?off = "4 + i * ENTRY_LEN"
  from run obtain r w1 where
      u: "update_record rt c a b d v t (entry_at (list_vec w list) ?off) w = Inr (r, w1)"
      and rec: "update_records rt c a b d list (?off + ENTRY_LEN) rest (put_entry w1 list ?off r) = Inr w'"
    by (auto simp: ok_iff)
  note same = same_program_list [OF update_record_frame [OF own u] ok(2)]
  have "entry_at (list_vec w list) ?off = list_infos (data_of w list) ! i"
    using list_infos_nth [OF i] by (simp add: list_vec_def)
  moreover have "list_ok (data_of (put_entry w1 list ?off r) list)"
      "list_infos (data_of (put_entry w1 list ?off r) list) = (list_infos (data_of w list))[i := r]"
    using put_entry_list [of w1 list i r] ok(1) i same(1) by simp_all
  moreover have "owner_of (put_entry w1 list ?off r) list = pid" using same(3) by (simp add: owner_of_def)
  moreover have "?off + ENTRY_LEN = 4 + Suc i * ENTRY_LEN" by simp
  ultimately show thesis using that u rec by metis
qed

lemma update_records_effect:
  assumes own: "respects_owner rt pid"
  shows "update_records rt c a b d list (4 + i * ENTRY_LEN) accts w = Inr w' \<Longrightarrow>
    i + length accts div 2 \<le> length (list_infos (data_of w list)) \<Longrightarrow>
    list_ok (data_of w list) \<Longrightarrow> owner_of w list = pid \<Longrightarrow>
    list_ok (data_of w' list) \<and>
    slice_updated (cx_epoch c) i (length accts div 2) (list_infos (data_of w list)) (list_infos (data_of w' list))"
proof (induction accts arbitrary: i w rule: induct_list012)
  case (3 v t rest)
  have i: "i < length (list_infos (data_of w list))" using "3.prems"(2) by simp
  obtain r w1 w2 where u: "update_record rt c a b d v t (list_infos (data_of w list) ! i) w = Inr (r, w1)"
      and rec: "update_records rt c a b d list (4 + Suc i * ENTRY_LEN) rest w2 = Inr w'"
      and put: "list_ok (data_of w2 list)"
        "list_infos (data_of w2 list) = (list_infos (data_of w list))[i := r]" "owner_of w2 list = pid"
    using update_records_step [OF own "3.prems"(1) i "3.prems"(3,4)] by blast
  have len: "Suc i + length rest div 2 \<le> length (list_infos (data_of w2 list))"
    using "3.prems"(2) put(2) by simp
  note ih = "3.IH"(1) [OF rec len put(1,3), unfolded put(2)]
  show ?case using ih slice_updated_step [OF update_record_updated [OF u] i] by simp
qed (auto simp: slice_updated_def)

lemma ex_Inr_False: "(\<exists>b. m = Inr b \<and> \<not> b \<and> P b) \<longleftrightarrow> m = Inr False \<and> P False"
  by (metis (full_types))

text \<open>A successful run as a run of the loop from the start index.\<close>

lemma update_list_run:
  assumes run: "process_update_validator_list_balance rt pid
      (pool # auth # list # reserve # clock # history # stake_program # accts) start no_merge w = Inr w'"
    and ok: "list_ok (data_of w list)"
  obtains sp epoch where "load_stake_pool pid w pool = Inr sp"
    "ai_key list = sp_validator_list sp" "owner_of w list = pid"
    "rt_clock_from_account_info rt clock w = Inr epoch" "rt_epoch_rewards_active rt = Inr False"
    "unat start + length accts div 2 \<le> length (list_infos (data_of w list))"
    "update_records rt
       \<lparr>cx_program_id = pid, cx_stake_pool_info = pool, cx_stake_pool = sp,
        cx_withdraw_authority_info = auth, cx_clock_info = clock, cx_epoch = epoch\<rparr>
       reserve history no_merge list (4 + unat start * ENTRY_LEN) accts w = Inr w'"
proof -
  from run obtain sp epoch h vec off s where
      sp: "load_stake_pool pid w pool = Inr sp" and li: "ai_key list = sp_validator_list sp" "owner_of w list = pid"
      and ck: "rt_clock_from_account_info rt clock w = Inr epoch" and ra: "rt_epoch_rewards_active rt = Inr False"
      and dv: "deserialize_vec (data_of w list) = Inr (h, vec)"
      and sl: "bv_deserialize_slice ENTRY_LEN (unat start) (length accts div 2) vec = Inr (off, s)"
      and up: "update_records rt
        \<lparr>cx_program_id = pid, cx_stake_pool_info = pool, cx_stake_pool = sp,
         cx_withdraw_authority_info = auth, cx_clock_info = clock, cx_epoch = epoch\<rparr>
        reserve history no_merge list off accts w = Inr w'"
    by (simp add: process_update_validator_list_balance_def ok_iff Let_def case_prod_beta ex_Inr_False) blast
  have vec: "vec = drop HEADER_LEN (data_of w list)"
    using dv by (auto simp: deserialize_vec_def split: option.splits)
  have inv: "bv_invar ENTRY_LEN vec" using ok by (simp add: list_ok_def vec)
  obtain len where "bv_len vec = Inr len" "unat len = length (bv_entries ENTRY_LEN vec)"
    using bv.size_spec [OF inv] by blast
  then have b: "unat start + length accts div 2 \<le> length (list_infos (data_of w list))"
      "off = 4 + unat start * ENTRY_LEN"
    using sl by (auto simp: bv_deserialize_slice_def Let_def ok_iff VEC_SIZE_BYTES_def list_infos_def vec
        split: if_splits)
  show thesis using that [OF sp li ck ra b(1)] up b(2) by simp
qed

lemma update_list_effect:
  assumes own: "respects_owner rt pid"
    and run: "process_update_validator_list_balance rt pid
      (pool # auth # list # reserve # clock # history # stake_program # accts) start no_merge w = Inr w'"
    and ok: "list_ok (data_of w list)"
  shows "\<exists>sp epoch. read_stake_pool w pool = Inr sp \<and> ai_key list = sp_validator_list sp \<and>
    rt_clock_from_account_info rt clock w = Inr epoch \<and> rt_epoch_rewards_active rt = Inr False \<and>
    unat start + length accts div 2 \<le> length (list_infos (data_of w list)) \<and>
    list_ok (data_of w' list) \<and>
    slice_updated epoch (unat start) (length accts div 2)
      (list_infos (data_of w list)) (list_infos (data_of w' list))"
proof (rule update_list_run [OF run ok], goal_cases)
  case (1 sp epoch)
  from update_records_effect [OF own 1(7,6) ok 1(3)] 1(1,2,4-6) show ?case
    by (auto simp: load_stake_pool_Inr)
qed

subsection \<open>UpdateStakePoolBalance\<close>

definition entry_stake :: "validator_stake_info \<Rightarrow> nat" where
  "entry_stake r = unat (vs_active_stake_lamports r) + unat (vs_transient_stake_lamports r)"

lemma sum_records_Inr:
  "sum_records epoch rs t = Inr t' \<longleftrightarrow>
     (\<forall>r \<in> set rs. epoch \<le> vs_last_update_epoch r) \<and>
     unat t' = unat t + sum_list (map entry_stake rs)"
proof (induction rs arbitrary: t)
  case Nil
  then show ?case by (auto simp: unat_eq_iff)
next
  case (Cons r rs)
  have "sum_records epoch (r # rs) t = Inr t' \<longleftrightarrow>
      epoch \<le> vs_last_update_epoch r \<and>
      (\<exists>l :: u64. unat l = entry_stake r \<and> (\<exists>t1 :: u64. unat t1 = unat t + unat l \<and> sum_records epoch rs t1 = Inr t'))"
    by (simp add: ok_iff stake_lamports_def checked_add_Some entry_stake_def not_less)
  also have "\<dots> \<longleftrightarrow> epoch \<le> vs_last_update_epoch r \<and> (\<forall>r \<in> set rs. epoch \<le> vs_last_update_epoch r) \<and>
      unat t' = unat t + entry_stake r + sum_list (map entry_stake rs)" (is "?l \<longleftrightarrow> ?r")
  proof
    assume ?l
    then show ?r by (auto simp: Cons.IH)
  next
    assume r: ?r
    define l where "l = (word_of_nat (entry_stake r) :: u64)"
    define t1 where "t1 = (word_of_nat (unat t + entry_stake r) :: u64)"
    have lt: "unat t + entry_stake r < 2 ^ 64" using r u64_less [of t'] by simp
    then have "unat l = entry_stake r" by (simp add: l_def unat_of_nat)
    moreover have "unat t1 = unat t + entry_stake r"
      using lt unfolding t1_def by (subst unat_of_nat) simp
    ultimately have "unat l = entry_stake r" "unat t1 = unat t + entry_stake r" by blast+
    then show ?l using r by (intro conjI exI [of _ l] exI [of _ t1]) (simp_all add: Cons.IH)
  qed
  finally show ?case by (auto simp: add.assoc)
qed

lemma all_records_infos:
  assumes "list_ok data"
  shows "all_records (drop HEADER_LEN data) = Inr (list_infos data)"
proof -
  let ?v = "drop HEADER_LEN data"
  have inv: "bv_invar ENTRY_LEN ?v" using assms by (simp add: list_ok_def)
  obtain n where n: "bv_len ?v = Inr n" "unat n = length (bv_entries ENTRY_LEN ?v)"
    using bv.size_spec [OF inv] by blast
  have "\<forall>c \<in> set (bv_entries ENTRY_LEN ?v). length c = ENTRY_LEN" using bv.entries_size [OF inv] by blast
  then have "chunks ENTRY_LEN (unat n) (concat (bv_entries ENTRY_LEN ?v)) = bv_entries ENTRY_LEN ?v"
    using chunks_concat [of "bv_entries ENTRY_LEN ?v" ENTRY_LEN "[]"] n(2) by simp
  then show ?thesis
    using bv_deserialize_slice_entries [OF inv, of 0 "unat n"] n
    by (simp add: all_records_def list_infos_def)
qed

lemma advance_epoch_fields [simp]:
  "sp_account_type (advance_epoch sp e a b) = sp_account_type sp"
  "sp_total_lamports (advance_epoch sp e a b) = sp_total_lamports sp"
  "sp_pool_token_supply (advance_epoch sp e a b) = sp_pool_token_supply sp"
  "sp_last_update_epoch (advance_epoch sp e a b) = max (sp_last_update_epoch sp) e"
  by (auto simp: advance_epoch_def max_def)

lemma reserve_total_Inr:
  "reserve_total rt w info = Inr t \<longleftrightarrow>
     (\<exists>meta. rt_stake_state rt (data_of w info) = Some (SS_Initialized meta) \<and>
        unat (lamports_of w info) = unat t + unat (minimum_reserve_lamports meta))"
  by (cases "rt_stake_state rt (data_of w info)")
    (auto simp: reserve_total_def read_stake_state_def ok_iff int_ops split: stake_state.splits)

lemma update_pool_effect:
  assumes own: "respects_owner rt pid"
    and run: "process_update_stake_pool_balance rt pid
      (pool # auth # list # reserve # fee_acc # mint # token_program # rest) w = Inr w'"
    and ok: "list_ok (data_of w list)"
  shows "\<exists>sp sp' epoch meta fee w1 m. load_stake_pool pid w pool = Inr sp \<and> read_stake_pool w' pool = Inr sp' \<and>
    rt_clock_get rt = Inr epoch \<and>
    (\<forall>r \<in> set (list_infos (data_of w list)). epoch \<le> vs_last_update_epoch r) \<and>
    rt_stake_state rt (data_of w reserve) = Some (SS_Initialized meta) \<and>
    pool_total sp' + unat (minimum_reserve_lamports meta) =
      unat (lamports_of w reserve) + sum_list (map entry_stake (list_infos (data_of w list))) \<and>
    epoch_fee_of rt sp w fee_acc (saturating_sub (sp_total_lamports sp') (sp_total_lamports sp)) = Inr fee \<and>
    (if fee > 0 then token_mint_to rt (ai_key pool) token_program mint fee_acc auth AUTHORITY_WITHDRAW
         (sp_stake_withdraw_bump_seed sp) fee w else Inr w) = Inr w1 \<and>
    rt_unpack_mint rt (data_of w1 mint) = Inr m \<and>
    ai_key list = sp_validator_list sp \<and> ai_key reserve = sp_reserve_stake sp \<and>
    ai_key mint = sp_pool_mint sp \<and> ai_key token_program = sp_token_program_id sp \<and>
    sp' = (advance_epoch sp epoch (sp_total_lamports sp) (sp_pool_token_supply sp))
      \<lparr>sp_total_lamports := sp_total_lamports sp', sp_pool_token_supply := mint_supply m\<rparr>"
proof -
  from run obtain sp epoch h vec rt0 rs total fee w1 m where
      sp: "load_stake_pool pid w pool = Inr sp" and ck: "rt_clock_get rt = Inr epoch"
      and k: "ai_key list = sp_validator_list sp" "ai_key reserve = sp_reserve_stake sp"
        "ai_key mint = sp_pool_mint sp" "sp_token_program_id sp = ai_key token_program"
      and ld: "load_validator_list w list = Inr (h, vec)" and rt0: "reserve_total rt w reserve = Inr rt0"
      and ar: "all_records vec = Inr rs" and sm: "sum_records epoch rs rt0 = Inr total"
      and fe: "epoch_fee_of rt sp w fee_acc (saturating_sub total (sp_total_lamports sp)) = Inr fee"
      and w1: "(if fee > 0 then token_mint_to rt (ai_key pool) token_program mint fee_acc auth AUTHORITY_WITHDRAW
         (sp_stake_withdraw_bump_seed sp) fee w else Inr w) = Inr w1"
      and um: "rt_unpack_mint rt (data_of w1 mint) = Inr m"
      and wr: "write_stake_pool w1 pool
        ((advance_epoch sp epoch (sp_total_lamports sp) (sp_pool_token_supply sp))
          \<lparr>sp_total_lamports := total, sp_pool_token_supply := mint_supply m\<rparr>) = Inr w'"
    by (simp add: process_update_stake_pool_balance_def ok_iff Let_def case_prod_beta
        cong: if_cong split del: if_split) blast
  have vec: "vec = drop HEADER_LEN (data_of w list)"
    using load_validator_list_Inr [OF ld] by (simp add: list_vec_def)
  have rs: "rs = list_infos (data_of w list)" using ar all_records_infos [OF ok] by (simp add: vec)
  let ?sp' = "(advance_epoch sp epoch (sp_total_lamports sp) (sp_pool_token_supply sp))
          \<lparr>sp_total_lamports := total, sp_pool_token_supply := mint_supply m\<rparr>"
  obtain meta where meta: "rt_stake_state rt (data_of w reserve) = Some (SS_Initialized meta)"
      "unat (lamports_of w reserve) = unat rt0 + unat (minimum_reserve_lamports meta)"
    using rt0 by (auto simp: reserve_total_Inr)
  have "read_stake_pool w' pool = Inr ?sp'" using wr by (rule read_written_stake_pool)
  moreover have "pool_total ?sp' + unat (minimum_reserve_lamports meta) =
      unat (lamports_of w reserve) + sum_list (map entry_stake (list_infos (data_of w list)))"
    using sm meta(2) by (simp add: sum_records_Inr rs)
  moreover have "\<forall>r \<in> set (list_infos (data_of w list)). epoch \<le> vs_last_update_epoch r"
    using sm by (simp add: sum_records_Inr rs)
  ultimately show ?thesis using sp ck k meta(1) fe w1 um
    by (intro exI [of _ sp] exI [of _ ?sp'] exI [of _ epoch] exI [of _ meta] exI [of _ fee]
        exI [of _ w1] exI [of _ m]) simp
qed

subsection \<open>CleanupRemovedValidatorEntries\<close>

definition finished :: "validator_stake_info \<Rightarrow> bool" where
  "finished r \<longleftrightarrow> vs_status r = status_to_u8 ReadyForRemoval \<and>
     vs_active_stake_lamports r = 0 \<and> vs_transient_stake_lamports r = 0"

lemma retain_infos:
  assumes "list_ok data" "bv_retain ENTRY_LEN (\<lambda>x. \<not> is_removed x) (drop HEADER_LEN data) = Inr vec"
  shows "list_ok (put_vec data vec) \<and>
    list_infos (put_vec data vec) = filter (\<lambda>r. \<not> finished r) (list_infos data)"
proof -
  let ?v = "drop HEADER_LEN data"
  have inv: "bv_invar ENTRY_LEN ?v" and h: "HEADER_LEN \<le> length data" using assms(1) by (simp_all add: list_ok_def)
  have v: "bv_invar ENTRY_LEN vec" "bv_entries ENTRY_LEN vec = filter (\<lambda>x. \<not> is_removed x) (bv_entries ENTRY_LEN ?v)"
    using bv.retain_spec [OF inv, of "\<lambda>x. \<not> is_removed x"] assms(2) by auto
  have "map pod_vsi (filter (\<lambda>x. \<not> is_removed x) cs) = filter (\<lambda>r. \<not> finished r) (map pod_vsi cs)"
    if "set cs \<subseteq> set (bv_entries ENTRY_LEN ?v)" for cs
    using that
  proof (induction cs)
    case (Cons c cs)
    have "is_removed c \<longleftrightarrow> finished (pod_vsi c)"
      using layout_pod(5) [OF bv.entries_size [OF inv]] Cons.prems by (simp add: finished_def)
    then show ?case using Cons by simp
  qed simp
  then show ?thesis using put_vec_list [OF h v(1)] v(2) by (simp add: list_infos_def)
qed

lemma cleanup_effect:
  assumes run: "process_cleanup_removed_validator_entries rt pid (pool # list # rest) w = Inr w'"
    and ok: "list_ok (data_of w list)" and ne: "ai_key pool \<noteq> ai_key list"
  shows "\<exists>sp. load_stake_pool pid w pool = Inr sp \<and> ai_key list = sp_validator_list sp \<and>
    list_ok (data_of w' list) \<and>
    list_infos (data_of w' list) = filter (\<lambda>r. \<not> finished r) (list_infos (data_of w list)) \<and>
    (if ai_is_writable pool then
       \<exists>d x. recheck_preferred (drop HEADER_LEN (data_of w' list)) (sp_preferred_deposit_validator_vote_address sp) = Inr d \<and>
         recheck_preferred (drop HEADER_LEN (data_of w' list)) (sp_preferred_withdraw_validator_vote_address sp) = Inr x \<and>
         read_stake_pool w' pool = Inr (sp\<lparr>sp_preferred_deposit_validator_vote_address := d,
           sp_preferred_withdraw_validator_vote_address := x\<rparr>)
     else read_stake_pool w' pool = Inr sp)"
proof -
  from run obtain sp h vec vec' where
      sp: "load_stake_pool pid w pool = Inr sp" and li: "ai_key list = sp_validator_list sp"
      and ld: "load_validator_list w list = Inr (h, vec)"
      and rt: "bv_retain ENTRY_LEN (\<lambda>x. \<not> is_removed x) vec = Inr vec'"
      and k: "(if ai_is_writable pool then
         bindE (read_stake_pool (set_list_vec w list vec') pool) (\<lambda>stake_pool.
         bindE (recheck_preferred vec' (sp_preferred_deposit_validator_vote_address stake_pool)) (\<lambda>d.
         bindE (recheck_preferred vec' (sp_preferred_withdraw_validator_vote_address stake_pool)) (\<lambda>x.
         write_stake_pool (set_list_vec w list vec') pool
           (stake_pool\<lparr>sp_preferred_deposit_validator_vote_address := d,
                       sp_preferred_withdraw_validator_vote_address := x\<rparr>))))
       else Inr (set_list_vec w list vec')) = Inr w'"
    by (simp add: process_cleanup_removed_validator_entries_def bindE_pair_eq_Inr bindE_eq_Inr
        next_account_info_Inr check_list_reserve_Inr check_account_owner_Inr Let_def
        cong: if_cong split del: if_split) blast
  let ?w1 = "set_list_vec w list vec'"
  have vec: "vec = drop HEADER_LEN (data_of w list)" and hl: "HEADER_LEN \<le> length (data_of w list)"
    using load_validator_list_Inr [OF ld] by (simp_all add: list_vec_def)
  have d1: "data_of ?w1 list = put_vec (data_of w list) vec'" by (simp add: set_list_vec_def)
  note rl = retain_infos [OF ok rt [unfolded vec]]
  have p1: "read_stake_pool ?w1 pool = Inr sp"
    using sp ne by (auto simp: load_stake_pool_Inr read_stake_pool_def set_list_vec_def)
  have v': "drop HEADER_LEN (put_vec (data_of w list) vec') = vec'" using hl by (simp add: put_vec_def)
  show ?thesis
  proof (cases "ai_is_writable pool")
    case False
    then have "w' = ?w1" using k by simp
    then show ?thesis using sp li rl d1 p1 False by simp
  next
    case True
    then obtain d x where r: "recheck_preferred vec' (sp_preferred_deposit_validator_vote_address sp) = Inr d"
        "recheck_preferred vec' (sp_preferred_withdraw_validator_vote_address sp) = Inr x"
        and wr: "write_stake_pool ?w1 pool (sp\<lparr>sp_preferred_deposit_validator_vote_address := d,
                       sp_preferred_withdraw_validator_vote_address := x\<rparr>) = Inr w'"
      using k p1 by (auto simp: bindE_eq_Inr)
    have "data_of w' list = data_of ?w1 list" using wr ne by (intro write_stake_pool_same_data) auto
    then show ?thesis using sp li rl d1 v' r read_written_stake_pool [OF wr] True by simp
  qed
qed

end
