(* ===== verification/Processor_Funds.thy ===== *)
theory Processor_Funds
  imports Processor_Validators
begin

section \<open>Deposits and withdrawals\<close>

text \<open>
  The handlers that move user funds (\<open>src/program/src/processor.rs\<close>): \<open>DepositStake\<close>,
  \<open>DepositSol\<close>, \<open>WithdrawStake\<close> and \<open>WithdrawSol\<close> with their slippage variants. Each is cut
  into the computation of the amounts, the choice of the source account, the calls, and
  the update of the books.
\<close>

subsection \<open>Amounts\<close>

text \<open>New tokens, and how they are divided between the user, the manager and the referrer.\<close>

record deposit_amounts =
  da_new :: u64
  da_user :: u64
  da_manager :: u64
  da_referral :: u64

definition calc_or_fail :: "'a option \<Rightarrow> program_error + 'a" where
  "calc_or_fail m = ok_or m (pool_err CalculationFailure)"

lemma calc_or_fail_Inr [ok_iff]: "calc_or_fail m = Inr x \<longleftrightarrow> m = Some x"
  by (simp add: calc_or_fail_def ok_iff)

text \<open>The division must add up, the user must get something, and not less than asked for.\<close>

definition check_deposit_amounts :: "deposit_amounts \<Rightarrow> u64 option \<Rightarrow> program_error + unit" where
  "check_deposit_amounts a minimum_pool_tokens_out =
     (if saturating_add (saturating_add (da_user a) (da_manager a)) (da_referral a) \<noteq> da_new a
      then Inl (pool_err CalculationFailure)
      else if da_user a = 0 then Inl (pool_err DepositTooSmall)
      else
        case minimum_pool_tokens_out of
          Some m \<Rightarrow> if da_user a < m then Inl (pool_err ExceededSlippage) else Inr ()
        | None \<Rightarrow> Inr ())"

definition deposit_sol_amounts :: "stake_pool \<Rightarrow> u64 \<Rightarrow> u64 option \<Rightarrow> program_error + deposit_amounts" where
  "deposit_sol_amounts stake_pool deposit_lamports minimum_pool_tokens_out =
     bindE (calc_or_fail (calc_pool_tokens_for_deposit stake_pool deposit_lamports)) (\<lambda>new_pool_tokens.
     bindE (calc_or_fail (calc_pool_tokens_sol_deposit_fee stake_pool new_pool_tokens)) (\<lambda>pool_tokens_sol_deposit_fee.
     bindE (calc_or_fail (checked_sub new_pool_tokens pool_tokens_sol_deposit_fee)) (\<lambda>pool_tokens_user.
     bindE (calc_or_fail (calc_pool_tokens_sol_referral_fee stake_pool pool_tokens_sol_deposit_fee))
       (\<lambda>pool_tokens_referral_fee.
     bindE (calc_or_fail (checked_sub pool_tokens_sol_deposit_fee pool_tokens_referral_fee))
       (\<lambda>pool_tokens_manager_deposit_fee.
     let a = \<lparr>da_new = new_pool_tokens, da_user = pool_tokens_user,
              da_manager = pool_tokens_manager_deposit_fee, da_referral = pool_tokens_referral_fee\<rparr> in
     bindE (check_deposit_amounts a minimum_pool_tokens_out) (\<lambda>_. Inr a))))))"

definition deposit_stake_amounts ::
    "stake_pool \<Rightarrow> u64 \<Rightarrow> u64 \<Rightarrow> u64 option \<Rightarrow> program_error + deposit_amounts" where
  "deposit_stake_amounts stake_pool total_deposit_lamports stake_deposit_lamports minimum_pool_tokens_out =
     bindE (calc_or_fail (calc_pool_tokens_for_deposit stake_pool total_deposit_lamports)) (\<lambda>new_pool_tokens.
     bindE (calc_or_fail (calc_pool_tokens_for_deposit stake_pool stake_deposit_lamports))
       (\<lambda>new_pool_tokens_from_stake.
     bindE (calc_or_fail (checked_sub new_pool_tokens new_pool_tokens_from_stake)) (\<lambda>new_pool_tokens_from_sol.
     bindE (calc_or_fail (calc_pool_tokens_stake_deposit_fee stake_pool new_pool_tokens_from_stake))
       (\<lambda>stake_deposit_fee.
     bindE (calc_or_fail (calc_pool_tokens_sol_deposit_fee stake_pool new_pool_tokens_from_sol))
       (\<lambda>sol_deposit_fee.
     bindE (calc_or_fail (checked_add stake_deposit_fee sol_deposit_fee)) (\<lambda>total_fee.
     bindE (calc_or_fail (checked_sub new_pool_tokens total_fee)) (\<lambda>pool_tokens_user.
     bindE (calc_or_fail (calc_pool_tokens_stake_referral_fee stake_pool total_fee)) (\<lambda>pool_tokens_referral_fee.
     bindE (calc_or_fail (checked_sub total_fee pool_tokens_referral_fee)) (\<lambda>pool_tokens_manager_deposit_fee.
     let a = \<lparr>da_new = new_pool_tokens, da_user = pool_tokens_user,
              da_manager = pool_tokens_manager_deposit_fee, da_referral = pool_tokens_referral_fee\<rparr> in
     bindE (check_deposit_amounts a minimum_pool_tokens_out) (\<lambda>_. Inr a))))))))))"

text \<open>
  Fee, burnt tokens and lamports of a withdrawal. No fee is taken from the manager's own
  account or when the fee account cannot receive it.
\<close>

definition withdraw_amounts ::
    "runtime \<Rightarrow> stake_pool \<Rightarrow> world \<Rightarrow> u64 option \<Rightarrow> account_info \<Rightarrow> account_info \<Rightarrow> u64 \<Rightarrow> u64 option \<Rightarrow>
      program_error + (u64 \<times> u64 \<times> u64)" where
  "withdraw_amounts rt stake_pool w withdrawal_fee burn_from_pool_info manager_fee_info pool_tokens
       minimum_lamports_out =
     bindE (if sp_manager_fee_account stake_pool = ai_key burn_from_pool_info
               \<or> \<not> is_ok (check_manager_fee_info rt stake_pool w manager_fee_info)
            then Inr 0
            else calc_or_fail withdrawal_fee) (\<lambda>pool_tokens_fee.
     bindE (calc_or_fail (checked_sub pool_tokens pool_tokens_fee)) (\<lambda>pool_tokens_burnt.
     bindE (calc_or_fail (calc_lamports_withdraw_amount stake_pool pool_tokens_burnt)) (\<lambda>withdraw_lamports.
     if withdraw_lamports = 0 then Inl (pool_err WithdrawalTooSmall)
     else
       case minimum_lamports_out of
         Some m \<Rightarrow>
           if withdraw_lamports < m then Inl (pool_err ExceededSlippage)
           else Inr (pool_tokens_fee, pool_tokens_burnt, withdraw_lamports)
       | None \<Rightarrow> Inr (pool_tokens_fee, pool_tokens_burnt, withdraw_lamports))))"

subsection \<open>Minting\<close>

definition pool_mint_to ::
    "runtime \<Rightarrow> account_info \<Rightarrow> stake_pool \<Rightarrow> account_info \<Rightarrow> account_info \<Rightarrow> account_info \<Rightarrow> account_info \<Rightarrow>
      u64 \<Rightarrow> world \<Rightarrow> program_error + world" where
  "pool_mint_to rt stake_pool_info stake_pool token_program_info pool_mint_info withdraw_authority_info
       destination amount w =
     token_mint_to rt (ai_key stake_pool_info) token_program_info pool_mint_info destination
       withdraw_authority_info AUTHORITY_WITHDRAW (sp_stake_withdraw_bump_seed stake_pool) amount w"

definition mint_deposit ::
    "runtime \<Rightarrow> account_info \<Rightarrow> stake_pool \<Rightarrow> account_info \<Rightarrow> account_info \<Rightarrow> account_info \<Rightarrow> account_info \<Rightarrow>
      account_info \<Rightarrow> account_info \<Rightarrow> deposit_amounts \<Rightarrow> world \<Rightarrow> program_error + world" where
  "mint_deposit rt stake_pool_info stake_pool token_program_info pool_mint_info withdraw_authority_info
       dest_user_pool_info manager_fee_info referrer_fee_info a w =
     (let mint = pool_mint_to rt stake_pool_info stake_pool token_program_info pool_mint_info
                   withdraw_authority_info in
      bindE (mint dest_user_pool_info (da_user a) w) (\<lambda>w.
      bindE (if da_manager a > 0 then mint manager_fee_info (da_manager a) w else Inr w) (\<lambda>w.
      if da_referral a > 0 then mint referrer_fee_info (da_referral a) w else Inr w)))"

subsection \<open>DepositStake\<close>

definition check_preferred_deposit :: "stake_pool \<Rightarrow> pubkey \<Rightarrow> program_error + unit" where
  "check_preferred_deposit stake_pool vote_account_address =
     (case sp_preferred_deposit_validator_vote_address stake_pool of
        None \<Rightarrow> Inr ()
      | Some preferred_deposit \<Rightarrow>
          if preferred_deposit \<noteq> vote_account_address then Inl (pool_err IncorrectDepositVoteAddress)
          else Inr ())"

text \<open>The deposited account is handed to the pool and merged into the validator stake.\<close>

definition deposit_stake_merge ::
    "runtime \<Rightarrow> call_context \<Rightarrow> account_info \<Rightarrow> account_info \<Rightarrow> account_info \<Rightarrow> account_info \<Rightarrow> world \<Rightarrow>
      program_error + world" where
  "deposit_stake_merge rt c stake_deposit_authority_info stake_info validator_stake_account_info
       stake_history_info w =
     (let (stake_deposit_authority_program_address, deposit_bump_seed) =
            find_deposit_authority_program_address rt (cx_program_id c) (ai_key (cx_stake_pool_info c)) in
      bindE (if ai_key stake_deposit_authority_info = stake_deposit_authority_program_address
             then stake_authorize_signed rt (ai_key (cx_stake_pool_info c)) stake_info
                    stake_deposit_authority_info AUTHORITY_DEPOSIT deposit_bump_seed
                    (ai_key (cx_withdraw_authority_info c)) (cx_clock_info c) w
             else stake_authorize rt stake_info stake_deposit_authority_info
                    (ai_key (cx_withdraw_authority_info c)) (cx_clock_info c) w) (\<lambda>w.
      pool_merge rt c stake_info validator_stake_account_info stake_history_info w))"

definition deposit_stake ::
    "runtime \<Rightarrow> call_context \<Rightarrow> account_info \<Rightarrow> account_info \<Rightarrow> account_info \<Rightarrow> account_info \<Rightarrow> account_info \<Rightarrow>
      account_info \<Rightarrow> account_info \<Rightarrow> account_info \<Rightarrow> account_info \<Rightarrow> account_info \<Rightarrow> account_info \<Rightarrow>
      u64 option \<Rightarrow> world \<Rightarrow> program_error + world" where
  "deposit_stake rt c validator_list_info stake_deposit_authority_info stake_info
       validator_stake_account_info reserve_stake_account_info dest_user_pool_info manager_fee_info
       referrer_fee_info pool_mint_info stake_history_info token_program_info minimum_pool_tokens_out w =
     (let stake_pool = cx_stake_pool c; stake_pool_info = cx_stake_pool_info c in
     bindE (load_validator_list w validator_list_info) (\<lambda>(_, validator_list).
     bindE (get_stake_state rt w validator_stake_account_info) (\<lambda>(_, validator_stake).
     let pre_all_validator_lamports = lamports_of w validator_stake_account_info;
         vote_account_address = voter_pubkey validator_stake in
     bindE (check_preferred_deposit stake_pool vote_account_address) (\<lambda>_.
     bindE (find_validator_or_fail validator_list vote_account_address) (\<lambda>(off, entry).
     bindE (check_validator_stake_address rt (cx_program_id c) (ai_key stake_pool_info)
              (ai_key validator_stake_account_info) vote_account_address
              (vs_validator_seed_suffix entry)) (\<lambda>_.
     if vs_status entry \<noteq> status_to_u8 Active then Inl (pool_err ValidatorNotFound)
     else
     bindE (deposit_stake_merge rt c stake_deposit_authority_info stake_info
              validator_stake_account_info stake_history_info w) (\<lambda>w.
     bindE (get_stake_state rt w validator_stake_account_info) (\<lambda>(_, post_validator_stake).
     let post_all_validator_lamports = lamports_of w validator_stake_account_info in
     bindE (calc_or_fail (checked_sub post_all_validator_lamports pre_all_validator_lamports))
       (\<lambda>total_deposit_lamports.
     bindE (calc_or_fail (checked_sub (delegated_stake post_validator_stake) (delegated_stake validator_stake)))
       (\<lambda>stake_deposit_lamports.
     bindE (calc_or_fail (checked_sub total_deposit_lamports stake_deposit_lamports)) (\<lambda>sol_deposit_lamports.
     bindE (deposit_stake_amounts stake_pool total_deposit_lamports stake_deposit_lamports
              minimum_pool_tokens_out) (\<lambda>a.
     bindE (mint_deposit rt stake_pool_info stake_pool token_program_info pool_mint_info
              (cx_withdraw_authority_info c) dest_user_pool_info manager_fee_info referrer_fee_info a w) (\<lambda>w.
     bindE (if sol_deposit_lamports > 0 then
              pool_withdraw rt c validator_stake_account_info reserve_stake_account_info
                stake_history_info sol_deposit_lamports w
            else Inr w) (\<lambda>w.
     bindE (credit_pool stake_pool (da_new a) total_deposit_lamports) (\<lambda>stake_pool.
     bindE (write_stake_pool w stake_pool_info stake_pool) (\<lambda>w.
     Inr (put_entry w validator_list_info off
       (entry\<lparr>vs_active_stake_lamports := lamports_of w validator_stake_account_info\<rparr>))))))))))))))))))"

definition process_deposit_stake ::
    "runtime \<Rightarrow> pubkey \<Rightarrow> account_info list \<Rightarrow> u64 option \<Rightarrow> world \<Rightarrow> program_error + world" where
  "process_deposit_stake rt program_id accounts minimum_pool_tokens_out w =
     bindE (next_account_info accounts) (\<lambda>(stake_pool_info, it).
     bindE (next_account_info it) (\<lambda>(validator_list_info, it).
     bindE (next_account_info it) (\<lambda>(stake_deposit_authority_info, it).
     bindE (next_account_info it) (\<lambda>(withdraw_authority_info, it).
     bindE (next_account_info it) (\<lambda>(stake_info, it).
     bindE (next_account_info it) (\<lambda>(validator_stake_account_info, it).
     bindE (next_account_info it) (\<lambda>(reserve_stake_account_info, it).
     bindE (next_account_info it) (\<lambda>(dest_user_pool_info, it).
     bindE (next_account_info it) (\<lambda>(manager_fee_info, it).
     bindE (next_account_info it) (\<lambda>(referrer_fee_info, it).
     bindE (next_account_info it) (\<lambda>(pool_mint_info, it).
     bindE (next_account_info it) (\<lambda>(clock_info, it).
     bindE (rt_clock_from_account_info rt clock_info w) (\<lambda>clock_epoch.
     bindE (next_account_info it) (\<lambda>(stake_history_info, it).
     bindE (next_account_info it) (\<lambda>(token_program_info, it).
     bindE (next_account_info it) (\<lambda>(stake_program_info, it).
     bindE (check_stake_program rt (ai_key stake_program_info)) (\<lambda>_.
     bindE (load_stake_pool program_id w stake_pool_info) (\<lambda>stake_pool.
     bindE (check_authority_withdraw rt stake_pool (ai_key withdraw_authority_info) program_id
              (ai_key stake_pool_info)) (\<lambda>_.
     bindE (check_stake_deposit_authority stake_pool (ai_key stake_deposit_authority_info)) (\<lambda>_.
     bindE (check_mint rt stake_pool w pool_mint_info) (\<lambda>_.
     bindE (check_validator_list stake_pool validator_list_info) (\<lambda>_.
     bindE (check_reserve_stake stake_pool reserve_stake_account_info) (\<lambda>_.
     if sp_token_program_id stake_pool \<noteq> ai_key token_program_info then Inl IncorrectProgramId
     else if sp_manager_fee_account stake_pool \<noteq> ai_key manager_fee_info then Inl (pool_err InvalidFeeAccount)
     else if sp_last_update_epoch stake_pool < clock_epoch then Inl (pool_err StakeListAndPoolOutOfDate)
     else
     bindE (check_account_owner w validator_list_info program_id) (\<lambda>_.
     deposit_stake rt
       \<lparr>cx_program_id = program_id, cx_stake_pool_info = stake_pool_info,
        cx_stake_pool = stake_pool, cx_withdraw_authority_info = withdraw_authority_info,
        cx_clock_info = clock_info, cx_epoch = clock_epoch\<rparr>
       validator_list_info stake_deposit_authority_info stake_info validator_stake_account_info
       reserve_stake_account_info dest_user_pool_info manager_fee_info referrer_fee_info
       pool_mint_info stake_history_info token_program_info minimum_pool_tokens_out w))))))))))))))))))))))))"

subsection \<open>DepositSol\<close>

definition process_deposit_sol ::
    "runtime \<Rightarrow> pubkey \<Rightarrow> account_info list \<Rightarrow> u64 \<Rightarrow> u64 option \<Rightarrow> world \<Rightarrow> program_error + world" where
  "process_deposit_sol rt program_id accounts deposit_lamports minimum_pool_tokens_out w =
     bindE (next_account_info accounts) (\<lambda>(stake_pool_info, it).
     bindE (next_account_info it) (\<lambda>(withdraw_authority_info, it).
     bindE (next_account_info it) (\<lambda>(reserve_stake_account_info, it).
     bindE (next_account_info it) (\<lambda>(from_user_lamports_info, it).
     bindE (next_account_info it) (\<lambda>(dest_user_pool_info, it).
     bindE (next_account_info it) (\<lambda>(manager_fee_info, it).
     bindE (next_account_info it) (\<lambda>(referrer_fee_info, it).
     bindE (next_account_info it) (\<lambda>(pool_mint_info, it).
     bindE (next_account_info it) (\<lambda>(system_program_info, it).
     bindE (next_account_info it) (\<lambda>(token_program_info, it).
     let sol_deposit_authority_info = bindE (next_account_info it) (\<lambda>(info, _). Inr info) in
     bindE (rt_clock_get rt) (\<lambda>clock_epoch.
     bindE (load_stake_pool program_id w stake_pool_info) (\<lambda>stake_pool.
     bindE (check_authority_withdraw rt stake_pool (ai_key withdraw_authority_info) program_id
              (ai_key stake_pool_info)) (\<lambda>_.
     bindE (check_sol_deposit_authority stake_pool sol_deposit_authority_info) (\<lambda>_.
     bindE (check_mint rt stake_pool w pool_mint_info) (\<lambda>_.
     bindE (check_reserve_stake stake_pool reserve_stake_account_info) (\<lambda>_.
     if sp_token_program_id stake_pool \<noteq> ai_key token_program_info then Inl IncorrectProgramId
     else
     bindE (check_system_program rt (ai_key system_program_info)) (\<lambda>_.
     if sp_manager_fee_account stake_pool \<noteq> ai_key manager_fee_info then Inl (pool_err InvalidFeeAccount)
     else if sp_last_update_epoch stake_pool < clock_epoch then Inl (pool_err StakeListAndPoolOutOfDate)
     else
     bindE (deposit_sol_amounts stake_pool deposit_lamports minimum_pool_tokens_out) (\<lambda>a.
     bindE (sol_transfer rt from_user_lamports_info reserve_stake_account_info deposit_lamports w) (\<lambda>w.
     bindE (mint_deposit rt stake_pool_info stake_pool token_program_info pool_mint_info
              withdraw_authority_info dest_user_pool_info manager_fee_info referrer_fee_info a w) (\<lambda>w.
     bindE (credit_pool stake_pool (da_new a) deposit_lamports) (\<lambda>stake_pool.
     write_stake_pool w stake_pool_info stake_pool)))))))))))))))))))))"

subsection \<open>WithdrawSol\<close>

definition check_reserve_withdrawal ::
    "runtime \<Rightarrow> world \<Rightarrow> account_info \<Rightarrow> u64 \<Rightarrow> program_error + unit" where
  "check_reserve_withdrawal rt w reserve_stake_info withdraw_lamports =
     (let new_reserve_lamports = saturating_sub (lamports_of w reserve_stake_info) withdraw_lamports in
      bindE (read_stake_state rt w reserve_stake_info) (\<lambda>stake_state.
      case stake_state of
        SS_Initialized meta \<Rightarrow>
          if new_reserve_lamports < minimum_reserve_lamports meta
          then Inl (pool_err SolWithdrawalTooLarge) else Inr ()
      | _ \<Rightarrow> Inl (pool_err WrongStakeStake)))"

definition process_withdraw_sol ::
    "runtime \<Rightarrow> pubkey \<Rightarrow> account_info list \<Rightarrow> u64 \<Rightarrow> u64 option \<Rightarrow> world \<Rightarrow> program_error + world" where
  "process_withdraw_sol rt program_id accounts pool_tokens minimum_lamports_out w =
     bindE (next_account_info accounts) (\<lambda>(stake_pool_info, it).
     bindE (next_account_info it) (\<lambda>(withdraw_authority_info, it).
     bindE (next_account_info it) (\<lambda>(user_transfer_authority_info, it).
     bindE (next_account_info it) (\<lambda>(burn_from_pool_info, it).
     bindE (next_account_info it) (\<lambda>(reserve_stake_info, it).
     bindE (next_account_info it) (\<lambda>(destination_lamports_info, it).
     bindE (next_account_info it) (\<lambda>(manager_fee_info, it).
     bindE (next_account_info it) (\<lambda>(pool_mint_info, it).
     bindE (next_account_info it) (\<lambda>(clock_info, it).
     bindE (next_account_info it) (\<lambda>(stake_history_info, it).
     bindE (next_account_info it) (\<lambda>(stake_program_info, it).
     bindE (next_account_info it) (\<lambda>(token_program_info, it).
     let sol_withdraw_authority_info = bindE (next_account_info it) (\<lambda>(info, _). Inr info) in
     bindE (load_stake_pool program_id w stake_pool_info) (\<lambda>stake_pool.
     bindE (check_authority_withdraw rt stake_pool (ai_key withdraw_authority_info) program_id
              (ai_key stake_pool_info)) (\<lambda>_.
     bindE (check_sol_withdraw_authority stake_pool sol_withdraw_authority_info) (\<lambda>_.
     bindE (check_mint rt stake_pool w pool_mint_info) (\<lambda>decimals.
     bindE (check_reserve_stake stake_pool reserve_stake_info) (\<lambda>_.
     if sp_token_program_id stake_pool \<noteq> ai_key token_program_info then Inl IncorrectProgramId
     else
     bindE (check_stake_program rt (ai_key stake_program_info)) (\<lambda>_.
     if sp_manager_fee_account stake_pool \<noteq> ai_key manager_fee_info then Inl (pool_err InvalidFeeAccount)
     else
     bindE (rt_clock_get rt) (\<lambda>clock_epoch.
     if sp_last_update_epoch stake_pool < clock_epoch then Inl (pool_err StakeListAndPoolOutOfDate)
     else
     bindE (withdraw_amounts rt stake_pool w (calc_pool_tokens_sol_withdrawal_fee stake_pool pool_tokens)
              burn_from_pool_info manager_fee_info pool_tokens minimum_lamports_out)
       (\<lambda>(pool_tokens_fee, pool_tokens_burnt, withdraw_lamports).
     bindE (check_reserve_withdrawal rt w reserve_stake_info withdraw_lamports) (\<lambda>_.
     bindE (token_burn rt token_program_info burn_from_pool_info pool_mint_info
              user_transfer_authority_info pool_tokens_burnt w) (\<lambda>w.
     bindE (if pool_tokens_fee > 0 then
              token_transfer rt token_program_info burn_from_pool_info pool_mint_info manager_fee_info
                user_transfer_authority_info pool_tokens_fee decimals w
            else Inr w) (\<lambda>w.
     bindE (stake_withdraw rt (ai_key stake_pool_info) reserve_stake_info withdraw_authority_info
              AUTHORITY_WITHDRAW (sp_stake_withdraw_bump_seed stake_pool) destination_lamports_info
              clock_info stake_history_info withdraw_lamports w) (\<lambda>w.
     bindE (debit_pool stake_pool pool_tokens_burnt withdraw_lamports) (\<lambda>stake_pool.
     write_stake_pool w stake_pool_info stake_pool)))))))))))))))))))))))))"

subsection \<open>WithdrawStake\<close>

datatype stake_withdraw_source = SourceActive | SourceTransient | SourceValidatorRemoval

text \<open>\<open>StakeStateV2::delegation\<close>.\<close>

fun state_delegation :: "stake_state \<Rightarrow> stake_delegation option" where
  "state_delegation (SS_Stake _ stake) = Some stake"
| "state_delegation _ = None"

definition check_preferred_withdraw :: "stake_pool \<Rightarrow> bytes \<Rightarrow> u64 \<Rightarrow> pubkey \<Rightarrow> program_error + unit" where
  "check_preferred_withdraw stake_pool validator_list minimum_lamports_with_tolerance vote_account_address =
     (case sp_preferred_withdraw_validator_vote_address stake_pool of
        None \<Rightarrow> Inr ()
      | Some preferred_withdraw_validator \<Rightarrow>
          bindE (find_validator validator_list preferred_withdraw_validator) (\<lambda>maybe_preferred.
          case maybe_preferred of
            None \<Rightarrow> Inr ()
          | Some off \<Rightarrow>
              let available_lamports =
                    saturating_sub (vs_active_stake_lamports (entry_at validator_list off))
                      minimum_lamports_with_tolerance in
              if preferred_withdraw_validator \<noteq> vote_account_address \<and> available_lamports > 0
              then Inl (pool_err IncorrectWithdrawVoteAddress) else Inr ()))"

text \<open>Active stake first, then transient stake, and only then a whole validator account.\<close>

definition withdraw_source_of ::
    "runtime \<Rightarrow> pubkey \<Rightarrow> pubkey \<Rightarrow> account_info \<Rightarrow> pubkey \<Rightarrow> bool \<Rightarrow> bool \<Rightarrow> validator_stake_info \<Rightarrow>
      program_error + stake_withdraw_source" where
  "withdraw_source_of rt program_id stake_pool_key stake_split_from vote_account_address
       has_active has_transient entry =
     (if has_active then
        bindE (check_validator_stake_address rt program_id stake_pool_key (ai_key stake_split_from)
                 vote_account_address (vs_validator_seed_suffix entry)) (\<lambda>_.
        Inr SourceActive)
      else if has_transient \<or> vs_transient_stake_lamports entry \<noteq> 0 then
        bindE (check_transient_stake_address rt program_id stake_pool_key (ai_key stake_split_from)
                 vote_account_address (vs_transient_seed_suffix entry)) (\<lambda>_.
        Inr SourceTransient)
      else
        bindE (check_validator_stake_address rt program_id stake_pool_key (ai_key stake_split_from)
                 vote_account_address (vs_validator_seed_suffix entry)) (\<lambda>_.
        Inr SourceValidatorRemoval))"

text \<open>
  What the chosen source allows: part of an account above its minimum, or the whole of it
  within the value of one pool token; the lamports are then cut to those of the account.
\<close>

definition withdraw_limits ::
    "stake_pool \<Rightarrow> stake_withdraw_source \<Rightarrow> u64 \<Rightarrow> u64 \<Rightarrow> u64 \<Rightarrow> u64 \<Rightarrow> pubkey \<Rightarrow>
      program_error + (stake_pool \<times> u64)" where
  "withdraw_limits stake_pool withdraw_source split_from_lamports withdraw_lamports required_lamports
       lamports_per_pool_token vote_account_address =
     (case withdraw_source of
        SourceValidatorRemoval \<Rightarrow>
          let upper_bound = saturating_add split_from_lamports lamports_per_pool_token in
          if withdraw_lamports < split_from_lamports \<or> withdraw_lamports > upper_bound
          then Inl (pool_err StakeLamportsNotEqualToMinimum)
          else Inr (clear_preferred stake_pool vote_account_address, split_from_lamports)
      | _ \<Rightarrow>
          let remaining_lamports = saturating_sub split_from_lamports withdraw_lamports in
          if remaining_lamports < required_lamports then Inl (pool_err StakeLamportsNotEqualToMinimum)
          else Inr (stake_pool, withdraw_lamports))"

text \<open>
  The choice of the source: the reserve only when no validator has stake to withdraw,
  otherwise an entry of the list. Returns the pool (its preferred validators may have
  been reset), the lamports and the entry to update.
\<close>

definition select_withdraw_source ::
    "runtime \<Rightarrow> pubkey \<Rightarrow> account_info \<Rightarrow> stake_pool \<Rightarrow> bytes \<Rightarrow> account_info \<Rightarrow> u64 \<Rightarrow> world \<Rightarrow>
      program_error + (stake_pool \<times> u64 \<times> (nat \<times> validator_stake_info \<times> stake_withdraw_source) option)" where
  "select_withdraw_source rt program_id stake_pool_info stake_pool validator_list stake_split_from
       withdraw_lamports w =
     bindE (rt_get_minimum_delegation rt) (\<lambda>stake_minimum_delegation.
     bindE (read_stake_state rt w stake_split_from) (\<lambda>stake_state.
     bindE (ok_or (state_meta stake_state) (pool_err WrongStakeStake)) (\<lambda>meta.
     let required_lamports = minimum_stake_lamports meta stake_minimum_delegation in
     bindE (calc_or_fail (get_lamports_per_pool_token stake_pool)) (\<lambda>lamports_per_pool_token.
     let minimum_lamports_with_tolerance = saturating_add required_lamports lamports_per_pool_token in
     bindE (bv_find ENTRY_LEN (\<lambda>x. active_lamports_greater_than x minimum_lamports_with_tolerance
              \<and> is_active x) validator_list) (\<lambda>some_active.
     bindE (bv_find ENTRY_LEN (\<lambda>x. transient_lamports_greater_than x minimum_lamports_with_tolerance
              \<and> is_active x) validator_list) (\<lambda>some_transient.
     let has_active = some_active \<noteq> None; has_transient = some_transient \<noteq> None in
     if ai_key stake_split_from = sp_reserve_stake stake_pool then
       if has_transient \<or> has_active then Inl (pool_err StakeLamportsNotEqualToMinimum)
       else if saturating_sub (lamports_of w stake_split_from) withdraw_lamports < minimum_reserve_lamports meta
       then Inl (pool_err SolWithdrawalTooLarge)
       else Inr (stake_pool, withdraw_lamports, None)
     else
     bindE (ok_or (state_delegation stake_state) (pool_err WrongStakeStake)) (\<lambda>delegation.
     let vote_account_address = voter_pubkey delegation in
     bindE (check_preferred_withdraw stake_pool validator_list minimum_lamports_with_tolerance
              vote_account_address) (\<lambda>_.
     bindE (find_validator_or_fail validator_list vote_account_address) (\<lambda>(off, entry).
     bindE (withdraw_source_of rt program_id (ai_key stake_pool_info) stake_split_from
              vote_account_address has_active has_transient entry) (\<lambda>withdraw_source.
     if vs_status entry \<noteq> status_to_u8 Active then Inl (pool_err ValidatorNotFound)
     else
     bindE (withdraw_limits stake_pool withdraw_source (lamports_of w stake_split_from) withdraw_lamports
              required_lamports lamports_per_pool_token vote_account_address) (\<lambda>(stake_pool, withdraw_lamports).
     Inr (stake_pool, withdraw_lamports, Some (off, entry, withdraw_source)))))))))))))"

definition debit_entry ::
    "validator_stake_info \<Rightarrow> stake_withdraw_source \<Rightarrow> u64 \<Rightarrow> program_error + validator_stake_info" where
  "debit_entry entry withdraw_source withdraw_lamports =
     (case withdraw_source of
        SourceActive \<Rightarrow>
          bindE (calc_or_fail (checked_sub (vs_active_stake_lamports entry) withdraw_lamports)) (\<lambda>l.
          Inr (entry\<lparr>vs_active_stake_lamports := l\<rparr>))
      | SourceTransient \<Rightarrow>
          bindE (calc_or_fail (checked_sub (vs_transient_stake_lamports entry) withdraw_lamports)) (\<lambda>l.
          Inr (entry\<lparr>vs_transient_stake_lamports := l\<rparr>))
      | SourceValidatorRemoval \<Rightarrow>
          bindE (calc_or_fail (checked_sub (vs_active_stake_lamports entry) withdraw_lamports)) (\<lambda>l.
          if l \<noteq> 0 then Inl (pool_err StakeListAndPoolOutOfDate)
          else Inr (entry\<lparr>vs_active_stake_lamports := l, vs_status := status_to_u8 ReadyForRemoval\<rparr>)))"

text \<open>Burn, split, hand over, pay the fee.\<close>

definition withdraw_stake_calls ::
    "runtime \<Rightarrow> call_context \<Rightarrow> account_info \<Rightarrow> account_info \<Rightarrow> account_info \<Rightarrow> account_info \<Rightarrow> account_info \<Rightarrow>
      account_info \<Rightarrow> account_info \<Rightarrow> account_info \<Rightarrow> u8 \<Rightarrow> u64 \<Rightarrow> u64 \<Rightarrow> u64 \<Rightarrow> world \<Rightarrow> program_error + world" where
  "withdraw_stake_calls rt c stake_split_from stake_split_to user_stake_authority_info
       user_transfer_authority_info burn_from_pool_info manager_fee_info pool_mint_info
       token_program_info decimals pool_tokens_fee pool_tokens_burnt withdraw_lamports w =
     bindE (token_burn rt token_program_info burn_from_pool_info pool_mint_info
              user_transfer_authority_info pool_tokens_burnt w) (\<lambda>w.
     bindE (pool_split rt c stake_split_from withdraw_lamports stake_split_to w) (\<lambda>w.
     bindE (stake_authorize_signed rt (ai_key (cx_stake_pool_info c)) stake_split_to
              (cx_withdraw_authority_info c) AUTHORITY_WITHDRAW
              (sp_stake_withdraw_bump_seed (cx_stake_pool c)) (ai_key user_stake_authority_info)
              (cx_clock_info c) w) (\<lambda>w.
     if pool_tokens_fee > 0 then
       token_transfer rt token_program_info burn_from_pool_info pool_mint_info manager_fee_info
         user_transfer_authority_info pool_tokens_fee decimals w
     else Inr w)))"

text \<open>The entry of the list, if one was the source, is written back after the pool.\<close>

definition update_withdraw_source ::
    "world \<Rightarrow> account_info \<Rightarrow> (nat \<times> validator_stake_info \<times> stake_withdraw_source) option \<Rightarrow> u64 \<Rightarrow>
      program_error + world" where
  "update_withdraw_source w validator_list_info validator_list_item_info withdraw_lamports =
     (case validator_list_item_info of
        None \<Rightarrow> Inr w
      | Some (off, entry, withdraw_source) \<Rightarrow>
          bindE (debit_entry entry withdraw_source withdraw_lamports) (\<lambda>entry.
          Inr (put_entry w validator_list_info off entry)))"

definition process_withdraw_stake ::
    "runtime \<Rightarrow> pubkey \<Rightarrow> account_info list \<Rightarrow> u64 \<Rightarrow> u64 option \<Rightarrow> world \<Rightarrow> program_error + world" where
  "process_withdraw_stake rt program_id accounts pool_tokens minimum_lamports_out w =
     bindE (next_account_info accounts) (\<lambda>(stake_pool_info, it).
     bindE (next_account_info it) (\<lambda>(validator_list_info, it).
     bindE (next_account_info it) (\<lambda>(withdraw_authority_info, it).
     bindE (next_account_info it) (\<lambda>(stake_split_from, it).
     bindE (next_account_info it) (\<lambda>(stake_split_to, it).
     bindE (next_account_info it) (\<lambda>(user_stake_authority_info, it).
     bindE (next_account_info it) (\<lambda>(user_transfer_authority_info, it).
     bindE (next_account_info it) (\<lambda>(burn_from_pool_info, it).
     bindE (next_account_info it) (\<lambda>(manager_fee_info, it).
     bindE (next_account_info it) (\<lambda>(pool_mint_info, it).
     bindE (next_account_info it) (\<lambda>(clock_info, it).
     bindE (rt_clock_from_account_info rt clock_info w) (\<lambda>clock_epoch.
     bindE (next_account_info it) (\<lambda>(token_program_info, it).
     bindE (next_account_info it) (\<lambda>(stake_program_info, it).
     bindE (check_stake_program rt (ai_key stake_program_info)) (\<lambda>_.
     bindE (load_stake_pool program_id w stake_pool_info) (\<lambda>stake_pool.
     bindE (check_mint rt stake_pool w pool_mint_info) (\<lambda>decimals.
     bindE (check_validator_list stake_pool validator_list_info) (\<lambda>_.
     bindE (check_authority_withdraw rt stake_pool (ai_key withdraw_authority_info) program_id
              (ai_key stake_pool_info)) (\<lambda>_.
     if sp_manager_fee_account stake_pool \<noteq> ai_key manager_fee_info then Inl (pool_err InvalidFeeAccount)
     else if sp_token_program_id stake_pool \<noteq> ai_key token_program_info then Inl IncorrectProgramId
     else if sp_last_update_epoch stake_pool < clock_epoch then Inl (pool_err StakeListAndPoolOutOfDate)
     else
     bindE (check_account_owner w validator_list_info program_id) (\<lambda>_.
     bindE (load_validator_list w validator_list_info) (\<lambda>(_, validator_list).
     bindE (withdraw_amounts rt stake_pool w (calc_pool_tokens_stake_withdrawal_fee stake_pool pool_tokens)
              burn_from_pool_info manager_fee_info pool_tokens minimum_lamports_out)
       (\<lambda>(pool_tokens_fee, pool_tokens_burnt, withdraw_lamports).
     bindE (select_withdraw_source rt program_id stake_pool_info stake_pool validator_list
              stake_split_from withdraw_lamports w) (\<lambda>(stake_pool, withdraw_lamports, validator_list_item_info).
     bindE (withdraw_stake_calls rt
              \<lparr>cx_program_id = program_id, cx_stake_pool_info = stake_pool_info,
               cx_stake_pool = stake_pool, cx_withdraw_authority_info = withdraw_authority_info,
               cx_clock_info = clock_info, cx_epoch = clock_epoch\<rparr>
              stake_split_from stake_split_to user_stake_authority_info user_transfer_authority_info
              burn_from_pool_info manager_fee_info pool_mint_info token_program_info decimals
              pool_tokens_fee pool_tokens_burnt withdraw_lamports w) (\<lambda>w.
     bindE (debit_pool stake_pool pool_tokens_burnt withdraw_lamports) (\<lambda>stake_pool.
     bindE (write_stake_pool w stake_pool_info stake_pool) (\<lambda>w.
     update_withdraw_source w validator_list_info validator_list_item_info withdraw_lamports))))))))))))))))))))))))))"

end
