(* ===== verification/Fund_Effects.thy ===== *)
theory Fund_Effects
  imports Processor_Funds Validator_Effects
begin

section \<open>What deposits and withdrawals do\<close>

text \<open>
  The four handlers that move user funds, reduced to the amounts they compute and to the
  new books: who gets how many tokens, that the slippage limits hold, and how the record
  of the pool changes.
\<close>

subsection \<open>Amounts\<close>

lemma check_deposit_amounts_Inr:
  "check_deposit_amounts a m = Inr u \<Longrightarrow>
     0 < unat (da_user a) \<and> (\<forall>x. m = Some x \<longrightarrow> unat x \<le> unat (da_user a))"
  by (auto simp: check_deposit_amounts_def unat_gt_0 word_less_nat_alt split: if_splits option.splits)

text \<open>How the tokens of a deposit are divided.\<close>

definition deposit_division :: "stake_pool \<Rightarrow> u64 \<Rightarrow> u64 option \<Rightarrow> deposit_amounts \<Rightarrow> bool" where
  "deposit_division sp lamports minimum_out a \<longleftrightarrow>
     calc_pool_tokens_for_deposit sp lamports = Some (da_new a) \<and>
     unat (da_new a) = unat (da_user a) + unat (da_manager a) + unat (da_referral a) \<and>
     0 < unat (da_user a) \<and> (\<forall>m. minimum_out = Some m \<longrightarrow> unat m \<le> unat (da_user a))"

lemma deposit_sol_amounts_Inr:
  assumes "deposit_sol_amounts sp d m = Inr a"
  shows "deposit_division sp d m a"
    and "unat (da_manager a) + unat (da_referral a) = fee_amount (sp_sol_deposit_fee sp) (unat (da_new a))"
proof -
  from assms obtain f where n: "calc_pool_tokens_for_deposit sp d = Some (da_new a)"
      and f: "calc_pool_tokens_sol_deposit_fee sp (da_new a) = Some f"
      and u: "unat (da_new a) = unat (da_user a) + unat f"
      and r: "unat f = unat (da_manager a) + unat (da_referral a)"
      and c: "check_deposit_amounts a m = Inr ()"
    by (auto simp: deposit_sol_amounts_def ok_iff Let_def checked_sub_Some)
  from f obtain x where "fee_apply (sp_sol_deposit_fee sp) (da_new a) = Some x" "u64_try_from x = Some f"
    by (auto simp: calc_pool_tokens_sol_deposit_fee_def bind_eq_Some_conv)
  then have "unat f = fee_amount (sp_sol_deposit_fee sp) (unat (da_new a))"
    by (simp add: fee_apply_Some u64_try_from_Some)
  with r show "unat (da_manager a) + unat (da_referral a) = fee_amount (sp_sol_deposit_fee sp) (unat (da_new a))"
    by simp
  show "deposit_division sp d m a"
    using n u r check_deposit_amounts_Inr [OF c] by (simp add: deposit_division_def)
qed

lemma deposit_stake_amounts_Inr:
  assumes "deposit_stake_amounts sp tot stake m = Inr a"
  shows "deposit_division sp tot m a"
proof -
  from assms obtain f :: u64 where n: "calc_pool_tokens_for_deposit sp tot = Some (da_new a)"
      and u: "unat (da_new a) = unat (da_user a) + unat f"
      and r: "unat f = unat (da_manager a) + unat (da_referral a)"
      and c: "check_deposit_amounts a m = Inr ()"
    by (auto simp: deposit_stake_amounts_def ok_iff Let_def checked_sub_Some)
  then show ?thesis using check_deposit_amounts_Inr [OF c] by (simp add: deposit_division_def)
qed

definition withdraw_division ::
    "stake_pool \<Rightarrow> u64 \<Rightarrow> u64 option \<Rightarrow> u64 \<Rightarrow> u64 \<Rightarrow> u64 \<Rightarrow> bool" where
  "withdraw_division sp pool_tokens minimum_out charged burnt lamports \<longleftrightarrow>
     unat pool_tokens = unat charged + unat burnt \<and>
     calc_lamports_withdraw_amount sp burnt = Some lamports \<and> 0 < unat lamports \<and>
     (\<forall>m. minimum_out = Some m \<longrightarrow> unat m \<le> unat lamports)"

lemma withdraw_amounts_Inr:
  assumes "withdraw_amounts rt sp w wfee burn fee_acc pool_tokens m = Inr (f, b, l)"
  shows "withdraw_division sp pool_tokens m f b l" and "f = 0 \<or> wfee = Some f"
proof -
  from assms have "unat pool_tokens = unat b + unat f" "calc_lamports_withdraw_amount sp b = Some l"
      "l \<noteq> 0" "\<forall>x. m = Some x \<longrightarrow> \<not> l < x" "f = 0 \<or> wfee = Some f"
    by (auto simp: withdraw_amounts_def ok_iff checked_sub_Some split: option.splits if_splits)
  then show "withdraw_division sp pool_tokens m f b l" "f = 0 \<or> wfee = Some f"
    by (auto simp: withdraw_division_def unat_gt_0 word_less_nat_alt)
qed

subsection \<open>DepositSol and WithdrawSol\<close>

lemma deposit_sol_effect:
  assumes "process_deposit_sol rt pid
    (pool # auth # reserve # from # dest # fee_acc # referrer # mint # system # token # rest)
    lamports minimum_out w = Inr w'"
  shows "\<exists>sp sp' a w1 w2 epoch. load_stake_pool pid w pool = Inr sp \<and>
    ai_key reserve = sp_reserve_stake sp \<and> ai_key mint = sp_pool_mint sp \<and>
    ai_key token = sp_token_program_id sp \<and> ai_key fee_acc = sp_manager_fee_account sp \<and>
    rt_clock_get rt = Inr epoch \<and> epoch \<le> sp_last_update_epoch sp \<and>
    (\<forall>k. sp_sol_deposit_authority sp = Some k \<longrightarrow>
       (\<exists>i rest'. rest = i # rest' \<and> ai_key i = k \<and> ai_is_signer i)) \<and>
    deposit_sol_amounts sp lamports minimum_out = Inr a \<and>
    sol_transfer rt from reserve lamports w = Inr w1 \<and>
    mint_deposit rt pool sp token mint auth dest fee_acc referrer a w1 = Inr w2 \<and>
    credit_pool sp (da_new a) lamports = Inr sp' \<and> write_stake_pool w2 pool sp' = Inr w'"
proof -
  from assms obtain sp sp' a w1 w2 epoch where
      sp: "load_stake_pool pid w pool = Inr sp"
      and k: "ai_key reserve = sp_reserve_stake sp" "ai_key mint = sp_pool_mint sp"
        "sp_token_program_id sp = ai_key token" "sp_manager_fee_account sp = ai_key fee_acc"
      and ck: "rt_clock_get rt = Inr epoch" "\<not> sp_last_update_epoch sp < epoch"
      and au: "\<forall>k. sp_sol_deposit_authority sp = Some k \<longrightarrow>
        (\<exists>i. (\<exists>b. rest = i # b) \<and> ai_key i = k \<and> ai_is_signer i)"
      and am: "deposit_sol_amounts sp lamports minimum_out = Inr a"
      and c: "sol_transfer rt from reserve lamports w = Inr w1"
        "mint_deposit rt pool sp token mint auth dest fee_acc referrer a w1 = Inr w2"
        "credit_pool sp (da_new a) lamports = Inr sp'" "write_stake_pool w2 pool sp' = Inr w'"
    by (simp add: process_deposit_sol_def ok_iff Let_def case_prod_beta del: credit_pool_Inr) blast
  have ck': "epoch \<le> sp_last_update_epoch sp" using ck(2) by simp
  have au': "\<forall>k. sp_sol_deposit_authority sp = Some k \<longrightarrow>
      (\<exists>i rest'. rest = i # rest' \<and> ai_key i = k \<and> ai_is_signer i)" using au by blast
  show ?thesis
    by (intro exI [of _ sp] exI [of _ sp'] exI [of _ a] exI [of _ w1] exI [of _ w2] exI [of _ epoch] conjI)
      (fact sp k am c ck' au' ck(1) | rule k [symmetric])+
qed

lemma withdraw_sol_effect:
  assumes "process_withdraw_sol rt pid
    (pool # auth # user # burn # reserve # dest # fee_acc # mint # clock # history # stake_program # token # rest)
    pool_tokens minimum_out w = Inr w'"
  shows "\<exists>sp sp' f b l d w1 w2 w3 epoch. load_stake_pool pid w pool = Inr sp \<and>
    ai_key reserve = sp_reserve_stake sp \<and> ai_key mint = sp_pool_mint sp \<and>
    ai_key token = sp_token_program_id sp \<and>
    rt_clock_get rt = Inr epoch \<and> epoch \<le> sp_last_update_epoch sp \<and>
    (\<forall>k. sp_sol_withdraw_authority sp = Some k \<longrightarrow>
       (\<exists>i rest'. rest = i # rest' \<and> ai_key i = k \<and> ai_is_signer i)) \<and>
    withdraw_amounts rt sp w (calc_pool_tokens_sol_withdrawal_fee sp pool_tokens) burn fee_acc pool_tokens
      minimum_out = Inr (f, b, l) \<and>
    check_reserve_withdrawal rt w reserve l = Inr () \<and>
    token_burn rt token burn mint user b w = Inr w1 \<and>
    (if f > 0 then token_transfer rt token burn mint fee_acc user f d w1 else Inr w1) = Inr w2 \<and>
    stake_withdraw rt (ai_key pool) reserve auth AUTHORITY_WITHDRAW (sp_stake_withdraw_bump_seed sp)
      dest clock history l w2 = Inr w3 \<and>
    debit_pool sp b l = Inr sp' \<and> write_stake_pool w3 pool sp' = Inr w'"
proof -
  from assms obtain sp sp' f b l d w1 w2 w3 epoch where
      sp: "load_stake_pool pid w pool = Inr sp"
      and k: "ai_key reserve = sp_reserve_stake sp" "ai_key mint = sp_pool_mint sp"
        "sp_token_program_id sp = ai_key token"
      and ck: "rt_clock_get rt = Inr epoch" "\<not> sp_last_update_epoch sp < epoch"
      and au: "\<forall>k. sp_sol_withdraw_authority sp = Some k \<longrightarrow>
        (\<exists>i. (\<exists>b. rest = i # b) \<and> ai_key i = k \<and> ai_is_signer i)"
      and am: "withdraw_amounts rt sp w (calc_pool_tokens_sol_withdrawal_fee sp pool_tokens) burn fee_acc
        pool_tokens minimum_out = Inr (f, b, l)" "check_reserve_withdrawal rt w reserve l = Inr ()"
      and c: "token_burn rt token burn mint user b w = Inr w1"
        "(if f > 0 then token_transfer rt token burn mint fee_acc user f d w1 else Inr w1) = Inr w2"
        "stake_withdraw rt (ai_key pool) reserve auth AUTHORITY_WITHDRAW (sp_stake_withdraw_bump_seed sp)
           dest clock history l w2 = Inr w3"
        "debit_pool sp b l = Inr sp'" "write_stake_pool w3 pool sp' = Inr w'"
    by (simp add: process_withdraw_sol_def ok_iff Let_def case_prod_beta del: debit_pool_Inr
        cong: if_cong split del: if_split) blast
  have ck': "epoch \<le> sp_last_update_epoch sp" using ck(2) by simp
  have au': "\<forall>k. sp_sol_withdraw_authority sp = Some k \<longrightarrow>
      (\<exists>i rest'. rest = i # rest' \<and> ai_key i = k \<and> ai_is_signer i)" using au by blast
  show ?thesis
    by (intro exI [of _ sp] exI [of _ sp'] exI [of _ f] exI [of _ b] exI [of _ l] exI [of _ d]
        exI [of _ w1] exI [of _ w2] exI [of _ w3] exI [of _ epoch] conjI)
      (fact sp k am c ck' au' ck(1) | rule k [symmetric])+
qed

subsection \<open>DepositStake\<close>

lemma pool_mint_to_frame [frame]:
  "respects_owner rt pid \<Longrightarrow> pool_mint_to rt a sp b d e f amt w = Inr w' \<Longrightarrow> same_program_data pid w w'"
  unfolding pool_mint_to_def by (blast intro: frame)

lemma mint_deposit_steps:
  assumes "mint_deposit rt p sp t m au d f r a w = Inr w'"
  obtains w1 w2 where "pool_mint_to rt p sp t m au d (da_user a) w = Inr w1"
    "(if da_manager a > 0 then pool_mint_to rt p sp t m au f (da_manager a) w1 else Inr w1) = Inr w2"
    "(if da_referral a > 0 then pool_mint_to rt p sp t m au r (da_referral a) w2 else Inr w2) = Inr w'"
  using assms by (simp add: mint_deposit_def Let_def bindE_eq_Inr split del: if_split) blast

lemma if_call_frame:
  "(b \<Longrightarrow> m = Inr w' \<Longrightarrow> same_program_data pid w w') \<Longrightarrow> (if b then m else Inr w) = Inr w' \<Longrightarrow>
     same_program_data pid w w'"
  by (auto split: if_splits)

lemma mint_deposit_frame [frame]:
  assumes own: "respects_owner rt pid" and run: "mint_deposit rt p sp t m au d f r a w = Inr w'"
  shows "same_program_data pid w w'"
proof -
  obtain w1 w2 where w: "pool_mint_to rt p sp t m au d (da_user a) w = Inr w1"
    "(if da_manager a > 0 then pool_mint_to rt p sp t m au f (da_manager a) w1 else Inr w1) = Inr w2"
    "(if da_referral a > 0 then pool_mint_to rt p sp t m au r (da_referral a) w2 else Inr w2) = Inr w'"
    using mint_deposit_steps [OF run] by blast
  have "same_program_data pid w1 w2" using pool_mint_to_frame [OF own] w(2) by (rule if_call_frame)
  moreover have "same_program_data pid w2 w'" using pool_mint_to_frame [OF own] w(3) by (rule if_call_frame)
  ultimately show ?thesis using pool_mint_to_frame [OF own w(1)] same_program_data_trans by blast
qed

context call_frame begin

lemma stage_deposit_stake_merge:
  assumes "deposit_stake_merge rt c a b d e w = Inr w'"
  shows "keeps w w'"
proof -
  from assms obtain w1 where
      "stake_authorize_signed rt (ai_key (cx_stake_pool_info c)) b a AUTHORITY_DEPOSIT
         (snd (find_deposit_authority_program_address rt (cx_program_id c) (ai_key (cx_stake_pool_info c))))
         (ai_key (cx_withdraw_authority_info c)) (cx_clock_info c) w = Inr w1 \<or>
       stake_authorize rt b a (ai_key (cx_withdraw_authority_info c)) (cx_clock_info c) w = Inr w1"
      "pool_merge rt c b d e w1 = Inr w'"
    by (auto simp: deposit_stake_merge_def case_prod_beta Let_def ok_iff split: if_splits)
  then show ?thesis by (meson double_call pool_call keeps_trans)
qed

end

lemmas deposit_stake_merge_frame = owner_frame.stage_deposit_stake_merge [THEN mp, rotated]

lemma deposit_stake_core_effect:
  assumes own: "respects_owner rt pid"
    and run: "deposit_stake rt c list da stake vstake reserve dest fee_acc referrer mint history token m w = Inr w'"
    and ok: "list_ok (data_of w list)" and pid: "owner_of w list = pid"
    and ne: "ai_key (cx_stake_pool_info c) \<noteq> ai_key list"
  shows "\<exists>sp' a e lamports. deposit_division (cx_stake_pool c) lamports m a \<and>
    credit_pool (cx_stake_pool c) (da_new a) lamports = Inr sp' \<and>
    read_stake_pool w' (cx_stake_pool_info c) = Inr sp' \<and>
    replaces_active (data_of w list) (data_of w' list) e
      (e\<lparr>vs_active_stake_lamports := lamports_of w' vstake\<rparr>)"
proof -
  from run obtain h vec off e w1 w2 w3 w4 lamports sl a sp' sold and k :: stake_delegation where
      ld: "load_validator_list w list = Inr (h, vec)"
      and f: "find_validator_or_fail vec (voter_pubkey k) = Inr (off, e)"
      and act: "vs_status e = status_to_u8 Active"
      and w1: "deposit_stake_merge rt c da stake vstake history w = Inr w1"
      and am: "deposit_stake_amounts (cx_stake_pool c) lamports sl m = Inr a"
      and w2: "mint_deposit rt (cx_stake_pool_info c) (cx_stake_pool c) token mint
        (cx_withdraw_authority_info c) dest fee_acc referrer a w1 = Inr w2"
      and w3: "(if sold > 0 then pool_withdraw rt c vstake reserve history sold w2 else Inr w2) = Inr w3"
      and cr: "credit_pool (cx_stake_pool c) (da_new a) lamports = Inr sp'"
      and w4: "write_stake_pool w3 (cx_stake_pool_info c) sp' = Inr w4"
      and w': "w' = put_entry w4 list off (e\<lparr>vs_active_stake_lamports := lamports_of w4 vstake\<rparr>)"
    by (simp add: deposit_stake_def ok_iff Let_def case_prod_beta
        del: status_to_u8.simps credit_pool_Inr cong: if_cong split del: if_split) blast
  have "same_program_data pid w2 w3" using w3 pool_call_frame(5) [OF own] by (auto split: if_splits)
  then have "same_program_data pid w w3"
    using w1 w2 own by (meson deposit_stake_merge_frame mint_deposit_frame same_program_data_trans)
  then have "data_of w3 list = data_of w list" by (rule same_program_list(1) [OF _ pid])
  then have same: "data_of w4 list = data_of w list"
    using write_stake_pool_same_data [OF w4, of list] ne by simp
  have "lamports_of w' vstake = lamports_of w4 vstake" by (simp add: w' lamports_of_def)
  moreover have "read_stake_pool w' (cx_stake_pool_info c) = Inr sp'"
    using read_written_stake_pool [OF w4] ne by (simp add: w' read_stake_pool_def data_of_def)
  ultimately show ?thesis
    using found_entry_replaced(1) [OF f ld ok act same] deposit_stake_amounts_Inr [OF am] cr
    unfolding w' by metis
qed

lemma deposit_stake_effect:
  assumes own: "respects_owner rt pid"
    and run: "process_deposit_stake rt pid (pool # list # da # auth # stake # vstake # rest) m w = Inr w'"
    and ok: "list_ok (data_of w list)" and ne: "ai_key pool \<noteq> ai_key list"
  shows "\<exists>sp sp' a e lamports. load_stake_pool pid w pool = Inr sp \<and> ai_key list = sp_validator_list sp \<and>
    ai_key da = sp_stake_deposit_authority sp \<and> deposit_division sp lamports m a \<and>
    credit_pool sp (da_new a) lamports = Inr sp' \<and> read_stake_pool w' pool = Inr sp' \<and>
    replaces_active (data_of w list) (data_of w' list) e
      (e\<lparr>vs_active_stake_lamports := lamports_of w' vstake\<rparr>)"
proof -
  from run obtain sp ck ep reserve dest fee_acc referrer mint history token where
      sp: "load_stake_pool pid w pool = Inr sp" and au: "sp_stake_deposit_authority sp = ai_key da"
      and li: "ai_key list = sp_validator_list sp" "owner_of w list = pid"
      and core: "deposit_stake rt
        \<lparr>cx_program_id = pid, cx_stake_pool_info = pool, cx_stake_pool = sp,
         cx_withdraw_authority_info = auth, cx_clock_info = ck, cx_epoch = ep\<rparr>
        list da stake vstake reserve dest fee_acc referrer mint history token m w = Inr w'"
    by (simp add: process_deposit_stake_def ok_iff Let_def case_prod_beta) blast
  have "\<exists>sp' a e lamports. deposit_division sp lamports m a \<and> credit_pool sp (da_new a) lamports = Inr sp' \<and>
      read_stake_pool w' pool = Inr sp' \<and>
      replaces_active (data_of w list) (data_of w' list) e
        (e\<lparr>vs_active_stake_lamports := lamports_of w' vstake\<rparr>)"
    using deposit_stake_core_effect [OF own core ok li(2)] ne by (simp only: call_context.simps simp_thms)
  then show ?thesis using sp au [symmetric] li by blast
qed

subsection \<open>WithdrawStake\<close>

lemma withdraw_limits_Inr:
  assumes "withdraw_limits sp src from_l l0 req tol v = Inr (sp1, l)"
  shows "unat l \<le> unat l0 \<and> (sp1 = sp \<or> sp1 = clear_preferred sp v) \<and>
    (src = SourceValidatorRemoval \<longrightarrow> l = from_l) \<and>
    (src \<noteq> SourceValidatorRemoval \<longrightarrow> l = l0)"
  using assms by (cases src)
    (auto simp: withdraw_limits_def Let_def word_less_nat_alt not_less split: if_splits)

lemma withdraw_source_of_Inr:
  "withdraw_source_of rt pid k from v act tr e = Inr SourceValidatorRemoval \<Longrightarrow>
     \<not> act \<and> \<not> tr \<and> vs_transient_stake_lamports e = 0"
  by (auto simp: withdraw_source_of_def ok_iff split: if_splits)

text \<open>What the choice of the source guarantees.\<close>

lemma select_withdraw_source_Inr:
  assumes "select_withdraw_source rt pid pool sp vec from l0 w = Inr (sp1, l, item)"
  shows "same_books sp sp1" and "unat l \<le> unat l0"
    and "item = None \<longrightarrow> l = l0 \<and> ai_key from = sp_reserve_stake sp"
    and "item = Some (off, e, src) \<longrightarrow>
      (\<exists>k. find_validator_or_fail vec k = Inr (off, e)) \<and> vs_status e = status_to_u8 Active \<and>
      (src = SourceValidatorRemoval \<longrightarrow> l = lamports_of w from \<and> vs_transient_stake_lamports e = 0)"
proof -
  have "(sp1 = sp \<and> l = l0 \<and> item = None \<and> ai_key from = sp_reserve_stake sp) \<or>
      (\<exists>v off e src act tr req tol. item = Some (off, e, src) \<and> find_validator_or_fail vec v = Inr (off, e) \<and>
         vs_status e = status_to_u8 Active \<and>
         withdraw_source_of rt pid (ai_key pool) from v act tr e = Inr src \<and>
         withdraw_limits sp src (lamports_of w from) l0 req tol v = Inr (sp1, l))"
  proof (cases "ai_key from = sp_reserve_stake sp")
    case True
    then show ?thesis using assms
      by (auto simp: select_withdraw_source_def ok_iff Let_def simp del: status_to_u8.simps split: if_splits)
  next
    case False
    then show ?thesis using assms
      by (simp add: select_withdraw_source_def ok_iff Let_def del: status_to_u8.simps) blast
  qed
  then show "same_books sp sp1" "unat l \<le> unat l0"
    "item = None \<longrightarrow> l = l0 \<and> ai_key from = sp_reserve_stake sp"
    "item = Some (off, e, src) \<longrightarrow>
      (\<exists>k. find_validator_or_fail vec k = Inr (off, e)) \<and> vs_status e = status_to_u8 Active \<and>
      (src = SourceValidatorRemoval \<longrightarrow> l = lamports_of w from \<and> vs_transient_stake_lamports e = 0)"
    by (auto simp: clear_preferred_books simp del: status_to_u8.simps
        dest!: withdraw_limits_Inr withdraw_source_of_Inr)
qed

lemma withdraw_stake_calls_frame [frame]:
  assumes own: "respects_owner rt pid"
    and run: "withdraw_stake_calls rt c a b d e f g h i dec fee bt l w = Inr w'"
  shows "same_program_data pid w w'"
proof -
  from run obtain w1 w2 w3 where "token_burn rt i f h e bt w = Inr w1" "pool_split rt c a l b w1 = Inr w2"
      "stake_authorize_signed rt (ai_key (cx_stake_pool_info c)) b (cx_withdraw_authority_info c)
         AUTHORITY_WITHDRAW (sp_stake_withdraw_bump_seed (cx_stake_pool c)) (ai_key d) (cx_clock_info c) w2 = Inr w3"
      and last: "(if fee > 0 then token_transfer rt i f h g e fee dec w3 else Inr w3) = Inr w'"
    by (simp add: withdraw_stake_calls_def bindE_eq_Inr split del: if_split) blast
  then have "same_program_data pid w w3" using own by (meson frame same_program_data_trans)
  moreover have "same_program_data pid w3 w'"
    using own_call_frame(7) [OF own] last by (rule if_call_frame)
  ultimately show ?thesis by (rule same_program_data_trans)
qed

text \<open>What is recorded for the source: nothing for the reserve, the debited entry otherwise.\<close>

definition source_recorded ::
    "bytes \<Rightarrow> bytes \<Rightarrow> u64 \<Rightarrow> u64 \<Rightarrow> (nat \<times> validator_stake_info \<times> stake_withdraw_source) option \<Rightarrow> bool" where
  "source_recorded data data' from_lamports lamports item \<longleftrightarrow>
     (case item of
        None \<Rightarrow> data' = data
      | Some (off, e, src) \<Rightarrow>
          \<exists>e'. debit_entry e src lamports = Inr e' \<and> replaces_active data data' e e' \<and>
            (src = SourceValidatorRemoval \<longrightarrow>
               lamports = from_lamports \<and> vs_transient_stake_lamports e = 0))"

lemma withdraw_stake_effect:
  assumes own: "respects_owner rt pid"
    and run: "process_withdraw_stake rt pid
      (pool # list # auth # from # to # user_stake # user # burn # fee_acc # mint # rest) pool_tokens m w = Inr w'"
    and ok: "list_ok (data_of w list)" and ne: "ai_key pool \<noteq> ai_key list"
  shows "\<exists>sp sp1 sp' f b l0 l item. load_stake_pool pid w pool = Inr sp \<and> ai_key list = sp_validator_list sp \<and>
    withdraw_division sp pool_tokens m f b l0 \<and>
    (f = 0 \<or> calc_pool_tokens_stake_withdrawal_fee sp pool_tokens = Some f) \<and>
    same_books sp sp1 \<and> unat l \<le> unat l0 \<and> debit_pool sp1 b l = Inr sp' \<and>
    read_stake_pool w' pool = Inr sp' \<and>
    source_recorded (data_of w list) (data_of w' list) (lamports_of w from) l item"
proof -
  from run obtain sp h vec f b l0 sp1 l item c dec token w1 sp' w2 where
      sp: "load_stake_pool pid w pool = Inr sp"
      and li: "ai_key list = sp_validator_list sp" "owner_of w list = pid"
      and ld: "load_validator_list w list = Inr (h, vec)"
      and am: "withdraw_amounts rt sp w (calc_pool_tokens_stake_withdrawal_fee sp pool_tokens) burn fee_acc
        pool_tokens m = Inr (f, b, l0)"
      and sel: "select_withdraw_source rt pid pool sp vec from l0 w = Inr (sp1, l, item)"
      and w1: "withdraw_stake_calls rt c from to user_stake user burn fee_acc mint token dec f b l w = Inr w1"
      and db: "debit_pool sp1 b l = Inr sp'" and w2: "write_stake_pool w1 pool sp' = Inr w2"
      and it: "update_withdraw_source w2 list item l = Inr w'"
    by (simp add: process_withdraw_stake_def ok_iff Let_def case_prod_beta del: debit_pool_Inr
        split del: if_split) blast
  have "data_of w1 list = data_of w list"
    by (rule same_program_list(1) [OF withdraw_stake_calls_frame [OF own w1] li(2)])
  then have same: "data_of w2 list = data_of w list"
    using write_stake_pool_same_data [OF w2, of list] ne by simp
  have rd: "read_stake_pool w2 pool = Inr sp'" using w2 by (rule read_written_stake_pool)
  have "source_recorded (data_of w list) (data_of w' list) (lamports_of w from) l item \<and>
      read_stake_pool w' pool = Inr sp'"
  proof (cases item)
    case None
    then show ?thesis using it same rd by (simp add: source_recorded_def update_withdraw_source_def)
  next
    case (Some x)
    then obtain off e src e' where x: "item = Some (off, e, src)" and e': "debit_entry e src l = Inr e'"
        and w': "w' = put_entry w2 list off e'"
      using it by (cases x) (auto simp: ok_iff update_withdraw_source_def)
    obtain k where k: "find_validator_or_fail vec k = Inr (off, e)" "vs_status e = status_to_u8 Active"
        "src = SourceValidatorRemoval \<longrightarrow> l = lamports_of w from \<and> vs_transient_stake_lamports e = 0"
      using select_withdraw_source_Inr(4) [OF sel, of off e src] x by blast
    have "read_stake_pool w' pool = Inr sp'" using rd ne by (simp add: w' read_stake_pool_def data_of_def)
    then show ?thesis
      using found_entry_replaced(1) [OF k(1) ld ok k(2) same] k(3) e' by (auto simp: source_recorded_def x w')
  qed
  then show ?thesis
    using sp li withdraw_amounts_Inr [OF am] select_withdraw_source_Inr(1,2) [OF sel] db by blast
qed

end
