(* ===== verification/Instruction.thy ===== *)
theory Instruction
  imports Processor_Update Processor_Funds
begin

section \<open>Instructions and the dispatcher\<close>

text \<open>
  \<open>StakePoolInstruction\<close> of \<open>src/program/src/instruction.rs\<close> with its variants in the
  order of the source (the order is the wire format), its Borsh encoding, and
  \<open>Processor::process\<close>, which decodes the instruction data and calls the handler.
  Strings are byte sequences; decoding one demands UTF-8, as Rust's \<open>String\<close> does.
\<close>

subsection \<open>The instruction type\<close>

datatype stake_pool_instruction =
    Initialize fee fee fee u8 u32
  | AddValidatorToPool u32
  | RemoveValidatorFromPool
  | DecreaseValidatorStake u64 u64
  | IncreaseValidatorStake u64 u64
  | SetPreferredValidator preferred_validator_type "pubkey option"
  | UpdateValidatorListBalance u32 bool
  | UpdateStakePoolBalance
  | CleanupRemovedValidatorEntries
  | DepositStake
  | WithdrawStake u64
  | SetManager
  | SetFee fee_type
  | SetStaker
  | DepositSol u64
  | SetFundingAuthority funding_type
  | WithdrawSol u64
  | CreateTokenMetadata bytes bytes bytes
  | UpdateTokenMetadata bytes bytes bytes
  | IncreaseAdditionalValidatorStake u64 u64 u64
  | DecreaseAdditionalValidatorStake u64 u64 u64
  | DecreaseValidatorStakeWithReserve u64 u64
  | Redelegate u64 u64 u64 u64
  | DepositStakeWithSlippage u64
  | WithdrawStakeWithSlippage u64 u64
  | DepositSolWithSlippage u64 u64
  | WithdrawSolWithSlippage u64 u64
  | SetMaxValidatorStake "u64 option"

subsection \<open>Encoding\<close>

text \<open>Well-formed UTF-8, by the byte classes of the Unicode standard.\<close>

definition in_range :: "u8 \<Rightarrow> nat \<Rightarrow> nat \<Rightarrow> bool" where
  "in_range b lo hi \<longleftrightarrow> lo \<le> unat b \<and> unat b \<le> hi"

fun utf8_valid :: "bytes \<Rightarrow> bool" where
  "utf8_valid [] = True"
| "utf8_valid (a # rest) =
     (if in_range a 0 0x7F then utf8_valid rest
      else
        case rest of
          [] \<Rightarrow> False
        | b # rest2 \<Rightarrow>
            if in_range a 0xC2 0xDF then in_range b 0x80 0xBF \<and> utf8_valid rest2
            else
              case rest2 of
                [] \<Rightarrow> False
              | c # rest3 \<Rightarrow>
                  if in_range a 0xE0 0xEF then
                    (if unat a = 0xE0 then in_range b 0xA0 0xBF
                     else if unat a = 0xED then in_range b 0x80 0x9F
                     else in_range b 0x80 0xBF) \<and> in_range c 0x80 0xBF \<and> utf8_valid rest3
                  else
                    case rest3 of
                      [] \<Rightarrow> False
                    | d # rest4 \<Rightarrow>
                        in_range a 0xF0 0xF4 \<and>
                        (if unat a = 0xF0 then in_range b 0x90 0xBF
                         else if unat a = 0xF4 then in_range b 0x80 0x8F
                         else in_range b 0x80 0xBF) \<and>
                        in_range c 0x80 0xBF \<and> in_range d 0x80 0xBF \<and> utf8_valid rest4)"

definition de_string :: "bytes \<Rightarrow> (bytes \<times> bytes) option" where
  "de_string = de_bind (de_vec de_u8) (\<lambda>s. if utf8_valid s then de_return s else de_fail)"

lemma de_string_ser_string:
  "utf8_valid s \<Longrightarrow> length s < 2 ^ 32 \<Longrightarrow> de_string (ser_string s @ rest) = Some (s, rest)"
  by (simp add: de_string_def ser_string_def de_bind_def cu8.de_vec_ser_vec)

definition ser_preferred :: "preferred_validator_type \<Rightarrow> bytes" where
  "ser_preferred t = ser_u8 (case t of PreferredDeposit \<Rightarrow> 0 | PreferredWithdraw \<Rightarrow> 1)"

definition de_preferred :: "bytes \<Rightarrow> (preferred_validator_type \<times> bytes) option" where
  "de_preferred = de_bind de_u8 (\<lambda>t.
     if t = 0 then de_return PreferredDeposit else if t = 1 then de_return PreferredWithdraw else de_fail)"

interpretation cpref: codec ser_preferred de_preferred
  by unfold_locales (simp add: ser_preferred_def de_preferred_def split: preferred_validator_type.splits)

definition ser_funding :: "funding_type \<Rightarrow> bytes" where
  "ser_funding t = ser_u8 (case t of FundingStakeDeposit \<Rightarrow> 0 | FundingSolDeposit \<Rightarrow> 1 | FundingSolWithdraw \<Rightarrow> 2)"

definition de_funding :: "bytes \<Rightarrow> (funding_type \<times> bytes) option" where
  "de_funding = de_bind de_u8 (\<lambda>t.
     if t = 0 then de_return FundingStakeDeposit else if t = 1 then de_return FundingSolDeposit
     else if t = 2 then de_return FundingSolWithdraw else de_fail)"

interpretation cfund: codec ser_funding de_funding
  by unfold_locales (simp add: ser_funding_def de_funding_def split: funding_type.splits)

fun ser_fee_type :: "fee_type \<Rightarrow> bytes" where
  "ser_fee_type (SolReferral p) = ser_u8 0 @ ser_u8 p"
| "ser_fee_type (StakeReferral p) = ser_u8 1 @ ser_u8 p"
| "ser_fee_type (Epoch f) = ser_u8 2 @ ser_fee f"
| "ser_fee_type (StakeWithdrawal f) = ser_u8 3 @ ser_fee f"
| "ser_fee_type (SolDeposit f) = ser_u8 4 @ ser_fee f"
| "ser_fee_type (StakeDeposit f) = ser_u8 5 @ ser_fee f"
| "ser_fee_type (SolWithdrawal f) = ser_u8 6 @ ser_fee f"

definition de_fee_type :: "bytes \<Rightarrow> (fee_type \<times> bytes) option" where
  "de_fee_type = de_bind de_u8 (\<lambda>t.
     if t = 0 then de_bind de_u8 (\<lambda>p. de_return (SolReferral p))
     else if t = 1 then de_bind de_u8 (\<lambda>p. de_return (StakeReferral p))
     else if t = 2 then de_bind de_fee (\<lambda>f. de_return (Epoch f))
     else if t = 3 then de_bind de_fee (\<lambda>f. de_return (StakeWithdrawal f))
     else if t = 4 then de_bind de_fee (\<lambda>f. de_return (SolDeposit f))
     else if t = 5 then de_bind de_fee (\<lambda>f. de_return (StakeDeposit f))
     else if t = 6 then de_bind de_fee (\<lambda>f. de_return (SolWithdrawal f))
     else de_fail)"

interpretation cft: codec ser_fee_type de_fee_type
proof
  fix x rest
  show "de_fee_type (ser_fee_type x @ rest) = Some (x, rest)"
    by (cases x) (simp_all add: de_fee_type_def)
qed

fun ser_instruction :: "stake_pool_instruction \<Rightarrow> bytes" where
  "ser_instruction (Initialize f wfee dfee r m) =
     ser_u8 0 @ ser_fee f @ ser_fee wfee @ ser_fee dfee @ ser_u8 r @ ser_u32 m"
| "ser_instruction (AddValidatorToPool s) = ser_u8 1 @ ser_u32 s"
| "ser_instruction RemoveValidatorFromPool = ser_u8 2"
| "ser_instruction (DecreaseValidatorStake l s) = ser_u8 3 @ ser_u64 l @ ser_u64 s"
| "ser_instruction (IncreaseValidatorStake l s) = ser_u8 4 @ ser_u64 l @ ser_u64 s"
| "ser_instruction (SetPreferredValidator t v) = ser_u8 5 @ ser_preferred t @ ser_option ser_pubkey v"
| "ser_instruction (UpdateValidatorListBalance i b) = ser_u8 6 @ ser_u32 i @ ser_bool b"
| "ser_instruction UpdateStakePoolBalance = ser_u8 7"
| "ser_instruction CleanupRemovedValidatorEntries = ser_u8 8"
| "ser_instruction DepositStake = ser_u8 9"
| "ser_instruction (WithdrawStake a) = ser_u8 10 @ ser_u64 a"
| "ser_instruction SetManager = ser_u8 11"
| "ser_instruction (SetFee ft) = ser_u8 12 @ ser_fee_type ft"
| "ser_instruction SetStaker = ser_u8 13"
| "ser_instruction (DepositSol l) = ser_u8 14 @ ser_u64 l"
| "ser_instruction (SetFundingAuthority ft) = ser_u8 15 @ ser_funding ft"
| "ser_instruction (WithdrawSol p) = ser_u8 16 @ ser_u64 p"
| "ser_instruction (CreateTokenMetadata n s u) = ser_u8 17 @ ser_string n @ ser_string s @ ser_string u"
| "ser_instruction (UpdateTokenMetadata n s u) = ser_u8 18 @ ser_string n @ ser_string s @ ser_string u"
| "ser_instruction (IncreaseAdditionalValidatorStake l s e) = ser_u8 19 @ ser_u64 l @ ser_u64 s @ ser_u64 e"
| "ser_instruction (DecreaseAdditionalValidatorStake l s e) = ser_u8 20 @ ser_u64 l @ ser_u64 s @ ser_u64 e"
| "ser_instruction (DecreaseValidatorStakeWithReserve l s) = ser_u8 21 @ ser_u64 l @ ser_u64 s"
| "ser_instruction (Redelegate l a b c) = ser_u8 22 @ ser_u64 l @ ser_u64 a @ ser_u64 b @ ser_u64 c"
| "ser_instruction (DepositStakeWithSlippage m) = ser_u8 23 @ ser_u64 m"
| "ser_instruction (WithdrawStakeWithSlippage p m) = ser_u8 24 @ ser_u64 p @ ser_u64 m"
| "ser_instruction (DepositSolWithSlippage l m) = ser_u8 25 @ ser_u64 l @ ser_u64 m"
| "ser_instruction (WithdrawSolWithSlippage p m) = ser_u8 26 @ ser_u64 p @ ser_u64 m"
| "ser_instruction (SetMaxValidatorStake m) = ser_u8 27 @ ser_option ser_u64 m"

text \<open>Decoders of the argument shapes the variants share.\<close>

definition de_args2 :: "(u64 \<Rightarrow> u64 \<Rightarrow> 'a) \<Rightarrow> bytes \<Rightarrow> ('a \<times> bytes) option" where
  "de_args2 f = de_bind de_u64 (\<lambda>a. de_bind de_u64 (\<lambda>b. de_return (f a b)))"

definition de_args3 :: "(u64 \<Rightarrow> u64 \<Rightarrow> u64 \<Rightarrow> 'a) \<Rightarrow> bytes \<Rightarrow> ('a \<times> bytes) option" where
  "de_args3 f = de_bind de_u64 (\<lambda>a. de_args2 (f a))"

definition de_strings3 :: "(bytes \<Rightarrow> bytes \<Rightarrow> bytes \<Rightarrow> 'a) \<Rightarrow> bytes \<Rightarrow> ('a \<times> bytes) option" where
  "de_strings3 f = de_bind de_string (\<lambda>a. de_bind de_string (\<lambda>b. de_bind de_string (\<lambda>c. de_return (f a b c))))"

definition de_instruction :: "bytes \<Rightarrow> (stake_pool_instruction \<times> bytes) option" where
  "de_instruction = de_bind de_u8 (\<lambda>t.
     if t = 0 then de_bind de_fee (\<lambda>f. de_bind de_fee (\<lambda>wfee. de_bind de_fee (\<lambda>dfee.
       de_bind de_u8 (\<lambda>r. de_bind de_u32 (\<lambda>m. de_return (Initialize f wfee dfee r m))))))
     else if t = 1 then de_bind de_u32 (\<lambda>s. de_return (AddValidatorToPool s))
     else if t = 2 then de_return RemoveValidatorFromPool
     else if t = 3 then de_args2 DecreaseValidatorStake
     else if t = 4 then de_args2 IncreaseValidatorStake
     else if t = 5 then de_bind de_preferred (\<lambda>p. de_bind (de_option de_pubkey) (\<lambda>v.
       de_return (SetPreferredValidator p v)))
     else if t = 6 then de_bind de_u32 (\<lambda>i. de_bind de_bool (\<lambda>b. de_return (UpdateValidatorListBalance i b)))
     else if t = 7 then de_return UpdateStakePoolBalance
     else if t = 8 then de_return CleanupRemovedValidatorEntries
     else if t = 9 then de_return DepositStake
     else if t = 10 then de_bind de_u64 (\<lambda>a. de_return (WithdrawStake a))
     else if t = 11 then de_return SetManager
     else if t = 12 then de_bind de_fee_type (\<lambda>f. de_return (SetFee f))
     else if t = 13 then de_return SetStaker
     else if t = 14 then de_bind de_u64 (\<lambda>a. de_return (DepositSol a))
     else if t = 15 then de_bind de_funding (\<lambda>f. de_return (SetFundingAuthority f))
     else if t = 16 then de_bind de_u64 (\<lambda>a. de_return (WithdrawSol a))
     else if t = 17 then de_strings3 CreateTokenMetadata
     else if t = 18 then de_strings3 UpdateTokenMetadata
     else if t = 19 then de_args3 IncreaseAdditionalValidatorStake
     else if t = 20 then de_args3 DecreaseAdditionalValidatorStake
     else if t = 21 then de_args2 DecreaseValidatorStakeWithReserve
     else if t = 22 then de_bind de_u64 (\<lambda>l. de_args3 (Redelegate l))
     else if t = 23 then de_bind de_u64 (\<lambda>a. de_return (DepositStakeWithSlippage a))
     else if t = 24 then de_args2 WithdrawStakeWithSlippage
     else if t = 25 then de_args2 DepositSolWithSlippage
     else if t = 26 then de_args2 WithdrawSolWithSlippage
     else if t = 27 then de_bind (de_option de_u64) (\<lambda>m. de_return (SetMaxValidatorStake m))
     else de_fail)"

text \<open>The strings of an instruction are Rust strings: UTF-8 and shorter than \<open>2 ^ 32\<close>.\<close>

definition rust_string :: "bytes \<Rightarrow> bool" where
  "rust_string s \<longleftrightarrow> utf8_valid s \<and> length s < 2 ^ 32"

fun instruction_strings :: "stake_pool_instruction \<Rightarrow> bytes list" where
  "instruction_strings (CreateTokenMetadata n s u) = [n, s, u]"
| "instruction_strings (UpdateTokenMetadata n s u) = [n, s, u]"
| "instruction_strings _ = []"

lemma de_instruction_ser:
  assumes "list_all rust_string (instruction_strings i)"
  shows "de_instruction (ser_instruction i @ rest) = Some (i, rest)"
  using assms
  by (cases i) (simp_all add: de_instruction_def de_args2_def de_args3_def de_strings3_def
      rust_string_def de_bind_def de_string_ser_string cu8.de_ser cu32.de_ser cu64.de_ser cfee.de_ser
      cft.de_ser cpref.de_ser cfund.de_ser copk.de_ser cou64.de_ser cbool.de_ser)

subsection \<open>The dispatcher\<close>

fun process_instruction ::
    "runtime \<Rightarrow> pubkey \<Rightarrow> account_info list \<Rightarrow> stake_pool_instruction \<Rightarrow> world \<Rightarrow> program_error + world" where
  "process_instruction rt program_id accounts (Initialize f wfee dfee r m) w =
     process_initialize rt program_id accounts f wfee dfee r m w"
| "process_instruction rt program_id accounts (AddValidatorToPool seed) w =
     process_add_validator_to_pool rt program_id accounts seed w"
| "process_instruction rt program_id accounts RemoveValidatorFromPool w =
     process_remove_validator_from_pool rt program_id accounts w"
| "process_instruction rt program_id accounts (DecreaseValidatorStake lamports seed) w =
     process_decrease_validator_stake rt program_id accounts lamports seed None False w"
| "process_instruction rt program_id accounts (DecreaseValidatorStakeWithReserve lamports seed) w =
     process_decrease_validator_stake rt program_id accounts lamports seed None True w"
| "process_instruction rt program_id accounts (DecreaseAdditionalValidatorStake lamports seed ephemeral) w =
     process_decrease_validator_stake rt program_id accounts lamports seed (Some ephemeral) True w"
| "process_instruction rt program_id accounts (IncreaseValidatorStake lamports seed) w =
     process_increase_validator_stake rt program_id accounts lamports seed None w"
| "process_instruction rt program_id accounts (IncreaseAdditionalValidatorStake lamports seed ephemeral) w =
     process_increase_validator_stake rt program_id accounts lamports seed (Some ephemeral) w"
| "process_instruction rt program_id accounts (SetPreferredValidator t v) w =
     process_set_preferred_validator rt program_id accounts t v w"
| "process_instruction rt program_id accounts (UpdateValidatorListBalance start_index no_merge) w =
     process_update_validator_list_balance rt program_id accounts start_index no_merge w"
| "process_instruction rt program_id accounts UpdateStakePoolBalance w =
     process_update_stake_pool_balance rt program_id accounts w"
| "process_instruction rt program_id accounts CleanupRemovedValidatorEntries w =
     process_cleanup_removed_validator_entries rt program_id accounts w"
| "process_instruction rt program_id accounts DepositStake w =
     process_deposit_stake rt program_id accounts None w"
| "process_instruction rt program_id accounts (WithdrawStake amount) w =
     process_withdraw_stake rt program_id accounts amount None w"
| "process_instruction rt program_id accounts (SetFee ft) w = process_set_fee rt program_id accounts ft w"
| "process_instruction rt program_id accounts SetManager w = process_set_manager rt program_id accounts w"
| "process_instruction rt program_id accounts SetStaker w = process_set_staker rt program_id accounts w"
| "process_instruction rt program_id accounts (SetFundingAuthority ft) w =
     process_set_funding_authority rt program_id accounts ft w"
| "process_instruction rt program_id accounts (DepositSol lamports) w =
     process_deposit_sol rt program_id accounts lamports None w"
| "process_instruction rt program_id accounts (WithdrawSol pool_tokens) w =
     process_withdraw_sol rt program_id accounts pool_tokens None w"
| "process_instruction rt program_id accounts (CreateTokenMetadata n s u) w =
     process_create_pool_token_metadata rt program_id accounts n s u w"
| "process_instruction rt program_id accounts (UpdateTokenMetadata n s u) w =
     process_update_pool_token_metadata rt program_id accounts n s u w"
| "process_instruction rt program_id accounts (Redelegate _ _ _ _) w = Inl InvalidInstructionData"
| "process_instruction rt program_id accounts (DepositStakeWithSlippage minimum_pool_tokens_out) w =
     process_deposit_stake rt program_id accounts (Some minimum_pool_tokens_out) w"
| "process_instruction rt program_id accounts (WithdrawStakeWithSlippage pool_tokens_in minimum_lamports_out) w =
     process_withdraw_stake rt program_id accounts pool_tokens_in (Some minimum_lamports_out) w"
| "process_instruction rt program_id accounts (DepositSolWithSlippage lamports_in minimum_pool_tokens_out) w =
     process_deposit_sol rt program_id accounts lamports_in (Some minimum_pool_tokens_out) w"
| "process_instruction rt program_id accounts (WithdrawSolWithSlippage pool_tokens_in minimum_lamports_out) w =
     process_withdraw_sol rt program_id accounts pool_tokens_in (Some minimum_lamports_out) w"
| "process_instruction rt program_id accounts (SetMaxValidatorStake max_stake) w =
     process_set_max_validator_stake rt program_id accounts max_stake w"

definition process ::
    "runtime \<Rightarrow> pubkey \<Rightarrow> account_info list \<Rightarrow> bytes \<Rightarrow> world \<Rightarrow> program_error + world" where
  "process rt program_id accounts input w =
     bindE (ok_or (try_from_slice de_instruction input) BorshIoError) (\<lambda>instruction.
     process_instruction rt program_id accounts instruction w)"

end
