(* ===== verification/Frames.thy ===== *)
theory Frames
  imports Update_Effects Fund_Effects Instruction
begin

section \<open>What a whole instruction leaves alone\<close>

text \<open>
  The relations of \<open>call_frame\<close> lifted to whole handlers. A handler sends calls and writes
  to accounts of the program; the locale \<open>handler_frame\<close> adds to a relation that it survives a write
  to the accounts the instruction may write (\<open>mine\<close>: the pool and its list).
\<close>

locale handler_frame = call_frame +
  fixes pid :: pubkey and mine :: "pubkey \<Rightarrow> bool"
  assumes keeps_write:
    "keeps w w1 \<Longrightarrow> mine k \<Longrightarrow> acc_owner (w k) = pid \<Longrightarrow> keeps w (set_data w1 k bs)"
begin

lemma keeps_pool_write:
  assumes "write_stake_pool w1 info sp = Inr w2" "keeps w w1" "mine (ai_key info)" "owner_of w info = pid"
  shows "keeps w w2"
  using assms keeps_write by (auto simp: write_stake_pool_Inr owner_of_def)

lemma keeps_list_write:
  assumes "keeps w w1" "mine (ai_key info)" "owner_of w info = pid"
  shows "keeps w (set_list_vec w1 info vec)" "keeps w (put_entry w1 info off e)"
  using assms keeps_write by (simp_all add: set_list_vec_def put_entry_def owner_of_def)

lemma handler_add:
  assumes "process_add_validator_to_pool rt pid (pool # rest) seed w = Inr w'"
    and "read_stake_pool w pool = Inr sp" "mine (sp_validator_list sp)"
  shows "keeps w w'"
proof -
  from assms obtain w1 w2 w3 c s a b list stake reserve required vote e where
      li: "ai_key list = sp_validator_list sp" "owner_of w list = pid"
      and w1: "create_stake_account rt stake s (rt_stake_space rt) w = Inr w1"
      and w2: "pool_split rt c reserve required stake w1 = Inr w2"
      and w3: "pool_delegate rt c stake vote a b w2 = Inr w3"
      and p: "push_entry w3 list e = Inr w'"
    by (simp add: process_add_validator_to_pool_def ok_iff Let_def case_prod_beta load_stake_pool_Inr) blast
  have "keeps w w3" using w1 w2 w3 by (meson double_call pool_call keeps_trans)
  then show ?thesis using p li assms(3) by (auto simp: push_entry_def bindE_eq_Inr intro: keeps_list_write)
qed

lemma handler_remove:
  assumes "process_remove_validator_from_pool rt pid (pool # rest) w = Inr w'"
    and "read_stake_pool w pool = Inr sp" "mine (sp_validator_list sp)" "mine (ai_key pool)"
  shows "keeps w w'"
proof -
  from assms obtain list stake off e c t v new_status w1 w2 sp' and st :: stake_delegation where
      li: "ai_key list = sp_validator_list sp" "owner_of w list = pid" "owner_of w pool = pid"
      and w1: "remove_transient rt c t e v w = Inr (new_status, w1)"
      and w2: "(if deactivation_epoch st = EPOCH_MAX then pool_deactivate rt c stake w1 else Inr w1) = Inr w2"
      and wr: "write_stake_pool (put_entry w2 list off (e\<lparr>vs_status := status_to_u8 new_status\<rparr>)) pool sp' = Inr w'"
    by (simp add: process_remove_validator_from_pool_def ok_iff Let_def case_prod_beta load_stake_pool_Inr
        del: status_to_u8.simps cong: if_cong split del: if_split) blast
  have "keeps w1 w2" using pool_call(3) w2 by (rule keeps_if_call)
  then have "keeps w w2" using stage_remove_transient [OF w1] keeps_trans by blast
  then show ?thesis using wr li assms(3,4) by (metis keeps_pool_write keeps_list_write(2))
qed

lemma handler_decrease:
  assumes "process_decrease_validator_stake rt pid (pool # rest) lamports seed eph fund w = Inr w'"
    and "read_stake_pool w pool = Inr sp" "mine (sp_validator_list sp)"
  shows "keeps w w'"
proof -
  from assms(1,2) obtain c rent list res vstake m t hist where
      li: "ai_key list = sp_validator_list sp" "owner_of w list = pid"
      and core: "decrease_validator_stake rt c rent list res vstake m t hist lamports seed w = Inr w'"
    by (simp add: process_decrease_validator_stake_def ok_iff Let_def case_prod_beta load_stake_pool_Inr) blast
  from core obtain off e e' src amt r b w1 w2 v where
      "decrease_source rt c res hist r lamports vstake m w = Inr (src, amt, w1)"
      "decrease_into_transient rt c res hist r e v seed b src amt t w1 = Inr w2"
      and w': "w' = put_entry w2 list off e'"
    by (simp add: decrease_validator_stake_def ok_iff Let_def del: status_to_u8.simps) blast
  then have "keeps w w2" by (meson stage_decrease_source stage_decrease_into_transient keeps_trans)
  then show ?thesis using w' li assms(3) keeps_list_write(2) by simp
qed

lemma handler_increase:
  assumes "process_increase_validator_stake rt pid (pool # rest) lamports seed eph w = Inr w'"
    and "read_stake_pool w pool = Inr sp" "mine (sp_validator_list sp)"
  shows "keeps w w'"
proof -
  from assms(1,2) obtain c rent list res vstake m t vote hist conf where
      li: "ai_key list = sp_validator_list sp" "owner_of w list = pid"
      and core: "increase_validator_stake rt c rent list res m t vstake vote hist conf lamports seed w = Inr w'"
    by (simp add: process_increase_validator_stake_def ok_iff Let_def case_prod_beta load_stake_pool_Inr) blast
  from core obtain off e e' src b total w1 w2 where
      "increase_source rt c res vote hist conf m total w = Inr (src, w1)"
      "increase_into_transient rt c vote hist conf e seed b src total t w1 = Inr w2"
      and w': "w' = put_entry w2 list off e'"
    by (simp add: increase_validator_stake_def ok_iff Let_def del: status_to_u8.simps) blast
  then have "keeps w w2" by (meson stage_increase_source stage_increase_into_transient keeps_trans)
  then show ?thesis using w' li assms(3) keeps_list_write(2) by simp
qed

lemma keeps_from:
  assumes "keeps w w1" "mine (ai_key info)" "owner_of w info = pid"
  shows "update_records rt c a b d info off accts w1 = Inr w' \<Longrightarrow> keeps w w'"
  using assms(1)
proof (induction accts arbitrary: off w1 rule: induct_list012)
  case (3 v t rest)
  then obtain r w2 where "update_record rt c a b d v t (entry_at (list_vec w1 info) off) w1 = Inr (r, w2)"
      and rec: "update_records rt c a b d info (off + ENTRY_LEN) rest (put_entry w2 info off r) = Inr w'"
    by (auto simp: ok_iff)
  then have "keeps w w2" using stage_update_record "3.prems"(2) keeps_trans by blast
  then show ?case using "3.IH"(1) [OF rec] keeps_list_write(2) assms(2,3) by blast
qed auto

lemma handler_update_list:
  assumes "process_update_validator_list_balance rt pid (pool # rest) start no_merge w = Inr w'"
    and "read_stake_pool w pool = Inr sp" "mine (sp_validator_list sp)"
  shows "keeps w w'"
proof -
  from assms(1,2) obtain c a b list off accts where
      li: "ai_key list = sp_validator_list sp" "owner_of w list = pid"
      and up: "update_records rt c a b no_merge list off accts w = Inr w'"
    by (simp add: process_update_validator_list_balance_def ok_iff Let_def case_prod_beta ex_Inr_False
        load_stake_pool_Inr) blast
  show ?thesis using keeps_from [OF keeps_refl _ li(2) up] li(1) assms(3) by simp
qed

lemma handler_cleanup:
  assumes "process_cleanup_removed_validator_entries rt pid (pool # rest) w = Inr w'"
    and "read_stake_pool w pool = Inr sp" "mine (sp_validator_list sp)" "mine (ai_key pool)"
  shows "keeps w w'"
proof -
  from assms(1,2) obtain list vec where
      li: "ai_key list = sp_validator_list sp" "owner_of w list = pid" "owner_of w pool = pid"
      and k: "w' = set_list_vec w list vec \<or> (\<exists>sp'. write_stake_pool (set_list_vec w list vec) pool sp' = Inr w')"
    by (simp add: process_cleanup_removed_validator_entries_def ok_iff Let_def load_stake_pool_Inr
        split: if_splits) blast+
  have "keeps w (set_list_vec w list vec)" using keeps_list_write(1) [OF keeps_refl] li assms(3) by simp
  then show ?thesis using k keeps_pool_write li(3) assms(4) by blast
qed

lemma handler_metadata:
  "process_create_pool_token_metadata rt pid accounts n s u w = Inr w' \<Longrightarrow> keeps w w'"
  "process_update_pool_token_metadata rt pid accounts n s u w = Inr w' \<Longrightarrow> keeps w w'"
  unfolding process_create_pool_token_metadata_def process_update_pool_token_metadata_def
  by (auto simp: ok_iff Let_def create_metadata_accounts_v3_def update_metadata_accounts_v2_def
      invoke_signed_def intro: keeps_call)

lemma handler_setter:
  assumes "load_stake_pool pid w pool = Inr sp" "write_stake_pool w pool sp' = Inr w'" "mine (ai_key pool)"
  shows "keeps w w'"
  using assms keeps_pool_write [OF _ keeps_refl] by (auto simp: load_stake_pool_Inr)

lemma handler_setters:
  assumes "mine (ai_key pool)"
  shows "process_set_manager rt pid (pool # rest) w = Inr w' \<Longrightarrow> keeps w w'"
    and "process_set_fee rt pid (pool # rest) ft w = Inr w' \<Longrightarrow> keeps w w'"
    and "process_set_max_validator_stake rt pid (pool # rest) m w = Inr w' \<Longrightarrow> keeps w w'"
    and "process_set_staker rt pid (pool # rest) w = Inr w' \<Longrightarrow> keeps w w'"
    and "process_set_funding_authority rt pid (pool # rest) fa w = Inr w' \<Longrightarrow> keeps w w'"
    and "process_set_preferred_validator rt pid (pool # rest) t v w = Inr w' \<Longrightarrow> keeps w w'"
  using assms
  by (blast dest: set_manager.run_ok set_fee.run_ok set_max.run_ok set_staker.run_ok set_funding_auth.run_ok
      set_preferred_validator.run_ok intro: handler_setter)+

end

subsection \<open>Instructions that do not move tokens\<close>

fun moves_tokens :: "stake_pool_instruction \<Rightarrow> bool" where
  "moves_tokens (Initialize _ _ _ _ _) = True"
| "moves_tokens UpdateStakePoolBalance = True"
| "moves_tokens DepositStake = True"
| "moves_tokens (DepositStakeWithSlippage _) = True"
| "moves_tokens (WithdrawStake _) = True"
| "moves_tokens (WithdrawStakeWithSlippage _ _) = True"
| "moves_tokens (DepositSol _) = True"
| "moves_tokens (DepositSolWithSlippage _ _) = True"
| "moves_tokens (WithdrawSol _) = True"
| "moves_tokens (WithdrawSolWithSlippage _ _) = True"
| "moves_tokens _ = False"

context handler_frame begin

lemma quiet_instruction:
  assumes run: "process_instruction rt pid (pool # rest) i w = Inr w'" and quiet: "\<not> moves_tokens i"
    and sp: "read_stake_pool w pool = Inr sp" and mine: "mine (sp_validator_list sp)" "mine (ai_key pool)"
  shows "keeps w w'"
  using run quiet
  by (cases i) (simp_all add: handler_setters [OF mine(2)] handler_metadata
      handler_add [OF _ sp mine(1)] handler_remove [OF _ sp mine] handler_decrease [OF _ sp mine(1)]
      handler_increase [OF _ sp mine(1)] handler_update_list [OF _ sp mine(1)] handler_cleanup [OF _ sp mine])

end

subsection \<open>Relations that minting and burning keep too\<close>

locale full_frame = handler_frame +
  assumes keeps_any_call: "rt_invoke rt ix infos s w = Inr w' \<Longrightarrow> keeps w w'"
begin

lemma token_call:
  "token_burn rt a b c d amt w = Inr w' \<Longrightarrow> keeps w w'"
  "token_mint_to rt k a b c d t u amt w = Inr w' \<Longrightarrow> keeps w w'"
  "pool_mint_to rt p sp t' m au x amt w = Inr w' \<Longrightarrow> keeps w w'"
  by (auto simp: token_burn_def token_mint_to_def pool_mint_to_def invoke_def invoke_signed_def Let_def ok_iff
      intro: keeps_any_call)

lemma stage_mint_deposit:
  assumes "mint_deposit rt p sp t m au d f r a w = Inr w'"
  shows "keeps w w'"
  using assms token_call(3) by (elim mint_deposit_steps) (metis keeps_if_call keeps_trans)

lemma stage_withdraw_stake_calls:
  assumes "withdraw_stake_calls rt c a b d e f g h i dec fee bt l w = Inr w'"
  shows "keeps w w'"
proof -
  from assms obtain w1 w2 w3 where "token_burn rt i f h e bt w = Inr w1" "pool_split rt c a l b w1 = Inr w2"
      "stake_authorize_signed rt (ai_key (cx_stake_pool_info c)) b (cx_withdraw_authority_info c)
         AUTHORITY_WITHDRAW (sp_stake_withdraw_bump_seed (cx_stake_pool c)) (ai_key d) (cx_clock_info c) w2 = Inr w3"
      and last: "(if fee > 0 then token_transfer rt i f h g e fee dec w3 else Inr w3) = Inr w'"
    by (simp add: withdraw_stake_calls_def bindE_eq_Inr split del: if_split) blast
  then have "keeps w w3" by (meson token_call pool_call double_call keeps_trans)
  moreover have "keeps w3 w'" using single_call(7) last by (rule keeps_if_call)
  ultimately show ?thesis by (rule keeps_trans)
qed

lemma handler_deposit_sol:
  assumes run: "process_deposit_sol rt pid (pool # rest) lamports m w = Inr w'" and mine: "mine (ai_key pool)"
  shows "keeps w w'"
proof -
  from run obtain src reserve sp a token mint auth dest fee_acc referrer w1 w2 sp' where
      "load_stake_pool pid w pool = Inr sp" "sol_transfer rt src reserve lamports w = Inr w1"
      "mint_deposit rt pool sp token mint auth dest fee_acc referrer a w1 = Inr w2"
      "write_stake_pool w2 pool sp' = Inr w'"
    by (simp add: process_deposit_sol_def ok_iff Let_def case_prod_beta 
        del: credit_pool_Inr check_sol_deposit_authority_Inr) blast
  then show ?thesis using mine
    by (metis single_call(6) stage_mint_deposit keeps_trans keeps_pool_write load_stake_pool_Inr)
qed

lemma handler_withdraw_sol:
  assumes run: "process_withdraw_sol rt pid (pool # rest) tokens m w = Inr w'" and mine: "mine (ai_key pool)"
  shows "keeps w w'"
proof -
  from run obtain auth user burn reserve dest fee_acc mint clock history stake_program token rest' where
      "rest = auth # user # burn # reserve # dest # fee_acc # mint # clock # history # stake_program # token # rest'"
    by (simp add: process_withdraw_sol_def bindE_pair_eq_Inr next_account_info_Inr) blast
  from withdraw_sol_effect [OF run [unfolded this]] obtain sp sp' b f d k t u l w1 w2 w3 where
      sp: "load_stake_pool pid w pool = Inr sp"
      and w1: "token_burn rt token burn mint user b w = Inr w1"
      and w2: "(if f > 0 then token_transfer rt token burn mint fee_acc user f d w1 else Inr w1) = Inr w2"
      and w3: "stake_withdraw rt k reserve auth t u dest clock history l w2 = Inr w3"
      and wr: "write_stake_pool w3 pool sp' = Inr w'"
    by (elim exE conjE)
  have "keeps w1 w2" using single_call(7) w2 by (rule keeps_if_call)
  then have "keeps w w3" using w1 w3 by (meson token_call single_call keeps_trans)
  then show ?thesis using wr mine sp by (metis keeps_pool_write load_stake_pool_Inr)
qed

lemma handler_deposit_stake:
  assumes run: "process_deposit_stake rt pid (pool # rest) m w = Inr w'"
    and "read_stake_pool w pool = Inr sp" and mine: "mine (sp_validator_list sp)" "mine (ai_key pool)"
  shows "keeps w w'"
proof -
  from assms(1,2) obtain list da stake vstake reserve dest fee_acc referrer mint history token auth ck ep where
      li: "ai_key list = sp_validator_list sp" "owner_of w list = pid" "owner_of w pool = pid"
      and core: "deposit_stake rt
        \<lparr>cx_program_id = pid, cx_stake_pool_info = pool, cx_stake_pool = sp,
         cx_withdraw_authority_info = auth, cx_clock_info = ck, cx_epoch = ep\<rparr>
        list da stake vstake reserve dest fee_acc referrer mint history token m w = Inr w'"
    by (simp add: process_deposit_stake_def ok_iff Let_def case_prod_beta load_stake_pool_Inr) blast
  from core obtain c w1 w2 w3 w4 a sold sp' off e where
      w1: "deposit_stake_merge rt c da stake vstake history w = Inr w1"
      and w2: "mint_deposit rt pool sp token mint auth dest fee_acc referrer a w1 = Inr w2"
      and w3: "(if sold > 0 then pool_withdraw rt c vstake reserve history sold w2 else Inr w2) = Inr w3"
      and w4: "write_stake_pool w3 pool sp' = Inr w4" and w': "w' = put_entry w4 list off e"
    by (simp add: deposit_stake_def ok_iff Let_def case_prod_beta
        del: status_to_u8.simps credit_pool_Inr cong: if_cong split del: if_split) blast
  have "keeps w2 w3" using pool_call(5) w3 by (rule keeps_if_call)
  then have "keeps w w3" using w1 w2 by (meson stage_deposit_stake_merge stage_mint_deposit keeps_trans)
  then have "keeps w w4" using w4 mine(2) li(3) by (metis keeps_pool_write)
  then show ?thesis using w' keeps_list_write(2) mine(1) li(1,2) by simp
qed

lemma handler_withdraw_stake:
  assumes run: "process_withdraw_stake rt pid (pool # rest) tokens m w = Inr w'"
    and "read_stake_pool w pool = Inr sp" and mine: "mine (sp_validator_list sp)" "mine (ai_key pool)"
  shows "keeps w w'"
proof -
  from assms(1,2) obtain list c src dst user_stake user burn fee_acc mint token dec f b l item w1 w2 sp' where
      li: "ai_key list = sp_validator_list sp" "owner_of w list = pid" "owner_of w pool = pid"
      and w1: "withdraw_stake_calls rt c src dst user_stake user burn fee_acc mint token dec f b l w = Inr w1"
      and w2: "write_stake_pool w1 pool sp' = Inr w2"
      and it: "update_withdraw_source w2 list item l = Inr w'"
    by (simp add: process_withdraw_stake_def ok_iff Let_def case_prod_beta load_stake_pool_Inr del: debit_pool_Inr
        split del: if_split) blast
  have k: "keeps w w2" using stage_withdraw_stake_calls [OF w1] w2 mine(2) li(3) by (metis keeps_pool_write)
  have "w' = w2 \<or> (\<exists>off e. w' = put_entry w2 list off e)"
    using it by (fastforce simp: update_withdraw_source_def ok_iff split: option.splits)
  then show ?thesis using k keeps_list_write(2) mine(1) li(1,2) by auto
qed

lemma handler_update_pool:
  assumes run: "process_update_stake_pool_balance rt pid (pool # rest) w = Inr w'" and mine: "mine (ai_key pool)"
  shows "keeps w w'"
proof -
  from run obtain sp k t m d au x u fee w1 sp' where
      sp: "load_stake_pool pid w pool = Inr sp"
      and w1: "(if fee > 0 then token_mint_to rt k t m d au x u fee w else Inr w) = Inr w1"
      and wr: "write_stake_pool w1 pool sp' = Inr w'"
    by (simp add: process_update_stake_pool_balance_def ok_iff Let_def case_prod_beta
        cong: if_cong split del: if_split) blast
  have "keeps w w1" using token_call(2) w1 by (rule keeps_if_call)
  then show ?thesis using wr sp mine by (metis keeps_pool_write load_stake_pool_Inr)
qed

lemma handler_initialize_fails:
  "read_stake_pool w pool = Inr sp \<Longrightarrow> is_valid sp \<Longrightarrow>
     process_initialize rt pid (pool # rest) f1 f2 f3 r mv w \<noteq> Inr w'"
  by (auto simp: process_initialize_def ok_iff Let_def case_prod_beta is_valid_def is_uninitialized_def)

lemma handler_initialize:
  assumes run: "process_initialize rt pid (pool # manager # staker # auth # list # rest) f1 f2 f3 r mv w = Inr w'"
    and mine: "mine (ai_key pool)" "mine (ai_key list)"
  shows "keeps w w'"
proof -
  from run obtain vl mint fee_acc token bump amount w1 w2 sp where
      po: "owner_of w pool = pid" and vl: "initialize_list pid w list mv = Inr vl"
      and w1: "(if amount > 0 then token_mint_to rt (ai_key pool) token mint fee_acc auth AUTHORITY_WITHDRAW bump amount w
         else Inr w) = Inr w1"
      and w2: "write_validator_list w1 list vl = Inr w2" and wr: "write_stake_pool w2 pool sp = Inr w'"
    by (simp add: process_initialize_def ok_iff Let_def case_prod_beta cong: if_cong split del: if_split) blast
  have lo: "acc_owner (w (ai_key list)) = pid" using vl by (auto simp: initialize_list_def ok_iff owner_of_def)
  have "keeps w w1" using token_call(2) w1 by (rule keeps_if_call)
  then have "keeps w w2"
    using w2 lo mine(2) keeps_write by (auto simp: write_validator_list_def split: option.splits)
  then show ?thesis using wr mine(1) po by (metis keeps_pool_write)
qed

lemma every_instruction:
  assumes run: "process_instruction rt pid (pool # rest) i w = Inr w'"
    and sp: "read_stake_pool w pool = Inr sp" "is_valid sp"
    and mine: "mine (sp_validator_list sp)" "mine (ai_key pool)"
  shows "keeps w w'"
proof (cases "moves_tokens i")
  case False
  then show ?thesis using quiet_instruction [OF run _ sp(1) mine] by blast
next
  case True
  then show ?thesis using run handler_initialize_fails [OF sp]
    by (cases i) (simp_all add: handler_deposit_sol [OF _ mine(2)] handler_withdraw_sol [OF _ mine(2)]
        handler_deposit_stake [OF _ sp(1) mine] handler_withdraw_stake [OF _ sp(1) mine]
        handler_update_pool [OF _ mine(2)])
qed

end

subsection \<open>Isolation\<close>

text \<open>Accounts of the program keep their owner, and their data unless the instruction may write them.\<close>

definition untouched :: "pubkey \<Rightarrow> (pubkey \<Rightarrow> bool) \<Rightarrow> world \<Rightarrow> world \<Rightarrow> bool" where
  "untouched pid mine w w' \<longleftrightarrow>
     (\<forall>k. acc_owner (w k) = pid \<longrightarrow>
        acc_owner (w' k) = pid \<and> (\<not> mine k \<longrightarrow> acc_data (w' k) = acc_data (w k)))"

interpretation isolation: full_frame rt "\<lambda>w w'. respects_owner rt pid \<longrightarrow> untouched pid mine w w'" pid mine
  for rt pid mine
  by unfold_locales (auto simp: respects_owner_def untouched_def)

end
