(* ===== verification/Books.thy ===== *)
theory Books
  imports Frames
begin

section \<open>The record of the pool across instructions\<close>

text \<open>
  Instructions that move no tokens keep the books of the pool, whatever else they do. For
  those that move tokens the record follows the mint: the supply the pool has on record is
  the supply of the mint, as long as the token program counts what it mints and burns
  (\<open>tracks_supply\<close>).
\<close>

subsection \<open>Instructions that do not move tokens\<close>

lemma untouched_pool:
  assumes "respects_owner rt pid \<longrightarrow> untouched pid (\<lambda>k. k = l) w w'" "respects_owner rt pid"
    and "owner_of w pool = pid" "ai_key pool \<noteq> l"
  shows "read_stake_pool w' pool = read_stake_pool w pool"
  using assms by (simp add: untouched_def read_stake_pool_def data_of_def owner_of_def)

lemmas setter_books = set_manager.keeps_books set_fee.keeps_books set_max.keeps_books set_staker.keeps_books
  set_funding_auth.keeps_books set_preferred_validator.keeps_books

lemma remove_books:
  assumes own: "respects_owner rt pid"
    and run: "process_remove_validator_from_pool rt pid (pool # rest) w = Inr w'"
    and sp: "read_stake_pool w pool = Inr sp"
    and ok: "list_ok (acc_data (w (sp_validator_list sp)))" and ne: "ai_key pool \<noteq> sp_validator_list sp"
  shows "\<exists>sp'. read_stake_pool w' pool = Inr sp' \<and> same_books sp sp'"
proof -
  from run sp obtain staker auth list stake rest' where
      r: "rest = staker # auth # list # stake # rest'" and li: "ai_key list = sp_validator_list sp"
    by (simp add: process_remove_validator_from_pool_def ok_iff Let_def case_prod_beta load_stake_pool_Inr
        split del: if_split) blast
  have "list_ok (data_of w list)" using ok li by (simp add: data_of_def)
  from remove_validator_effect [OF own run [unfolded r] this] ne li sp show ?thesis
    using clear_preferred_books by fastforce
qed

lemma cleanup_books:
  assumes run: "process_cleanup_removed_validator_entries rt pid (pool # rest) w = Inr w'"
    and sp: "read_stake_pool w pool = Inr sp"
    and ok: "list_ok (acc_data (w (sp_validator_list sp)))" and ne: "ai_key pool \<noteq> sp_validator_list sp"
  shows "\<exists>sp'. read_stake_pool w' pool = Inr sp' \<and> same_books sp sp'"
proof -
  from run sp obtain list rest' where r: "rest = list # rest'" and li: "ai_key list = sp_validator_list sp"
    by (simp add: process_cleanup_removed_validator_entries_def ok_iff Let_def load_stake_pool_Inr
        split del: if_split) blast
  have l: "list_ok (data_of w list)" "ai_key pool \<noteq> ai_key list" using ok li ne by (simp_all add: data_of_def)
  have "same_books sp (sp\<lparr>sp_preferred_deposit_validator_vote_address := d,
      sp_preferred_withdraw_validator_vote_address := x\<rparr>)" for d x by (simp add: same_books_def)
  with cleanup_effect [OF run [unfolded r] l] sp show ?thesis
    by (auto simp: load_stake_pool_Inr split: if_splits)
qed

lemma quiet_books:
  assumes own: "respects_owner rt pid"
    and run: "process_instruction rt pid (pool # rest) i w = Inr w'" and quiet: "\<not> moves_tokens i"
    and sp: "read_stake_pool w pool = Inr sp" and pid: "owner_of w pool = pid"
    and ok: "list_ok (acc_data (w (sp_validator_list sp)))" and ne: "ai_key pool \<noteq> sp_validator_list sp"
  shows "\<exists>sp'. read_stake_pool w' pool = Inr sp' \<and> same_books sp sp'"
proof -
  let ?l = "\<lambda>k. k = sp_validator_list sp"
  have same: "\<exists>sp'. read_stake_pool w' pool = Inr sp' \<and> same_books sp sp'"
    if "respects_owner rt pid \<longrightarrow> untouched pid ?l w w'"
    using untouched_pool [OF that own pid ne] sp by simp
  have set: "\<exists>sp sp'. read_stake_pool w pool = Inr sp \<and> read_stake_pool w' pool = Inr sp' \<and> same_books sp sp' \<Longrightarrow>
      \<exists>sp'. read_stake_pool w' pool = Inr sp' \<and> same_books sp sp'" using sp by simp
  note list_only = isolation.handler_add [where mine = ?l, OF _ sp] isolation.handler_decrease [where mine = ?l, OF _ sp]
    isolation.handler_increase [where mine = ?l, OF _ sp] isolation.handler_update_list [where mine = ?l, OF _ sp]
    isolation.handler_metadata [where mine = ?l]
  show ?thesis
    using run quiet setter_books [THEN set] remove_books [OF own _ sp ok ne] cleanup_books [OF _ sp ok ne]
      list_only [THEN same]
    by (cases i) auto
qed

end
