(* ===== verification/Supply.thy ===== *)
theory Supply
  imports Books
begin

section \<open>The supply on record and the supply of the mint\<close>

text \<open>
  The pool keeps its own count of pool tokens. Here that count is compared with the mint:
  \<open>in_sync\<close> holds when the mint belongs to the pool's token program and has the supply the
  pool has on record. What is used of the token program is \<open>tracks_supply\<close>: minting and
  burning change the supply by the amount, nothing else changes it.
\<close>

subsection \<open>The token program\<close>

definition supply_at :: "runtime \<Rightarrow> world \<Rightarrow> pubkey \<Rightarrow> nat option" where
  "supply_at rt w mint =
     (case rt_unpack_mint rt (acc_data (w mint)) of Inl _ \<Rightarrow> None | Inr m \<Rightarrow> Some (unat (mint_supply m)))"

fun supply_change :: "pubkey \<Rightarrow> pubkey \<Rightarrow> cpi \<Rightarrow> int" where
  "supply_change tp mint (TokenMintTo p m _ _ amount) = (if p = tp \<and> m = mint then int (unat amount) else 0)"
| "supply_change tp mint (TokenBurn p _ m _ amount) = (if p = tp \<and> m = mint then - int (unat amount) else 0)"
| "supply_change _ _ _ = 0"

definition has_supply :: "runtime \<Rightarrow> pubkey \<Rightarrow> pubkey \<Rightarrow> world \<Rightarrow> nat \<Rightarrow> bool" where
  "has_supply rt tp mint w n \<longleftrightarrow> acc_owner (w mint) = tp \<and> supply_at rt w mint = Some n"

definition tracks_supply :: "runtime \<Rightarrow> pubkey \<Rightarrow> bool" where
  "tracks_supply rt tp \<longleftrightarrow>
     (\<forall>ix infos s w w' mint n. rt_invoke rt ix infos s w = Inr w' \<longrightarrow> has_supply rt tp mint w n \<longrightarrow>
        (\<exists>n'. has_supply rt tp mint w' n' \<and> int n' = int n + supply_change tp mint ix))"

definition in_sync :: "runtime \<Rightarrow> stake_pool \<Rightarrow> world \<Rightarrow> bool" where
  "in_sync rt sp w \<longleftrightarrow> has_supply rt (sp_token_program_id sp) (sp_pool_mint sp) w (pool_supply sp)"

lemma mint_call_supply:
  assumes "tracks_supply rt tp" "token_mint_to rt k t m d a x u amount w = Inr w'"
    and "ai_key t = tp" "ai_key m = mint" "has_supply rt tp mint w n"
  shows "has_supply rt tp mint w' (n + unat amount)"
proof -
  from assms(2) obtain infos s where
      "rt_invoke rt (TokenMintTo (ai_key t) (ai_key m) (ai_key d) (ai_key a) amount) infos s w = Inr w'"
    by (auto simp: token_mint_to_def invoke_signed_def Let_def ok_iff)
  with assms obtain n' where "has_supply rt tp mint w' n'" "int n' = int n + int (unat amount)"
    unfolding tracks_supply_def by fastforce
  then show ?thesis by (metis of_nat_add of_nat_eq_iff)
qed

lemma burn_call_supply:
  assumes "tracks_supply rt tp" "token_burn rt t b m a amount w = Inr w'"
    and "ai_key t = tp" "ai_key m = mint" "has_supply rt tp mint w n"
  shows "unat amount \<le> n \<and> has_supply rt tp mint w' (n - unat amount)"
proof -
  from assms(2) obtain infos s where
      "rt_invoke rt (TokenBurn (ai_key t) (ai_key b) (ai_key m) (ai_key a) amount) infos s w = Inr w'"
    by (auto simp: token_burn_def invoke_def invoke_signed_def Let_def ok_iff)
  with assms obtain n' where n': "has_supply rt tp mint w' n'" "int n' = int n - int (unat amount)"
    unfolding tracks_supply_def by fastforce
  then have "unat amount \<le> n" "n' = n - unat amount" by linarith+
  with n' show ?thesis by simp
qed

subsection \<open>What keeps the supply\<close>

definition supply_kept :: "runtime \<Rightarrow> pubkey \<Rightarrow> pubkey \<Rightarrow> pubkey \<Rightarrow> world \<Rightarrow> world \<Rightarrow> bool" where
  "supply_kept rt pid tp mint w w' \<longleftrightarrow>
     (\<forall>n. has_supply rt tp mint w n \<longrightarrow> has_supply rt tp mint w' n) \<and>
     (\<forall>k. acc_owner (w k) = pid \<longrightarrow> acc_owner (w' k) = pid)"

definition counted :: "runtime \<Rightarrow> pubkey \<Rightarrow> pubkey \<Rightarrow> bool" where
  "counted rt pid tp \<longleftrightarrow> respects_owner rt pid \<and> tracks_supply rt tp \<and> tp \<noteq> pid"

lemma supply_change_0: "\<not> changes_supply ix \<Longrightarrow> supply_change tp mint ix = 0"
  by (cases ix) simp_all

lemma supply_kept_write:
  assumes "supply_kept rt pid tp mint w w1" "acc_owner (w k) = pid" "tp \<noteq> pid"
  shows "supply_kept rt pid tp mint w (set_data w1 k bs)"
  unfolding supply_kept_def
proof (intro conjI allI impI)
  fix n assume n: "has_supply rt tp mint w n"
  then have "k \<noteq> mint" using assms(2,3) by (auto simp: has_supply_def)
  moreover have "has_supply rt tp mint w1 n" using n assms(1) by (simp add: supply_kept_def)
  ultimately show "has_supply rt tp mint (set_data w1 k bs) n" by (simp add: has_supply_def supply_at_def)
next
  fix k' assume "acc_owner (w k') = pid"
  then show "acc_owner (set_data w1 k bs k') = pid" using assms(1) by (auto simp: supply_kept_def)
qed

interpretation supply_frame: handler_frame rt "\<lambda>w w'. counted rt pid tp \<longrightarrow> supply_kept rt pid tp mint w w'"
  pid "\<lambda>_. True" for rt pid tp mint
proof (unfold_locales, goal_cases)
  case (3 ix infos s w w')
  have "supply_kept rt pid tp mint w w'" if c: "counted rt pid tp"
    unfolding supply_kept_def
  proof (intro conjI allI impI)
    fix n assume "has_supply rt tp mint w n"
    then show "has_supply rt tp mint w' n"
      using c 3 supply_change_0 [OF 3(2)] unfolding counted_def tracks_supply_def
      by (metis add.right_neutral of_nat_eq_iff)
  next
    fix k assume "acc_owner (w k) = pid"
    then show "acc_owner (w' k) = pid" using c 3(1) by (auto simp: counted_def respects_owner_def)
  qed
  then show ?case by blast
next
  case (4 w w1 k bs)
  then show ?case using supply_kept_write by (blast dest: counted_def [THEN iffD1])
qed (auto simp: supply_kept_def)

lemma kept_supply:
  "counted rt pid tp \<longrightarrow> supply_kept rt pid tp mint w w' \<Longrightarrow> counted rt pid tp \<Longrightarrow>
     has_supply rt tp mint w n \<Longrightarrow> has_supply rt tp mint w' n"
  by (simp add: supply_kept_def)

lemma write_keeps_supply:
  assumes "write_stake_pool w1 pool sp = Inr w'" "has_supply rt tp mint w1 n"
    and "same_program_data pid w w1" "owner_of w pool = pid" "tp \<noteq> pid"
  shows "has_supply rt tp mint w' n"
proof -
  have "acc_owner (w1 (ai_key pool)) = pid" using assms(3,4) by (simp add: same_program_data_def owner_of_def)
  then have "mint \<noteq> ai_key pool" using assms(2,5) by (auto simp: has_supply_def)
  then show ?thesis using assms(1,2) by (auto simp: has_supply_def supply_at_def write_stake_pool_Inr)
qed

subsection \<open>Deposits and withdrawals\<close>

lemma if_mint_supply:
  assumes "(if amount > 0 then token_mint_to rt k t m d a x u amount w else Inr w) = Inr w'"
    and "tracks_supply rt tp" "ai_key t = tp" "ai_key m = mint" "has_supply rt tp mint w n"
  shows "has_supply rt tp mint w' (n + unat amount)"
  using assms mint_call_supply by (auto simp: word_gt_0 split: if_splits)

lemma mint_deposit_supply:
  assumes run: "mint_deposit rt p sp t m au d f r a w = Inr w'"
    and "tracks_supply rt tp" "ai_key t = tp" "ai_key m = mint" "has_supply rt tp mint w n"
  shows "has_supply rt tp mint w' (n + unat (da_user a) + unat (da_manager a) + unat (da_referral a))"
proof -
  from mint_deposit_steps [OF run] obtain w1 w2 where
      "pool_mint_to rt p sp t m au d (da_user a) w = Inr w1"
      "(if da_manager a > 0 then pool_mint_to rt p sp t m au f (da_manager a) w1 else Inr w1) = Inr w2"
      "(if da_referral a > 0 then pool_mint_to rt p sp t m au r (da_referral a) w2 else Inr w2) = Inr w'" .
  then show ?thesis
    using assms(2-) unfolding pool_mint_to_def
    by (intro if_mint_supply [of "da_referral a"] if_mint_supply [of "da_manager a"] mint_call_supply)
qed

lemma books_identity:
  "credit_pool sp t l = Inr sp' \<Longrightarrow> sp_token_program_id sp' = sp_token_program_id sp \<and> sp_pool_mint sp' = sp_pool_mint sp \<and>
     sp_validator_list sp' = sp_validator_list sp \<and> sp_account_type sp' = sp_account_type sp"
  "debit_pool sp t l = Inr sp' \<Longrightarrow> sp_token_program_id sp' = sp_token_program_id sp \<and> sp_pool_mint sp' = sp_pool_mint sp \<and>
     sp_validator_list sp' = sp_validator_list sp \<and> sp_account_type sp' = sp_account_type sp"
  by (auto simp: credit_pool_Inr debit_pool_Inr)

lemma credit_pool_sync:
  assumes "credit_pool sp t l = Inr sp'"
    and "has_supply rt (sp_token_program_id sp) (sp_pool_mint sp) w (pool_supply sp + unat t)"
  shows "in_sync rt sp' w"
  using assms(2) credit_pool_totals [OF assms(1)] books_identity(1) [OF assms(1)] by (simp add: in_sync_def)

lemma debit_pool_sync:
  assumes "debit_pool sp t l = Inr sp'"
    and "has_supply rt (sp_token_program_id sp) (sp_pool_mint sp) w (pool_supply sp - unat t)"
  shows "in_sync rt sp' w"
  using assms(2) debit_pool_totals [OF assms(1)] books_identity(2) [OF assms(1)] by (simp add: in_sync_def)

lemma deposit_division_total:
  "deposit_division sp l m a \<Longrightarrow> n + unat (da_user a) + unat (da_manager a) + unat (da_referral a) = n + unat (da_new a)"
  by (simp add: deposit_division_def)

lemma deposit_sol_sync:
  assumes c: "counted rt pid (sp_token_program_id sp)"
    and run: "process_deposit_sol rt pid (pool # rest) lamports m w = Inr w'"
    and sp: "read_stake_pool w pool = Inr sp" and sync: "in_sync rt sp w"
  shows "\<exists>sp'. read_stake_pool w' pool = Inr sp' \<and> in_sync rt sp' w'"
proof -
  from run obtain auth reserve src dest fee_acc referrer mint system token rest' where
      r: "rest = auth # reserve # src # dest # fee_acc # referrer # mint # system # token # rest'"
    by (simp add: process_deposit_sol_def bindE_pair_eq_Inr next_account_info_Inr) blast
  from deposit_sol_effect [OF run [unfolded r]] sp obtain sp' a w1 w2 where
      k: "ai_key mint = sp_pool_mint sp" "ai_key token = sp_token_program_id sp" "owner_of w pool = pid"
      and a: "deposit_sol_amounts sp lamports m = Inr a"
      and w1: "sol_transfer rt src reserve lamports w = Inr w1"
      and w2: "mint_deposit rt pool sp token mint auth dest fee_acc referrer a w1 = Inr w2"
      and cr: "credit_pool sp (da_new a) lamports = Inr sp'" and wr: "write_stake_pool w2 pool sp' = Inr w'"
    by (auto simp: load_stake_pool_Inr)
  have t: "tracks_supply rt (sp_token_program_id sp)" "respects_owner rt pid" "sp_token_program_id sp \<noteq> pid"
    using c by (simp_all add: counted_def)
  have "has_supply rt (sp_token_program_id sp) (sp_pool_mint sp) w1 (pool_supply sp)"
    using kept_supply [OF supply_frame.single_call(6) [OF w1] c] sync by (simp add: in_sync_def)
  from mint_deposit_supply [OF w2 t(1) k(2,1) this] deposit_division_total [OF deposit_sol_amounts_Inr(1) [OF a]]
  have s2: "has_supply rt (sp_token_program_id sp) (sp_pool_mint sp) w2 (pool_supply sp + unat (da_new a))" by simp
  have "same_program_data pid w w2"
    using w1 w2 t(2) by (meson frame same_program_data_trans)
  then have "has_supply rt (sp_token_program_id sp) (sp_pool_mint sp) w' (pool_supply sp + unat (da_new a))"
    using write_keeps_supply [OF wr s2 _ k(3) t(3)] by blast
  then show ?thesis using credit_pool_sync [OF cr] read_written_stake_pool [OF wr] by blast
qed

lemma put_entry_supply:
  assumes "has_supply rt tp mint w1 n" "same_program_data pid w w1" "owner_of w info = pid" "tp \<noteq> pid"
  shows "has_supply rt tp mint (put_entry w1 info off e) n"
proof -
  have "acc_owner (w1 (ai_key info)) = pid" using assms(2,3) by (simp add: same_program_data_def owner_of_def)
  then have "mint \<noteq> ai_key info" using assms(1,4) by (auto simp: has_supply_def)
  then show ?thesis using assms(1)
    by (simp add: has_supply_def supply_at_def put_entry_def set_list_vec_def)
qed

lemma withdraw_sol_sync:
  assumes c: "counted rt pid (sp_token_program_id sp)"
    and run: "process_withdraw_sol rt pid (pool # rest) tokens m w = Inr w'"
    and sp: "read_stake_pool w pool = Inr sp" and sync: "in_sync rt sp w"
  shows "\<exists>sp'. read_stake_pool w' pool = Inr sp' \<and> in_sync rt sp' w'"
proof -
  from run obtain auth user burn reserve dest fee_acc mint clock history stake_program token rest' where
      r: "rest = auth # user # burn # reserve # dest # fee_acc # mint # clock # history # stake_program # token # rest'"
    by (simp add: process_withdraw_sol_def bindE_pair_eq_Inr next_account_info_Inr) blast
  from withdraw_sol_effect [OF run [unfolded r]] obtain sp0 sp' b f d l w1 w2 w3 where
      l: "load_stake_pool pid w pool = Inr sp0" and k0: "ai_key mint = sp_pool_mint sp0" "ai_key token = sp_token_program_id sp0"
      and w1: "token_burn rt token burn mint user b w = Inr w1"
      and w2: "(if f > 0 then token_transfer rt token burn mint fee_acc user f d w1 else Inr w1) = Inr w2"
      and w3: "stake_withdraw rt (ai_key pool) reserve auth AUTHORITY_WITHDRAW (sp_stake_withdraw_bump_seed sp0)
        dest clock history l w2 = Inr w3"
      and db: "debit_pool sp0 b l = Inr sp'" and wr: "write_stake_pool w3 pool sp' = Inr w'"
    by (elim exE conjE)
  have e: "sp0 = sp" and pid: "owner_of w pool = pid" using l sp by (simp_all add: load_stake_pool_Inr)
  note k = k0 [unfolded e]
  have t: "tracks_supply rt (sp_token_program_id sp)" "respects_owner rt pid" "sp_token_program_id sp \<noteq> pid"
    using c by (simp_all add: counted_def)
  have s1: "has_supply rt (sp_token_program_id sp) (sp_pool_mint sp) w1 (pool_supply sp - unat b)"
    using burn_call_supply [OF t(1) w1 k(2,1)] sync by (simp add: in_sync_def)
  note s2 = kept_supply [OF supply_frame.keeps_if_call [OF supply_frame.single_call(7) w2] c s1]
  note s3 = kept_supply [OF supply_frame.single_call(5) [OF w3] c s2]
  have "same_program_data pid w1 w2" using own_call_frame(7) [OF t(2)] w2 by (rule if_call_frame)
  then have "same_program_data pid w w3" using w1 w3 t(2) by (meson frame same_program_data_trans)
  from write_keeps_supply [OF wr s3 this pid t(3)] show ?thesis
    using debit_pool_sync [OF db [unfolded e]] read_written_stake_pool [OF wr] by blast
qed

lemma deposit_stake_sync:
  assumes c: "counted rt pid (sp_token_program_id sp)"
    and run: "process_deposit_stake rt pid (pool # rest) m w = Inr w'"
    and sp: "read_stake_pool w pool = Inr sp" and sync: "in_sync rt sp w"
    and ne: "ai_key pool \<noteq> sp_validator_list sp"
  shows "\<exists>sp'. read_stake_pool w' pool = Inr sp' \<and> in_sync rt sp' w'"
proof -
  from run sp obtain list da stake vstake reserve dest fee_acc referrer mint history token auth ck ep where
      k: "ai_key mint = sp_pool_mint sp" "sp_token_program_id sp = ai_key token"
      and li: "ai_key list = sp_validator_list sp" "owner_of w list = pid" and pid: "owner_of w pool = pid"
      and core: "deposit_stake rt
        \<lparr>cx_program_id = pid, cx_stake_pool_info = pool, cx_stake_pool = sp,
         cx_withdraw_authority_info = auth, cx_clock_info = ck, cx_epoch = ep\<rparr>
        list da stake vstake reserve dest fee_acc referrer mint history token m w = Inr w'"
    by (simp add: process_deposit_stake_def ok_iff Let_def case_prod_beta load_stake_pool_Inr) blast
  from core obtain c' w1 w2 w3 w4 a sold sp' off e lamports sl where
      w1: "deposit_stake_merge rt c' da stake vstake history w = Inr w1"
      and am: "deposit_stake_amounts sp lamports sl m = Inr a"
      and w2: "mint_deposit rt pool sp token mint auth dest fee_acc referrer a w1 = Inr w2"
      and w3: "(if sold > 0 then pool_withdraw rt c' vstake reserve history sold w2 else Inr w2) = Inr w3"
      and cr: "credit_pool sp (da_new a) lamports = Inr sp'"
      and w4: "write_stake_pool w3 pool sp' = Inr w4" and w': "w' = put_entry w4 list off e"
    by (simp add: deposit_stake_def ok_iff Let_def case_prod_beta
        del: status_to_u8.simps credit_pool_Inr cong: if_cong split del: if_split) blast
  have t: "tracks_supply rt (sp_token_program_id sp)" "respects_owner rt pid" "sp_token_program_id sp \<noteq> pid"
    using c by (simp_all add: counted_def)
  have "has_supply rt (sp_token_program_id sp) (sp_pool_mint sp) w1 (pool_supply sp)"
    using kept_supply [OF supply_frame.stage_deposit_stake_merge [OF w1] c] sync by (simp add: in_sync_def)
  from mint_deposit_supply [OF w2 t(1) k(2) [symmetric] k(1) this]
    deposit_division_total [OF deposit_stake_amounts_Inr [OF am]]
  have s2: "has_supply rt (sp_token_program_id sp) (sp_pool_mint sp) w2 (pool_supply sp + unat (da_new a))" by simp
  note s3 = kept_supply [OF supply_frame.keeps_if_call [OF supply_frame.pool_call(5) w3] c s2]
  have "same_program_data pid w2 w3" using pool_call_frame(5) [OF t(2)] w3 by (rule if_call_frame)
  then have f3: "same_program_data pid w w3"
    using w1 w2 t(2) by (meson deposit_stake_merge_frame mint_deposit_frame same_program_data_trans)
  note s4 = write_keeps_supply [OF w4 s3 f3 pid t(3)]
  have "owner_of w4 list = pid"
    using same_program_list(3) [OF f3 li(2)] write_stake_pool_frame [OF w4] by (simp add: owner_of_def)
  from put_entry_supply [OF s4 same_program_data_refl this t(3)] credit_pool_sync [OF cr]
  have "in_sync rt sp' w'" by (simp add: w')
  moreover have "read_stake_pool w' pool = Inr sp'"
    using read_written_stake_pool [OF w4] ne li(1) by (simp add: w' read_stake_pool_def data_of_def)
  ultimately show ?thesis by blast
qed

lemma withdraw_stake_calls_supply:
  assumes c: "counted rt pid (ai_key token)" and "ai_key mint = k"
    and run: "withdraw_stake_calls rt cx src dst user_stake user burn fee_acc mint token dec f b l w = Inr w'"
    and n: "has_supply rt (ai_key token) k w n"
  shows "has_supply rt (ai_key token) k w' (n - unat b)"
proof -
  from run obtain w1 w2 w3 where w1: "token_burn rt token burn mint user b w = Inr w1"
      and w2: "pool_split rt cx src l dst w1 = Inr w2"
      and w3: "stake_authorize_signed rt (ai_key (cx_stake_pool_info cx)) dst (cx_withdraw_authority_info cx)
         AUTHORITY_WITHDRAW (sp_stake_withdraw_bump_seed (cx_stake_pool cx)) (ai_key user_stake) (cx_clock_info cx) w2 = Inr w3"
      and last: "(if f > 0 then token_transfer rt token burn mint fee_acc user f dec w3 else Inr w3) = Inr w'"
    by (simp add: withdraw_stake_calls_def bindE_eq_Inr split del: if_split) blast
  have "tracks_supply rt (ai_key token)" using c by (simp add: counted_def)
  with burn_call_supply [OF _ w1 refl assms(2) n] have s1: "has_supply rt (ai_key token) k w1 (n - unat b)" by blast
  note s2 = kept_supply [OF supply_frame.pool_call(1) [OF w2] c s1]
  note s3 = kept_supply [OF supply_frame.double_call(3) [OF w3] c s2]
  show ?thesis by (rule kept_supply [OF supply_frame.keeps_if_call [OF supply_frame.single_call(7) last] c s3])
qed

lemma withdraw_stake_sync:
  assumes c: "counted rt pid (sp_token_program_id sp)"
    and run: "process_withdraw_stake rt pid (pool # rest) tokens m w = Inr w'"
    and sp: "read_stake_pool w pool = Inr sp" and sync: "in_sync rt sp w"
    and ne: "ai_key pool \<noteq> sp_validator_list sp"
  shows "\<exists>sp'. read_stake_pool w' pool = Inr sp' \<and> in_sync rt sp' w'"
proof -
  from run obtain list auth src dst user_stake user burn fee_acc mint clock token rest' where
      r: "rest = list # auth # src # dst # user_stake # user # burn # fee_acc # mint # clock # token # rest'"
    by (simp add: process_withdraw_stake_def bindE_eq_Inr bindE_pair_eq_Inr next_account_info_Inr) blast
  from run [unfolded r] sp obtain cx dec f b l0 l item w1 w2 sp1 sp' vec where
      k: "ai_key mint = sp_pool_mint sp" "sp_token_program_id sp = ai_key token"
      and li: "ai_key list = sp_validator_list sp" "owner_of w list = pid" and pid: "owner_of w pool = pid"
      and sel: "select_withdraw_source rt pid pool sp vec src l0 w = Inr (sp1, l, item)"
      and w1: "withdraw_stake_calls rt cx src dst user_stake user burn fee_acc mint token dec f b l w = Inr w1"
      and db: "debit_pool sp1 b l = Inr sp'" and w2: "write_stake_pool w1 pool sp' = Inr w2"
      and it: "update_withdraw_source w2 list item l = Inr w'"
    by (simp add: process_withdraw_stake_def ok_iff Let_def case_prod_beta load_stake_pool_Inr del: debit_pool_Inr
        split del: if_split) blast
  have t: "respects_owner rt pid" "sp_token_program_id sp \<noteq> pid" using c by (simp_all add: counted_def)
  have sb: "same_books sp sp1" by (rule select_withdraw_source_Inr(1) [OF sel])
  have s1: "has_supply rt (sp_token_program_id sp) (sp_pool_mint sp) w1 (pool_supply sp - unat b)"
    using withdraw_stake_calls_supply [OF c [unfolded k(2)] k(1) w1] sync by (simp add: in_sync_def k(2))
  have f1: "same_program_data pid w w1" by (rule withdraw_stake_calls_frame [OF t(1) w1])
  note s2 = write_keeps_supply [OF w2 s1 f1 pid t(2)]
  have ow: "owner_of w2 list = pid"
    using same_program_list(3) [OF f1 li(2)] write_stake_pool_frame [OF w2] by (simp add: owner_of_def)
  have i: "w' = w2 \<or> (\<exists>off e. w' = put_entry w2 list off e)"
    using it by (fastforce simp: update_withdraw_source_def ok_iff split: option.splits)
  then have "has_supply rt (sp_token_program_id sp) (sp_pool_mint sp) w' (pool_supply sp - unat b)"
    using s2 put_entry_supply [OF s2 same_program_data_refl ow t(2)] by auto
  then have "in_sync rt sp' w'" using debit_pool_sync [OF db] sb by (simp add: same_books_def)
  moreover have "read_stake_pool w' pool = Inr sp'"
    using i read_written_stake_pool [OF w2] ne li(1) by (auto simp: read_stake_pool_def data_of_def)
  ultimately show ?thesis by blast
qed

subsection \<open>The epoch update and all instructions\<close>

lemma advance_epoch_identity [simp]:
  "sp_token_program_id (advance_epoch sp e a b) = sp_token_program_id sp"
  "sp_pool_mint (advance_epoch sp e a b) = sp_pool_mint sp"
  "sp_validator_list (advance_epoch sp e a b) = sp_validator_list sp"
  by (auto simp: advance_epoch_def)

lemma update_pool_sync:
  assumes c: "counted rt pid (sp_token_program_id sp)"
    and run: "process_update_stake_pool_balance rt pid (pool # rest) w = Inr w'"
    and sp: "read_stake_pool w pool = Inr sp" and m: "acc_owner (w (sp_pool_mint sp)) = sp_token_program_id sp"
  shows "\<exists>sp'. read_stake_pool w' pool = Inr sp' \<and> in_sync rt sp' w'"
proof -
  from run sp obtain mint token fee_acc auth fee w1 m' epoch l where
      k: "ai_key mint = sp_pool_mint sp" "sp_token_program_id sp = ai_key token" and pid: "owner_of w pool = pid"
      and um0: "\<exists>m0. rt_unpack_mint rt (data_of w mint) = Inr m0"
      and w1: "(if fee > 0 then token_mint_to rt (ai_key pool) token mint fee_acc auth AUTHORITY_WITHDRAW
         (sp_stake_withdraw_bump_seed sp) fee w else Inr w) = Inr w1"
      and um: "rt_unpack_mint rt (data_of w1 mint) = Inr m'"
      and wr: "write_stake_pool w1 pool
        ((advance_epoch sp epoch (sp_total_lamports sp) (sp_pool_token_supply sp))
          \<lparr>sp_total_lamports := l, sp_pool_token_supply := mint_supply m'\<rparr>) = Inr w'"
    by (simp add: process_update_stake_pool_balance_def ok_iff Let_def case_prod_beta load_stake_pool_Inr
        cong: if_cong split del: if_split) blast
  have t: "tracks_supply rt (sp_token_program_id sp)" "respects_owner rt pid" "sp_token_program_id sp \<noteq> pid"
    using c by (simp_all add: counted_def)
  from um0 obtain n where "has_supply rt (sp_token_program_id sp) (sp_pool_mint sp) w n"
    using m k(1) by (auto simp: has_supply_def supply_at_def data_of_def)
  from if_mint_supply [OF w1 t(1) k(2) [symmetric] k(1) this] um k(1)
  have s1: "has_supply rt (sp_token_program_id sp) (sp_pool_mint sp) w1 (unat (mint_supply m'))"
    by (auto simp: has_supply_def supply_at_def data_of_def)
  have "same_program_data pid w w1" using supply_call_frame(2) [OF t(2)] w1 by (rule if_call_frame)
  from write_keeps_supply [OF wr s1 this pid t(3)] read_written_stake_pool [OF wr] show ?thesis
    by (auto simp: in_sync_def)
qed

lemma same_books_sync: "same_books sp sp' \<Longrightarrow> in_sync rt sp w \<Longrightarrow> in_sync rt sp' w"
  by (simp add: same_books_def in_sync_def)

lemma instruction_sync:
  assumes c: "counted rt pid (sp_token_program_id sp)"
    and run: "process_instruction rt pid (pool # rest) i w = Inr w'"
    and sp: "read_stake_pool w pool = Inr sp" "is_valid sp" "owner_of w pool = pid" and sync: "in_sync rt sp w"
    and ok: "list_ok (acc_data (w (sp_validator_list sp)))" and ne: "ai_key pool \<noteq> sp_validator_list sp"
  shows "\<exists>sp'. read_stake_pool w' pool = Inr sp' \<and> in_sync rt sp' w'"
proof (cases "moves_tokens i")
  case False
  have own: "respects_owner rt pid" using c by (simp add: counted_def)
  from quiet_books [OF own run False sp(1,3) ok ne] obtain sp' where
      sp': "read_stake_pool w' pool = Inr sp'" "same_books sp sp'" by blast
  have "has_supply rt (sp_token_program_id sp) (sp_pool_mint sp) w' (pool_supply sp)"
    using kept_supply [OF supply_frame.quiet_instruction [OF run False sp(1)] c] sync by (simp add: in_sync_def)
  then have "in_sync rt sp w'" by (simp add: in_sync_def)
  then show ?thesis using sp' same_books_sync by blast
next
  case True
  have m: "acc_owner (w (sp_pool_mint sp)) = sp_token_program_id sp" using sync by (simp add: in_sync_def has_supply_def)
  show ?thesis using run True isolation.handler_initialize_fails [OF sp(1,2)]
    by (cases i) (simp_all add: deposit_sol_sync [OF c _ sp(1) sync] withdraw_sol_sync [OF c _ sp(1) sync]
        deposit_stake_sync [OF c _ sp(1) sync ne] withdraw_stake_sync [OF c _ sp(1) sync ne]
        update_pool_sync [OF c _ sp(1) m])
qed

end
