(* ===== verification/Machine.thy ===== *)
theory Machine
  imports Supply
begin

section \<open>The pool as a state machine\<close>

text \<open>
  One instruction on a pool is one step of an abstract machine on its list of validators
  (\<open>list_step\<close>): an entry is appended, an active entry is changed in place, a slice is
  brought up to date, or the finished entries are dropped. \<open>pool_ok\<close> is the invariant of a
  pool on chain; \<open>pool_runs\<close> are the worlds reached from one by instructions on the pool,
  by instructions on other pools and by whatever other programs do.
\<close>

subsection \<open>The identity of a pool\<close>

definition same_pool :: "stake_pool \<Rightarrow> stake_pool \<Rightarrow> bool" where
  "same_pool sp sp' \<longleftrightarrow>
     sp_account_type sp' = sp_account_type sp \<and> sp_validator_list sp' = sp_validator_list sp \<and>
     sp_reserve_stake sp' = sp_reserve_stake sp \<and> sp_pool_mint sp' = sp_pool_mint sp \<and>
     sp_token_program_id sp' = sp_token_program_id sp \<and>
     sp_stake_withdraw_bump_seed sp' = sp_stake_withdraw_bump_seed sp"

lemma same_books_pool: "same_books sp sp' \<Longrightarrow> same_pool sp sp'"
  by (simp add: same_books_def same_pool_def)

lemma same_pool_trans: "same_pool sp sp' \<Longrightarrow> same_pool sp' sp'' \<Longrightarrow> same_pool sp sp''"
  by (simp add: same_pool_def)

lemma booked_pool:
  "credit_pool sp t l = Inr sp' \<Longrightarrow> same_pool sp sp'"
  "debit_pool sp t l = Inr sp' \<Longrightarrow> same_pool sp sp'"
  "same_pool sp ((advance_epoch sp e a b)\<lparr>sp_total_lamports := x, sp_pool_token_supply := y\<rparr>)"
  by (auto simp: same_pool_def credit_pool_Inr debit_pool_Inr advance_epoch_def)

lemma update_pool_same:
  assumes run: "process_update_stake_pool_balance rt pid (pool # rest) w = Inr w'"
    and sp: "read_stake_pool w pool = Inr sp"
  shows "\<exists>sp'. read_stake_pool w' pool = Inr sp' \<and> same_pool sp sp'"
proof -
  from run sp obtain w1 epoch l y where
      wr: "write_stake_pool w1 pool
        ((advance_epoch sp epoch (sp_total_lamports sp) (sp_pool_token_supply sp))
          \<lparr>sp_total_lamports := l, sp_pool_token_supply := y\<rparr>) = Inr w'"
    by (simp add: process_update_stake_pool_balance_def ok_iff Let_def case_prod_beta load_stake_pool_Inr
        cong: if_cong split del: if_split) blast
  show ?thesis using read_written_stake_pool [OF wr] booked_pool(3) by blast
qed

lemma deposit_sol_same:
  assumes run: "process_deposit_sol rt pid (pool # rest) lamports m w = Inr w'"
    and sp: "read_stake_pool w pool = Inr sp"
  shows "\<exists>sp'. read_stake_pool w' pool = Inr sp' \<and> same_pool sp sp'"
proof -
  from run sp obtain t l w2 sp' where "credit_pool sp t l = Inr sp'" "write_stake_pool w2 pool sp' = Inr w'"
    by (simp add: process_deposit_sol_def ok_iff Let_def case_prod_beta load_stake_pool_Inr
        del: credit_pool_Inr check_sol_deposit_authority_Inr) blast
  then show ?thesis using read_written_stake_pool booked_pool(1) by blast
qed

lemma withdraw_sol_same:
  assumes run: "process_withdraw_sol rt pid (pool # rest) tokens m w = Inr w'"
    and sp: "read_stake_pool w pool = Inr sp"
  shows "\<exists>sp'. read_stake_pool w' pool = Inr sp' \<and> same_pool sp sp'"
proof -
  from run sp obtain t l w2 sp' where "debit_pool sp t l = Inr sp'" "write_stake_pool w2 pool sp' = Inr w'"
    by (simp add: process_withdraw_sol_def ok_iff Let_def case_prod_beta load_stake_pool_Inr
        del: debit_pool_Inr check_sol_withdraw_authority_Inr cong: if_cong split del: if_split) blast
  then show ?thesis using read_written_stake_pool booked_pool(2) by blast
qed

subsection \<open>The abstract machine\<close>

inductive list_step :: "validator_stake_info list \<Rightarrow> validator_stake_info list \<Rightarrow> bool" where
  keep: "list_step xs xs"
| add: "vs_vote_account_address e \<notin> set (map vs_vote_account_address xs) \<Longrightarrow> length xs < 20000 \<Longrightarrow>
    vs_status e = status_to_u8 Active \<Longrightarrow> list_step xs (xs @ [e])"
| change: "i < length xs \<Longrightarrow> vs_status (xs ! i) = status_to_u8 Active \<Longrightarrow>
    vs_vote_account_address e = vs_vote_account_address (xs ! i) \<Longrightarrow>
    vs_validator_seed_suffix e = vs_validator_seed_suffix (xs ! i) \<Longrightarrow> list_step xs (xs[i := e])"
| update: "slice_updated epoch i n xs ys \<Longrightarrow> list_step xs ys"
| cleanup: "list_step xs (filter (\<lambda>r. \<not> finished r) xs)"

inductive_cases list_stepE: "list_step xs ys"

abbreviation vote_list :: "validator_stake_info list \<Rightarrow> pubkey list" where
  "vote_list xs \<equiv> map vs_vote_account_address xs"

lemma slice_updated_votes:
  assumes "slice_updated epoch i n xs ys"
  shows "vote_list ys = vote_list xs"
proof (rule nth_equalityI)
  show "length (vote_list ys) = length (vote_list xs)" using assms by (simp add: slice_updated_def)
  fix j assume j: "j < length (vote_list ys)"
  then have "j < length xs" using assms by (simp add: slice_updated_def)
  then have "ys ! j = xs ! j \<or> same_identity (xs ! j) (ys ! j)"
    using assms by (auto simp: slice_updated_def entry_updated_def split: if_splits)
  then show "vote_list ys ! j = vote_list xs ! j"
    using j \<open>j < length xs\<close> by (auto simp: same_identity_def)
qed

lemma list_step_distinct:
  "list_step xs ys \<Longrightarrow> distinct (vote_list xs) \<Longrightarrow> distinct (vote_list ys)"
proof (induction rule: list_step.induct)
  case (change i xs e)
  then have "vote_list (xs[i := e]) = vote_list xs" by (simp add: map_update list_update_same_conv)
  then show ?case using change.prems by simp
next
  case (update epoch i n xs ys)
  then show ?case using slice_updated_votes by metis
qed (auto simp: distinct_map intro: inj_on_subset)

text \<open>An entry that is active was active before, or its vote account was not in the list.\<close>

lemma list_step_active:
  "list_step xs ys \<Longrightarrow> y \<in> set ys \<Longrightarrow> vs_status y = status_to_u8 Active \<Longrightarrow>
     vs_vote_account_address y \<notin> set (vote_list xs) \<or>
     (\<exists>x \<in> set xs. vs_vote_account_address x = vs_vote_account_address y \<and> vs_status x = status_to_u8 Active)"
proof (induction rule: list_step.induct)
  case (change i xs e)
  show ?case
  proof (cases "y = e")
    case True
    then show ?thesis using change.hyps by (auto intro!: bexI [of _ "xs ! i"] simp del: status_to_u8.simps)
  next
    case False
    then have "y \<in> set xs" using change.prems(1) set_update_subset_insert [of xs i e] by blast
    then show ?thesis using change.prems(2) by blast
  qed
next
  case (update epoch i n xs ys)
  then obtain j where j: "j < length ys" "y = ys ! j" by (auto simp: in_set_conv_nth)
  then have l: "j < length xs" using update.hyps by (simp add: slice_updated_def)
  then have "y = xs ! j \<or> entry_updated epoch (xs ! j) y"
    using update.hyps j by (auto simp: slice_updated_def split: if_splits)
  then have "vs_vote_account_address (xs ! j) = vs_vote_account_address y \<and> vs_status (xs ! j) = status_to_u8 Active"
    using update.prems(2) by (auto simp: entry_updated_def same_identity_def simp del: status_to_u8.simps)
  then show ?case using l nth_mem by blast
qed (auto simp del: status_to_u8.simps)

subsection \<open>Handlers take steps\<close>

definition list_moves :: "pubkey \<Rightarrow> world \<Rightarrow> world \<Rightarrow> bool" where
  "list_moves l w w' \<longleftrightarrow> list_ok (acc_data (w' l)) \<and> list_step (list_infos (acc_data (w l))) (list_infos (acc_data (w' l)))"

lemma list_moves_same: "list_ok (acc_data (w l)) \<Longrightarrow> acc_data (w' l) = acc_data (w l) \<Longrightarrow> list_moves l w w'"
  by (simp add: list_moves_def list_step.keep)

lemma replaces_active_moves:
  assumes "replaces_active (data_of w list) (data_of w' list) e e'"
    and "vs_vote_account_address e' = vs_vote_account_address e"
    and "vs_validator_seed_suffix e' = vs_validator_seed_suffix e"
  shows "list_moves (ai_key list) w w'"
  using assms
  by (auto simp: replaces_active_def list_moves_def data_of_def simp del: status_to_u8.simps intro: list_step.change)

lemma add_moves:
  assumes own: "respects_owner rt pid"
    and run: "process_add_validator_to_pool rt pid (pool # rest) seed w = Inr w'"
    and sp: "read_stake_pool w pool = Inr sp" and ok: "list_ok (acc_data (w (sp_validator_list sp)))"
  shows "list_moves (sp_validator_list sp) w w'"
proof -
  from run obtain staker reserve auth list stake vote rest' where
      r: "rest = staker # reserve # auth # list # stake # vote # rest'"
    by (simp add: process_add_validator_to_pool_def bindE_pair_eq_Inr next_account_info_Inr) blast
  have li: "ai_key list = sp_validator_list sp"
    using run [unfolded r] sp
    by (auto simp: process_add_validator_to_pool_def ok_iff Let_def case_prod_beta load_stake_pool_Inr)
  from add_validator_effect [OF own run [unfolded r]] ok sp show ?thesis
    by (auto simp: list_moves_def li data_of_def votes_def new_validator_entry_def
        simp del: status_to_u8.simps intro!: list_step.add)
qed

lemma remove_moves:
  assumes own: "respects_owner rt pid"
    and run: "process_remove_validator_from_pool rt pid (pool # rest) w = Inr w'"
    and sp: "read_stake_pool w pool = Inr sp" and ok: "list_ok (acc_data (w (sp_validator_list sp)))"
    and ne: "ai_key pool \<noteq> sp_validator_list sp"
  shows "list_moves (sp_validator_list sp) w w'"
proof -
  from run sp obtain staker auth list stake rest' where
      r: "rest = staker # auth # list # stake # rest'" and li: "ai_key list = sp_validator_list sp"
    by (simp add: process_remove_validator_from_pool_def ok_iff Let_def case_prod_beta load_stake_pool_Inr
        split del: if_split) blast
  have l: "list_ok (data_of w list)" "ai_key pool \<noteq> ai_key list" using ok li ne by (simp_all add: data_of_def)
  from remove_validator_effect [OF own run [unfolded r] l] show ?thesis
    by (auto simp: list_moves_def li [symmetric] data_of_def simp del: status_to_u8.simps intro!: list_step.change)
qed

lemma decrease_moves:
  assumes own: "respects_owner rt pid"
    and run: "process_decrease_validator_stake rt pid (pool # rest) lamports seed eph fund w = Inr w'"
    and sp: "read_stake_pool w pool = Inr sp" and ok: "list_ok (acc_data (w (sp_validator_list sp)))"
  shows "list_moves (sp_validator_list sp) w w'"
proof -
  from run sp obtain staker auth list rest' where
      r: "rest = staker # auth # list # rest'" and li: "ai_key list = sp_validator_list sp"
    by (simp add: process_decrease_validator_stake_def ok_iff Let_def case_prod_beta load_stake_pool_Inr) blast
  from ok li have "list_ok (data_of w list)" by (simp add: data_of_def)
  from decrease_validator_effect [OF own run [unfolded r] this] show ?thesis
    unfolding li [symmetric] by (auto intro: replaces_active_moves)
qed

lemma increase_moves:
  assumes own: "respects_owner rt pid"
    and run: "process_increase_validator_stake rt pid (pool # rest) lamports seed eph w = Inr w'"
    and sp: "read_stake_pool w pool = Inr sp" and ok: "list_ok (acc_data (w (sp_validator_list sp)))"
  shows "list_moves (sp_validator_list sp) w w'"
proof -
  from run sp obtain staker auth list reserve rest' where
      r: "rest = staker # auth # list # reserve # rest'" and li: "ai_key list = sp_validator_list sp"
    by (simp add: process_increase_validator_stake_def ok_iff Let_def case_prod_beta load_stake_pool_Inr) blast
  from ok li have "list_ok (data_of w list)" by (simp add: data_of_def)
  from increase_validator_effect [OF own run [unfolded r] this] show ?thesis
    unfolding li [symmetric] by (auto intro: replaces_active_moves)
qed

lemma update_list_moves:
  assumes own: "respects_owner rt pid"
    and run: "process_update_validator_list_balance rt pid (pool # rest) start no_merge w = Inr w'"
    and sp: "read_stake_pool w pool = Inr sp" and ok: "list_ok (acc_data (w (sp_validator_list sp)))"
  shows "list_moves (sp_validator_list sp) w w'"
proof -
  from run sp obtain auth list reserve clock history stake_program accts where
      r: "rest = auth # list # reserve # clock # history # stake_program # accts"
      and li: "ai_key list = sp_validator_list sp"
    by (simp add: process_update_validator_list_balance_def ok_iff Let_def case_prod_beta load_stake_pool_Inr) blast
  from ok li have "list_ok (data_of w list)" by (simp add: data_of_def)
  from update_list_effect [OF own run [unfolded r] this] show ?thesis
    by (auto simp: list_moves_def li [symmetric] data_of_def intro: list_step.update)
qed

lemma cleanup_moves:
  assumes run: "process_cleanup_removed_validator_entries rt pid (pool # rest) w = Inr w'"
    and sp: "read_stake_pool w pool = Inr sp" and ok: "list_ok (acc_data (w (sp_validator_list sp)))"
    and ne: "ai_key pool \<noteq> sp_validator_list sp"
  shows "list_moves (sp_validator_list sp) w w'"
proof -
  from run sp obtain list rest' where r: "rest = list # rest'" and li: "ai_key list = sp_validator_list sp"
    by (simp add: process_cleanup_removed_validator_entries_def ok_iff Let_def load_stake_pool_Inr
        split del: if_split) blast
  have l: "list_ok (data_of w list)" "ai_key pool \<noteq> ai_key list" using ok li ne by (simp_all add: data_of_def)
  from cleanup_effect [OF run [unfolded r] l] show ?thesis
    by (auto simp: list_moves_def li [symmetric] data_of_def intro: list_step.cleanup)
qed

lemma debit_entry_identity:
  "debit_entry e src l = Inr e' \<Longrightarrow> vs_vote_account_address e' = vs_vote_account_address e \<and>
     vs_validator_seed_suffix e' = vs_validator_seed_suffix e"
  by (auto simp: debit_entry_def ok_iff split: stake_withdraw_source.splits if_splits)

lemma deposit_stake_moves:
  assumes own: "respects_owner rt pid"
    and run: "process_deposit_stake rt pid (pool # rest) m w = Inr w'"
    and sp: "read_stake_pool w pool = Inr sp" and ok: "list_ok (acc_data (w (sp_validator_list sp)))"
    and ne: "ai_key pool \<noteq> sp_validator_list sp"
  shows "list_moves (sp_validator_list sp) w w' \<and> (\<exists>sp'. read_stake_pool w' pool = Inr sp' \<and> same_pool sp sp')"
proof -
  from run sp obtain list da auth stake vstake rest' where
      r: "rest = list # da # auth # stake # vstake # rest'" and li: "ai_key list = sp_validator_list sp"
    by (simp add: process_deposit_stake_def ok_iff Let_def case_prod_beta load_stake_pool_Inr) blast
  have l: "list_ok (data_of w list)" "ai_key pool \<noteq> ai_key list" using ok li ne by (simp_all add: data_of_def)
  from deposit_stake_effect [OF own run [unfolded r] l] sp obtain t lamports sp' e where
      "credit_pool sp t lamports = Inr sp'" "read_stake_pool w' pool = Inr sp'"
      "replaces_active (data_of w list) (data_of w' list) e (e\<lparr>vs_active_stake_lamports := lamports_of w' vstake\<rparr>)"
    by (auto simp: load_stake_pool_Inr)
  then show ?thesis unfolding li [symmetric] by (auto intro: replaces_active_moves booked_pool(1))
qed

lemma withdraw_stake_moves:
  assumes own: "respects_owner rt pid"
    and run: "process_withdraw_stake rt pid (pool # rest) tokens m w = Inr w'"
    and sp: "read_stake_pool w pool = Inr sp" and ok: "list_ok (acc_data (w (sp_validator_list sp)))"
    and ne: "ai_key pool \<noteq> sp_validator_list sp"
  shows "list_moves (sp_validator_list sp) w w' \<and> (\<exists>sp'. read_stake_pool w' pool = Inr sp' \<and> same_pool sp sp')"
proof -
  from run obtain list auth src dst user_stake user burn fee_acc mint clock token rest' where
      r: "rest = list # auth # src # dst # user_stake # user # burn # fee_acc # mint # clock # token # rest'"
    by (simp add: process_withdraw_stake_def bindE_eq_Inr bindE_pair_eq_Inr next_account_info_Inr) blast
  have li: "ai_key list = sp_validator_list sp"
    using run [unfolded r] sp
    by (auto simp: process_withdraw_stake_def ok_iff Let_def case_prod_beta load_stake_pool_Inr simp del: debit_pool_Inr)
  have l: "list_ok (data_of w list)" "ai_key pool \<noteq> ai_key list" using ok li ne by (simp_all add: data_of_def)
  from withdraw_stake_effect [OF own run [unfolded r] l] sp obtain sp1 sp' b l item where
      sb: "same_books sp sp1" "debit_pool sp1 b l = Inr sp'" "read_stake_pool w' pool = Inr sp'"
      and it: "source_recorded (data_of w list) (data_of w' list) (lamports_of w src) l item"
    by (auto simp: load_stake_pool_Inr)
  have "list_moves (ai_key list) w w'"
    using it l by (auto simp: source_recorded_def data_of_def debit_entry_identity split: option.splits
        intro: list_moves_same replaces_active_moves [unfolded data_of_def])
  then show ?thesis using sb same_books_pool same_pool_trans booked_pool(2) li by metis
qed

lemma pool_only_moves:
  assumes "respects_owner rt pid \<longrightarrow> untouched pid (\<lambda>k. k = p) w w'" "respects_owner rt pid"
    and "list_ok (acc_data (w l))" "acc_owner (w l) = pid" "p \<noteq> l"
  shows "list_moves l w w'"
proof (rule list_moves_same)
  show "acc_data (w' l) = acc_data (w l)" using assms by (auto simp: untouched_def)
qed (fact assms(3))

text \<open>One instruction, whatever it is: the list takes one step and the pool stays the same pool.\<close>

lemma instruction_moves:
  assumes own: "respects_owner rt pid"
    and run: "process_instruction rt pid (pool # rest) i w = Inr w'"
    and sp: "read_stake_pool w pool = Inr sp" "is_valid sp" "owner_of w pool = pid"
    and ok: "list_ok (acc_data (w (sp_validator_list sp)))" "acc_owner (w (sp_validator_list sp)) = pid"
    and ne: "ai_key pool \<noteq> sp_validator_list sp"
  shows "list_moves (sp_validator_list sp) w w' \<and> (\<exists>sp'. read_stake_pool w' pool = Inr sp' \<and> same_pool sp sp')"
proof
  let ?p = "\<lambda>k. k = ai_key pool"
  note quiet = isolation.handler_setters [where mine = ?p] isolation.handler_metadata [where mine = ?p]
    isolation.handler_deposit_sol [where mine = ?p] isolation.handler_withdraw_sol [where mine = ?p]
    isolation.handler_update_pool [where mine = ?p]
  note same = pool_only_moves [where w = w and l = "sp_validator_list sp", OF _ own ok ne]
  show "list_moves (sp_validator_list sp) w w'"
    using run isolation.handler_initialize_fails [OF sp(1,2)]
      add_moves [OF own _ sp(1) ok(1)] remove_moves [OF own _ sp(1) ok(1) ne]
      decrease_moves [OF own _ sp(1) ok(1)] increase_moves [OF own _ sp(1) ok(1)]
      update_list_moves [OF own _ sp(1) ok(1)] cleanup_moves [OF _ sp(1) ok(1) ne]
      deposit_stake_moves [OF own _ sp(1) ok(1) ne] withdraw_stake_moves [OF own _ sp(1) ok(1) ne]
      quiet [THEN same]
    by (cases i) auto
  show "\<exists>sp'. read_stake_pool w' pool = Inr sp' \<and> same_pool sp sp'"
  proof (cases "moves_tokens i")
    case False
    then show ?thesis using quiet_books [OF own run _ sp(1,3) ok(1) ne] same_books_pool by blast
  next
    case True
    then show ?thesis using run isolation.handler_initialize_fails [OF sp(1,2)]
      by (cases i) (simp_all add: update_pool_same [OF _ sp(1)] deposit_sol_same [OF _ sp(1)]
          withdraw_sol_same [OF _ sp(1)] deposit_stake_moves [OF own _ sp(1) ok(1) ne]
          withdraw_stake_moves [OF own _ sp(1) ok(1) ne])
  qed
qed

subsection \<open>The invariant of a pool\<close>

definition pool_ok :: "pubkey \<Rightarrow> account_info \<Rightarrow> stake_pool \<Rightarrow> world \<Rightarrow> bool" where
  "pool_ok pid pool sp w \<longleftrightarrow>
     owner_of w pool = pid \<and> read_stake_pool w pool = Inr sp \<and> is_valid sp \<and>
     ai_key pool \<noteq> sp_validator_list sp \<and> acc_owner (w (sp_validator_list sp)) = pid \<and>
     list_ok (acc_data (w (sp_validator_list sp))) \<and>
     distinct (votes (acc_data (w (sp_validator_list sp))))"

abbreviation validators_of :: "stake_pool \<Rightarrow> world \<Rightarrow> validator_stake_info list" where
  "validators_of sp w \<equiv> list_infos (acc_data (w (sp_validator_list sp)))"

lemma pool_ok_step:
  assumes own: "respects_owner rt pid" and ok: "pool_ok pid pool sp w"
    and run: "process_instruction rt pid (pool # rest) i w = Inr w'"
  shows "\<exists>sp'. pool_ok pid pool sp' w' \<and> same_pool sp sp' \<and> list_step (validators_of sp w) (validators_of sp' w')"
proof -
  have h: "read_stake_pool w pool = Inr sp" "is_valid sp" "owner_of w pool = pid"
      "list_ok (acc_data (w (sp_validator_list sp)))" "acc_owner (w (sp_validator_list sp)) = pid"
      "ai_key pool \<noteq> sp_validator_list sp"
    using ok by (simp_all add: pool_ok_def)
  from instruction_moves [OF own run h] obtain sp' where
      m: "list_moves (sp_validator_list sp) w w'" and sp': "read_stake_pool w' pool = Inr sp'" "same_pool sp sp'"
    by blast
  have "untouched pid (\<lambda>_. True) w w'"
    using isolation.every_instruction [OF run h(1,2), where mine = "\<lambda>_. True"] own by simp
  then have o: "owner_of w' pool = pid" "acc_owner (w' (sp_validator_list sp)) = pid"
    using h(3,5) by (simp_all add: untouched_def owner_of_def)
  have s: "list_step (validators_of sp w) (validators_of sp w')" using m by (simp add: list_moves_def)
  have "distinct (votes (acc_data (w' (sp_validator_list sp))))"
    using list_step_distinct [OF s] ok by (simp add: pool_ok_def votes_def)
  then have "pool_ok pid pool sp' w'"
    using sp' o m h(2,6) by (simp add: pool_ok_def same_pool_def is_valid_def list_moves_def)
  then show ?thesis using sp' s by (auto simp: same_pool_def)
qed

text \<open>
  The worlds a pool can be in after it was in \<open>w\<close>: instructions on the pool, instructions
  on another pool with another list, the creation of another pool, and changes by other programs.
\<close>

inductive pool_runs :: "runtime \<Rightarrow> pubkey \<Rightarrow> account_info \<Rightarrow> stake_pool \<Rightarrow> world \<Rightarrow> world \<Rightarrow> bool"
  for rt pid pool sp w where
  start: "pool_runs rt pid pool sp w w"
| own: "pool_runs rt pid pool sp w w1 \<Longrightarrow> process_instruction rt pid (pool # rest) i w1 = Inr w2 \<Longrightarrow>
    pool_runs rt pid pool sp w w2"
| other: "pool_runs rt pid pool sp w w1 \<Longrightarrow> process_instruction rt pid (pool2 # rest) i w1 = Inr w2 \<Longrightarrow>
    read_stake_pool w1 pool2 = Inr sp2 \<Longrightarrow> is_valid sp2 \<Longrightarrow>
    {ai_key pool2, sp_validator_list sp2} \<inter> {ai_key pool, sp_validator_list sp} = {} \<Longrightarrow>
    pool_runs rt pid pool sp w w2"
| create: "pool_runs rt pid pool sp w w1 \<Longrightarrow>
    process_initialize rt pid (pool2 # manager # staker # auth # list2 # rest) f1 f2 f3 r mv w1 = Inr w2 \<Longrightarrow>
    {ai_key pool2, ai_key list2} \<inter> {ai_key pool, sp_validator_list sp} = {} \<Longrightarrow>
    pool_runs rt pid pool sp w w2"
| outside: "pool_runs rt pid pool sp w w1 \<Longrightarrow> same_program_data pid w1 w2 \<Longrightarrow> pool_runs rt pid pool sp w w2"

lemma pool_ok_transfer:
  assumes ok: "pool_ok pid pool sp w"
    and same: "\<And>k. k \<in> {ai_key pool, sp_validator_list sp} \<Longrightarrow>
      acc_data (w' k) = acc_data (w k) \<and> acc_owner (w' k) = acc_owner (w k)"
  shows "pool_ok pid pool sp w' \<and> validators_of sp w' = validators_of sp w"
  using ok same [of "ai_key pool"] same [of "sp_validator_list sp"]
  by (simp add: pool_ok_def owner_of_def read_stake_pool_def data_of_def)

lemma pool_ok_untouched:
  assumes ok: "pool_ok pid pool sp1 w" and same: "same_pool sp sp1" and un: "untouched pid mine w w'"
    and "\<not> mine (ai_key pool)" "\<not> mine (sp_validator_list sp)"
  shows "pool_ok pid pool sp1 w' \<and> validators_of sp1 w' = validators_of sp1 w"
proof (rule pool_ok_transfer [OF ok])
  fix k assume k: "k \<in> {ai_key pool, sp_validator_list sp1}"
  then have "acc_owner (w k) = pid" using ok by (auto simp: pool_ok_def owner_of_def)
  moreover have "\<not> mine k" using k same assms(4,5) by (auto simp: same_pool_def)
  ultimately show "acc_data (w' k) = acc_data (w k) \<and> acc_owner (w' k) = acc_owner (w k)"
    using un by (simp add: untouched_def)
qed

lemma pool_runs_ok:
  assumes own: "respects_owner rt pid" and ok: "pool_ok pid pool sp w" and "pool_runs rt pid pool sp w w'"
  shows "\<exists>sp'. pool_ok pid pool sp' w' \<and> same_pool sp sp' \<and>
    list_step\<^sup>*\<^sup>* (validators_of sp w) (validators_of sp' w')"
  using assms(3)
proof (induction rule: pool_runs.induct)
  case start
  then show ?case using ok by (auto simp: same_pool_def)
next
  case (own w1 rest i w2)
  then obtain sp1 where sp1: "pool_ok pid pool sp1 w1" "same_pool sp sp1"
    "list_step\<^sup>*\<^sup>* (validators_of sp w) (validators_of sp1 w1)" by blast
  from pool_ok_step [OF assms(1) sp1(1) own.hyps(2)] sp1 show ?case
    by (meson rtranclp.rtrancl_into_rtrancl same_pool_trans)
next
  case (other w1 pool2 rest i w2 sp2)
  then obtain sp1 where sp1: "pool_ok pid pool sp1 w1" "same_pool sp sp1"
    "list_step\<^sup>*\<^sup>* (validators_of sp w) (validators_of sp1 w1)" by blast
  let ?m = "\<lambda>k. k = ai_key pool2 \<or> k = sp_validator_list sp2"
  have "untouched pid ?m w1 w2"
    using isolation.every_instruction [OF other.hyps(2,3,4), where mine = ?m] assms(1) by simp
  from pool_ok_untouched [OF sp1(1,2) this] other.hyps(5) sp1 show ?case by auto
next
  case (create w1 pool2 manager staker auth list2 rest f1 f2 f3 r mv w2)
  then obtain sp1 where sp1: "pool_ok pid pool sp1 w1" "same_pool sp sp1"
    "list_step\<^sup>*\<^sup>* (validators_of sp w) (validators_of sp1 w1)" by blast
  let ?m = "\<lambda>k. k = ai_key pool2 \<or> k = ai_key list2"
  have "untouched pid ?m w1 w2"
    using isolation.handler_initialize [OF create.hyps(2), where mine = ?m] assms(1) by simp
  from pool_ok_untouched [OF sp1(1,2) this] create.hyps(3) sp1 show ?case by auto
next
  case (outside w1 w2)
  then obtain sp1 where sp1: "pool_ok pid pool sp1 w1" "same_pool sp sp1"
    "list_step\<^sup>*\<^sup>* (validators_of sp w) (validators_of sp1 w1)" by blast
  have "acc_owner (w1 (ai_key pool)) = pid" "acc_owner (w1 (sp_validator_list sp1)) = pid"
    using sp1(1) by (simp_all add: pool_ok_def owner_of_def)
  then have "pool_ok pid pool sp1 w2 \<and> validators_of sp1 w2 = validators_of sp1 w1"
    using outside.hyps(2) by (intro pool_ok_transfer [OF sp1(1)]) (auto simp: same_program_data_def)
  then show ?case using sp1 by auto
qed

subsection \<open>Initialize creates a pool in order\<close>

lemma initialize_list_Inr:
  "initialize_list pid w info mv = Inr vl \<Longrightarrow> owner_of w info = pid \<and> 0 < unat mv \<and> unat mv \<le> 20000 \<and>
     calculate_max_validators (length (data_of w info)) = unat mv \<and>
     vl = \<lparr>vl_header = \<lparr>vl_account_type = ValidatorList, vl_max_validators = mv\<rparr>, vl_validators = []\<rparr>"
  by (auto simp: initialize_list_def ok_iff Let_def MAX_VALIDATORS_IN_POOL_def word_less_nat_alt unat_gt_0
      split: if_splits)

lemma initialize_reserve_Inr:
  "initialize_reserve rt w info k = Inr t \<Longrightarrow> \<exists>meta. rt_stake_state rt (data_of w info) = Some (SS_Initialized meta) \<and>
     auth_staker meta = k \<and> auth_withdrawer meta = k \<and> meta_lockup meta = lockup_default \<and>
     unat (lamports_of w info) = unat t + unat (minimum_reserve_lamports meta)"
  by (cases "rt_stake_state rt (data_of w info)")
    (auto simp: initialize_reserve_def read_stake_state_def ok_iff checked_sub_Some split: if_splits stake_state.splits)

lemma initialize_mint_check_Inr:
  "initialize_mint_check rt w info k = Inr u \<Longrightarrow> supply_at rt w (ai_key info) = Some 0"
  by (auto simp: initialize_mint_check_def ok_iff supply_at_def data_of_def split: if_splits)

lemma empty_list_written:
  assumes "write_validator_list w info \<lparr>vl_header = h, vl_validators = []\<rparr> = Inr w'"
  shows "list_ok (data_of w' info)" "list_infos (data_of w' info) = []"
    and "k \<noteq> ai_key info \<Longrightarrow> w' k = w k" "acc_owner (w' k) = acc_owner (w k)"
proof -
  from assms obtain rest where d: "w' = set_data w (ai_key info) (ser_header h @ bv_image [] rest)"
    by (auto simp: write_validator_list_def overwrite_def ser_validator_list_def ser_vec_def bv_image_def
        split: option.splits if_splits)
  have wf: "bv_wf ENTRY_LEN []" by (simp add: bv_wf_def)
  show "list_ok (data_of w' info)" using bv_invar_image [OF wf] by (simp add: d list_ok_def)
  show "list_infos (data_of w' info) = []" using bv_entries_image [OF wf] by (simp add: d list_infos_def)
  show "k \<noteq> ai_key info \<Longrightarrow> w' k = w k" "acc_owner (w' k) = acc_owner (w k)" by (simp_all add: d)
qed

lemma initialize_effect:
  assumes own: "respects_owner rt pid"
    and run: "process_initialize rt pid
      (pool # manager # staker # auth # list # reserve # mint # fee_acc # token # rest) ef wfee dfee rf mv w = Inr w'"
  shows "\<exists>sp' meta. pool_ok pid pool sp' w' \<and> validators_of sp' w' = [] \<and> ai_is_signer manager \<and>
    sp_manager sp' = ai_key manager \<and> sp_staker sp' = ai_key staker \<and> sp_validator_list sp' = ai_key list \<and>
    sp_reserve_stake sp' = ai_key reserve \<and> sp_pool_mint sp' = ai_key mint \<and> sp_token_program_id sp' = ai_key token \<and>
    fee_at_most_one (sp_epoch_fee sp') \<and> fee_at_most_one (sp_sol_withdrawal_fee sp') \<and>
    fee_at_most_one (sp_stake_withdrawal_fee sp') \<and> fee_at_most_one (sp_sol_deposit_fee sp') \<and>
    fee_at_most_one (sp_stake_deposit_fee sp') \<and>
    unat mv \<le> 20000 \<and> sp_pool_token_supply sp' = sp_total_lamports sp' \<and>
    rt_stake_state rt (data_of w reserve) = Some (SS_Initialized meta) \<and>
    unat (lamports_of w reserve) = pool_total sp' + unat (minimum_reserve_lamports meta) \<and>
    (counted rt pid (ai_key token) \<longrightarrow> in_sync rt sp' w')"
proof -
  from run obtain sp vl da sa total epoch w1 w2 wk bump where
      sg: "ai_is_signer manager" and ne: "ai_key pool \<noteq> ai_key list" and po: "owner_of w pool = pid"
      and vl: "initialize_list pid w list mv = Inr vl"
      and fe: "\<not> (numerator ef > denominator ef \<or> numerator wfee > denominator wfee
        \<or> numerator dfee > denominator dfee \<or> rf > 100)"
      and mo: "owner_of w mint = ai_key token"
      and mc: "initialize_mint_check rt w mint wk = Inr ()"
      and rs: "initialize_reserve rt w reserve wk = Inr total"
      and w1: "(if total > 0 then token_mint_to rt (ai_key pool) token mint fee_acc auth AUTHORITY_WITHDRAW bump total w
         else Inr w) = Inr w1"
      and w2: "write_validator_list w1 list vl = Inr w2"
      and wr: "write_stake_pool w2 pool
        (initialized_pool (sp\<lparr>sp_token_program_id := ai_key token, sp_pool_mint := ai_key mint\<rparr>)
          (ai_key manager) (ai_key staker) da bump (ai_key list) (ai_key reserve) (ai_key fee_acc) sa total epoch
          ef wfee dfee rf) = Inr w'" (is "write_stake_pool w2 pool ?sp' = _")
    by (simp add: process_initialize_def ok_iff Let_def case_prod_beta cong: if_cong split del: if_split) blast
  note l = initialize_list_Inr [OF vl]
  have lo: "owner_of w list = pid" and v: "vl = \<lparr>vl_header = \<lparr>vl_account_type = ValidatorList, vl_max_validators = mv\<rparr>,
      vl_validators = []\<rparr>" using l by simp_all
  note e = empty_list_written [OF w2 [unfolded v]]
  have f1: "same_program_data pid w w1" using supply_call_frame(2) [OF own] w1 by (rule if_call_frame)
  have o: "owner_of w' pool = pid" "acc_owner (w' (ai_key list)) = pid"
    using f1 po lo e(4) write_stake_pool_frame [OF wr] by (simp_all add: same_program_data_def owner_of_def)
  have d: "acc_data (w' (ai_key list)) = data_of w2 list"
    using write_stake_pool_frame [OF wr] ne by (simp add: data_of_def)
  have "pool_ok pid pool ?sp' w'" "validators_of ?sp' w' = []"
    using read_written_stake_pool [OF wr] o d e(1,2) ne
    by (simp_all add: pool_ok_def initialized_pool_def is_valid_def votes_def)
  moreover have "in_sync rt ?sp' w'" if c: "counted rt pid (ai_key token)"
  proof -
    have t: "tracks_supply rt (ai_key token)" "ai_key token \<noteq> pid" using c by (simp_all add: counted_def)
    have "has_supply rt (ai_key token) (ai_key mint) w 0"
      using initialize_mint_check_Inr [OF mc] mo by (simp add: has_supply_def owner_of_def)
    from if_mint_supply [OF w1 t(1) refl refl this] have s: "has_supply rt (ai_key token) (ai_key mint) w1 (unat total)"
      by simp
    then have "ai_key mint \<noteq> ai_key list" "ai_key mint \<noteq> ai_key pool"
      using f1 lo po t(2) by (auto simp: has_supply_def same_program_data_def owner_of_def)
    then have "w' (ai_key mint) = w1 (ai_key mint)" using e(3) write_stake_pool_frame [OF wr] by simp
    then show ?thesis using s by (simp add: in_sync_def has_supply_def supply_at_def initialized_pool_def)
  qed
  moreover obtain meta where "rt_stake_state rt (data_of w reserve) = Some (SS_Initialized meta)"
      "unat (lamports_of w reserve) = unat total + unat (minimum_reserve_lamports meta)"
    using initialize_reserve_Inr [OF rs] by blast
  ultimately show ?thesis using sg fe l
    by (intro exI [of _ ?sp'] exI [of _ meta])
      (simp add: initialized_pool_def fee_at_most_one_def word_less_nat_alt word_le_nat_alt not_less)
qed

end
