(* ===== verification/Samples.thy ===== *)
theory Samples
  imports Instruction
begin

section \<open>A small chain\<close>

text \<open>
  A concrete runtime and a concrete world, on which the statements about the handlers are
  exercised. Addresses are derived by adding up the lengths of the seeds; the stake and token programs are
  reduced to what a run observes: they move lamports and count the supply of the mint. The
  world holds one pool with one validator.
\<close>

abbreviation "PROGRAM \<equiv> 100 :: pubkey"
abbreviation "POOL \<equiv> 1 :: pubkey"
abbreviation "LIST \<equiv> 2 :: pubkey"
abbreviation "RESERVE \<equiv> 5 :: pubkey"
abbreviation "MINT \<equiv> 6 :: pubkey"
abbreviation "TOKEN_PROGRAM \<equiv> 8 :: pubkey"
abbreviation "SYSTEM_PROGRAM \<equiv> 9 :: pubkey"
abbreviation "STAKE_PROGRAM \<equiv> 10 :: pubkey"
abbreviation "VOTE \<equiv> 13 :: pubkey"
abbreviation "WITHDRAW_AUTHORITY \<equiv> 1040 :: pubkey"
abbreviation "VALIDATOR_STAKE \<equiv> 1064 :: pubkey"
abbreviation "TRANSIENT_STAKE \<equiv> 1081 :: pubkey"

subsection \<open>The programs that are called\<close>

definition move_lamports :: "pubkey \<Rightarrow> pubkey \<Rightarrow> u64 \<Rightarrow> world \<Rightarrow> program_error + world" where
  "move_lamports a b amount w =
     bindE (ok_or (checked_sub (acc_lamports (w a)) amount) InsufficientFunds) (\<lambda>l.
     let w = w(a := (w a)\<lparr>acc_lamports := l\<rparr>) in
     bindE (ok_or (checked_add (acc_lamports (w b)) amount) InvalidArgument) (\<lambda>l.
     Inr (w(b := (w b)\<lparr>acc_lamports := l\<rparr>))))"

definition change_supply :: "pubkey \<Rightarrow> pubkey \<Rightarrow> (u64 \<Rightarrow> u64 option) \<Rightarrow> world \<Rightarrow> program_error + world" where
  "change_supply p m f w =
     (if p \<noteq> TOKEN_PROGRAM \<or> acc_owner (w m) \<noteq> TOKEN_PROGRAM then Inl IncorrectProgramId
      else
        case de_u64 (acc_data (w m)) of
          None \<Rightarrow> Inl InvalidAccountData
        | Some (n, rest) \<Rightarrow>
            bindE (ok_or (f n) InvalidArgument) (\<lambda>n'. Inr (set_data w m (ser_u64 n' @ rest))))"

fun sample_invoke :: "cpi \<Rightarrow> account_info list \<Rightarrow> seeds list \<Rightarrow> world \<Rightarrow> program_error + world" where
  "sample_invoke (SystemTransfer a b amount) _ _ w = move_lamports a b amount w"
| "sample_invoke (StakeSplit a _ amount b) _ _ w = move_lamports a b amount w"
| "sample_invoke (StakeWithdraw a _ b amount _) _ _ w = move_lamports a b amount w"
| "sample_invoke (StakeMerge b a _) _ _ w = move_lamports a b (acc_lamports (w a)) w"
| "sample_invoke (TokenMintTo p m _ _ amount) _ _ w = change_supply p m (\<lambda>n. checked_add n amount) w"
| "sample_invoke (TokenBurn p _ m _ amount) _ _ w = change_supply p m (\<lambda>n. checked_sub n amount) w"
| "sample_invoke _ _ _ w = Inr w"

definition sample_meta :: stake_meta where
  "sample_meta = \<lparr>rent_exempt_reserve = 100, auth_staker = WITHDRAW_AUTHORITY,
     auth_withdrawer = WITHDRAW_AUTHORITY, meta_lockup = lockup_default\<rparr>"

definition sample_delegation :: stake_delegation where
  "sample_delegation = \<lparr>voter_pubkey = VOTE, delegated_stake = 2000000, activation_epoch = 1,
     deactivation_epoch = EPOCH_MAX, credits_observed = 0\<rparr>"

definition sample_stake_state :: "bytes \<Rightarrow> stake_state option" where
  "sample_stake_state bs =
     (if bs = [0] then Some SS_Uninitialized
      else if bs = [1] then Some (SS_Initialized sample_meta)
      else if bs = [2] then Some (SS_Stake sample_meta sample_delegation)
      else None)"

definition sample_unpack_mint :: "bytes \<Rightarrow> program_error + mint" where
  "sample_unpack_mint bs =
     (case de_u64 bs of
        None \<Rightarrow> Inl InvalidAccountData
      | Some (n, _) \<Rightarrow> Inr \<lparr>mint_decimals = 9, mint_supply = n, mint_authority = Some WITHDRAW_AUTHORITY,
                           freeze_authority = None, mint_extensions = Inr []\<rparr>)"

definition sample_rent :: rent where
  "sample_rent = \<lparr>minimum_balance = (\<lambda>_. 100), is_exempt = (\<lambda>l _. 100 \<le> l)\<rparr>"

definition sample_rt :: runtime where
  "sample_rt =
     \<lparr>rt_find_program_address = (\<lambda>seeds _. (word_of_nat (1000 + length (concat seeds)), 255)),
      rt_create_program_address = (\<lambda>seeds _. Inr (word_of_nat (999 + length (concat seeds)))),
      rt_clock_get = Inr 5,
      rt_clock_from_account_info = (\<lambda>_ _. Inr 5),
      rt_rent_get = Inr sample_rent,
      rt_rent_from_account_info = (\<lambda>_ _. Inr sample_rent),
      rt_epoch_rewards_active = Inr False,
      rt_get_minimum_delegation = Inr 1,
      rt_stake_space = 200,
      rt_insufficient_delegation = 12,
      rt_native_mint_decimals = 9,
      rt_stake_state = sample_stake_state,
      rt_unpack_mint = sample_unpack_mint,
      rt_unpack_token_account = (\<lambda>_. Inr \<lparr>ta_mint = MINT, ta_is_initialized = True, ta_amount = 0,
        ta_extensions = Inr []\<rparr>),
      rt_check_spl_token_program_account =
        (\<lambda>k. if k = TOKEN_PROGRAM then Inr () else Inl IncorrectProgramId),
      rt_build_token_instruction = (\<lambda>_. Inr ()),
      rt_system_program = SYSTEM_PROGRAM,
      rt_stake_program = STAKE_PROGRAM,
      rt_metadata_program = 19,
      rt_invoke = sample_invoke\<rparr>"

lemma sample_rt_simps [simp]:
  "rt_find_program_address sample_rt seeds p = (word_of_nat (1000 + length (concat seeds)), 255)"
  "rt_create_program_address sample_rt seeds p = Inr (word_of_nat (999 + length (concat seeds)))"
  "rt_clock_get sample_rt = Inr 5"
  "rt_clock_from_account_info sample_rt info w = Inr 5"
  "rt_rent_get sample_rt = Inr sample_rent"
  "rt_rent_from_account_info sample_rt info w = Inr sample_rent"
  "rt_epoch_rewards_active sample_rt = Inr False"
  "rt_get_minimum_delegation sample_rt = Inr 1"
  "rt_stake_space sample_rt = 200"
  "rt_native_mint_decimals sample_rt = 9"
  "rt_stake_state sample_rt = sample_stake_state"
  "rt_unpack_mint sample_rt = sample_unpack_mint"
  "rt_unpack_token_account sample_rt bs =
     Inr \<lparr>ta_mint = MINT, ta_is_initialized = True, ta_amount = 0, ta_extensions = Inr []\<rparr>"
  "rt_check_spl_token_program_account sample_rt k =
     (if k = TOKEN_PROGRAM then Inr () else Inl IncorrectProgramId)"
  "rt_build_token_instruction sample_rt ix = Inr ()"
  "rt_system_program sample_rt = SYSTEM_PROGRAM"
  "rt_stake_program sample_rt = STAKE_PROGRAM"
  "rt_metadata_program sample_rt = 19"
  "rt_invoke sample_rt = sample_invoke"
  by (simp_all add: sample_rt_def)

lemma move_lamports_data:
  "move_lamports a b amount w = Inr w' \<Longrightarrow> acc_data (w' k) = acc_data (w k) \<and> acc_owner (w' k) = acc_owner (w k)"
  by (auto simp: move_lamports_def Let_def ok_iff)

lemma change_supply_Inr:
  "change_supply p m f w = Inr w' \<longleftrightarrow> p = TOKEN_PROGRAM \<and> acc_owner (w m) = TOKEN_PROGRAM \<and>
     (\<exists>n rest n'. de_u64 (acc_data (w m)) = Some (n, rest) \<and> f n = Some n' \<and> w' = set_data w m (ser_u64 n' @ rest))"
  by (auto simp: change_supply_def ok_iff split: option.splits)

lemma sample_respects_owner: "respects_owner sample_rt PROGRAM"
  unfolding respects_owner_def
proof (intro allI impI)
  fix ix infos signers w w' k
  assume run: "rt_invoke sample_rt ix infos signers w = Inr w'" and k: "acc_owner (w k) = PROGRAM"
  show "acc_data (w' k) = acc_data (w k) \<and> acc_owner (w' k) = PROGRAM"
    using run k by (cases ix) (auto simp: change_supply_Inr dest: move_lamports_data [where k = k])
qed

subsection \<open>The world\<close>

definition sample_stake_pool :: stake_pool where
  "sample_stake_pool = stake_pool_default
     \<lparr>sp_manager := 4, sp_staker := 3, sp_stake_deposit_authority := 1039,
      sp_stake_withdraw_bump_seed := 255, sp_validator_list := LIST, sp_reserve_stake := RESERVE,
      sp_pool_mint := MINT, sp_manager_fee_account := 7, sp_token_program_id := TOKEN_PROGRAM,
      sp_total_lamports := 12000000, sp_pool_token_supply := 10000000, sp_last_update_epoch := 5,
      sp_epoch_fee := \<lparr>denominator = 10, numerator = 1\<rparr>,
      sp_sol_deposit_fee := \<lparr>denominator = 100, numerator = 1\<rparr>, sp_sol_referral_fee := 50,
      sp_stake_withdrawal_fee := \<lparr>denominator = 1000, numerator = 1\<rparr>,
      sp_sol_withdrawal_fee := \<lparr>denominator = 1000, numerator = 1\<rparr>,
      sp_max_validator_stake := Some 5000000\<rparr>"

definition sample_entry :: validator_stake_info where
  "sample_entry = vsi_default\<lparr>vs_active_stake_lamports := 2000100, vs_last_update_epoch := 5,
     vs_status := status_to_u8 Active, vs_vote_account_address := VOTE\<rparr>"

definition sample_removed :: validator_stake_info where
  "sample_removed = vsi_default\<lparr>vs_last_update_epoch := 5, vs_status := status_to_u8 ReadyForRemoval,
     vs_vote_account_address := 24\<rparr>"

definition sample_header :: validator_list_header where
  "sample_header = \<lparr>vl_account_type = ValidatorList, vl_max_validators = 10\<rparr>"

definition sample_vec :: bytes where
  "sample_vec = bv_image [ser_vsi sample_entry, ser_vsi sample_removed] (replicate 584 0)"

definition sample_list_data :: bytes where
  "sample_list_data = ser_header sample_header @ sample_vec"

definition sample_account :: "u64 \<Rightarrow> bytes \<Rightarrow> pubkey \<Rightarrow> account" where
  "sample_account l d p = \<lparr>acc_lamports = l, acc_data = d, acc_owner = p\<rparr>"

definition sample_world :: world where
  "sample_world = (\<lambda>_. sample_account 0 [] SYSTEM_PROGRAM)
     (POOL := sample_account 1000 (ser_stake_pool sample_stake_pool @ replicate 900 0) PROGRAM,
      LIST := sample_account 1000 sample_list_data PROGRAM,
      RESERVE := sample_account 10100000 [1] STAKE_PROGRAM,
      MINT := sample_account 1000 (ser_u64 10000000) TOKEN_PROGRAM,
      7 := sample_account 1000 [] TOKEN_PROGRAM,
      11 := sample_account 5000000 [] SYSTEM_PROGRAM,
      12 := sample_account 1000 [] TOKEN_PROGRAM,
      VALIDATOR_STAKE := sample_account 2000100 [2] STAKE_PROGRAM,
      TRANSIENT_STAKE := sample_account 100 [2] STAKE_PROGRAM,
      22 := sample_account 1500000 [2] STAKE_PROGRAM)"

definition view :: "pubkey \<Rightarrow> account_info" where
  "view k = \<lparr>ai_key = k, ai_is_signer = False, ai_is_writable = True\<rparr>"

definition signer :: "pubkey \<Rightarrow> account_info" where
  "signer k = \<lparr>ai_key = k, ai_is_signer = True, ai_is_writable = True\<rparr>"

lemma view_simps [simp]:
  "ai_key (view k) = k" "\<not> ai_is_signer (view k)" "ai_is_writable (view k)"
  "ai_key (signer k) = k" "ai_is_signer (signer k)" "ai_is_writable (signer k)"
  by (simp_all add: view_def signer_def)

lemma sample_account_simps [simp]:
  "acc_lamports (sample_account l d p) = l" "acc_data (sample_account l d p) = d"
  "acc_owner (sample_account l d p) = p"
  by (simp_all add: sample_account_def)

subsection \<open>Evaluation\<close>

text \<open>The collection \<open>run_eval\<close> computes the checks and calls of a handler on the sample world.\<close>

named_theorems run_eval "computation of handlers on the sample world"

lemma sample_pool_simps [simp]:
  "sp_account_type sample_stake_pool = StakePool" "sp_manager sample_stake_pool = 4"
  "sp_staker sample_stake_pool = 3" "sp_stake_deposit_authority sample_stake_pool = 1039"
  "sp_stake_withdraw_bump_seed sample_stake_pool = 255" "sp_validator_list sample_stake_pool = LIST"
  "sp_reserve_stake sample_stake_pool = RESERVE" "sp_pool_mint sample_stake_pool = MINT"
  "sp_manager_fee_account sample_stake_pool = 7" "sp_token_program_id sample_stake_pool = TOKEN_PROGRAM"
  "sp_total_lamports sample_stake_pool = 12000000" "sp_pool_token_supply sample_stake_pool = 10000000"
  "sp_last_update_epoch sample_stake_pool = 5" "sp_lockup sample_stake_pool = lockup_default"
  "sp_epoch_fee sample_stake_pool = \<lparr>denominator = 10, numerator = 1\<rparr>"
  "sp_preferred_deposit_validator_vote_address sample_stake_pool = None"
  "sp_preferred_withdraw_validator_vote_address sample_stake_pool = None"
  "sp_stake_deposit_fee sample_stake_pool = fee_default"
  "sp_stake_withdrawal_fee sample_stake_pool = \<lparr>denominator = 1000, numerator = 1\<rparr>"
  "sp_stake_referral_fee sample_stake_pool = 0" "sp_sol_deposit_authority sample_stake_pool = None"
  "sp_sol_deposit_fee sample_stake_pool = \<lparr>denominator = 100, numerator = 1\<rparr>"
  "sp_sol_referral_fee sample_stake_pool = 50" "sp_sol_withdraw_authority sample_stake_pool = None"
  "sp_sol_withdrawal_fee sample_stake_pool = \<lparr>denominator = 1000, numerator = 1\<rparr>"
  "sp_max_validator_stake sample_stake_pool = Some 5000000" "is_valid sample_stake_pool"
  by (simp_all add: sample_stake_pool_def stake_pool_default_def is_valid_def)

lemma sample_entry_simps [simp]:
  "vs_active_stake_lamports sample_entry = 2000100" "vs_transient_stake_lamports sample_entry = 0"
  "vs_last_update_epoch sample_entry = 5" "vs_transient_seed_suffix sample_entry = 0"
  "vs_validator_seed_suffix sample_entry = 0" "vs_status sample_entry = status_to_u8 Active"
  "vs_vote_account_address sample_entry = VOTE"
  "vs_active_stake_lamports sample_removed = 0" "vs_transient_stake_lamports sample_removed = 0"
  "vs_last_update_epoch sample_removed = 5" "vs_status sample_removed = status_to_u8 ReadyForRemoval"
  "vs_vote_account_address sample_removed = 24"
  by (simp_all add: sample_entry_def sample_removed_def vsi_default_def)

lemma sample_world_simps [simp]:
  "sample_world POOL = sample_account 1000 (ser_stake_pool sample_stake_pool @ replicate 900 0) PROGRAM"
  "sample_world LIST = sample_account 1000 sample_list_data PROGRAM"
  "sample_world RESERVE = sample_account 10100000 [1] STAKE_PROGRAM"
  "sample_world MINT = sample_account 1000 (ser_u64 10000000) TOKEN_PROGRAM"
  "sample_world 7 = sample_account 1000 [] TOKEN_PROGRAM"
  "sample_world 11 = sample_account 5000000 [] SYSTEM_PROGRAM"
  "sample_world 12 = sample_account 1000 [] TOKEN_PROGRAM"
  "sample_world VALIDATOR_STAKE = sample_account 2000100 [2] STAKE_PROGRAM"
  "sample_world TRANSIENT_STAKE = sample_account 100 [2] STAKE_PROGRAM"
  "sample_world 22 = sample_account 1500000 [2] STAKE_PROGRAM"
  "sample_world 20 = sample_account 0 [] SYSTEM_PROGRAM"
  "sample_world 1068 = sample_account 0 [] SYSTEM_PROGRAM"
  by (simp_all add: sample_world_def)

lemma sample_vec_wf: "bv_wf ENTRY_LEN [ser_vsi sample_entry, ser_vsi sample_removed]"
  by (simp add: bv_wf_def)

lemma sample_list [simp]:
  "list_ok sample_list_data" "list_infos sample_list_data = [sample_entry, sample_removed]"
  "drop HEADER_LEN sample_list_data = sample_vec"
  "deserialize_vec sample_list_data = Inr (sample_header, sample_vec)"
proof -
  show d: "drop HEADER_LEN sample_list_data = sample_vec" by (simp add: sample_list_data_def)
  show "list_infos sample_list_data = [sample_entry, sample_removed]"
    using sample_vec_wf by (simp add: list_infos_def d) (simp add: sample_vec_def)
  show "list_ok sample_list_data"
    using bv_invar_image [OF sample_vec_wf]
    by (simp add: list_ok_def d) (simp add: sample_list_data_def sample_vec_def)
  show "deserialize_vec sample_list_data = Inr (sample_header, sample_vec)"
    using d by (simp add: deserialize_vec_def sample_list_data_def chd.de_ser)
qed

lemma sample_header_valid [simp]: "header_is_valid sample_header" "vl_max_validators sample_header = 10"
  by (simp_all add: header_is_valid_def sample_header_def)

lemma sample_find [simp]:
  "find_validator sample_vec VOTE = Inr (Some 4)"
  "find_validator sample_vec 23 = Inr None"
  "entry_at sample_vec 4 = sample_entry"
  "find_validator_or_fail sample_vec VOTE = Inr (4, sample_entry)"
  "bv_len sample_vec = Inr 2"
proof -
  note f = find_validator_infos [OF sample_list(1), unfolded sample_list(2,3)]
  show v: "find_validator sample_vec VOTE = Inr (Some 4)" and "find_validator sample_vec 23 = Inr None"
    by (simp_all add: f)
  show e: "entry_at sample_vec 4 = sample_entry"
    using list_infos_nth [of 0 sample_list_data] by simp
  show "find_validator_or_fail sample_vec VOTE = Inr (4, sample_entry)"
    by (simp add: find_validator_or_fail_def v e)
  show "bv_len sample_vec = Inr 2" using sample_vec_wf by (simp add: sample_vec_def)
qed

lemma seed_lengths [simp]:
  "length AUTHORITY_WITHDRAW = 8" "length AUTHORITY_DEPOSIT = 7" "length TRANSIENT_STAKE_SEED_PREFIX = 9"
  "length (seed_bytes s) = (if s = 0 then 0 else 4)"
  by (simp_all add: AUTHORITY_WITHDRAW_def AUTHORITY_DEPOSIT_def TRANSIENT_STAKE_SEED_PREFIX_def ascii_def
      seed_bytes_def)

lemma sample_read_pool [simp]:
  "read_stake_pool sample_world (view POOL) = Inr sample_stake_pool"
  "load_stake_pool PROGRAM sample_world (view POOL) = Inr sample_stake_pool"
  by (simp_all add: load_stake_pool_def check_account_owner_def owner_of_def read_stake_pool_def data_of_def
      csp.de_ser)

lemma sample_states [simp]:
  "sample_stake_state [1] = Some (SS_Initialized sample_meta)"
  "sample_stake_state [2] = Some (SS_Stake sample_meta sample_delegation)"
  "rent_exempt_reserve sample_meta = 100" "voter_pubkey sample_delegation = VOTE"
  "delegated_stake sample_delegation = 2000000" "deactivation_epoch sample_delegation = EPOCH_MAX"
  "activation_epoch sample_delegation = 1" "stake_is_usable_by_pool sample_meta 1040 lockup_default"
  "minimum_balance sample_rent n = 100" "is_exempt sample_rent l n \<longleftrightarrow> 100 \<le> l"
  by (simp_all add: sample_stake_state_def sample_meta_def sample_delegation_def sample_rent_def
      stake_is_usable_by_pool_def)

lemma sample_minimums [run_eval]:
  "minimum_reserve_lamports sample_meta = 100" "minimum_delegation 1 = 1000000"
  "minimum_stake_lamports sample_meta 1 = 1000100"
  by (simp_all add: minimum_reserve_lamports_def MINIMUM_RESERVE_LAMPORTS_def saturating_add_def
      minimum_delegation_def MINIMUM_ACTIVE_STAKE_def minimum_stake_lamports_def max_def)

declare check_account_owner_def [run_eval] owner_of_def [run_eval] data_of_def [run_eval] lamports_of_def [run_eval]
  check_authority_withdraw_def [run_eval] check_program_derived_authority_def [run_eval]
  check_sol_deposit_authority_def [run_eval] check_sol_withdraw_authority_def [run_eval]
  check_stake_deposit_authority_def [run_eval] check_mint_def [run_eval] sample_unpack_mint_def [run_eval]
  cu64.de_ser_exact [run_eval] check_reserve_stake_def [run_eval] check_validator_list_def [run_eval]
  check_system_program_def [run_eval] check_stake_program_def [run_eval] check_staker_def [run_eval]
  check_manager_def [run_eval] check_manager_fee_info_def [run_eval]
  sol_transfer_def [run_eval] stake_split_def [run_eval] stake_merge_def [run_eval] stake_withdraw_def [run_eval]
  stake_delegate_def [run_eval] stake_deactivate_def [run_eval] stake_authorize_def [run_eval]
  stake_authorize_signed_def [run_eval] create_stake_account_def [run_eval]
  token_mint_to_def [run_eval] token_burn_def [run_eval] token_transfer_def [run_eval]
  pool_split_def [run_eval] pool_merge_def [run_eval] pool_withdraw_def [run_eval]
  pool_delegate_def [run_eval] pool_deactivate_def [run_eval]
  invoke_def [run_eval] invoke_signed_def [run_eval] move_lamports_def [run_eval] change_supply_def [run_eval]
  checked_sub_def [run_eval] checked_add_def [run_eval] saturating_sub_def [run_eval] saturating_add_def [run_eval]
  Let_def [run_eval] calc_or_fail_def [run_eval] load_validator_list_def [run_eval]
  get_stake_state_def [run_eval] read_stake_state_def [run_eval]
  check_validator_stake_address_def [run_eval] check_transient_stake_address_def [run_eval]
  find_stake_program_address_def [run_eval] find_transient_stake_program_address_def [run_eval]
  find_deposit_authority_program_address_def [run_eval] find_withdraw_authority_program_address_def [run_eval]
  list_vec_def [run_eval]

text \<open>The pool account has room for any record.\<close>

lemma sample_pool_room [simp]:
  "length (ser_stake_pool sp) \<le> length (ser_stake_pool sample_stake_pool) + 900"
  using length_ser_stake_pool_le [of sp] by (simp add: STAKE_POOL_MAX_LEN_def)

declare write_stake_pool_def [run_eval] overwrite_def [run_eval] credit_pool_def [run_eval] debit_pool_def [run_eval]

end
