(* ===== verification/Sample_Runs.thy ===== *)
theory Sample_Runs
  imports Samples Frames
begin

section \<open>Successful runs\<close>

text \<open>
  For every handler an instruction that succeeds on the sample world, so that the
  hypotheses of the statements about successful runs can be met.
\<close>

definition deposit_sol_accounts :: "account_info list" where
  "deposit_sol_accounts = [view POOL, view WITHDRAW_AUTHORITY, view RESERVE, signer 11, view 12, view 7, view 18,
     view MINT, view SYSTEM_PROGRAM, view TOKEN_PROGRAM]"

lemma sample_deposit_sol_amounts: "deposit_sol_amounts sample_stake_pool 1200 (Some 1) =
   Inr \<lparr>da_new = 1000, da_user = 990, da_manager = 5, da_referral = 5\<rparr>"
proof -
  have "calc_pool_tokens_for_deposit sample_stake_pool 1200 = Some 1000"
    by (simp add: int_ops deposit_tokens_def)
  moreover have "calc_pool_tokens_sol_deposit_fee sample_stake_pool 1000 = Some 10"
    by (simp add: int_ops fee_amount_def)
  moreover have "calc_pool_tokens_sol_referral_fee sample_stake_pool 10 = Some 5"
    by (simp add: int_ops)
  ultimately show ?thesis
    by (simp add: deposit_sol_amounts_def check_deposit_amounts_def run_eval)
qed

lemma sample_deposit_sol:
  "is_ok (process_deposit_sol sample_rt PROGRAM deposit_sol_accounts 1200 (Some 1) sample_world)"
  by (simp add: process_deposit_sol_def deposit_sol_accounts_def sample_deposit_sol_amounts
    mint_deposit_def pool_mint_to_def run_eval)

definition withdraw_sol_accounts :: "account_info list" where
  "withdraw_sol_accounts = [view POOL, view WITHDRAW_AUTHORITY, signer 11, view 12, view RESERVE, view 20, view 7,
     view MINT, view 14, view 15, view STAKE_PROGRAM, view TOKEN_PROGRAM]"

lemma sample_withdraw_sol_amounts:
  "withdraw_amounts sample_rt sample_stake_pool sample_world
     (calc_pool_tokens_sol_withdrawal_fee sample_stake_pool 1000) (view 12) (view 7) 1000 (Some 1) = Inr (1, 999, 1198)"
proof -
  have "calc_pool_tokens_sol_withdrawal_fee sample_stake_pool 1000 = Some 1"
    by (simp add: int_ops fee_amount_def)
  moreover have "calc_lamports_withdraw_amount sample_stake_pool 999 = Some 1198"
    by (simp add: int_ops withdraw_lamports_of_def)
  ultimately show ?thesis
    by (simp add: withdraw_amounts_def run_eval)
qed

lemma sample_withdraw_sol:
  "is_ok (process_withdraw_sol sample_rt PROGRAM withdraw_sol_accounts 1000 (Some 1) sample_world)"
  by (simp add: process_withdraw_sol_def withdraw_sol_accounts_def sample_withdraw_sol_amounts
    check_reserve_withdrawal_def run_eval)

definition deposit_stake_accounts :: "account_info list" where
  "deposit_stake_accounts = [view POOL, view LIST, view 1039, view WITHDRAW_AUTHORITY, view 22, view VALIDATOR_STAKE, 
     view RESERVE, view 12, view 7, view 18, view MINT, view 14, view 15, view TOKEN_PROGRAM, view STAKE_PROGRAM]"

lemma sample_deposit_stake_amounts: "deposit_stake_amounts sample_stake_pool 1500000 0 None =
   Inr \<lparr>da_new = 1250000, da_user = 1237500, da_manager = 12500, da_referral = 0\<rparr>"
proof -
  have "calc_pool_tokens_for_deposit sample_stake_pool 1500000 = Some 1250000"
    "calc_pool_tokens_for_deposit sample_stake_pool 0 = Some 0"
    by (simp_all add: int_ops deposit_tokens_def)
  moreover have "calc_pool_tokens_sol_deposit_fee sample_stake_pool 1250000 = Some 12500"
    by (simp add: int_ops fee_amount_def)
  moreover have "calc_pool_tokens_stake_deposit_fee sample_stake_pool 0 = Some 0"
    by (simp add: int_ops fee_amount_def fee_default_def)
  moreover have "calc_pool_tokens_stake_referral_fee sample_stake_pool 12500 = Some 0"
    by (simp add: int_ops)
  ultimately show ?thesis
    by (simp add: deposit_stake_amounts_def check_deposit_amounts_def run_eval)
qed

lemma sample_deposit_stake:
  "is_ok (process_deposit_stake sample_rt PROGRAM deposit_stake_accounts None sample_world)"
  by (simp add: process_deposit_stake_def deposit_stake_accounts_def deposit_stake_def check_preferred_deposit_def
    deposit_stake_merge_def sample_deposit_stake_amounts mint_deposit_def pool_mint_to_def run_eval)

definition withdraw_stake_accounts :: "account_info list" where
  "withdraw_stake_accounts = [view POOL, view LIST, view WITHDRAW_AUTHORITY, view VALIDATOR_STAKE, view 20, signer 11, signer 11,
     view 12, view 7, view MINT, view 14, view TOKEN_PROGRAM, view STAKE_PROGRAM]"

lemma sample_withdraw_stake_amounts:
  "withdraw_amounts sample_rt sample_stake_pool sample_world
     (calc_pool_tokens_stake_withdrawal_fee sample_stake_pool 100000) (view 12) (view 7) 100000 (Some 1) = Inr (100, 99900, 119880)"
proof -
  have "calc_pool_tokens_stake_withdrawal_fee sample_stake_pool 100000 = Some 100"
    by (simp add: int_ops fee_amount_def)
  moreover have "calc_lamports_withdraw_amount sample_stake_pool 99900 = Some 119880"
    by (simp add: int_ops withdraw_lamports_of_def)
  ultimately show ?thesis
    by (simp add: withdraw_amounts_def run_eval)
qed

lemma sample_source: "select_withdraw_source sample_rt PROGRAM (view POOL) sample_stake_pool sample_vec (view VALIDATOR_STAKE) 119880 sample_world
   = Inr (sample_stake_pool, 119880, Some (4, sample_entry, SourceActive))"
proof -
  have p: "get_lamports_per_pool_token sample_stake_pool = Some 2" by (simp add: int_ops)
  have "bv_find ENTRY_LEN (\<lambda>x. active_lamports_greater_than x 1000102 \<and> is_active x) sample_vec = Inr (Some 4)"
    using sample_vec_wf by (simp add: sample_vec_def bv_find_image layout_ser_vsi)
  moreover have "bv_find ENTRY_LEN (\<lambda>x. transient_lamports_greater_than x 1000102 \<and> is_active x) sample_vec = Inr None"
    using sample_vec_wf by (simp add: sample_vec_def bv_find_image layout_ser_vsi)
  ultimately show ?thesis using p
  by (simp add: select_withdraw_source_def withdraw_source_of_def withdraw_limits_def check_preferred_withdraw_def run_eval)
qed

lemma sample_withdraw_stake:
  "is_ok (process_withdraw_stake sample_rt PROGRAM withdraw_stake_accounts 100000 (Some 1) sample_world)"
  by (simp add: process_withdraw_stake_def withdraw_stake_accounts_def sample_withdraw_stake_amounts sample_source
   withdraw_stake_calls_def update_withdraw_source_def debit_entry_def run_eval)


definition add_validator_accounts :: "account_info list" where
  "add_validator_accounts = [view POOL, signer 3, view RESERVE, view WITHDRAW_AUTHORITY, view LIST, view 1068,
     view 23, view 16, view 14, view 15, view 17, view SYSTEM_PROGRAM, view STAKE_PROGRAM]"

lemma sample_push: "\<exists>v. bv_push (ser_vsi e) sample_vec = Inr v"
proof -
  have "replicate 584 (0 :: u8) = replicate ENTRY_LEN 0 @ replicate (584 - ENTRY_LEN) 0"
    by (simp add: replicate_add [symmetric] ENTRY_LEN_def)
  then show ?thesis
    using bv_push_image [OF sample_vec_wf, of "ser_vsi e" "replicate ENTRY_LEN 0" "replicate (584 - ENTRY_LEN) 0"]
    by (simp add: sample_vec_def)
qed

lemma sample_add_validator:
  "is_ok (process_add_validator_to_pool sample_rt PROGRAM add_validator_accounts 7 sample_world)"
  using sample_push [of "new_validator_entry 23 1000100 5 7"]
  by (auto simp: process_add_validator_to_pool_def add_validator_accounts_def add_validator_list_check_def
    MAX_VALIDATORS_IN_POOL_def add_validator_funding_def push_entry_def run_eval)

definition remove_validator_accounts :: "account_info list" where
  "remove_validator_accounts = [view POOL, signer 3, view WITHDRAW_AUTHORITY, view LIST, view VALIDATOR_STAKE,
     view TRANSIENT_STAKE, view 14, view STAKE_PROGRAM]"

lemma sample_remove_validator:
  "is_ok (process_remove_validator_from_pool sample_rt PROGRAM remove_validator_accounts sample_world)"
  by (simp add: process_remove_validator_from_pool_def remove_validator_accounts_def remove_transient_def put_entry_def set_list_vec_def run_eval)

definition decrease_accounts :: "account_info list" where
  "decrease_accounts = [view POOL, signer 3, view WITHDRAW_AUTHORITY, view LIST, view RESERVE, view VALIDATOR_STAKE,
     view TRANSIENT_STAKE, view 14, view 15, view SYSTEM_PROGRAM, view STAKE_PROGRAM]"

lemma sample_decrease:
  "is_ok (process_decrease_validator_stake sample_rt PROGRAM decrease_accounts 1000000 0 None True sample_world)"
  by (simp add: process_decrease_validator_stake_def decrease_accounts_def next_account_if_def decrease_rent_def
    zip_option_def decrease_validator_stake_def decrease_pending_check_def decrease_amount_check_def decrease_source_def
    decrease_into_transient_def fund_transient_rent_def run_eval)

definition increase_accounts :: "account_info list" where
  "increase_accounts = [view POOL, signer 3, view WITHDRAW_AUTHORITY, view LIST, view RESERVE, view TRANSIENT_STAKE,
     view VALIDATOR_STAKE, view VOTE, view 14, view 16, view 15, view 17, view SYSTEM_PROGRAM, view STAKE_PROGRAM]"

lemma sample_increase:
  "is_ok (process_increase_validator_stake sample_rt PROGRAM increase_accounts 1500000 0 None sample_world)"
  by (simp add: process_increase_validator_stake_def increase_accounts_def next_account_if_def increase_rent_def
    zip_option_def increase_validator_stake_def increase_pending_check_def increase_limit_check_def stake_lamports_def
    increase_amount_check_def increase_source_def increase_into_transient_def check_validator_stake_account_def
    check_stake_state_def run_eval)

definition update_list_accounts :: "account_info list" where
  "update_list_accounts = [view POOL, view WITHDRAW_AUTHORITY, view LIST, view RESERVE, view 14, view 15, view STAKE_PROGRAM,
     view VALIDATOR_STAKE, view TRANSIENT_STAKE]"

lemma sample_slice: "\<exists>s. bv_deserialize_slice ENTRY_LEN 0 (Suc 0) sample_vec = Inr (4, s)"
  by (simp add: bv_deserialize_slice_def VEC_SIZE_BYTES_def slice_def) (simp add: sample_vec_def length_bv_image [OF sample_vec_wf])

lemma sample_update_list:
  "is_ok (process_update_validator_list_balance sample_rt PROGRAM update_list_accounts 0 False sample_world)"
  using sample_slice
  by (auto simp: process_update_validator_list_balance_def update_list_accounts_def 
    update_record_def update_transient_def update_active_def usable_def stake_state_of_def
    update_active_delegated_def run_eval simp del: status_to_u8.simps)

definition update_pool_accounts :: "account_info list" where
  "update_pool_accounts = [view POOL, view WITHDRAW_AUTHORITY, view LIST, view RESERVE, view 7, view MINT, view TOKEN_PROGRAM]"

lemma sample_all_records: "all_records sample_vec = Inr [sample_entry, sample_removed]"
  using all_records_infos [OF sample_list(1)] by simp

lemma sample_update_pool:
  "is_ok (process_update_stake_pool_balance sample_rt PROGRAM update_pool_accounts sample_world)"
proof -
  have "calc_epoch_fee_amount sample_stake_pool 100000 = Some 8271"
    by (simp add: calc_epoch_fee_amount_Some fee_at_most_one_def epoch_fee_tokens_def fee_amount_def)
  then show ?thesis
  by (simp add: process_update_stake_pool_balance_def update_pool_accounts_def reserve_total_def sample_all_records stake_lamports_def
    epoch_fee_of_def run_eval)
qed

definition cleanup_accounts :: "account_info list" where
  "cleanup_accounts = [view POOL, view LIST]"

lemma sample_cleanup:
  "is_ok (process_cleanup_removed_validator_entries sample_rt PROGRAM cleanup_accounts sample_world)"
proof -
  have inv: "bv_invar ENTRY_LEN sample_vec" using sample_list(1,3) by (simp add: list_ok_def)
  obtain v where "bv_retain ENTRY_LEN (\<lambda>x. \<not> is_removed x) sample_vec = Inr v"
    using bv.retain_spec [OF inv] by blast
  then show ?thesis
    by (simp add: process_cleanup_removed_validator_entries_def cleanup_accounts_def recheck_preferred_def
        set_list_vec_def read_stake_pool_def csp.de_ser run_eval)
qed

lemma sample_set_fee:
  "is_ok (process_set_fee sample_rt PROGRAM [view POOL, signer 4] (SolDeposit \<lparr>denominator = 50, numerator = 1\<rparr>) sample_world)"
  by (simp add: process_set_fee_def check_too_high_def run_eval)

lemma sample_set_manager:
  "is_ok (process_set_manager sample_rt PROGRAM [view POOL, signer 4, signer 21, view 7] sample_world)"
  by (simp add: process_set_manager_def run_eval)

lemma sample_set_staker:
  "is_ok (process_set_staker sample_rt PROGRAM [view POOL, signer 4, view 21] sample_world)"
  by (simp add: process_set_staker_def run_eval)

lemma sample_set_preferred:
  "is_ok (process_set_preferred_validator sample_rt PROGRAM [view POOL, signer 3, view LIST] PreferredDeposit (Some VOTE)
     sample_world)"
  by (simp add: process_set_preferred_validator_def check_preferred_def run_eval)

end
