(* ===== verification/Sample_Pool.thy ===== *)
theory Sample_Pool
  imports Machine Sample_Runs
begin

section \<open>The sample pool is in order\<close>

text \<open>
  The sample world meets what the theorems about a pool ask for: its runtime keeps the
  data of the program and counts the supply, its pool satisfies the invariant and its
  books agree with the mint. A second world holds the accounts from which the program
  creates a pool.
\<close>

lemmas run_of = is_ok_iff [THEN iffD1]

lemma change_supply_supply:
  assumes "change_supply p m f w = Inr w'" "has_supply sample_rt TOKEN_PROGRAM k w n"
    and "\<And>x y. f x = Some y \<Longrightarrow> int (unat y) = int (unat x) + d"
  shows "\<exists>n'. has_supply sample_rt TOKEN_PROGRAM k w' n' \<and> int n' = int n + (if p = TOKEN_PROGRAM \<and> m = k then d else 0)"
proof -
  from assms(1) obtain x rest y where p: "p = TOKEN_PROGRAM" and x: "de_u64 (acc_data (w m)) = Some (x, rest)"
      and y: "f x = Some y" and w': "w' = set_data w m (ser_u64 y @ rest)"
    by (auto simp: change_supply_Inr)
  show ?thesis
  proof (cases "m = k")
    case True
    then have "n = unat x" using assms(2) x by (simp add: has_supply_def supply_at_def sample_unpack_mint_def)
    then show ?thesis using True p assms(2) assms(3) [OF y]
      by (simp add: w' has_supply_def supply_at_def sample_unpack_mint_def cu64.de_ser)
  next
    case False
    then show ?thesis using assms(2) by (simp add: w' has_supply_def supply_at_def)
  qed
qed

lemma move_lamports_supply:
  "move_lamports a b amount w = Inr w' \<Longrightarrow> has_supply sample_rt tp k w n \<Longrightarrow> has_supply sample_rt tp k w' n"
  by (auto simp: has_supply_def supply_at_def dest: move_lamports_data [where k = k])

lemma sample_tracks_supply: "tracks_supply sample_rt TOKEN_PROGRAM"
  unfolding tracks_supply_def
proof (intro allI impI)
  fix ix infos s w w' mint n
  assume "rt_invoke sample_rt ix infos s w = Inr w'" and n: "has_supply sample_rt TOKEN_PROGRAM mint w n"
  then have run: "sample_invoke ix infos s w = Inr w'" by simp
  show "\<exists>n'. has_supply sample_rt TOKEN_PROGRAM mint w' n' \<and> int n' = int n + supply_change TOKEN_PROGRAM mint ix"
    using run n
  proof (cases ix)
    case (TokenMintTo p m x y amount)
    then have "change_supply p m (\<lambda>n. checked_add n amount) w = Inr w'" using run by simp
    from change_supply_supply [OF this n, of "int (unat amount)"] show ?thesis
      by (simp add: TokenMintTo checked_add_Some)
  next
    case (TokenBurn p x m y amount)
    then have "change_supply p m (\<lambda>n. checked_sub n amount) w = Inr w'" using run by simp
    from change_supply_supply [OF this n, of "- int (unat amount)"] show ?thesis
      by (simp add: TokenBurn checked_sub_Some)
  qed (auto dest: move_lamports_supply)
qed

lemma sample_counted: "counted sample_rt PROGRAM TOKEN_PROGRAM"
  using sample_respects_owner sample_tracks_supply by (simp add: counted_def)

lemma sample_pool_ok: "pool_ok PROGRAM (view POOL) sample_stake_pool sample_world"
  by (simp add: pool_ok_def owner_of_def votes_def)

lemma sample_in_sync: "in_sync sample_rt sample_stake_pool sample_world"
  by (simp add: in_sync_def has_supply_def supply_at_def sample_unpack_mint_def cu64.de_ser_exact)

lemma sample_validators: "validators_of sample_stake_pool sample_world = [sample_entry, sample_removed]"
  by simp

lemma sample_list_of: "list_ok (data_of sample_world (view LIST))"
    "list_infos (data_of sample_world (view LIST)) = [sample_entry, sample_removed]"
  by (simp_all add: data_of_def)

subsection \<open>Before a pool exists\<close>

text \<open>The accounts of a new pool: an uninitialized record, an uninitialized list and an empty mint.\<close>

definition fresh_list :: validator_list where
  "fresh_list = \<lparr>vl_header = \<lparr>vl_account_type = Uninitialized, vl_max_validators = 0\<rparr>, vl_validators = []\<rparr>"

definition fresh_pool :: stake_pool where
  "fresh_pool = stake_pool_default\<lparr>sp_version := 0, sp_account_type := Uninitialized\<rparr>"

definition fresh_world :: world where
  "fresh_world = sample_world
     (POOL := sample_account 1000 (ser_stake_pool fresh_pool @ replicate 900 0) PROGRAM,
      LIST := sample_account 1000 (ser_validator_list fresh_list @ replicate 730 0) PROGRAM,
      MINT := sample_account 1000 (ser_u64 0) TOKEN_PROGRAM)"

definition initialize_accounts :: "account_info list" where
  "initialize_accounts = [view POOL, signer 4, view 3, view WITHDRAW_AUTHORITY, view LIST, view RESERVE, view MINT,
     view 7, view TOKEN_PROGRAM]"

lemma fresh_world_simps [simp]:
  "fresh_world POOL = sample_account 1000 (ser_stake_pool fresh_pool @ replicate 900 0) PROGRAM"
  "fresh_world LIST = sample_account 1000 (ser_validator_list fresh_list @ replicate 730 0) PROGRAM"
  "fresh_world MINT = sample_account 1000 (ser_u64 0) TOKEN_PROGRAM"
  "fresh_world RESERVE = sample_account 10100000 [1] STAKE_PROGRAM"
  "fresh_world 7 = sample_account 1000 [] TOKEN_PROGRAM"
  by (simp_all add: fresh_world_def)

lemma fresh_list_simps [simp]:
  "length (ser_validator_list fresh_list) = 9" "length (vl_validators fresh_list) = 0"
  "vl_account_type (vl_header fresh_list) = Uninitialized"
  "length (ser_validator_list \<lparr>vl_header = h, vl_validators = []\<rparr>) = 9"
  by (simp_all add: fresh_list_def ser_validator_list_def ser_vec_def HEADER_LEN_def)

lemma sample_meta_simps [simp]:
  "auth_staker sample_meta = WITHDRAW_AUTHORITY" "auth_withdrawer sample_meta = WITHDRAW_AUTHORITY"
  "meta_lockup sample_meta = lockup_default"
  by (simp_all add: sample_meta_def)

lemma fresh_reads:
  "read_stake_pool fresh_world (view POOL) = Inr fresh_pool" "is_uninitialized fresh_pool"
  "read_validator_list fresh_world (view LIST) = Inr fresh_list" "header_is_uninitialized (vl_header fresh_list)"
  by (simp_all add: read_stake_pool_def read_validator_list_def data_of_def csp.de_ser fresh_pool_def
      is_uninitialized_def header_is_uninitialized_def de_ser_validator_list)

lemma fresh_pool_room [simp]: "length (ser_stake_pool sp) \<le> length (ser_stake_pool fresh_pool) + 900"
  using length_ser_stake_pool_le [of sp] by (simp add: STAKE_POOL_MAX_LEN_def)

lemma sample_initialize:
  "is_ok (process_initialize sample_rt PROGRAM initialize_accounts \<lparr>denominator = 10, numerator = 1\<rparr>
     \<lparr>denominator = 1000, numerator = 1\<rparr> \<lparr>denominator = 100, numerator = 1\<rparr> 50 10 fresh_world)"
  by (simp add: process_initialize_def initialize_accounts_def initialize_list_def fresh_reads
      calculate_max_validators_def HEADER_LEN_def ENTRY_LEN_def MAX_VALIDATORS_IN_POOL_def initialize_mint_check_def
      initialize_reserve_def initialize_authorities_def write_validator_list_def run_eval)

end
