(* ===== verification/Fund_Theorems.thy ===== *)
theory Fund_Theorems
  imports Sample_Pool
begin

section \<open>Deposits and withdrawals\<close>

text \<open>
  What a user and the other holders can rely on when a deposit or a withdrawal succeeds:
  the division of the tokens, the slippage limit, the new books and the value of a pool
  token. Every statement comes with a run on the sample world.
\<close>

lemma debit_less_no_dilution:
  assumes w: "calc_lamports_withdraw_amount sp p = Some l0" and le: "unat l \<le> unat l0"
    and c: "debit_pool sp p l = Inr sp'"
  shows "price_le sp sp'"
proof -
  have "unat l * pool_supply sp \<le> unat l0 * pool_supply sp" using le by (rule mult_le_mono1)
  also have "\<dots> \<le> unat p * pool_total sp" using w by (simp add: int_ops withdraw_lamports_fair)
  finally have "unat l * pool_supply sp \<le> unat p * pool_total sp" .
  moreover have "pool_total sp = pool_total sp' + unat l" "pool_supply sp = pool_supply sp' + unat p"
    using debit_pool_totals [OF c] by simp_all
  ultimately show ?thesis by (simp add: price_le_def algebra_simps)
qed

lemma check_reserve_withdrawal_Inr:
  assumes "check_reserve_withdrawal rt w reserve l = Inr u"
  shows "\<exists>meta. rt_stake_state rt (data_of w reserve) = Some (SS_Initialized meta) \<and>
    unat (minimum_reserve_lamports meta) \<le> unat (lamports_of w reserve) - unat l"
  using assms
  by (cases "rt_stake_state rt (data_of w reserve)")
    (auto simp: check_reserve_withdrawal_def read_stake_state_def ok_iff word_less_nat_alt unat_saturating_sub
      split: stake_state.splits if_splits)









subsection \<open>The minimum of a withdrawal that removes a validator\<close>

text \<open>
  A world like the sample world, except that the stake account of the validator and its
  entry hold exactly the minimum, so that a withdrawal takes all of it.
\<close>

definition small_entry :: validator_stake_info where
  "small_entry = sample_entry\<lparr>vs_active_stake_lamports := 1000100\<rparr>"

definition small_vec :: bytes where
  "small_vec = bv_image [ser_vsi small_entry, ser_vsi sample_removed] (replicate 584 0)"

definition small_world :: world where
  "small_world = sample_world
     (LIST := sample_account 1000 (ser_header sample_header @ small_vec) PROGRAM,
      VALIDATOR_STAKE := sample_account 1000100 [2] STAKE_PROGRAM)"

lemma small_world_simps [simp]:
  "small_world VALIDATOR_STAKE = sample_account 1000100 [2] STAKE_PROGRAM"
  "small_world LIST = sample_account 1000 (ser_header sample_header @ small_vec) PROGRAM"
  "k \<noteq> LIST \<Longrightarrow> k \<noteq> VALIDATOR_STAKE \<Longrightarrow> small_world k = sample_world k"
  by (simp_all add: small_world_def)

lemma small_vec_wf: "bv_wf ENTRY_LEN [ser_vsi small_entry, ser_vsi sample_removed]"
  by (simp add: bv_wf_def)

lemma small_entry_simps [simp]:
  "vs_active_stake_lamports small_entry = 1000100" "vs_transient_stake_lamports small_entry = 0"
  "vs_status small_entry = status_to_u8 Active" "vs_vote_account_address small_entry = VOTE"
  "vs_validator_seed_suffix small_entry = 0" "vs_transient_seed_suffix small_entry = 0"
  by (simp_all add: small_entry_def)

lemma small_list [simp]:
  "list_ok (ser_header sample_header @ small_vec)"
  "list_infos (ser_header sample_header @ small_vec) = [small_entry, sample_removed]"
  "deserialize_vec (ser_header sample_header @ small_vec) = Inr (sample_header, small_vec)"
  using small_vec_wf bv_invar_image [OF small_vec_wf]
  by (simp_all add: list_ok_def list_infos_def deserialize_vec_def chd.de_ser small_vec_def)

lemma small_reads [simp]:
  "load_stake_pool PROGRAM small_world (view POOL) = Inr sample_stake_pool"
  "read_stake_pool small_world (view POOL) = Inr sample_stake_pool"
  by (simp_all add: load_stake_pool_def check_account_owner_def owner_of_def read_stake_pool_def data_of_def
      csp.de_ser)

lemma small_amounts:
  "withdraw_amounts sample_rt sample_stake_pool small_world
     (calc_pool_tokens_stake_withdrawal_fee sample_stake_pool 834253) (view 12) (view 7) 834253 (Some 1000101) =
     Inr (835, 833418, 1000101)"
proof -
  have "calc_pool_tokens_stake_withdrawal_fee sample_stake_pool 834253 = Some 835"
    by (simp add: int_ops fee_amount_def)
  moreover have "calc_lamports_withdraw_amount sample_stake_pool 833418 = Some 1000101"
    by (simp add: int_ops withdraw_lamports_of_def)
  ultimately show ?thesis
    by (simp add: withdraw_amounts_def run_eval)
qed

lemma small_find:
  "find_validator_or_fail small_vec VOTE = Inr (4, small_entry)" "entry_at small_vec 4 = small_entry"
proof -
  note f = find_validator_infos [OF small_list(1), unfolded small_list(2)]
  have d: "drop HEADER_LEN (ser_header sample_header @ small_vec) = small_vec" by simp
  have v: "find_validator small_vec VOTE = Inr (Some 4)" using f [of VOTE] d by simp
  show e: "entry_at small_vec 4 = small_entry"
    using list_infos_nth [of 0 "ser_header sample_header @ small_vec"] d by simp
  show "find_validator_or_fail small_vec VOTE = Inr (4, small_entry)"
    by (simp add: find_validator_or_fail_def v e)
qed

lemma small_source:
  "select_withdraw_source sample_rt PROGRAM (view POOL) sample_stake_pool small_vec (view VALIDATOR_STAKE) 1000101 small_world
   = Inr (sample_stake_pool, 1000100, Some (4, small_entry, SourceValidatorRemoval))"
proof -
  have p: "get_lamports_per_pool_token sample_stake_pool = Some 2" by (simp add: int_ops)
  have "bv_find ENTRY_LEN (\<lambda>x. active_lamports_greater_than x 1000102 \<and> is_active x) small_vec = Inr None"
    using small_vec_wf by (simp add: small_vec_def bv_find_image layout_ser_vsi)
  moreover have "bv_find ENTRY_LEN (\<lambda>x. transient_lamports_greater_than x 1000102 \<and> is_active x) small_vec = Inr None"
    using small_vec_wf by (simp add: small_vec_def bv_find_image layout_ser_vsi)
  ultimately show ?thesis using p
  by (simp add: select_withdraw_source_def withdraw_source_of_def withdraw_limits_def check_preferred_withdraw_def
      small_find clear_preferred_def run_eval)
qed

text \<open>C17: The minimum of a withdrawal is not enforced when the withdrawal removes a validator: with
  1000101 lamports as the minimum, the handler succeeds and takes 1000100 lamports from the pool, because the amount is
  lowered to the balance of the stake account after it was compared with the minimum.\<close>

theorem withdraw_stake_below_minimum:
  "\<exists>w' sp'. process_withdraw_stake sample_rt PROGRAM withdraw_stake_accounts 834253 (Some 1000101) small_world = Inr w' \<and>
     read_stake_pool w' (view POOL) = Inr sp' \<and> pool_total sample_stake_pool - pool_total sp' = 1000100"
proof -
  have "is_ok (process_withdraw_stake sample_rt PROGRAM withdraw_stake_accounts 834253 (Some 1000101) small_world)"
    by (simp add: process_withdraw_stake_def withdraw_stake_accounts_def small_amounts small_source
      withdraw_stake_calls_def update_withdraw_source_def debit_entry_def run_eval)
  then obtain w' where
      run: "process_withdraw_stake sample_rt PROGRAM withdraw_stake_accounts 834253 (Some 1000101) small_world = Inr w'"
    using run_of by blast
  let ?sp = "sample_stake_pool\<lparr>sp_total_lamports := 10999900, sp_pool_token_supply := 9166582\<rparr>"
  from run have rd: "read_stake_pool w' (view POOL) = Inr ?sp"
    by (auto simp: process_withdraw_stake_def withdraw_stake_accounts_def small_amounts small_source
        withdraw_stake_calls_def update_withdraw_source_def debit_entry_def put_entry_def set_list_vec_def
        read_stake_pool_def csp.de_ser run_eval)
  have "pool_total sample_stake_pool - pool_total ?sp = 1000100" by simp
  then show ?thesis using run rd by blast
qed

end
