(* ===== verification/Pool_Theorems.thy ===== *)
theory Pool_Theorems
  imports Fund_Theorems
begin

section \<open>The pool as a whole\<close>

text \<open>
  The epoch update, the agreement of the books with the mint, the invariant of a pool over
  whole histories, and what one pool can do to another.
\<close>

subsection \<open>The epoch update\<close>

text \<open>C9: A successful \<open>UpdateStakePoolBalance\<close> sets the total of the pool to the lamports of the reserve above its minimum
  plus the active and transient stake of every entry of the list; it succeeds only when every entry is up to date; in a
  new epoch it advances the epoch of the pool and keeps the old total and the old supply as the
  snapshot of the last epoch.\<close>

theorem update_pool_total:
  assumes own: "respects_owner rt pid"
    and run: "process_update_stake_pool_balance rt pid
      (pool # auth # list # reserve # fee_acc # mint # token_program # rest) w = Inr w'"
    and ok: "list_ok (data_of w list)"
  shows "\<exists>sp sp' epoch meta. read_stake_pool w pool = Inr sp \<and> read_stake_pool w' pool = Inr sp' \<and>
    rt_clock_get rt = Inr epoch \<and> rt_stake_state rt (data_of w reserve) = Some (SS_Initialized meta) \<and>
    ai_key list = sp_validator_list sp \<and> ai_key reserve = sp_reserve_stake sp \<and>
    (\<forall>r \<in> set (list_infos (data_of w list)). epoch \<le> vs_last_update_epoch r) \<and>
    pool_total sp' + unat (minimum_reserve_lamports meta) =
      unat (lamports_of w reserve) + sum_list (map entry_stake (list_infos (data_of w list))) \<and>
    sp_last_update_epoch sp' = max (sp_last_update_epoch sp) epoch \<and>
    (sp_last_update_epoch sp < epoch \<longrightarrow>
       sp_last_epoch_total_lamports sp' = sp_total_lamports sp \<and>
       sp_last_epoch_pool_token_supply sp' = sp_pool_token_supply sp)"
proof -
  from update_pool_effect [OF own run ok] obtain sp sp' epoch meta and m :: mint where
      h: "load_stake_pool pid w pool = Inr sp" "read_stake_pool w' pool = Inr sp'" "rt_clock_get rt = Inr epoch"
      "rt_stake_state rt (data_of w reserve) = Some (SS_Initialized meta)"
      "ai_key list = sp_validator_list sp" "ai_key reserve = sp_reserve_stake sp"
      "\<forall>r \<in> set (list_infos (data_of w list)). epoch \<le> vs_last_update_epoch r"
      "pool_total sp' + unat (minimum_reserve_lamports meta) =
        unat (lamports_of w reserve) + sum_list (map entry_stake (list_infos (data_of w list)))"
      and e: "sp' = (advance_epoch sp epoch (sp_total_lamports sp) (sp_pool_token_supply sp))
        \<lparr>sp_total_lamports := sp_total_lamports sp', sp_pool_token_supply := mint_supply m\<rparr>"
    by (elim exE conjE)
  have "sp_last_update_epoch sp' = max (sp_last_update_epoch sp) epoch"
      "sp_last_update_epoch sp < epoch \<longrightarrow>
       sp_last_epoch_total_lamports sp' = sp_total_lamports sp \<and>
       sp_last_epoch_pool_token_supply sp' = sp_pool_token_supply sp"
    using arg_cong [OF e, of sp_last_update_epoch] arg_cong [OF e, of sp_last_epoch_total_lamports]
      arg_cong [OF e, of sp_last_epoch_pool_token_supply]
    by (auto simp: advance_epoch_def max_def split: if_splits)
  then show ?thesis using h
    by (intro exI [of _ sp] exI [of _ sp'] exI [of _ epoch] exI [of _ meta]) (simp add: load_stake_pool_Inr)
qed

theorem update_pool_total_witness:
  "\<exists>w' sp'. process_update_stake_pool_balance sample_rt PROGRAM update_pool_accounts sample_world = Inr w' \<and>
     read_stake_pool w' (view POOL) = Inr sp' \<and> pool_total sp' = 12100000"
proof -
  obtain w' where run: "process_update_stake_pool_balance sample_rt PROGRAM update_pool_accounts sample_world = Inr w'"
    using run_of [OF sample_update_pool] by blast
  from update_pool_total [OF sample_respects_owner run [unfolded update_pool_accounts_def] sample_list_of(1)]
  obtain sp' where "read_stake_pool w' (view POOL) = Inr sp'"
      "pool_total sp' + unat (minimum_reserve_lamports sample_meta) =
        unat (lamports_of sample_world (view RESERVE)) +
        sum_list (map entry_stake (list_infos (data_of sample_world (view LIST))))"
    by (auto simp: data_of_def)
  then show ?thesis using run
    by (auto simp: sample_list_of entry_stake_def lamports_of_def sample_minimums)
qed



subsection \<open>The books and the mint\<close>

text \<open>C7: Whatever instruction succeeds on a pool, the supply the pool has on record stays the supply of
  its mint, provided the token program changes a supply only by minting and burning.\<close>

theorem supply_stays_in_sync:
  assumes "counted rt pid (sp_token_program_id sp)" and "pool_ok pid pool sp w" and "in_sync rt sp w"
    and "process_instruction rt pid (pool # rest) i w = Inr w'"
  shows "\<exists>sp'. read_stake_pool w' pool = Inr sp' \<and> in_sync rt sp' w'"
  using instruction_sync [OF assms(1,4)] assms(2,3) by (simp add: pool_ok_def)

theorem supply_stays_in_sync_witness:
  "\<exists>w' sp'. process_instruction sample_rt PROGRAM deposit_sol_accounts (DepositSolWithSlippage 1200 1) sample_world = Inr w' \<and>
     read_stake_pool w' (view POOL) = Inr sp' \<and> in_sync sample_rt sp' w'"
proof -
  obtain w' where run:
      "process_instruction sample_rt PROGRAM deposit_sol_accounts (DepositSolWithSlippage 1200 1) sample_world = Inr w'"
    using run_of [OF sample_deposit_sol] by auto
  from supply_stays_in_sync [OF _ sample_pool_ok sample_in_sync run [unfolded deposit_sol_accounts_def]]
  show ?thesis using run sample_counted by auto
qed

end
