(* ===== verification/Validator_Theorems.thy ===== *)
theory Validator_Theorems
  imports Pool_Theorems
begin

section \<open>The validators of a pool\<close>

text \<open>
  What the instructions of the staker and the permissionless updates do to the list of
  validators, entry by entry.
\<close>









text \<open>A successful \<open>UpdateValidatorListBalance\<close> touches only the entries whose accounts were passed, from the start index on;
  each of them is left alone or brought to the current epoch, keeps its vote account and its seeds, and does
  not become active unless it was. It fails while epoch rewards are paid out.\<close>

lemma update_list_slice:
  assumes "respects_owner rt pid"
    and "process_update_validator_list_balance rt pid
      (pool # auth # list # reserve # clock # history # stake_program # accts) start no_merge w = Inr w'"
    and "list_ok (data_of w list)"
  shows "\<exists>sp epoch. read_stake_pool w pool = Inr sp \<and> ai_key list = sp_validator_list sp \<and>
    rt_clock_from_account_info rt clock w = Inr epoch \<and> rt_epoch_rewards_active rt = Inr False \<and>
    unat start + length accts div 2 \<le> length (list_infos (data_of w list)) \<and>
    list_ok (data_of w' list) \<and>
    slice_updated epoch (unat start) (length accts div 2)
      (list_infos (data_of w list)) (list_infos (data_of w' list))"
  using update_list_effect [OF assms] .

end
