(* ===== verification/Access_Theorems.thy ===== *)
theory Access_Theorems
  imports Pool_Theorems
begin

section \<open>Who may do what, and when\<close>

text \<open>
  The signatures that instructions need, the pools they refuse, and the settings of the
  manager: their bounds and the delay of a change.
\<close>

subsection \<open>Signatures\<close>

fun needs_manager :: "stake_pool_instruction \<Rightarrow> bool" where
  "needs_manager SetManager = True"
| "needs_manager (SetFee _) = True"
| "needs_manager (SetFundingAuthority _) = True"
| "needs_manager (SetMaxValidatorStake _) = True"
| "needs_manager (CreateTokenMetadata _ _ _) = True"
| "needs_manager (UpdateTokenMetadata _ _ _) = True"
| "needs_manager _ = False"

fun needs_staker :: "stake_pool_instruction \<Rightarrow> bool" where
  "needs_staker (AddValidatorToPool _) = True"
| "needs_staker RemoveValidatorFromPool = True"
| "needs_staker (DecreaseValidatorStake _ _) = True"
| "needs_staker (DecreaseValidatorStakeWithReserve _ _) = True"
| "needs_staker (DecreaseAdditionalValidatorStake _ _ _) = True"
| "needs_staker (IncreaseValidatorStake _ _) = True"
| "needs_staker (IncreaseAdditionalValidatorStake _ _ _) = True"
| "needs_staker (SetPreferredValidator _ _) = True"
| "needs_staker _ = False"

context pool_setter begin

lemma signed:
  assumes "run rt pid (pool_info # auth # rest) w = Inr w'" "read_stake_pool w pool_info = Inr sp"
  shows "gate sp (ai_key auth) \<and> ai_is_signer auth"
  using updates_pool [OF assms(1)] assms(2) by auto

end

lemmas settings_signed = set_manager.signed set_fee.signed set_max.signed set_funding_auth.signed
  set_staker.signed set_preferred_validator.signed

lemma metadata_signed:
  "process_create_pool_token_metadata rt pid (pool # auth # rest) n s u w = Inr w' \<Longrightarrow>
     read_stake_pool w pool = Inr sp \<Longrightarrow> is_manager sp (ai_key auth) \<and> ai_is_signer auth"
  "process_update_pool_token_metadata rt pid (pool # auth # rest) n s u w = Inr w' \<Longrightarrow>
     read_stake_pool w pool = Inr sp \<Longrightarrow> is_manager sp (ai_key auth) \<and> ai_is_signer auth"
  by (auto simp: process_create_pool_token_metadata_def process_update_pool_token_metadata_def ok_iff Let_def
      is_manager_def)

lemma staker_signed:
  "process_add_validator_to_pool rt pid (pool # auth # rest) vseed w = Inr w' \<Longrightarrow>
     read_stake_pool w pool = Inr sp \<Longrightarrow> is_staker sp (ai_key auth) \<and> ai_is_signer auth"
  "process_remove_validator_from_pool rt pid (pool # auth # rest) w = Inr w' \<Longrightarrow>
     read_stake_pool w pool = Inr sp \<Longrightarrow> is_staker sp (ai_key auth) \<and> ai_is_signer auth"
  "process_decrease_validator_stake rt pid (pool # auth # rest) l seed e f w = Inr w' \<Longrightarrow>
     read_stake_pool w pool = Inr sp \<Longrightarrow> is_staker sp (ai_key auth) \<and> ai_is_signer auth"
  "process_increase_validator_stake rt pid (pool # auth # rest) l seed e w = Inr w' \<Longrightarrow>
     read_stake_pool w pool = Inr sp \<Longrightarrow> is_staker sp (ai_key auth) \<and> ai_is_signer auth"
  by (auto simp: process_add_validator_to_pool_def process_remove_validator_from_pool_def
      process_decrease_validator_stake_def process_increase_validator_stake_def ok_iff Let_def case_prod_beta
      load_stake_pool_Inr is_staker_def split del: if_split)

text \<open>C12: No instruction of the manager succeeds without the signature of the manager on record, no instruction of
  the staker without that of the staker, and a new staker is set only by one of the two; the signer is always the second
  account.\<close>

theorem signature_required:
  assumes "process_instruction rt pid (pool # auth # rest) i w = Inr w'" and "read_stake_pool w pool = Inr sp"
  shows "(needs_manager i \<longrightarrow> is_manager sp (ai_key auth) \<and> ai_is_signer auth) \<and>
    (needs_staker i \<longrightarrow> is_staker sp (ai_key auth) \<and> ai_is_signer auth) \<and>
    (i = SetStaker \<longrightarrow> is_staker_or_manager sp (ai_key auth) \<and> ai_is_signer auth)"
  using assms settings_signed metadata_signed staker_signed by (cases i) auto

theorem signature_required_witness:
  "\<exists>w'. process_instruction sample_rt PROGRAM [view POOL, signer 4, view 21] SetStaker sample_world = Inr w' \<and>
     is_staker_or_manager sample_stake_pool 4"
proof -
  obtain w' where run: "process_instruction sample_rt PROGRAM [view POOL, signer 4, view 21] SetStaker sample_world = Inr w'"
    using run_of [OF sample_set_staker] by auto
  from signature_required [OF run sample_read_pool(1)] show ?thesis using run by auto
qed

subsection \<open>Pools that are out of date\<close>

text \<open>\<open>Clock::get\<close> and the clock account, whose address the runtime checks, give the same epoch.\<close>

definition clock_is :: "runtime \<Rightarrow> u64 \<Rightarrow> bool" where
  "clock_is rt epoch \<longleftrightarrow> rt_clock_get rt = Inr epoch \<and>
     (\<forall>info w e. rt_clock_from_account_info rt info w = Inr e \<longrightarrow> e = epoch)"

fun needs_fresh_pool :: "stake_pool_instruction \<Rightarrow> bool" where
  "needs_fresh_pool (DepositSol _) = True"
| "needs_fresh_pool (DepositSolWithSlippage _ _) = True"
| "needs_fresh_pool (WithdrawSol _) = True"
| "needs_fresh_pool (WithdrawSolWithSlippage _ _) = True"
| "needs_fresh_pool DepositStake = True"
| "needs_fresh_pool (DepositStakeWithSlippage _) = True"
| "needs_fresh_pool (WithdrawStake _) = True"
| "needs_fresh_pool (WithdrawStakeWithSlippage _ _) = True"
| "needs_fresh_pool (AddValidatorToPool _) = True"
| "needs_fresh_pool RemoveValidatorFromPool = True"
| "needs_fresh_pool (DecreaseValidatorStake _ _) = True"
| "needs_fresh_pool (DecreaseValidatorStakeWithReserve _ _) = True"
| "needs_fresh_pool (DecreaseAdditionalValidatorStake _ _ _) = True"
| "needs_fresh_pool (IncreaseValidatorStake _ _) = True"
| "needs_fresh_pool (IncreaseAdditionalValidatorStake _ _ _) = True"
| "needs_fresh_pool _ = False"

lemma fresh_funds:
  assumes "clock_is rt epoch" "read_stake_pool w pool = Inr sp"
  shows "process_deposit_sol rt pid (pool # rest) l m w = Inr w' \<Longrightarrow> epoch \<le> sp_last_update_epoch sp"
    and "process_withdraw_sol rt pid (pool # rest) l m w = Inr w' \<Longrightarrow> epoch \<le> sp_last_update_epoch sp"
    and "process_deposit_stake rt pid (pool # rest) m w = Inr w' \<Longrightarrow> epoch \<le> sp_last_update_epoch sp"
    and "process_withdraw_stake rt pid (pool # rest) l m w = Inr w' \<Longrightarrow> epoch \<le> sp_last_update_epoch sp"
  using assms
  by (auto simp: process_deposit_sol_def process_withdraw_sol_def process_deposit_stake_def process_withdraw_stake_def
      clock_is_def ok_iff Let_def case_prod_beta load_stake_pool_Inr not_less
      simp del: credit_pool_Inr debit_pool_Inr check_sol_deposit_authority_Inr check_sol_withdraw_authority_Inr
      split del: if_split)

lemma fresh_validators:
  assumes "clock_is rt epoch" "read_stake_pool w pool = Inr sp"
  shows "process_add_validator_to_pool rt pid (pool # rest) vseed w = Inr w' \<Longrightarrow> epoch \<le> sp_last_update_epoch sp"
    and "process_remove_validator_from_pool rt pid (pool # rest) w = Inr w' \<Longrightarrow> epoch \<le> sp_last_update_epoch sp"
    and "process_decrease_validator_stake rt pid (pool # rest) l seed e f w = Inr w' \<Longrightarrow> epoch \<le> sp_last_update_epoch sp"
    and "process_increase_validator_stake rt pid (pool # rest) l seed e w = Inr w' \<Longrightarrow> epoch \<le> sp_last_update_epoch sp"
  using assms
  by (auto simp: process_add_validator_to_pool_def process_remove_validator_from_pool_def
      process_decrease_validator_stake_def process_increase_validator_stake_def
      clock_is_def ok_iff Let_def case_prod_beta load_stake_pool_Inr not_less split del: if_split)

text \<open>C13: No deposit, no withdrawal and no change of the delegated stake succeeds on a pool whose total was not brought up to
  the current epoch, so nobody trades at an old price.\<close>

theorem stale_pool_is_frozen:
  assumes "clock_is rt epoch" and "read_stake_pool w pool = Inr sp" and "sp_last_update_epoch sp < epoch"
    and "needs_fresh_pool i"
  shows "\<not> is_ok (process_instruction rt pid (pool # rest) i w)"
proof
  assume "is_ok (process_instruction rt pid (pool # rest) i w)"
  then obtain w' where "process_instruction rt pid (pool # rest) i w = Inr w'" by (auto simp: is_ok_iff)
  then have "epoch \<le> sp_last_update_epoch sp"
    using assms(4) fresh_funds [OF assms(1,2)] fresh_validators [OF assms(1,2)] by (cases i) auto
  then show False using assms(3) by simp
qed

theorem stale_pool_is_frozen_witness:
  "\<not> is_ok (process_instruction (sample_rt\<lparr>rt_clock_get := Inr 6, rt_clock_from_account_info := \<lambda>_ _. Inr 6\<rparr>)
     PROGRAM deposit_sol_accounts (DepositSol 1200) sample_world)"
  unfolding deposit_sol_accounts_def
  by (rule stale_pool_is_frozen [where epoch = 6 and sp = sample_stake_pool])
    (simp_all add: clock_is_def del: read_stake_pool_Inr)

subsection \<open>Fees\<close>

text \<open>C37: A change of the epoch fee or of a withdrawal fee takes effect only with the second update in a later epoch: after the first
  the old fee is still charged, after the second the new one is. Until then the fee in force does not change.\<close>

theorem fee_change_is_delayed:
  assumes "update_fee sp ft = Inr sp1" and "sp_last_update_epoch sp < e1" "e1 < e2"
    and "sp2 = advance_epoch sp1 e1 a b" and "sp3 = advance_epoch sp2 e2 c d"
  shows "(\<forall>f. ft = Epoch f \<longrightarrow> sp_epoch_fee sp1 = sp_epoch_fee sp \<and> sp_epoch_fee sp2 = sp_epoch_fee sp \<and> sp_epoch_fee sp3 = f) \<and>
    (\<forall>f. ft = StakeWithdrawal f \<longrightarrow> sp_stake_withdrawal_fee sp1 = sp_stake_withdrawal_fee sp \<and>
       sp_stake_withdrawal_fee sp2 = sp_stake_withdrawal_fee sp \<and> sp_stake_withdrawal_fee sp3 = f) \<and>
    (\<forall>f. ft = SolWithdrawal f \<longrightarrow> sp_sol_withdrawal_fee sp1 = sp_sol_withdrawal_fee sp \<and>
       sp_sol_withdrawal_fee sp2 = sp_sol_withdrawal_fee sp \<and> sp_sol_withdrawal_fee sp3 = f)"
  using assms by (cases ft) (auto simp: advance_epoch_def take_fee_def future_epoch_new_def ok_iff)

theorem fee_change_is_delayed_witness:
  "sp_epoch_fee (advance_epoch (advance_epoch
     (sample_stake_pool\<lparr>sp_next_epoch_fee := future_epoch_new \<lparr>denominator = 5, numerator = 1\<rparr>\<rparr>) 6 0 0) 7 0 0) =
   \<lparr>denominator = 5, numerator = 1\<rparr>"
  using fee_change_is_delayed [of sample_stake_pool "Epoch \<lparr>denominator = 5, numerator = 1\<rparr>" _ 6 7, OF _ _ _ refl refl]
  by simp



subsection \<open>Creation and cleanup\<close>

lemma recheck_preferred_returns:
  assumes "list_ok data"
  shows "\<exists>r. recheck_preferred (drop HEADER_LEN data) preferred = Inr r"
  using find_validator_infos [OF assms] by (auto simp: recheck_preferred_def split: option.splits)

lemma cleanup_returns:
  assumes ok: "pool_ok pid pool sp w" and li: "ai_key list = sp_validator_list sp"
    and ld: "load_validator_list w list = Inr (h, v)" and room: "STAKE_POOL_MAX_LEN \<le> length (data_of w pool)"
  shows "\<exists>w'. process_cleanup_removed_validator_entries rt pid (pool # list # rest) w = Inr w'"
proof -
  have l: "list_ok (data_of w list)" "ai_key pool \<noteq> ai_key list" "owner_of w list = pid"
      and sp: "load_stake_pool pid w pool = Inr sp"
    using ok li by (simp_all add: pool_ok_def data_of_def owner_of_def load_stake_pool_Inr)
  have v: "v = drop HEADER_LEN (data_of w list)" using load_validator_list_Inr [OF ld] by (simp add: list_vec_def)
  have inv: "bv_invar ENTRY_LEN v" and hl: "HEADER_LEN \<le> length (data_of w list)"
    using l(1) by (simp_all add: v list_ok_def)
  then obtain v' where v': "bv_retain ENTRY_LEN (\<lambda>x. \<not> is_removed x) v = Inr v'" using bv.retain_spec by blast
  let ?w = "set_list_vec w list v'"
  have d: "data_of ?w list = put_vec (data_of w list) v'" by (simp add: set_list_vec_def)
  have ok': "list_ok (put_vec (data_of w list) v')" using retain_infos [OF l(1) v' [unfolded v]] by blast
  have "drop HEADER_LEN (put_vec (data_of w list) v') = v'" using hl by (simp add: put_vec_def)
  then have rc: "\<exists>r. recheck_preferred v' q = Inr r" for q using recheck_preferred_returns [OF ok'] by metis
  have pd: "data_of ?w pool = data_of w pool" using l(2) by (simp add: set_list_vec_def)
  have rd: "read_stake_pool ?w pool = Inr sp" using sp pd by (simp add: load_stake_pool_Inr read_stake_pool_def)
  have "\<exists>w'. write_stake_pool ?w pool x = Inr w'" for x
    using room length_ser_stake_pool_le [of x] pd by (simp add: write_stake_pool_Inr)
  then have "\<exists>w'. bindE (recheck_preferred v' (sp_preferred_deposit_validator_vote_address sp)) (\<lambda>a.
      bindE (recheck_preferred v' (sp_preferred_withdraw_validator_vote_address sp)) (\<lambda>b.
      write_stake_pool ?w pool (sp\<lparr>sp_preferred_deposit_validator_vote_address := a,
        sp_preferred_withdraw_validator_vote_address := b\<rparr>))) = Inr w'"
    using rc by (metis bindE_simps(2))
  moreover have "check_validator_list sp list = Inr ()" "check_account_owner w list pid = Inr ()"
    using li l(3) by (simp_all add: check_list_reserve_Inr check_account_owner_Inr)
  ultimately show ?thesis using sp ld v' rd
    by (simp add: process_cleanup_removed_validator_entries_def Let_def del: read_stake_pool_Inr)
qed

text \<open>C22: Anybody can clean up the list of a pool at any time: on a pool in order, with its own list account, which has
  a valid header, and with an account that can hold every record, \<open>CleanupRemovedValidatorEntries\<close> succeeds; it keeps the entries
  that are not finished (ready for removal and without stake), in their order, and drops the others.\<close>

theorem cleanup_drops_finished:
  assumes ok: "pool_ok pid pool sp w" and li: "ai_key list = sp_validator_list sp"
    and ld: "load_validator_list w list = Inr (h, v)" and room: "STAKE_POOL_MAX_LEN \<le> length (data_of w pool)"
  shows "\<exists>w'. process_cleanup_removed_validator_entries rt pid (pool # list # rest) w = Inr w' \<and>
    list_ok (data_of w' list) \<and>
    list_infos (data_of w' list) = filter (\<lambda>r. \<not> finished r) (list_infos (data_of w list))"
proof -
  obtain w' where run: "process_cleanup_removed_validator_entries rt pid (pool # list # rest) w = Inr w'"
    using cleanup_returns [OF assms] by blast
  have "list_ok (data_of w list)" "ai_key pool \<noteq> ai_key list" using ok li by (simp_all add: pool_ok_def data_of_def)
  from cleanup_effect [OF run this] run show ?thesis by blast
qed

theorem cleanup_drops_finished_witness:
  "\<exists>w'. process_cleanup_removed_validator_entries sample_rt PROGRAM cleanup_accounts sample_world = Inr w' \<and>
     list_infos (data_of w' (view LIST)) = [sample_entry]"
proof -
  have "load_validator_list sample_world (view LIST) = Inr (sample_header, sample_vec)"
    by (simp add: load_validator_list_def data_of_def)
  from cleanup_drops_finished [OF sample_pool_ok _ this, of sample_rt "[]"] show ?thesis
    by (auto simp: cleanup_accounts_def data_of_def STAKE_POOL_MAX_LEN_def finished_def)
qed

end
