(* ===== verification/Data_Theorems.thy ===== *)
theory Data_Theorems
  imports Sample_Pool
begin

section \<open>Data formats\<close>

text \<open>
  The formats the program reads and writes: the vector behind the validator list, the
  layout of its entries, the account records, the error codes and the instructions on the wire.
\<close>

subsection \<open>BigVec\<close>

text \<open>C39: \<open>BigVec::retain\<close>, which moves blocks of bytes in place, always returns on a well-formed buffer and leaves exactly
  the elements that satisfy the predicate, in their order, in a buffer of the same length.\<close>

theorem retain_is_filter:
  assumes "bv_invar sz v"
  shows "\<exists>v'. bv_retain sz p v = Inr v' \<and> bv_invar sz v' \<and>
    bv_entries sz v' = filter p (bv_entries sz v) \<and> length v' = length v"
  using assms by (rule bv_retain_entries)

theorem retain_is_filter_witness:
  "\<exists>v'. bv_retain ENTRY_LEN (\<lambda>x. \<not> is_removed x) sample_vec = Inr v' \<and>
     bv_entries ENTRY_LEN v' = [ser_vsi sample_entry]"
proof -
  have inv: "bv_invar ENTRY_LEN sample_vec" using sample_list(1,3) by (simp add: list_ok_def)
  have "bv_entries ENTRY_LEN sample_vec = [ser_vsi sample_entry, ser_vsi sample_removed]"
    using sample_vec_wf by (simp add: sample_vec_def)
  then show ?thesis using retain_is_filter [OF inv, of "\<lambda>x. \<not> is_removed x"] by (auto simp: layout_ser_vsi)
qed

text \<open>The predicates that the program evaluates on the raw bytes of an entry mean what the fields of the entry say: the
  vote account, the comparisons of active and transient stake, the active status, and the finished entries that a cleanup drops.\<close>

lemma raw_predicates_mean_fields:
  assumes "length bs = ENTRY_LEN"
  shows "(memcmp_pubkey bs k \<longleftrightarrow> vs_vote_account_address (pod_vsi bs) = k) \<and>
    (active_lamports_greater_than bs l \<longleftrightarrow> vs_active_stake_lamports (pod_vsi bs) > l) \<and>
    (transient_lamports_greater_than bs l \<longleftrightarrow> vs_transient_stake_lamports (pod_vsi bs) > l) \<and>
    (is_active bs \<longleftrightarrow> vs_status (pod_vsi bs) = status_to_u8 Active) \<and>
    (is_removed bs \<longleftrightarrow> finished (pod_vsi bs))"
  using layout_pod [OF assms] by (simp add: finished_def)

subsection \<open>Accounts\<close>

text \<open>An account of at least \<open>STAKE_POOL_MAX_LEN\<close> bytes can hold every pool record: writing succeeds whatever optional fields
  are set, reading returns the record written, and no other account changes.\<close>

lemma pool_record_round_trip:
  assumes "STAKE_POOL_MAX_LEN \<le> length (data_of w info)"
  shows "\<exists>w'. write_stake_pool w info sp = Inr w' \<and> read_stake_pool w' info = Inr sp \<and>
    length (data_of w' info) = length (data_of w info) \<and> (\<forall>k. k \<noteq> ai_key info \<longrightarrow> w' k = w k)"
proof -
  have "length (ser_stake_pool sp) \<le> length (data_of w info)"
    using assms length_ser_stake_pool_le [of sp] by simp
  then obtain w' where w': "write_stake_pool w info sp = Inr w'" by (simp add: write_stake_pool_Inr)
  then show ?thesis using read_written_stake_pool [OF w'] write_stake_pool_frame [OF w']
    by (auto simp: write_stake_pool_Inr)
qed

text \<open>CX: A validator list of fewer than \<open>2 ^ 32\<close> entries survives encoding and decoding, and its encoding, seen as a \<open>BigVec\<close>
  behind its header, has exactly its entries: the two readers of the account agree.\<close>

theorem validator_list_readers_agree:
  assumes "length (vl_validators vl) < 2 ^ 32"
  shows "de_validator_list (ser_validator_list vl @ rest) = Some (vl, rest) \<and>
    deserialize_vec (ser_validator_list vl @ rest) = Inr (vl_header vl, ser_vec ser_vsi (vl_validators vl) @ rest) \<and>
    list_ok (ser_validator_list vl @ rest) \<and> list_infos (ser_validator_list vl @ rest) = vl_validators vl"
proof -
  let ?cs = "map ser_vsi (vl_validators vl)"
  have wf: "bv_wf ENTRY_LEN ?cs" using assms by (auto simp: bv_wf_def)
  have img: "ser_vec ser_vsi (vl_validators vl) @ rest = bv_image ?cs rest"
    by (simp add: ser_vec_def bv_image_def ser_list_concat)
  have "map pod_vsi ?cs = vl_validators vl" by (simp add: map_idI)
  then have "list_ok (ser_validator_list vl @ rest)" "list_infos (ser_validator_list vl @ rest) = vl_validators vl"
    using bv_invar_image [OF wf] bv_entries_image [OF wf]
    by (simp_all add: ser_validator_list_def list_ok_def list_infos_def img)
  then show ?thesis using de_ser_validator_list [OF assms]
    by (simp add: deserialize_vec_def chd.de_ser ser_validator_list_def)
qed

theorem validator_list_readers_agree_witness:
  "list_infos (ser_validator_list \<lparr>vl_header = sample_header, vl_validators = [sample_entry]\<rparr> @ []) = [sample_entry]"
  using validator_list_readers_agree [of "\<lparr>vl_header = sample_header, vl_validators = [sample_entry]\<rparr>" "[]"] by simp

subsection \<open>Instructions on the wire\<close>

text \<open>The entry point decodes what clients encode: an encoded instruction is dispatched to its handler with
  its arguments, and any further byte makes the input invalid, without effect.\<close>

lemma wire_round_trip:
  assumes "list_all rust_string (instruction_strings i)"
  shows "process rt pid accounts (ser_instruction i) w = process_instruction rt pid accounts i w \<and>
    process rt pid accounts (ser_instruction i @ b # bs) w = Inl BorshIoError"
  using de_instruction_ser [OF assms, of "[]"] de_instruction_ser [OF assms, of "b # bs"]
  by (simp add: process_def try_from_slice_def)

end
