(* ===== verification/Account_Confusion.thy ===== *)
theory Account_Confusion
  imports Sample_Pool
begin

section \<open>A list account read as a pool\<close>

text \<open>
  The accounts of the program carry their type in a byte, but not in the same place: the
  type of a pool record is its second byte, behind the version, and the type of a list is its
  first. Read as a pool, the type of a list account is the low byte of its capacity. Nothing but
  the type keeps the two apart, since both belong to the program.
\<close>

subsection \<open>The type byte\<close>

lemma ser_header_bytes:
  "ser_header \<lparr>vl_account_type = t, vl_max_validators = mv\<rparr> =
     ser_account_type t @ word_of_nat (unat mv mod 256) # le_bytes 3 (unat mv div 256)"
proof -
  have "ser_u32 mv = le_bytes (Suc 3) (unat mv)" by (simp add: ser_u32_def ser_word_def word_to_le_def)
  then show ?thesis unfolding le_bytes.simps by (simp add: ser_header_def)
qed

lemma de_stake_pool_type:
  assumes "de_stake_pool (v # t # bs) = Some (sp, rest)"
  shows "sp_version sp = v" "ser_account_type (sp_account_type sp) = [t]"
proof -
  from assms obtain ty r1 where ty: "de_account_type (t # bs) = Some (ty, r1)" and "sp_version sp = v" "sp_account_type sp = ty"
    by (auto simp: de_stake_pool_def ok_iff de_u8_Cons)
  moreover have "ser_account_type ty = [t]"
    using ty by (auto simp: de_account_type_def ok_iff de_u8_Cons ser_account_type_def ser_u8_single split: if_splits)
  ultimately show "sp_version sp = v" "ser_account_type (sp_account_type sp) = [t]" by simp_all
qed

text \<open>An initialized list account that decodes as a pool has as its account type the low byte of the capacity
  of the list: a list for a multiple of 256 validators reads as a pool that is not initialized, and one for
  one more than a multiple of 256 as a valid pool.\<close>

lemma list_reads_as_pool:
  assumes "de_stake_pool (ser_header \<lparr>vl_account_type = ValidatorList, vl_max_validators = mv\<rparr> @ bs) = Some (sp, rest)"
  shows "(is_uninitialized sp \<longleftrightarrow> unat mv mod 256 = 0) \<and> (is_valid sp \<longleftrightarrow> unat mv mod 256 = 1)"
proof -
  let ?b = "word_of_nat (unat mv mod 256) :: u8"
  have "ser_account_type ValidatorList = [2]" by (simp add: ser_account_type_def ser_u8_single)
  with assms have "de_stake_pool (2 # ?b # le_bytes 3 (unat mv div 256) @ bs) = Some (sp, rest)"
    by (simp add: ser_header_bytes)
  from de_stake_pool_type(2) [OF this] have t: "ser_account_type (sp_account_type sp) = [?b]" .
  have "?b = word_of_nat n \<longleftrightarrow> unat mv mod 256 = n" if "n < 256" for n
    using that by (metis unat_of_nat_mod_256 mod_less mod_less_divisor zero_less_numeral)
  from this [of 0] this [of 1] have "?b = 0 \<longleftrightarrow> unat mv mod 256 = 0" "?b = 1 \<longleftrightarrow> unat mv mod 256 = 1" by simp_all
  then show ?thesis using t
    by (cases "sp_account_type sp") (simp_all add: ser_account_type_def ser_u8_single is_uninitialized_def is_valid_def)
qed

subsection \<open>Initialize over a list\<close>

text \<open>
  A list for 256 validators without entries, as \<open>Initialize\<close> leaves it. Its bytes are also the
  bytes of a pool record that is all zero except for the version and the manager.
\<close>

definition victim_data :: bytes where
  "victim_data = ser_header \<lparr>vl_account_type = ValidatorList, vl_max_validators = 256\<rparr> @ bv_image [] (replicate 18688 0)"

definition zero_pool :: stake_pool where
  "zero_pool = stake_pool_default\<lparr>sp_version := 2, sp_account_type := Uninitialized, sp_manager := 1\<rparr>"

lemma zeros_eq: "set xs \<subseteq> {0} \<Longrightarrow> set ys \<subseteq> {0} \<Longrightarrow> length xs = length ys \<Longrightarrow> xs = ys"
  by (metis replicate_eqI subset_singletonD empty_iff singletonD subsetD)

lemma set_ser_zero:
  "set (ser_u8 0) \<subseteq> {0}" "set (ser_u64 0) \<subseteq> {0}" "set (ser_pubkey 0) \<subseteq> {0}" "set (ser_reserved 0) \<subseteq> {0}"
  by (auto simp: ser_int_defs ser_reserved_def ser_word_def word_to_le_def)

lemma zero_pool_bytes:
  obtains zs where "ser_stake_pool zero_pool = 2 # 0 # 1 # zs" "set zs \<subseteq> {0}"
proof -
  let ?zs = "drop 34 (ser_stake_pool zero_pool)"
  have pk: "ser_pubkey 1 = 1 # replicate 31 0"
  proof -
    have "ser_pubkey 1 = le_bytes (Suc 31) 1" by (simp add: ser_pubkey_def ser_word_def word_to_le_def)
    then show ?thesis unfolding le_bytes.simps by simp
  qed
  have "ser_stake_pool zero_pool = ser_u8 2 @ ser_account_type Uninitialized @ ser_pubkey 1 @ ?zs"
    by (simp add: ser_stake_pool_def zero_pool_def)
  then have "ser_stake_pool zero_pool = 2 # 0 # 1 # (replicate 31 0 @ ?zs)"
    by (simp add: pk ser_account_type_def ser_u8_single)
  moreover have "set ?zs \<subseteq> {0}"
    using set_ser_zero by (simp add: ser_stake_pool_def zero_pool_def stake_pool_default_def ser_lockup_def
        lockup_default_def ser_fee_def fee_default_def ser_future_epoch_def ser_option_def)
  ultimately show thesis using that [of "replicate 31 0 @ ?zs"] by simp
qed

lemma victim_data_bytes:
  "\<exists>n. victim_data = ser_stake_pool zero_pool @ replicate n 0"
proof -
  obtain zs where zs: "ser_stake_pool zero_pool = 2 # 0 # 1 # zs" "set zs \<subseteq> {0}" by (rule zero_pool_bytes)
  have le: "length zs \<le> 877" using zs(1) length_ser_stake_pool_le [of zero_pool] by (simp add: STAKE_POOL_MAX_LEN_def)
  have "le_bytes 3 1 = 1 # replicate 2 0" by (simp add: numeral_3_eq_3 numeral_2_eq_2)
  then have "ser_header \<lparr>vl_account_type = ValidatorList, vl_max_validators = 256\<rparr> = 2 # 0 # 1 # replicate 2 0"
    by (simp add: ser_header_bytes ser_account_type_def ser_u8_single)
  then have v: "victim_data = 2 # 0 # 1 # (replicate 2 0 @ ser_u32 0 @ replicate 18688 0)"
    by (simp add: victim_data_def bv_image_def)
  have "set (ser_u32 0) \<subseteq> {0}" by (auto simp: ser_u32_def ser_word_def word_to_le_def)
  then have "replicate 2 0 @ ser_u32 0 @ replicate 18688 0 = zs @ replicate (18694 - length zs) 0"
    using zs(2) le by (intro zeros_eq) auto
  then show ?thesis using v zs(1) by auto
qed

text \<open>The world of a new pool, with a list of some other pool at the address 30.\<close>

definition victim_world :: world where
  "victim_world = fresh_world(30 := sample_account 1000 victim_data PROGRAM)"

definition attack_accounts :: "account_info list" where
  "attack_accounts = [view 30, signer 4, view 3, view WITHDRAW_AUTHORITY, view LIST, view RESERVE, view MINT,
     view 7, view TOKEN_PROGRAM]"

lemma victim_world_simps [simp]:
  "victim_world 30 = sample_account 1000 victim_data PROGRAM"
  "k \<noteq> 30 \<Longrightarrow> victim_world k = fresh_world k"
  by (simp_all add: victim_world_def)

lemma victim_reads:
  "read_stake_pool victim_world (view 30) = Inr zero_pool" "is_uninitialized zero_pool"
  "read_validator_list victim_world (view LIST) = Inr fresh_list"
  "length (ser_stake_pool sp) \<le> length victim_data"
proof -
  obtain n where n: "victim_data = ser_stake_pool zero_pool @ replicate n 0" using victim_data_bytes by blast
  have "de_stake_pool victim_data = Some (zero_pool, replicate n 0)" unfolding n by (rule csp.de_ser)
  then show "read_stake_pool victim_world (view 30) = Inr zero_pool"
    by (simp add: read_stake_pool_def data_of_def)
  show "is_uninitialized zero_pool" by (simp add: is_uninitialized_def zero_pool_def)
  show "read_validator_list victim_world (view LIST) = Inr fresh_list"
    using fresh_reads(3) by (simp add: read_validator_list_def data_of_def)
  show "length (ser_stake_pool sp) \<le> length victim_data"
    using length_ser_stake_pool_le [of sp] by (simp add: victim_data_def STAKE_POOL_MAX_LEN_def HEADER_LEN_def bv_image_def)
qed

lemma attack_runs:
  "is_ok (process_initialize sample_rt PROGRAM attack_accounts \<lparr>denominator = 10, numerator = 1\<rparr>
     \<lparr>denominator = 1000, numerator = 1\<rparr> \<lparr>denominator = 100, numerator = 1\<rparr> 50 10 victim_world)"
  using victim_reads(4)
  by (simp add: process_initialize_def attack_accounts_def initialize_list_def victim_reads fresh_reads
      calculate_max_validators_def HEADER_LEN_def ENTRY_LEN_def MAX_VALIDATORS_IN_POOL_def initialize_mint_check_def
      initialize_reserve_def initialize_authorities_def write_validator_list_def run_eval)

lemma written_pool_not_list:
  assumes "write_stake_pool w info sp = Inr w'" "sp_version sp = 1"
  shows "load_validator_list w' info = Inl (pool_err InvalidState)"
proof -
  obtain t where s: "ser_stake_pool sp = 1 # t" "4 \<le> length t"
    using assms(2) by (simp add: ser_stake_pool_def ser_u8_single)
  from assms(1) s(1) obtain r where d: "data_of w' info = 1 # t @ r" by (auto simp: write_stake_pool_Inr)
  have "de_header (1 # t @ r) =
      Some (\<lparr>vl_account_type = StakePool, vl_max_validators = word_from_le (take 4 (t @ r))\<rparr>, drop 4 (t @ r))"
    using s(2) by (simp add: de_header_def de_account_type_def de_bind_def de_u8_Cons de_u32_def de_word_def)
  then show ?thesis using d
    by (simp add: load_validator_list_def deserialize_vec_def header_is_valid_def)
qed

text \<open>C16: \<open>Initialize\<close> can destroy the validator list of another pool: given an initialized, empty list for 256
  validators in the place of the new pool account, and no signature but that of the new manager, it succeeds and
  overwrites the list with a pool record. Before, the account was a valid list; afterwards it is rejected as a list and
  accepted as a pool.\<close>

theorem initialize_overwrites_list:
  "(\<exists>h v. load_validator_list victim_world (view 30) = Inr (h, v)) \<and>
   (\<exists>w' sp. process_initialize sample_rt PROGRAM attack_accounts \<lparr>denominator = 10, numerator = 1\<rparr>
        \<lparr>denominator = 1000, numerator = 1\<rparr> \<lparr>denominator = 100, numerator = 1\<rparr> 50 10 victim_world = Inr w' \<and>
      load_validator_list w' (view 30) = Inl (pool_err InvalidState) \<and>
      load_stake_pool PROGRAM w' (view 30) = Inr sp)"
proof
  show "\<exists>h v. load_validator_list victim_world (view 30) = Inr (h, v)"
    by (simp add: load_validator_list_def data_of_def deserialize_vec_def victim_data_def chd.de_ser header_is_valid_def)
  let ?f = "\<lparr>denominator = 10, numerator = 1\<rparr>" and ?g = "\<lparr>denominator = 1000, numerator = 1\<rparr>"
    and ?h = "\<lparr>denominator = 100, numerator = 1\<rparr>"
  obtain w' where run: "process_initialize sample_rt PROGRAM attack_accounts ?f ?g ?h 50 10 victim_world = Inr w'"
    using attack_runs by (auto simp: is_ok_iff)
  from run obtain w1 sp where wr: "write_stake_pool w1 (view 30) sp = Inr w'" and v: "sp_version sp = 1"
    by (simp add: process_initialize_def attack_accounts_def ok_iff Let_def case_prod_beta initialized_pool_def
        cong: if_cong split del: if_split) fastforce
  from initialize_effect [OF sample_respects_owner run [unfolded attack_accounts_def]]
  obtain sp' where "pool_ok PROGRAM (view 30) sp' w'" by blast
  then have "load_stake_pool PROGRAM w' (view 30) = Inr sp'" by (simp add: pool_ok_def load_stake_pool_Inr)
  then show "\<exists>w' sp. process_initialize sample_rt PROGRAM attack_accounts ?f ?g ?h 50 10 victim_world = Inr w' \<and>
      load_validator_list w' (view 30) = Inl (pool_err InvalidState) \<and> load_stake_pool PROGRAM w' (view 30) = Inr sp"
    using run written_pool_not_list [OF wr v] by blast
qed

end
