(* ===== verification/Instruction_Builders.thy ===== *)
theory Instruction_Builders
  imports Instruction
begin

section \<open>The instruction builders\<close>

text \<open>
  The functions of \<open>src/program/src/instruction.rs\<close> that build the instructions of the pool for
  clients, in the order of the source. Each is named after its function with the suffix \<open>_ix\<close>.
  An \<open>Instruction\<close> is the program, the list of account metas and the encoded data. The addresses
  of sysvars and of the stake configuration account are fields of the record \<open>known_ids\<close>; program
  addresses and their derivation come from the record \<open>runtime\<close>, as for the handlers.

  An \<open>Option<NonZeroU32>\<close> seed is a \<open>u32\<close> with 0 for \<open>None\<close>, as everywhere in the model. A \<open>usize\<close>
  is a natural number below \<open>2 ^ 64\<close>, with the saturating operations written out. An \<open>unwrap\<close> that
  can fail is an error value \<open>Panicked\<close>; the \<open>unwrap\<close> of \<open>borsh::to_vec\<close> fails only for strings of
  \<open>2 ^ 32\<close> bytes and more and is not modelled.
\<close>

subsection \<open>Instructions and account metas\<close>

record account_meta =
  am_pubkey :: pubkey
  am_is_signer :: bool
  am_is_writable :: bool

definition am_new :: "pubkey \<Rightarrow> bool \<Rightarrow> account_meta" where
  "am_new pubkey is_signer = \<lparr>am_pubkey = pubkey, am_is_signer = is_signer, am_is_writable = True\<rparr>"

definition am_new_readonly :: "pubkey \<Rightarrow> bool \<Rightarrow> account_meta" where
  "am_new_readonly pubkey is_signer =
     \<lparr>am_pubkey = pubkey, am_is_signer = is_signer, am_is_writable = False\<rparr>"

lemma am_new_simps [simp]:
  "am_pubkey (am_new k s) = k" "am_is_signer (am_new k s) = s" "am_is_writable (am_new k s)"
  "am_pubkey (am_new_readonly k s) = k" "am_is_signer (am_new_readonly k s) = s"
  "\<not> am_is_writable (am_new_readonly k s)"
  by (simp_all add: am_new_def am_new_readonly_def)

record instruction =
  ix_program_id :: pubkey
  ix_accounts :: "account_meta list"
  ix_data :: bytes

record known_ids =
  id_rent :: pubkey
  id_clock :: pubkey
  id_stake_history :: pubkey
  id_stake_config :: pubkey

text \<open>A client's transaction also holds instructions of the stake program.\<close>

datatype client_instruction = PoolInstruction instruction | StakeInstruction cpi

subsection \<open>Creating a pool and managing its validators\<close>

definition initialize_ix ::
    "pubkey \<Rightarrow> pubkey \<Rightarrow> pubkey \<Rightarrow> pubkey \<Rightarrow> pubkey \<Rightarrow>
      pubkey \<Rightarrow> pubkey \<Rightarrow> pubkey \<Rightarrow> pubkey \<Rightarrow> pubkey \<Rightarrow>
      pubkey option \<Rightarrow> fee \<Rightarrow> fee \<Rightarrow> fee \<Rightarrow> u8 \<Rightarrow>
      u32 \<Rightarrow> instruction" where
  "initialize_ix program_id stake_pool manager staker stake_pool_withdraw_authority validator_list
       reserve_stake pool_mint manager_pool_account token_program_id deposit_authority fee withdrawal_fee
       deposit_fee referral_fee max_validators =
     \<lparr>ix_program_id = program_id,
      ix_accounts =
       [am_new stake_pool False, am_new_readonly manager True, am_new_readonly staker False,
        am_new_readonly stake_pool_withdraw_authority False, am_new validator_list False,
        am_new_readonly reserve_stake False, am_new pool_mint False, am_new manager_pool_account False,
        am_new_readonly token_program_id False]
       @ (case deposit_authority of None \<Rightarrow> [] | Some deposit_authority \<Rightarrow>
             [am_new_readonly deposit_authority True]),
      ix_data = ser_instruction (Initialize fee withdrawal_fee deposit_fee referral_fee max_validators)\<rparr>"

definition add_validator_to_pool_ix ::
    "runtime \<Rightarrow> known_ids \<Rightarrow> pubkey \<Rightarrow> pubkey \<Rightarrow>
      pubkey \<Rightarrow> pubkey \<Rightarrow> pubkey \<Rightarrow> pubkey \<Rightarrow> pubkey \<Rightarrow>
      pubkey \<Rightarrow> u32 \<Rightarrow> instruction" where
  "add_validator_to_pool_ix rt ids program_id stake_pool staker reserve stake_pool_withdraw validator_list
       stake validator seed =
     \<lparr>ix_program_id = program_id,
      ix_accounts =
       [am_new stake_pool False, am_new_readonly staker True, am_new reserve False,
        am_new_readonly stake_pool_withdraw False, am_new validator_list False, am_new stake False,
        am_new_readonly validator False, am_new_readonly (id_rent ids) False,
        am_new_readonly (id_clock ids) False, am_new_readonly (id_stake_history ids) False,
        am_new_readonly (id_stake_config ids) False, am_new_readonly (rt_system_program rt) False,
        am_new_readonly (rt_stake_program rt) False],
      ix_data = ser_instruction (AddValidatorToPool seed)\<rparr>"

definition remove_validator_from_pool_ix ::
    "runtime \<Rightarrow> known_ids \<Rightarrow> pubkey \<Rightarrow> pubkey \<Rightarrow>
      pubkey \<Rightarrow> pubkey \<Rightarrow> pubkey \<Rightarrow> pubkey \<Rightarrow> pubkey \<Rightarrow>
      instruction" where
  "remove_validator_from_pool_ix rt ids program_id stake_pool staker stake_pool_withdraw validator_list
       stake_account transient_stake_account =
     \<lparr>ix_program_id = program_id,
      ix_accounts =
       [am_new stake_pool False, am_new_readonly staker True, am_new_readonly stake_pool_withdraw False,
        am_new validator_list False, am_new stake_account False, am_new transient_stake_account False,
        am_new_readonly (id_clock ids) False, am_new_readonly (rt_stake_program rt) False],
      ix_data = ser_instruction RemoveValidatorFromPool\<rparr>"

definition decrease_validator_stake_ix ::
    "runtime \<Rightarrow> known_ids \<Rightarrow> pubkey \<Rightarrow> pubkey \<Rightarrow>
      pubkey \<Rightarrow> pubkey \<Rightarrow> pubkey \<Rightarrow> pubkey \<Rightarrow> pubkey \<Rightarrow>
      u64 \<Rightarrow> u64 \<Rightarrow> instruction" where
  "decrease_validator_stake_ix rt ids program_id stake_pool staker stake_pool_withdraw_authority
       validator_list validator_stake transient_stake lamports transient_stake_seed =
     \<lparr>ix_program_id = program_id,
      ix_accounts =
       [am_new_readonly stake_pool False, am_new_readonly staker True,
        am_new_readonly stake_pool_withdraw_authority False, am_new validator_list False,
        am_new validator_stake False, am_new transient_stake False, am_new_readonly (id_clock ids) False,
        am_new_readonly (id_rent ids) False, am_new_readonly (rt_system_program rt) False,
        am_new_readonly (rt_stake_program rt) False],
      ix_data = ser_instruction (DecreaseValidatorStake lamports transient_stake_seed)\<rparr>"

definition decrease_additional_validator_stake_ix ::
    "runtime \<Rightarrow> known_ids \<Rightarrow> pubkey \<Rightarrow> pubkey \<Rightarrow>
      pubkey \<Rightarrow> pubkey \<Rightarrow> pubkey \<Rightarrow> pubkey \<Rightarrow> pubkey \<Rightarrow>
      pubkey \<Rightarrow> pubkey \<Rightarrow> u64 \<Rightarrow> u64 \<Rightarrow> u64 \<Rightarrow>
      instruction" where
  "decrease_additional_validator_stake_ix rt ids program_id stake_pool staker stake_pool_withdraw_authority
       validator_list reserve_stake validator_stake ephemeral_stake transient_stake lamports
       transient_stake_seed ephemeral_stake_seed =
     \<lparr>ix_program_id = program_id,
      ix_accounts =
       [am_new_readonly stake_pool False, am_new_readonly staker True,
        am_new_readonly stake_pool_withdraw_authority False, am_new validator_list False,
        am_new reserve_stake False, am_new validator_stake False, am_new ephemeral_stake False,
        am_new transient_stake False, am_new_readonly (id_clock ids) False,
        am_new_readonly (id_stake_history ids) False, am_new_readonly (rt_system_program rt) False,
        am_new_readonly (rt_stake_program rt) False],
      ix_data = ser_instruction (DecreaseAdditionalValidatorStake lamports transient_stake_seed
            ephemeral_stake_seed)\<rparr>"

definition decrease_validator_stake_with_reserve_ix ::
    "runtime \<Rightarrow> known_ids \<Rightarrow> pubkey \<Rightarrow> pubkey \<Rightarrow>
      pubkey \<Rightarrow> pubkey \<Rightarrow> pubkey \<Rightarrow> pubkey \<Rightarrow> pubkey \<Rightarrow>
      pubkey \<Rightarrow> u64 \<Rightarrow> u64 \<Rightarrow> instruction" where
  "decrease_validator_stake_with_reserve_ix rt ids program_id stake_pool staker
       stake_pool_withdraw_authority validator_list reserve_stake validator_stake transient_stake lamports
       transient_stake_seed =
     \<lparr>ix_program_id = program_id,
      ix_accounts =
       [am_new_readonly stake_pool False, am_new_readonly staker True,
        am_new_readonly stake_pool_withdraw_authority False, am_new validator_list False,
        am_new reserve_stake False, am_new validator_stake False, am_new transient_stake False,
        am_new_readonly (id_clock ids) False, am_new_readonly (id_stake_history ids) False,
        am_new_readonly (rt_system_program rt) False, am_new_readonly (rt_stake_program rt) False],
      ix_data = ser_instruction (DecreaseValidatorStakeWithReserve lamports transient_stake_seed)\<rparr>"

definition increase_validator_stake_ix ::
    "runtime \<Rightarrow> known_ids \<Rightarrow> pubkey \<Rightarrow> pubkey \<Rightarrow>
      pubkey \<Rightarrow> pubkey \<Rightarrow> pubkey \<Rightarrow> pubkey \<Rightarrow> pubkey \<Rightarrow>
      pubkey \<Rightarrow> pubkey \<Rightarrow> u64 \<Rightarrow> u64 \<Rightarrow> instruction" where
  "increase_validator_stake_ix rt ids program_id stake_pool staker stake_pool_withdraw_authority
       validator_list reserve_stake transient_stake validator_stake validator lamports transient_stake_seed =
     \<lparr>ix_program_id = program_id,
      ix_accounts =
       [am_new_readonly stake_pool False, am_new_readonly staker True,
        am_new_readonly stake_pool_withdraw_authority False, am_new validator_list False,
        am_new reserve_stake False, am_new transient_stake False, am_new_readonly validator_stake False,
        am_new_readonly validator False, am_new_readonly (id_clock ids) False,
        am_new_readonly (id_rent ids) False, am_new_readonly (id_stake_history ids) False,
        am_new_readonly (id_stake_config ids) False, am_new_readonly (rt_system_program rt) False,
        am_new_readonly (rt_stake_program rt) False],
      ix_data = ser_instruction (IncreaseValidatorStake lamports transient_stake_seed)\<rparr>"

definition increase_additional_validator_stake_ix ::
    "runtime \<Rightarrow> known_ids \<Rightarrow> pubkey \<Rightarrow> pubkey \<Rightarrow>
      pubkey \<Rightarrow> pubkey \<Rightarrow> pubkey \<Rightarrow> pubkey \<Rightarrow> pubkey \<Rightarrow>
      pubkey \<Rightarrow> pubkey \<Rightarrow> pubkey \<Rightarrow> u64 \<Rightarrow> u64 \<Rightarrow>
      u64 \<Rightarrow> instruction" where
  "increase_additional_validator_stake_ix rt ids program_id stake_pool staker stake_pool_withdraw_authority
       validator_list reserve_stake ephemeral_stake transient_stake validator_stake validator lamports
       transient_stake_seed ephemeral_stake_seed =
     \<lparr>ix_program_id = program_id,
      ix_accounts =
       [am_new_readonly stake_pool False, am_new_readonly staker True,
        am_new_readonly stake_pool_withdraw_authority False, am_new validator_list False,
        am_new reserve_stake False, am_new ephemeral_stake False, am_new transient_stake False,
        am_new_readonly validator_stake False, am_new_readonly validator False,
        am_new_readonly (id_clock ids) False, am_new_readonly (id_stake_history ids) False,
        am_new_readonly (id_stake_config ids) False, am_new_readonly (rt_system_program rt) False,
        am_new_readonly (rt_stake_program rt) False],
      ix_data = ser_instruction (IncreaseAdditionalValidatorStake lamports transient_stake_seed
            ephemeral_stake_seed)\<rparr>"

definition redelegate_ix ::
    "runtime \<Rightarrow> known_ids \<Rightarrow> pubkey \<Rightarrow> pubkey \<Rightarrow>
      pubkey \<Rightarrow> pubkey \<Rightarrow> pubkey \<Rightarrow> pubkey \<Rightarrow> pubkey \<Rightarrow>
      pubkey \<Rightarrow> pubkey \<Rightarrow> pubkey \<Rightarrow> pubkey \<Rightarrow> pubkey \<Rightarrow>
      u64 \<Rightarrow> u64 \<Rightarrow> u64 \<Rightarrow> u64 \<Rightarrow> instruction" where
  "redelegate_ix rt ids program_id stake_pool staker stake_pool_withdraw_authority validator_list
       reserve_stake source_validator_stake source_transient_stake ephemeral_stake destination_transient_stake
       destination_validator_stake validator lamports source_transient_stake_seed ephemeral_stake_seed
       destination_transient_stake_seed =
     \<lparr>ix_program_id = program_id,
      ix_accounts =
       [am_new_readonly stake_pool False, am_new_readonly staker True,
        am_new_readonly stake_pool_withdraw_authority False, am_new validator_list False,
        am_new reserve_stake False, am_new source_validator_stake False, am_new source_transient_stake False,
        am_new ephemeral_stake False, am_new destination_transient_stake False,
        am_new_readonly destination_validator_stake False, am_new_readonly validator False,
        am_new_readonly (id_clock ids) False, am_new_readonly (id_stake_history ids) False,
        am_new_readonly (id_stake_config ids) False, am_new_readonly (rt_system_program rt) False,
        am_new_readonly (rt_stake_program rt) False],
      ix_data = ser_instruction (Redelegate lamports source_transient_stake_seed ephemeral_stake_seed
            destination_transient_stake_seed)\<rparr>"

definition set_preferred_validator_ix ::
    "pubkey \<Rightarrow> pubkey \<Rightarrow> pubkey \<Rightarrow> pubkey \<Rightarrow>
      preferred_validator_type \<Rightarrow> pubkey option \<Rightarrow> instruction" where
  "set_preferred_validator_ix program_id stake_pool_address staker validator_list_address validator_type
       validator_vote_address =
     \<lparr>ix_program_id = program_id,
      ix_accounts =
       [am_new stake_pool_address False, am_new_readonly staker True,
        am_new_readonly validator_list_address False],
      ix_data = ser_instruction (SetPreferredValidator validator_type validator_vote_address)\<rparr>"

definition add_validator_to_pool_with_vote_ix ::
    "runtime \<Rightarrow> known_ids \<Rightarrow> pubkey \<Rightarrow> stake_pool \<Rightarrow>
      pubkey \<Rightarrow> pubkey \<Rightarrow> u32 \<Rightarrow> instruction" where
  "add_validator_to_pool_with_vote_ix rt ids program_id stake_pool stake_pool_address vote_account_address
       seed =
     (let pool_withdraw_authority = fst (find_withdraw_authority_program_address rt program_id
           stake_pool_address);
          stake_account_address = fst (find_stake_program_address rt program_id vote_account_address
                stake_pool_address seed) in
      add_validator_to_pool_ix rt ids program_id stake_pool_address (sp_staker stake_pool)
       (sp_reserve_stake stake_pool) pool_withdraw_authority (sp_validator_list stake_pool)
       stake_account_address vote_account_address seed)"

definition remove_validator_from_pool_with_vote_ix ::
    "runtime \<Rightarrow> known_ids \<Rightarrow> pubkey \<Rightarrow> stake_pool \<Rightarrow>
      pubkey \<Rightarrow> pubkey \<Rightarrow> u32 \<Rightarrow> u64 \<Rightarrow> instruction" where
  "remove_validator_from_pool_with_vote_ix rt ids program_id stake_pool stake_pool_address
       vote_account_address validator_stake_seed transient_stake_seed =
     (let pool_withdraw_authority = fst (find_withdraw_authority_program_address rt program_id
           stake_pool_address);
          stake_account_address = fst (find_stake_program_address rt program_id vote_account_address
                stake_pool_address validator_stake_seed);
          transient_stake_account = fst (find_transient_stake_program_address rt program_id
                vote_account_address stake_pool_address transient_stake_seed) in
      remove_validator_from_pool_ix rt ids program_id stake_pool_address (sp_staker stake_pool)
       pool_withdraw_authority (sp_validator_list stake_pool) stake_account_address transient_stake_account)"

definition increase_validator_stake_with_vote_ix ::
    "runtime \<Rightarrow> known_ids \<Rightarrow> pubkey \<Rightarrow> stake_pool \<Rightarrow>
      pubkey \<Rightarrow> pubkey \<Rightarrow> u64 \<Rightarrow> u32 \<Rightarrow> u64 \<Rightarrow>
      instruction" where
  "increase_validator_stake_with_vote_ix rt ids program_id stake_pool stake_pool_address
       vote_account_address lamports validator_stake_seed transient_stake_seed =
     (let pool_withdraw_authority = fst (find_withdraw_authority_program_address rt program_id
           stake_pool_address);
          transient_stake_address = fst (find_transient_stake_program_address rt program_id
                vote_account_address stake_pool_address transient_stake_seed);
          validator_stake_address = fst (find_stake_program_address rt program_id vote_account_address
                stake_pool_address validator_stake_seed) in
      increase_validator_stake_ix rt ids program_id stake_pool_address (sp_staker stake_pool)
       pool_withdraw_authority (sp_validator_list stake_pool) (sp_reserve_stake stake_pool)
       transient_stake_address validator_stake_address vote_account_address lamports transient_stake_seed)"

definition increase_additional_validator_stake_with_vote_ix ::
    "runtime \<Rightarrow> known_ids \<Rightarrow> pubkey \<Rightarrow> stake_pool \<Rightarrow>
      pubkey \<Rightarrow> pubkey \<Rightarrow> u64 \<Rightarrow> u32 \<Rightarrow> u64 \<Rightarrow>
      u64 \<Rightarrow> instruction" where
  "increase_additional_validator_stake_with_vote_ix rt ids program_id stake_pool stake_pool_address
       vote_account_address lamports validator_stake_seed transient_stake_seed ephemeral_stake_seed =
     (let pool_withdraw_authority = fst (find_withdraw_authority_program_address rt program_id
           stake_pool_address);
          ephemeral_stake_address = fst (find_ephemeral_stake_program_address rt program_id
                stake_pool_address ephemeral_stake_seed);
          transient_stake_address = fst (find_transient_stake_program_address rt program_id
                vote_account_address stake_pool_address transient_stake_seed);
          validator_stake_address = fst (find_stake_program_address rt program_id vote_account_address
                stake_pool_address validator_stake_seed) in
      increase_additional_validator_stake_ix rt ids program_id stake_pool_address (sp_staker stake_pool)
       pool_withdraw_authority (sp_validator_list stake_pool) (sp_reserve_stake stake_pool)
       ephemeral_stake_address transient_stake_address validator_stake_address vote_account_address lamports
       transient_stake_seed ephemeral_stake_seed)"

definition decrease_validator_stake_with_vote_ix ::
    "runtime \<Rightarrow> known_ids \<Rightarrow> pubkey \<Rightarrow> stake_pool \<Rightarrow>
      pubkey \<Rightarrow> pubkey \<Rightarrow> u64 \<Rightarrow> u32 \<Rightarrow> u64 \<Rightarrow>
      instruction" where
  "decrease_validator_stake_with_vote_ix rt ids program_id stake_pool stake_pool_address
       vote_account_address lamports validator_stake_seed transient_stake_seed =
     (let pool_withdraw_authority = fst (find_withdraw_authority_program_address rt program_id
           stake_pool_address);
          validator_stake_address = fst (find_stake_program_address rt program_id vote_account_address
                stake_pool_address validator_stake_seed);
          transient_stake_address = fst (find_transient_stake_program_address rt program_id
                vote_account_address stake_pool_address transient_stake_seed) in
      decrease_validator_stake_with_reserve_ix rt ids program_id stake_pool_address (sp_staker stake_pool)
       pool_withdraw_authority (sp_validator_list stake_pool) (sp_reserve_stake stake_pool)
       validator_stake_address transient_stake_address lamports transient_stake_seed)"

definition increase_additional_validator_stake_with_list_ix ::
    "runtime \<Rightarrow> known_ids \<Rightarrow> pubkey \<Rightarrow> stake_pool \<Rightarrow> validator_list \<Rightarrow> pubkey \<Rightarrow> pubkey \<Rightarrow>
      u64 \<Rightarrow> u64 \<Rightarrow> program_error + instruction" where
  "increase_additional_validator_stake_with_list_ix rt ids program_id stake_pool validator_list
       stake_pool_address vote_account_address lamports ephemeral_stake_seed =
     bindE (ok_or (vl_find validator_list vote_account_address) InvalidInstructionData) (\<lambda>validator_info.
     let transient_stake_seed = vs_transient_seed_suffix validator_info;
         validator_stake_seed = vs_validator_seed_suffix validator_info in
     Inr (increase_additional_validator_stake_with_vote_ix rt ids program_id stake_pool stake_pool_address
            vote_account_address lamports validator_stake_seed transient_stake_seed ephemeral_stake_seed))"

definition decrease_additional_validator_stake_with_vote_ix ::
    "runtime \<Rightarrow> known_ids \<Rightarrow> pubkey \<Rightarrow> stake_pool \<Rightarrow>
      pubkey \<Rightarrow> pubkey \<Rightarrow> u64 \<Rightarrow> u32 \<Rightarrow> u64 \<Rightarrow>
      u64 \<Rightarrow> instruction" where
  "decrease_additional_validator_stake_with_vote_ix rt ids program_id stake_pool stake_pool_address
       vote_account_address lamports validator_stake_seed transient_stake_seed ephemeral_stake_seed =
     (let pool_withdraw_authority = fst (find_withdraw_authority_program_address rt program_id
           stake_pool_address);
          validator_stake_address = fst (find_stake_program_address rt program_id vote_account_address
                stake_pool_address validator_stake_seed);
          ephemeral_stake_address = fst (find_ephemeral_stake_program_address rt program_id
                stake_pool_address ephemeral_stake_seed);
          transient_stake_address = fst (find_transient_stake_program_address rt program_id
                vote_account_address stake_pool_address transient_stake_seed) in
      decrease_additional_validator_stake_ix rt ids program_id stake_pool_address (sp_staker stake_pool)
       pool_withdraw_authority (sp_validator_list stake_pool) (sp_reserve_stake stake_pool)
       validator_stake_address ephemeral_stake_address transient_stake_address lamports transient_stake_seed
       ephemeral_stake_seed)"

definition decrease_additional_validator_stake_with_list_ix ::
    "runtime \<Rightarrow> known_ids \<Rightarrow> pubkey \<Rightarrow> stake_pool \<Rightarrow> validator_list \<Rightarrow> pubkey \<Rightarrow> pubkey \<Rightarrow>
      u64 \<Rightarrow> u64 \<Rightarrow> program_error + instruction" where
  "decrease_additional_validator_stake_with_list_ix rt ids program_id stake_pool validator_list
       stake_pool_address vote_account_address lamports ephemeral_stake_seed =
     bindE (ok_or (vl_find validator_list vote_account_address) InvalidInstructionData) (\<lambda>validator_info.
     let transient_stake_seed = vs_transient_seed_suffix validator_info;
         validator_stake_seed = vs_validator_seed_suffix validator_info in
     Inr (decrease_additional_validator_stake_with_vote_ix rt ids program_id stake_pool stake_pool_address
            vote_account_address lamports validator_stake_seed transient_stake_seed ephemeral_stake_seed))"

subsection \<open>The epoch update\<close>

text \<open>The two accounts of an entry, as the closures of the next two functions build them.\<close>

definition entry_metas :: "runtime \<Rightarrow> pubkey \<Rightarrow> pubkey \<Rightarrow> validator_stake_info \<Rightarrow> account_meta list" where
  "entry_metas rt program_id stake_pool info =
     [am_new (fst (find_stake_program_address rt program_id (vs_vote_account_address info) stake_pool
                     (vs_validator_seed_suffix info))) False,
      am_new (fst (find_transient_stake_program_address rt program_id (vs_vote_account_address info)
                     stake_pool (vs_transient_seed_suffix info))) False]"

definition update_list_metas ::
    "runtime \<Rightarrow> known_ids \<Rightarrow> pubkey \<Rightarrow> pubkey \<Rightarrow> pubkey \<Rightarrow> pubkey \<Rightarrow> account_meta list" where
  "update_list_metas rt ids stake_pool stake_pool_withdraw_authority validator_list_address reserve_stake =
     [am_new_readonly stake_pool False, am_new_readonly stake_pool_withdraw_authority False,
      am_new validator_list_address False, am_new reserve_stake False,
      am_new_readonly (id_clock ids) False, am_new_readonly (id_stake_history ids) False,
      am_new_readonly (rt_stake_program rt) False]"

definition update_validator_list_balance_ix ::
    "runtime \<Rightarrow> known_ids \<Rightarrow> pubkey \<Rightarrow> pubkey \<Rightarrow> pubkey \<Rightarrow> pubkey \<Rightarrow> pubkey \<Rightarrow> validator_list \<Rightarrow>
      pubkey list \<Rightarrow> u32 \<Rightarrow> bool \<Rightarrow> instruction" where
  "update_validator_list_balance_ix rt ids program_id stake_pool stake_pool_withdraw_authority
       validator_list_address reserve_stake validator_list validator_vote_accounts start_index no_merge =
     \<lparr>ix_program_id = program_id,
      ix_accounts =
        update_list_metas rt ids stake_pool stake_pool_withdraw_authority validator_list_address reserve_stake
        @ concat (map (\<lambda>vote_account_address.
            case vl_find validator_list vote_account_address of
              Some validator_stake_info \<Rightarrow> entry_metas rt program_id stake_pool validator_stake_info
            | None \<Rightarrow> []) validator_vote_accounts),
      ix_data = ser_instruction (UpdateValidatorListBalance start_index no_merge)\<rparr>"

text \<open>Operations of \<open>usize\<close>, and \<open>slice.get(a..b)\<close>.\<close>

definition usize_saturating_add :: "nat \<Rightarrow> nat \<Rightarrow> nat" where
  "usize_saturating_add a b = min (a + b) (2 ^ 64 - 1)"

definition usize_saturating_mul :: "nat \<Rightarrow> nat \<Rightarrow> nat" where
  "usize_saturating_mul a b = min (a * b) (2 ^ 64 - 1)"

definition get_range :: "'a list \<Rightarrow> nat \<Rightarrow> nat \<Rightarrow> 'a list option" where
  "get_range xs a b = (if a \<le> b \<and> b \<le> length xs then Some (take (b - a) (drop a xs)) else None)"

definition u32_of_usize :: "nat \<Rightarrow> program_error + u32" where
  "u32_of_usize n = (if n < 2 ^ 32 then Inr (word_of_nat n) else Inl Panicked)"

definition update_validator_list_balance_chunk_ix ::
    "runtime \<Rightarrow> known_ids \<Rightarrow> pubkey \<Rightarrow> pubkey \<Rightarrow> pubkey \<Rightarrow> pubkey \<Rightarrow> pubkey \<Rightarrow> validator_list \<Rightarrow>
      nat \<Rightarrow> nat \<Rightarrow> bool \<Rightarrow> program_error + instruction" where
  "update_validator_list_balance_chunk_ix rt ids program_id stake_pool stake_pool_withdraw_authority
       validator_list_address reserve_stake validator_list len start_index no_merge =
     bindE (ok_or (get_range (vl_validators validator_list) start_index
                    (usize_saturating_add start_index len)) InvalidInstructionData)
       (\<lambda>validator_list_subslice.
     bindE (u32_of_usize start_index) (\<lambda>start.
     Inr \<lparr>ix_program_id = program_id,
          ix_accounts =
            update_list_metas rt ids stake_pool stake_pool_withdraw_authority validator_list_address
              reserve_stake
            @ concat (map (entry_metas rt program_id stake_pool) validator_list_subslice),
          ix_data = ser_instruction (UpdateValidatorListBalance start no_merge)\<rparr>))"

definition update_stale_validator_list_balance_chunk_ix ::
    "runtime \<Rightarrow> known_ids \<Rightarrow> pubkey \<Rightarrow> pubkey \<Rightarrow> pubkey \<Rightarrow> pubkey \<Rightarrow> pubkey \<Rightarrow> validator_list \<Rightarrow>
      nat \<Rightarrow> nat \<Rightarrow> bool \<Rightarrow> u64 \<Rightarrow> program_error + instruction option" where
  "update_stale_validator_list_balance_chunk_ix rt ids program_id stake_pool stake_pool_withdraw_authority
       validator_list_address reserve_stake validator_list len start_index no_merge current_epoch =
     bindE (ok_or (get_range (vl_validators validator_list) start_index
                    (usize_saturating_add start_index len)) InvalidInstructionData)
       (\<lambda>validator_list_subslice.
     if list_all (\<lambda>info. vs_last_update_epoch info \<ge> current_epoch) validator_list_subslice then Inr None
     else
       bindE (update_validator_list_balance_chunk_ix rt ids program_id stake_pool
                stake_pool_withdraw_authority validator_list_address reserve_stake validator_list len
                start_index no_merge) (\<lambda>ix. Inr (Some ix)))"

definition update_stake_pool_balance_ix ::
    "pubkey \<Rightarrow> pubkey \<Rightarrow> pubkey \<Rightarrow> pubkey \<Rightarrow> pubkey \<Rightarrow>
      pubkey \<Rightarrow> pubkey \<Rightarrow> pubkey \<Rightarrow> instruction" where
  "update_stake_pool_balance_ix program_id stake_pool withdraw_authority validator_list_storage
       reserve_stake manager_fee_account stake_pool_mint token_program_id =
     \<lparr>ix_program_id = program_id,
      ix_accounts =
       [am_new stake_pool False, am_new_readonly withdraw_authority False, am_new validator_list_storage False,
        am_new_readonly reserve_stake False, am_new manager_fee_account False, am_new stake_pool_mint False,
        am_new_readonly token_program_id False],
      ix_data = ser_instruction UpdateStakePoolBalance\<rparr>"

definition cleanup_removed_validator_entries_ix ::
    "pubkey \<Rightarrow> pubkey \<Rightarrow> pubkey \<Rightarrow> instruction" where
  "cleanup_removed_validator_entries_ix program_id stake_pool validator_list_storage =
     \<lparr>ix_program_id = program_id,
      ix_accounts =
       [am_new stake_pool False, am_new validator_list_storage False],
      ix_data = ser_instruction CleanupRemovedValidatorEntries\<rparr>"

text \<open>\<open>slice.chunks(n)\<close>, \<open>Result::unwrap\<close>, and the collection of an iterator whose closure may panic.\<close>

function slice_chunks :: "nat \<Rightarrow> 'a list \<Rightarrow> 'a list list" where
  "slice_chunks n xs = (if n = 0 \<or> xs = [] then [] else take n xs # slice_chunks n (drop n xs))"
  by pat_completeness auto
termination by (relation "measure (\<lambda>(n, xs). length xs)") auto

declare slice_chunks.simps [simp del]

definition unwrap_result :: "program_error + 'a \<Rightarrow> program_error + 'a" where
  "unwrap_result r = (case r of Inl _ \<Rightarrow> Inl Panicked | Inr x \<Rightarrow> Inr x)"

fun collect_ok :: "('a \<Rightarrow> program_error + 'b) \<Rightarrow> 'a list \<Rightarrow> program_error + 'b list" where
  "collect_ok f [] = Inr []"
| "collect_ok f (x # xs) = bindE (f x) (\<lambda>y. bindE (collect_ok f xs) (\<lambda>ys. Inr (y # ys)))"

definition MAX_VALIDATORS_TO_UPDATE :: nat where
  "MAX_VALIDATORS_TO_UPDATE = 5"

definition update_stake_pool_ix ::
    "runtime \<Rightarrow> known_ids \<Rightarrow> pubkey \<Rightarrow> stake_pool \<Rightarrow> validator_list \<Rightarrow> pubkey \<Rightarrow> bool \<Rightarrow>
      program_error + (instruction list \<times> instruction list)" where
  "update_stake_pool_ix rt ids program_id stake_pool validator_list stake_pool_address no_merge =
     (let withdraw_authority = fst (find_withdraw_authority_program_address rt program_id stake_pool_address) in
      bindE (collect_ok (\<lambda>(i, chunk).
               unwrap_result (update_validator_list_balance_chunk_ix rt ids program_id stake_pool_address
                 withdraw_authority (sp_validator_list stake_pool) (sp_reserve_stake stake_pool)
                 validator_list (length chunk) (usize_saturating_mul i MAX_VALIDATORS_TO_UPDATE) no_merge))
               (List.enumerate 0 (slice_chunks MAX_VALIDATORS_TO_UPDATE (vl_validators validator_list))))
        (\<lambda>update_list_instructions.
      Inr (update_list_instructions,
           [update_stake_pool_balance_ix program_id stake_pool_address withdraw_authority
              (sp_validator_list stake_pool) (sp_reserve_stake stake_pool)
              (sp_manager_fee_account stake_pool) (sp_pool_mint stake_pool) (sp_token_program_id stake_pool),
            cleanup_removed_validator_entries_ix program_id stake_pool_address
              (sp_validator_list stake_pool)])))"

definition update_stale_stake_pool_ix ::
    "runtime \<Rightarrow> known_ids \<Rightarrow> pubkey \<Rightarrow> stake_pool \<Rightarrow> validator_list \<Rightarrow> pubkey \<Rightarrow> bool \<Rightarrow> u64 \<Rightarrow>
      program_error + (instruction list \<times> instruction list)" where
  "update_stale_stake_pool_ix rt ids program_id stake_pool validator_list stake_pool_address no_merge
       current_epoch =
     (let withdraw_authority = fst (find_withdraw_authority_program_address rt program_id stake_pool_address) in
      bindE (collect_ok (\<lambda>(i, chunk).
               unwrap_result (update_stale_validator_list_balance_chunk_ix rt ids program_id
                 stake_pool_address withdraw_authority (sp_validator_list stake_pool)
                 (sp_reserve_stake stake_pool) validator_list (length chunk)
                 (usize_saturating_mul i MAX_VALIDATORS_TO_UPDATE) no_merge current_epoch))
               (List.enumerate 0 (slice_chunks MAX_VALIDATORS_TO_UPDATE (vl_validators validator_list))))
        (\<lambda>update_list_instructions.
      Inr (List.map_filter id update_list_instructions,
           [update_stake_pool_balance_ix program_id stake_pool_address withdraw_authority
              (sp_validator_list stake_pool) (sp_reserve_stake stake_pool)
              (sp_manager_fee_account stake_pool) (sp_pool_mint stake_pool) (sp_token_program_id stake_pool),
            cleanup_removed_validator_entries_ix program_id stake_pool_address
              (sp_validator_list stake_pool)])))"

subsection \<open>Deposits and withdrawals\<close>

definition deposit_stake_internal_ix ::
    "runtime \<Rightarrow> known_ids \<Rightarrow> pubkey \<Rightarrow> pubkey \<Rightarrow> pubkey \<Rightarrow> pubkey option \<Rightarrow> pubkey \<Rightarrow> pubkey \<Rightarrow>
      pubkey \<Rightarrow> pubkey \<Rightarrow> pubkey \<Rightarrow> pubkey \<Rightarrow> pubkey \<Rightarrow> pubkey \<Rightarrow> pubkey \<Rightarrow> pubkey \<Rightarrow> u64 option \<Rightarrow>
      client_instruction list" where
  "deposit_stake_internal_ix rt ids program_id stake_pool validator_list_storage
       stake_pool_deposit_authority stake_pool_withdraw_authority deposit_stake_address
       deposit_stake_withdraw_authority validator_stake_account reserve_stake_account pool_tokens_to
       manager_fee_account referrer_pool_tokens_account pool_mint token_program_id minimum_pool_tokens_out =
     (let (authority_meta, authority) =
        (case stake_pool_deposit_authority of
           Some stake_pool_deposit_authority \<Rightarrow>
             (am_new_readonly stake_pool_deposit_authority True, stake_pool_deposit_authority)
         | None \<Rightarrow>
             let stake_pool_deposit_authority =
               fst (find_deposit_authority_program_address rt program_id stake_pool) in
             (am_new_readonly stake_pool_deposit_authority False, stake_pool_deposit_authority)) in
      [StakeInstruction (StakeAuthorize deposit_stake_address deposit_stake_withdraw_authority authority
         Staker None),
       StakeInstruction (StakeAuthorize deposit_stake_address deposit_stake_withdraw_authority authority
         Withdrawer None),
       PoolInstruction
         \<lparr>ix_program_id = program_id,
          ix_accounts =
            [am_new stake_pool False, am_new validator_list_storage False, authority_meta,
             am_new_readonly stake_pool_withdraw_authority False, am_new deposit_stake_address False,
             am_new validator_stake_account False, am_new reserve_stake_account False,
             am_new pool_tokens_to False, am_new manager_fee_account False,
             am_new referrer_pool_tokens_account False, am_new pool_mint False,
             am_new_readonly (id_clock ids) False, am_new_readonly (id_stake_history ids) False,
             am_new_readonly token_program_id False, am_new_readonly (rt_stake_program rt) False],
          ix_data =
            (case minimum_pool_tokens_out of
               Some minimum_pool_tokens_out \<Rightarrow>
                 ser_instruction (DepositStakeWithSlippage minimum_pool_tokens_out)
             | None \<Rightarrow> ser_instruction DepositStake)\<rparr>])"

definition deposit_stake_ix ::
    "runtime \<Rightarrow> known_ids \<Rightarrow> pubkey \<Rightarrow> pubkey \<Rightarrow>
      pubkey \<Rightarrow> pubkey \<Rightarrow> pubkey \<Rightarrow> pubkey \<Rightarrow> pubkey \<Rightarrow>
      pubkey \<Rightarrow> pubkey \<Rightarrow> pubkey \<Rightarrow> pubkey \<Rightarrow> pubkey \<Rightarrow>
      pubkey \<Rightarrow> client_instruction list" where
  "deposit_stake_ix rt ids program_id stake_pool validator_list_storage stake_pool_withdraw_authority
       deposit_stake_address deposit_stake_withdraw_authority validator_stake_account reserve_stake_account
       pool_tokens_to manager_fee_account referrer_pool_tokens_account pool_mint token_program_id =
     deposit_stake_internal_ix rt ids program_id stake_pool validator_list_storage None
       stake_pool_withdraw_authority deposit_stake_address deposit_stake_withdraw_authority
       validator_stake_account reserve_stake_account pool_tokens_to manager_fee_account
       referrer_pool_tokens_account pool_mint token_program_id None"

definition deposit_stake_with_slippage_ix ::
    "runtime \<Rightarrow> known_ids \<Rightarrow> pubkey \<Rightarrow> pubkey \<Rightarrow>
      pubkey \<Rightarrow> pubkey \<Rightarrow> pubkey \<Rightarrow> pubkey \<Rightarrow> pubkey \<Rightarrow>
      pubkey \<Rightarrow> pubkey \<Rightarrow> pubkey \<Rightarrow> pubkey \<Rightarrow> pubkey \<Rightarrow>
      pubkey \<Rightarrow> u64 \<Rightarrow> client_instruction list" where
  "deposit_stake_with_slippage_ix rt ids program_id stake_pool validator_list_storage
       stake_pool_withdraw_authority deposit_stake_address deposit_stake_withdraw_authority
       validator_stake_account reserve_stake_account pool_tokens_to manager_fee_account
       referrer_pool_tokens_account pool_mint token_program_id minimum_pool_tokens_out =
     deposit_stake_internal_ix rt ids program_id stake_pool validator_list_storage None
       stake_pool_withdraw_authority deposit_stake_address deposit_stake_withdraw_authority
       validator_stake_account reserve_stake_account pool_tokens_to manager_fee_account
       referrer_pool_tokens_account pool_mint token_program_id (Some minimum_pool_tokens_out)"

definition deposit_stake_with_authority_ix ::
    "runtime \<Rightarrow> known_ids \<Rightarrow> pubkey \<Rightarrow> pubkey \<Rightarrow>
      pubkey \<Rightarrow> pubkey \<Rightarrow> pubkey \<Rightarrow> pubkey \<Rightarrow> pubkey \<Rightarrow>
      pubkey \<Rightarrow> pubkey \<Rightarrow> pubkey \<Rightarrow> pubkey \<Rightarrow> pubkey \<Rightarrow>
      pubkey \<Rightarrow> pubkey \<Rightarrow> client_instruction list" where
  "deposit_stake_with_authority_ix rt ids program_id stake_pool validator_list_storage
       stake_pool_deposit_authority stake_pool_withdraw_authority deposit_stake_address
       deposit_stake_withdraw_authority validator_stake_account reserve_stake_account pool_tokens_to
       manager_fee_account referrer_pool_tokens_account pool_mint token_program_id =
     deposit_stake_internal_ix rt ids program_id stake_pool validator_list_storage
       (Some stake_pool_deposit_authority) stake_pool_withdraw_authority deposit_stake_address
       deposit_stake_withdraw_authority validator_stake_account reserve_stake_account pool_tokens_to
       manager_fee_account referrer_pool_tokens_account pool_mint token_program_id None"

definition deposit_stake_with_authority_and_slippage_ix ::
    "runtime \<Rightarrow> known_ids \<Rightarrow> pubkey \<Rightarrow> pubkey \<Rightarrow>
      pubkey \<Rightarrow> pubkey \<Rightarrow> pubkey \<Rightarrow> pubkey \<Rightarrow> pubkey \<Rightarrow>
      pubkey \<Rightarrow> pubkey \<Rightarrow> pubkey \<Rightarrow> pubkey \<Rightarrow> pubkey \<Rightarrow>
      pubkey \<Rightarrow> pubkey \<Rightarrow> u64 \<Rightarrow> client_instruction list" where
  "deposit_stake_with_authority_and_slippage_ix rt ids program_id stake_pool validator_list_storage
       stake_pool_deposit_authority stake_pool_withdraw_authority deposit_stake_address
       deposit_stake_withdraw_authority validator_stake_account reserve_stake_account pool_tokens_to
       manager_fee_account referrer_pool_tokens_account pool_mint token_program_id minimum_pool_tokens_out =
     deposit_stake_internal_ix rt ids program_id stake_pool validator_list_storage
       (Some stake_pool_deposit_authority) stake_pool_withdraw_authority deposit_stake_address
       deposit_stake_withdraw_authority validator_stake_account reserve_stake_account pool_tokens_to
       manager_fee_account referrer_pool_tokens_account pool_mint token_program_id
       (Some minimum_pool_tokens_out)"

definition deposit_sol_internal_ix ::
    "runtime \<Rightarrow> pubkey \<Rightarrow> pubkey \<Rightarrow> pubkey \<Rightarrow> pubkey \<Rightarrow>
      pubkey \<Rightarrow> pubkey \<Rightarrow> pubkey \<Rightarrow> pubkey \<Rightarrow> pubkey \<Rightarrow>
      pubkey \<Rightarrow> pubkey option \<Rightarrow> u64 \<Rightarrow> u64 option \<Rightarrow> instruction" where
  "deposit_sol_internal_ix rt program_id stake_pool stake_pool_withdraw_authority reserve_stake_account
       lamports_from pool_tokens_to manager_fee_account referrer_pool_tokens_account pool_mint token_program_id
       sol_deposit_authority lamports_in minimum_pool_tokens_out =
     \<lparr>ix_program_id = program_id,
      ix_accounts =
       [am_new stake_pool False, am_new_readonly stake_pool_withdraw_authority False,
        am_new reserve_stake_account False, am_new lamports_from True, am_new pool_tokens_to False,
        am_new manager_fee_account False, am_new referrer_pool_tokens_account False, am_new pool_mint False,
        am_new_readonly (rt_system_program rt) False, am_new_readonly token_program_id False]
       @ (case sol_deposit_authority of None \<Rightarrow> [] | Some sol_deposit_authority \<Rightarrow>
             [am_new_readonly sol_deposit_authority True]),
      ix_data = (case minimum_pool_tokens_out of Some minimum_pool_tokens_out \<Rightarrow> ser_instruction
            (DepositSolWithSlippage lamports_in minimum_pool_tokens_out)
          | None \<Rightarrow> ser_instruction (DepositSol lamports_in))\<rparr>"

definition deposit_sol_ix ::
    "runtime \<Rightarrow> pubkey \<Rightarrow> pubkey \<Rightarrow> pubkey \<Rightarrow> pubkey \<Rightarrow>
      pubkey \<Rightarrow> pubkey \<Rightarrow> pubkey \<Rightarrow> pubkey \<Rightarrow> pubkey \<Rightarrow>
      pubkey \<Rightarrow> u64 \<Rightarrow> instruction" where
  "deposit_sol_ix rt program_id stake_pool stake_pool_withdraw_authority reserve_stake_account
       lamports_from pool_tokens_to manager_fee_account referrer_pool_tokens_account pool_mint token_program_id
       lamports_in =
     deposit_sol_internal_ix rt program_id stake_pool stake_pool_withdraw_authority reserve_stake_account
       lamports_from pool_tokens_to manager_fee_account referrer_pool_tokens_account pool_mint token_program_id
       None lamports_in None"

definition deposit_sol_with_slippage_ix ::
    "runtime \<Rightarrow> pubkey \<Rightarrow> pubkey \<Rightarrow> pubkey \<Rightarrow> pubkey \<Rightarrow>
      pubkey \<Rightarrow> pubkey \<Rightarrow> pubkey \<Rightarrow> pubkey \<Rightarrow> pubkey \<Rightarrow>
      pubkey \<Rightarrow> u64 \<Rightarrow> u64 \<Rightarrow> instruction" where
  "deposit_sol_with_slippage_ix rt program_id stake_pool stake_pool_withdraw_authority
       reserve_stake_account lamports_from pool_tokens_to manager_fee_account referrer_pool_tokens_account
       pool_mint token_program_id lamports_in minimum_pool_tokens_out =
     deposit_sol_internal_ix rt program_id stake_pool stake_pool_withdraw_authority reserve_stake_account
       lamports_from pool_tokens_to manager_fee_account referrer_pool_tokens_account pool_mint token_program_id
       None lamports_in (Some minimum_pool_tokens_out)"

definition deposit_sol_with_authority_ix ::
    "runtime \<Rightarrow> pubkey \<Rightarrow> pubkey \<Rightarrow> pubkey \<Rightarrow> pubkey \<Rightarrow>
      pubkey \<Rightarrow> pubkey \<Rightarrow> pubkey \<Rightarrow> pubkey \<Rightarrow> pubkey \<Rightarrow>
      pubkey \<Rightarrow> pubkey \<Rightarrow> u64 \<Rightarrow> instruction" where
  "deposit_sol_with_authority_ix rt program_id stake_pool sol_deposit_authority
       stake_pool_withdraw_authority reserve_stake_account lamports_from pool_tokens_to manager_fee_account
       referrer_pool_tokens_account pool_mint token_program_id lamports_in =
     deposit_sol_internal_ix rt program_id stake_pool stake_pool_withdraw_authority reserve_stake_account
       lamports_from pool_tokens_to manager_fee_account referrer_pool_tokens_account pool_mint token_program_id
       (Some sol_deposit_authority) lamports_in None"

definition deposit_sol_with_authority_and_slippage_ix ::
    "runtime \<Rightarrow> pubkey \<Rightarrow> pubkey \<Rightarrow> pubkey \<Rightarrow> pubkey \<Rightarrow>
      pubkey \<Rightarrow> pubkey \<Rightarrow> pubkey \<Rightarrow> pubkey \<Rightarrow> pubkey \<Rightarrow>
      pubkey \<Rightarrow> pubkey \<Rightarrow> u64 \<Rightarrow> u64 \<Rightarrow> instruction" where
  "deposit_sol_with_authority_and_slippage_ix rt program_id stake_pool sol_deposit_authority
       stake_pool_withdraw_authority reserve_stake_account lamports_from pool_tokens_to manager_fee_account
       referrer_pool_tokens_account pool_mint token_program_id lamports_in minimum_pool_tokens_out =
     deposit_sol_internal_ix rt program_id stake_pool stake_pool_withdraw_authority reserve_stake_account
       lamports_from pool_tokens_to manager_fee_account referrer_pool_tokens_account pool_mint token_program_id
       (Some sol_deposit_authority) lamports_in (Some minimum_pool_tokens_out)"

definition withdraw_stake_internal_ix ::
    "runtime \<Rightarrow> known_ids \<Rightarrow> pubkey \<Rightarrow> pubkey \<Rightarrow>
      pubkey \<Rightarrow> pubkey \<Rightarrow> pubkey \<Rightarrow> pubkey \<Rightarrow> pubkey \<Rightarrow>
      pubkey \<Rightarrow> pubkey \<Rightarrow> pubkey \<Rightarrow> pubkey \<Rightarrow> pubkey \<Rightarrow>
      u64 \<Rightarrow> u64 option \<Rightarrow> instruction" where
  "withdraw_stake_internal_ix rt ids program_id stake_pool validator_list_storage stake_pool_withdraw
       stake_to_split stake_to_receive user_stake_authority user_transfer_authority user_pool_token_account
       manager_fee_account pool_mint token_program_id pool_tokens_in minimum_lamports_out =
     \<lparr>ix_program_id = program_id,
      ix_accounts =
       [am_new stake_pool False, am_new validator_list_storage False,
        am_new_readonly stake_pool_withdraw False, am_new stake_to_split False, am_new stake_to_receive False,
        am_new_readonly user_stake_authority False, am_new_readonly user_transfer_authority True,
        am_new user_pool_token_account False, am_new manager_fee_account False, am_new pool_mint False,
        am_new_readonly (id_clock ids) False, am_new_readonly token_program_id False,
        am_new_readonly (rt_stake_program rt) False],
      ix_data = (case minimum_lamports_out of Some minimum_lamports_out \<Rightarrow> ser_instruction
            (WithdrawStakeWithSlippage pool_tokens_in minimum_lamports_out)
          | None \<Rightarrow> ser_instruction (WithdrawStake pool_tokens_in))\<rparr>"

definition withdraw_stake_ix ::
    "runtime \<Rightarrow> known_ids \<Rightarrow> pubkey \<Rightarrow> pubkey \<Rightarrow>
      pubkey \<Rightarrow> pubkey \<Rightarrow> pubkey \<Rightarrow> pubkey \<Rightarrow> pubkey \<Rightarrow>
      pubkey \<Rightarrow> pubkey \<Rightarrow> pubkey \<Rightarrow> pubkey \<Rightarrow> pubkey \<Rightarrow>
      u64 \<Rightarrow> instruction" where
  "withdraw_stake_ix rt ids program_id stake_pool validator_list_storage stake_pool_withdraw stake_to_split
       stake_to_receive user_stake_authority user_transfer_authority user_pool_token_account
       manager_fee_account pool_mint token_program_id pool_tokens_in =
     withdraw_stake_internal_ix rt ids program_id stake_pool validator_list_storage stake_pool_withdraw
       stake_to_split stake_to_receive user_stake_authority user_transfer_authority user_pool_token_account
       manager_fee_account pool_mint token_program_id pool_tokens_in None"

definition withdraw_stake_with_slippage_ix ::
    "runtime \<Rightarrow> known_ids \<Rightarrow> pubkey \<Rightarrow> pubkey \<Rightarrow>
      pubkey \<Rightarrow> pubkey \<Rightarrow> pubkey \<Rightarrow> pubkey \<Rightarrow> pubkey \<Rightarrow>
      pubkey \<Rightarrow> pubkey \<Rightarrow> pubkey \<Rightarrow> pubkey \<Rightarrow> pubkey \<Rightarrow>
      u64 \<Rightarrow> u64 \<Rightarrow> instruction" where
  "withdraw_stake_with_slippage_ix rt ids program_id stake_pool validator_list_storage stake_pool_withdraw
       stake_to_split stake_to_receive user_stake_authority user_transfer_authority user_pool_token_account
       manager_fee_account pool_mint token_program_id pool_tokens_in minimum_lamports_out =
     withdraw_stake_internal_ix rt ids program_id stake_pool validator_list_storage stake_pool_withdraw
       stake_to_split stake_to_receive user_stake_authority user_transfer_authority user_pool_token_account
       manager_fee_account pool_mint token_program_id pool_tokens_in (Some minimum_lamports_out)"

definition withdraw_sol_internal_ix ::
    "runtime \<Rightarrow> known_ids \<Rightarrow> pubkey \<Rightarrow> pubkey \<Rightarrow>
      pubkey \<Rightarrow> pubkey \<Rightarrow> pubkey \<Rightarrow> pubkey \<Rightarrow> pubkey \<Rightarrow>
      pubkey \<Rightarrow> pubkey \<Rightarrow> pubkey \<Rightarrow> pubkey option \<Rightarrow>
      u64 \<Rightarrow> u64 option \<Rightarrow> instruction" where
  "withdraw_sol_internal_ix rt ids program_id stake_pool stake_pool_withdraw_authority
       user_transfer_authority pool_tokens_from reserve_stake_account lamports_to manager_fee_account pool_mint
       token_program_id sol_withdraw_authority pool_tokens_in minimum_lamports_out =
     \<lparr>ix_program_id = program_id,
      ix_accounts =
       [am_new stake_pool False, am_new_readonly stake_pool_withdraw_authority False,
        am_new_readonly user_transfer_authority True, am_new pool_tokens_from False,
        am_new reserve_stake_account False, am_new lamports_to False, am_new manager_fee_account False,
        am_new pool_mint False, am_new_readonly (id_clock ids) False,
        am_new_readonly (id_stake_history ids) False, am_new_readonly (rt_stake_program rt) False,
        am_new_readonly token_program_id False]
       @ (case sol_withdraw_authority of None \<Rightarrow> [] | Some sol_withdraw_authority \<Rightarrow>
             [am_new_readonly sol_withdraw_authority True]),
      ix_data = (case minimum_lamports_out of Some minimum_lamports_out \<Rightarrow> ser_instruction
            (WithdrawSolWithSlippage pool_tokens_in minimum_lamports_out)
          | None \<Rightarrow> ser_instruction (WithdrawSol pool_tokens_in))\<rparr>"

definition withdraw_sol_ix ::
    "runtime \<Rightarrow> known_ids \<Rightarrow> pubkey \<Rightarrow> pubkey \<Rightarrow>
      pubkey \<Rightarrow> pubkey \<Rightarrow> pubkey \<Rightarrow> pubkey \<Rightarrow> pubkey \<Rightarrow>
      pubkey \<Rightarrow> pubkey \<Rightarrow> pubkey \<Rightarrow> u64 \<Rightarrow> instruction" where
  "withdraw_sol_ix rt ids program_id stake_pool stake_pool_withdraw_authority user_transfer_authority
       pool_tokens_from reserve_stake_account lamports_to manager_fee_account pool_mint token_program_id
       pool_tokens_in =
     withdraw_sol_internal_ix rt ids program_id stake_pool stake_pool_withdraw_authority
       user_transfer_authority pool_tokens_from reserve_stake_account lamports_to manager_fee_account pool_mint
       token_program_id None pool_tokens_in None"

definition withdraw_sol_with_slippage_ix ::
    "runtime \<Rightarrow> known_ids \<Rightarrow> pubkey \<Rightarrow> pubkey \<Rightarrow>
      pubkey \<Rightarrow> pubkey \<Rightarrow> pubkey \<Rightarrow> pubkey \<Rightarrow> pubkey \<Rightarrow>
      pubkey \<Rightarrow> pubkey \<Rightarrow> pubkey \<Rightarrow> u64 \<Rightarrow> u64 \<Rightarrow>
      instruction" where
  "withdraw_sol_with_slippage_ix rt ids program_id stake_pool stake_pool_withdraw_authority
       user_transfer_authority pool_tokens_from reserve_stake_account lamports_to manager_fee_account pool_mint
       token_program_id pool_tokens_in minimum_lamports_out =
     withdraw_sol_internal_ix rt ids program_id stake_pool stake_pool_withdraw_authority
       user_transfer_authority pool_tokens_from reserve_stake_account lamports_to manager_fee_account pool_mint
       token_program_id None pool_tokens_in (Some minimum_lamports_out)"

definition withdraw_sol_with_authority_ix ::
    "runtime \<Rightarrow> known_ids \<Rightarrow> pubkey \<Rightarrow> pubkey \<Rightarrow>
      pubkey \<Rightarrow> pubkey \<Rightarrow> pubkey \<Rightarrow> pubkey \<Rightarrow> pubkey \<Rightarrow>
      pubkey \<Rightarrow> pubkey \<Rightarrow> pubkey \<Rightarrow> pubkey \<Rightarrow> u64 \<Rightarrow>
      instruction" where
  "withdraw_sol_with_authority_ix rt ids program_id stake_pool sol_withdraw_authority
       stake_pool_withdraw_authority user_transfer_authority pool_tokens_from reserve_stake_account lamports_to
       manager_fee_account pool_mint token_program_id pool_tokens_in =
     withdraw_sol_internal_ix rt ids program_id stake_pool stake_pool_withdraw_authority
       user_transfer_authority pool_tokens_from reserve_stake_account lamports_to manager_fee_account pool_mint
       token_program_id (Some sol_withdraw_authority) pool_tokens_in None"

definition withdraw_sol_with_authority_and_slippage_ix ::
    "runtime \<Rightarrow> known_ids \<Rightarrow> pubkey \<Rightarrow> pubkey \<Rightarrow>
      pubkey \<Rightarrow> pubkey \<Rightarrow> pubkey \<Rightarrow> pubkey \<Rightarrow> pubkey \<Rightarrow>
      pubkey \<Rightarrow> pubkey \<Rightarrow> pubkey \<Rightarrow> pubkey \<Rightarrow> u64 \<Rightarrow>
      u64 \<Rightarrow> instruction" where
  "withdraw_sol_with_authority_and_slippage_ix rt ids program_id stake_pool sol_withdraw_authority
       stake_pool_withdraw_authority user_transfer_authority pool_tokens_from reserve_stake_account lamports_to
       manager_fee_account pool_mint token_program_id pool_tokens_in minimum_lamports_out =
     withdraw_sol_internal_ix rt ids program_id stake_pool stake_pool_withdraw_authority
       user_transfer_authority pool_tokens_from reserve_stake_account lamports_to manager_fee_account pool_mint
       token_program_id (Some sol_withdraw_authority) pool_tokens_in (Some minimum_lamports_out)"

subsection \<open>Administration\<close>

definition set_manager_ix ::
    "pubkey \<Rightarrow> pubkey \<Rightarrow> pubkey \<Rightarrow> pubkey \<Rightarrow> pubkey \<Rightarrow>
      instruction" where
  "set_manager_ix program_id stake_pool manager new_manager new_fee_receiver =
     \<lparr>ix_program_id = program_id,
      ix_accounts =
       [am_new stake_pool False, am_new_readonly manager True, am_new_readonly new_manager True,
        am_new_readonly new_fee_receiver False],
      ix_data = ser_instruction SetManager\<rparr>"

definition set_fee_ix ::
    "pubkey \<Rightarrow> pubkey \<Rightarrow> pubkey \<Rightarrow> fee_type \<Rightarrow> instruction" where
  "set_fee_ix program_id stake_pool manager fee =
     \<lparr>ix_program_id = program_id,
      ix_accounts =
       [am_new stake_pool False, am_new_readonly manager True],
      ix_data = ser_instruction (SetFee fee)\<rparr>"

definition set_staker_ix ::
    "pubkey \<Rightarrow> pubkey \<Rightarrow> pubkey \<Rightarrow> pubkey \<Rightarrow> instruction" where
  "set_staker_ix program_id stake_pool set_staker_authority new_staker =
     \<lparr>ix_program_id = program_id,
      ix_accounts =
       [am_new stake_pool False, am_new_readonly set_staker_authority True, am_new_readonly new_staker False],
      ix_data = ser_instruction SetStaker\<rparr>"

definition set_funding_authority_ix ::
    "pubkey \<Rightarrow> pubkey \<Rightarrow> pubkey \<Rightarrow> pubkey option \<Rightarrow>
      funding_type \<Rightarrow> instruction" where
  "set_funding_authority_ix program_id stake_pool manager new_sol_deposit_authority funding_type =
     \<lparr>ix_program_id = program_id,
      ix_accounts =
       [am_new stake_pool False, am_new_readonly manager True]
       @ (case new_sol_deposit_authority of None \<Rightarrow> [] | Some auth \<Rightarrow> [am_new_readonly auth False]),
      ix_data = ser_instruction (SetFundingAuthority funding_type)\<rparr>"

definition update_token_metadata_ix ::
    "runtime \<Rightarrow> pubkey \<Rightarrow> pubkey \<Rightarrow> pubkey \<Rightarrow> pubkey \<Rightarrow>
      bytes \<Rightarrow> bytes \<Rightarrow> bytes \<Rightarrow> instruction" where
  "update_token_metadata_ix rt program_id stake_pool manager pool_mint name symbol uri =
     (let stake_pool_withdraw_authority = fst (find_withdraw_authority_program_address rt program_id
           stake_pool);
          token_metadata = fst (find_metadata_account rt pool_mint) in
      \<lparr>ix_program_id = program_id,
      ix_accounts =
       [am_new_readonly stake_pool False, am_new_readonly manager True,
        am_new_readonly stake_pool_withdraw_authority False, am_new token_metadata False,
        am_new_readonly (rt_metadata_program rt) False],
      ix_data = ser_instruction (UpdateTokenMetadata name symbol uri)\<rparr>)"

definition create_token_metadata_ix ::
    "runtime \<Rightarrow> pubkey \<Rightarrow> pubkey \<Rightarrow> pubkey \<Rightarrow> pubkey \<Rightarrow>
      pubkey \<Rightarrow> bytes \<Rightarrow> bytes \<Rightarrow> bytes \<Rightarrow> instruction" where
  "create_token_metadata_ix rt program_id stake_pool manager pool_mint payer name symbol uri =
     (let stake_pool_withdraw_authority = fst (find_withdraw_authority_program_address rt program_id
           stake_pool);
          token_metadata = fst (find_metadata_account rt pool_mint) in
      \<lparr>ix_program_id = program_id,
      ix_accounts =
       [am_new_readonly stake_pool False, am_new_readonly manager True,
        am_new_readonly stake_pool_withdraw_authority False, am_new_readonly pool_mint False,
        am_new payer True, am_new token_metadata False, am_new_readonly (rt_metadata_program rt) False,
        am_new_readonly (rt_system_program rt) False],
      ix_data = ser_instruction (CreateTokenMetadata name symbol uri)\<rparr>)"

definition set_max_validator_stake_ix ::
    "pubkey \<Rightarrow> pubkey \<Rightarrow> pubkey \<Rightarrow> u64 option \<Rightarrow> instruction" where
  "set_max_validator_stake_ix program_id stake_pool manager max_stake =
     \<lparr>ix_program_id = program_id,
      ix_accounts =
       [am_new stake_pool False, am_new_readonly manager True],
      ix_data = ser_instruction (SetMaxValidatorStake max_stake)\<rparr>"

end
