(* ===== verification/Builder_Effects.thy ===== *)
theory Builder_Effects
  imports Instruction_Builders Update_Effects
begin

section \<open>What the built instructions do\<close>

text \<open>
  The client splits the validator list into chunks and builds one \<open>UpdateValidatorListBalance\<close> per
  chunk. This theory shows which instructions come out, and what the handler does with them: the
  accounts a builder derives are the ones the handler derives, so no entry of a chunk is skipped.
\<close>

subsection \<open>Chunks of a slice\<close>

lemma slice_chunks_nth:
  assumes "0 < n"
  shows "i < length (slice_chunks n xs) \<Longrightarrow> slice_chunks n xs ! i = take n (drop (i * n) xs)"
  using assms
proof (induction n xs arbitrary: i rule: slice_chunks.induct)
  case (1 n xs)
  show ?case
  proof (cases "xs = []")
    case False
    then have eq: "slice_chunks n xs = take n xs # slice_chunks n (drop n xs)"
      using "1.prems"(2) by (subst slice_chunks.simps) simp
    show ?thesis using "1.IH" [of "i - 1"] "1.prems" False unfolding eq
      by (cases i) (simp_all add: add.commute)
  qed (use "1.prems" in \<open>simp add: slice_chunks.simps\<close>)
qed

lemma slice_chunks_length:
  assumes "0 < n"
  shows "length (slice_chunks n xs) = (length xs + n - 1) div n"
  using assms
proof (induction n xs rule: slice_chunks.induct)
  case (1 n xs)
  show ?case
  proof (cases "xs = []")
    case False
    then have eq: "length (slice_chunks n xs) = Suc (length (slice_chunks n (drop n xs)))"
      using "1.prems" by (subst slice_chunks.simps) simp
    show ?thesis
    proof (cases "n \<le> length xs")
      case True
      have ih: "length (slice_chunks n (drop n xs)) = (length xs - 1) div n"
        using "1.IH" "1.prems" False True by simp
      have e: "length xs + n - 1 = length xs - 1 + n" using True "1.prems" by simp
      have "(length xs + n - 1) div n = Suc ((length xs - 1) div n)"
        unfolding e using "1.prems" by (simp only: div_add_self2 neq0_conv Suc_eq_plus1)
      then show ?thesis unfolding eq ih ..
    next
      case short: False
      then have "slice_chunks n (drop n xs) = []" by (simp add: slice_chunks.simps)
      moreover have "(length xs + n - 1) div n = 1"
        using short False "1.prems" by (intro div_nat_eqI) (cases xs; simp)+
      ultimately show ?thesis using eq by simp
    qed
  qed (use "1.prems" in \<open>simp add: slice_chunks.simps\<close>)
qed

lemma slice_chunks_bound:
  assumes "0 < n" "i < length (slice_chunks n xs)"
  shows "i * n < length xs"
proof -
  from assms have "i < (length xs + n - 1) div n" by (simp add: slice_chunks_length)
  then have "Suc i * n \<le> length xs + n - 1" using assms(1) by (simp add: less_eq_div_iff_mult_less_eq Suc_le_eq [symmetric])
  then show ?thesis using assms(1) by simp
qed

text \<open>Every index lies in one chunk.\<close>

lemma slice_chunks_cover:
  assumes "0 < n" "j < length xs"
  shows "j div n < length (slice_chunks n xs)" "j div n * n \<le> j" "j < j div n * n + n"
proof -
  show "j div n * n \<le> j" by simp
  show *: "j < j div n * n + n" using assms(1) by (metis add.commute div_mult_mod_eq mod_less_divisor nat_add_left_cancel_less mult.commute)
  have "Suc (j div n) \<le> (length xs + n - 1) div n"
    using assms by (simp add: less_eq_div_iff_mult_less_eq) (use \<open>j div n * n \<le> j\<close> in linarith)
  then show "j div n < length (slice_chunks n xs)" using assms(1) by (simp add: slice_chunks_length)
qed

lemma nth_in_chunk:
  assumes "s \<le> j" "j < s + n" "j < length xs"
  shows "xs ! j \<in> set (take n (drop s xs))"
proof -
  have "j - s < length (take n (drop s xs))" using assms by (simp add: less_diff_conv2 add.commute)
  moreover have "take n (drop s xs) ! (j - s) = xs ! j" using assms by (simp add: less_diff_conv2 add.commute)
  ultimately show ?thesis by (metis nth_mem)
qed

lemma slice_chunks_concat: "0 < n \<Longrightarrow> concat (slice_chunks n xs) = xs"
proof (induction n xs rule: slice_chunks.induct)
  case (1 n xs)
  then show ?case by (subst slice_chunks.simps) auto
qed

lemma collect_ok_Inr:
  "(\<And>x. x \<in> set xs \<Longrightarrow> f x = Inr (g x)) \<Longrightarrow> collect_ok f xs = Inr (map g xs)"
  by (induction xs) simp_all

subsection \<open>The chunks of an update\<close>

text \<open>The instruction for the chunk that starts at \<open>start\<close>.\<close>

definition list_update_ix ::
    "runtime \<Rightarrow> known_ids \<Rightarrow> pubkey \<Rightarrow> stake_pool \<Rightarrow> validator_list \<Rightarrow> pubkey \<Rightarrow> bool \<Rightarrow> nat \<Rightarrow> instruction" where
  "list_update_ix rt ids pid sp vl pool no_merge start =
     \<lparr>ix_program_id = pid,
      ix_accounts =
        update_list_metas rt ids pool (fst (find_withdraw_authority_program_address rt pid pool))
          (sp_validator_list sp) (sp_reserve_stake sp)
        @ concat (map (entry_metas rt pid pool) (take MAX_VALIDATORS_TO_UPDATE (drop start (vl_validators vl)))),
      ix_data = ser_instruction (UpdateValidatorListBalance (word_of_nat start) no_merge)\<rparr>"

text \<open>The two instructions at the end: the balance of the pool and the cleanup.\<close>

definition final_ixs :: "runtime \<Rightarrow> pubkey \<Rightarrow> stake_pool \<Rightarrow> pubkey \<Rightarrow> instruction list" where
  "final_ixs rt pid sp pool =
     [update_stake_pool_balance_ix pid pool (fst (find_withdraw_authority_program_address rt pid pool))
        (sp_validator_list sp) (sp_reserve_stake sp) (sp_manager_fee_account sp) (sp_pool_mint sp)
        (sp_token_program_id sp),
      cleanup_removed_validator_entries_ix pid pool (sp_validator_list sp)]"

abbreviation list_starts :: "validator_list \<Rightarrow> nat list" where
  "list_starts vl \<equiv>
     map (\<lambda>i. i * MAX_VALIDATORS_TO_UPDATE)
       [0..<length (slice_chunks MAX_VALIDATORS_TO_UPDATE (vl_validators vl))]"

definition chunk_fresh :: "u64 \<Rightarrow> validator_list \<Rightarrow> nat \<Rightarrow> bool" where
  "chunk_fresh epoch vl start \<longleftrightarrow>
     list_all (\<lambda>r. epoch \<le> vs_last_update_epoch r)
       (take MAX_VALIDATORS_TO_UPDATE (drop start (vl_validators vl)))"

lemma MAX_pos [simp]: "0 < MAX_VALIDATORS_TO_UPDATE"
  by (simp add: MAX_VALIDATORS_TO_UPDATE_def)

text \<open>The slice the builder cuts out is the chunk it was called for.\<close>

lemma chunk_range:
  assumes "i < length (slice_chunks MAX_VALIDATORS_TO_UPDATE xs)" "length xs \<le> 2 ^ 32"
  defines "s \<equiv> usize_saturating_mul i MAX_VALIDATORS_TO_UPDATE"
  shows "s = i * MAX_VALIDATORS_TO_UPDATE" "s < 2 ^ 32"
    "get_range xs s (usize_saturating_add s (length (slice_chunks MAX_VALIDATORS_TO_UPDATE xs ! i))) =
       Some (take MAX_VALIDATORS_TO_UPDATE (drop s xs))"
proof -
  have b: "i * MAX_VALIDATORS_TO_UPDATE < length xs" using slice_chunks_bound [OF MAX_pos assms(1)] .
  then show s: "s = i * MAX_VALIDATORS_TO_UPDATE" using assms(2) by (simp add: s_def usize_saturating_mul_def)
  show "s < 2 ^ 32" using b s assms(2) by simp
  have l: "length (slice_chunks MAX_VALIDATORS_TO_UPDATE xs ! i) =
      min (length xs - s) MAX_VALIDATORS_TO_UPDATE"
    using slice_chunks_nth [OF MAX_pos assms(1)] s by simp
  then have "usize_saturating_add s (length (slice_chunks MAX_VALIDATORS_TO_UPDATE xs ! i)) =
      s + min (length xs - s) MAX_VALIDATORS_TO_UPDATE"
    using b s assms(2) by (simp add: usize_saturating_add_def)
  then show "get_range xs s (usize_saturating_add s (length (slice_chunks MAX_VALIDATORS_TO_UPDATE xs ! i))) =
       Some (take MAX_VALIDATORS_TO_UPDATE (drop s xs))"
    using b s by (auto simp: get_range_def min_def)
qed

lemma chunk_ix_built:
  assumes "i < length (slice_chunks MAX_VALIDATORS_TO_UPDATE (vl_validators vl))"
    and "length (vl_validators vl) \<le> 2 ^ 32"
  shows "update_validator_list_balance_chunk_ix rt ids pid pool
      (fst (find_withdraw_authority_program_address rt pid pool)) (sp_validator_list sp) (sp_reserve_stake sp)
      vl (length (slice_chunks MAX_VALIDATORS_TO_UPDATE (vl_validators vl) ! i))
      (usize_saturating_mul i MAX_VALIDATORS_TO_UPDATE) nm =
    Inr (list_update_ix rt ids pid sp vl pool nm (i * MAX_VALIDATORS_TO_UPDATE))"
  using chunk_range [OF assms]
  by (simp add: update_validator_list_balance_chunk_ix_def list_update_ix_def u32_of_usize_def)

lemma stale_chunk_ix_built:
  assumes "i < length (slice_chunks MAX_VALIDATORS_TO_UPDATE (vl_validators vl))"
    and "length (vl_validators vl) \<le> 2 ^ 32"
  shows "update_stale_validator_list_balance_chunk_ix rt ids pid pool
      (fst (find_withdraw_authority_program_address rt pid pool)) (sp_validator_list sp) (sp_reserve_stake sp)
      vl (length (slice_chunks MAX_VALIDATORS_TO_UPDATE (vl_validators vl) ! i))
      (usize_saturating_mul i MAX_VALIDATORS_TO_UPDATE) nm epoch =
    Inr (if chunk_fresh epoch vl (i * MAX_VALIDATORS_TO_UPDATE) then None
         else Some (list_update_ix rt ids pid sp vl pool nm (i * MAX_VALIDATORS_TO_UPDATE)))"
  using chunk_range [OF assms] chunk_ix_built [OF assms]
  by (simp add: update_stale_validator_list_balance_chunk_ix_def chunk_fresh_def)

text \<open>What the two functions for a whole pool return: no \<open>unwrap\<close> fails.\<close>

lemma update_stake_pool_ix_built:
  assumes "length (vl_validators vl) \<le> 2 ^ 32"
  shows "update_stake_pool_ix rt ids pid sp vl pool nm =
      Inr (map (list_update_ix rt ids pid sp vl pool nm) (list_starts vl), final_ixs rt pid sp pool)"
proof -
  let ?cs = "slice_chunks MAX_VALIDATORS_TO_UPDATE (vl_validators vl)"
  let ?g = "\<lambda>x. list_update_ix rt ids pid sp vl pool nm (fst x * MAX_VALIDATORS_TO_UPDATE)"
  have "collect_ok (\<lambda>(i, chunk).
      unwrap_result (update_validator_list_balance_chunk_ix rt ids pid pool
        (fst (find_withdraw_authority_program_address rt pid pool)) (sp_validator_list sp)
        (sp_reserve_stake sp) vl (length chunk) (usize_saturating_mul i MAX_VALIDATORS_TO_UPDATE) nm))
      (List.enumerate 0 ?cs) = Inr (map ?g (List.enumerate 0 ?cs))"
    by (rule collect_ok_Inr)
      (auto simp: in_set_enumerate_eq unwrap_result_def chunk_ix_built [OF _ assms])
  moreover have "map ?g (List.enumerate 0 ?cs) = map (list_update_ix rt ids pid sp vl pool nm) (list_starts vl)"
    by (rule nth_equalityI) (simp_all add: nth_enumerate_eq)
  ultimately show ?thesis by (simp add: update_stake_pool_ix_def final_ixs_def)
qed

lemma update_stale_stake_pool_ix_built:
  assumes "length (vl_validators vl) \<le> 2 ^ 32"
  shows "update_stale_stake_pool_ix rt ids pid sp vl pool nm epoch =
      Inr (map (list_update_ix rt ids pid sp vl pool nm)
        (filter (\<lambda>s. \<not> chunk_fresh epoch vl s) (list_starts vl)), final_ixs rt pid sp pool)"
proof -
  let ?cs = "slice_chunks MAX_VALIDATORS_TO_UPDATE (vl_validators vl)"
  let ?h = "\<lambda>s. if chunk_fresh epoch vl s then None else Some (list_update_ix rt ids pid sp vl pool nm s)"
  let ?g = "\<lambda>x. ?h (fst x * MAX_VALIDATORS_TO_UPDATE)"
  have "collect_ok (\<lambda>(i, chunk).
      unwrap_result (update_stale_validator_list_balance_chunk_ix rt ids pid pool
        (fst (find_withdraw_authority_program_address rt pid pool)) (sp_validator_list sp)
        (sp_reserve_stake sp) vl (length chunk) (usize_saturating_mul i MAX_VALIDATORS_TO_UPDATE) nm epoch))
      (List.enumerate 0 ?cs) = Inr (map ?g (List.enumerate 0 ?cs))"
    by (rule collect_ok_Inr)
      (auto simp: in_set_enumerate_eq unwrap_result_def stale_chunk_ix_built [OF _ assms])
  moreover have "map ?g (List.enumerate 0 ?cs) = map ?h (list_starts vl)"
    by (rule nth_equalityI) (simp_all add: nth_enumerate_eq)
  moreover have "List.map_filter id (map ?h ss) =
      map (list_update_ix rt ids pid sp vl pool nm) (filter (\<lambda>s. \<not> chunk_fresh epoch vl s) ss)" for ss
    by (induction ss) (simp_all add: map_filter_simps)
  ultimately show ?thesis by (simp add: update_stale_stake_pool_ix_def final_ixs_def del: map_map)
qed

subsection \<open>Running the built instructions\<close>

text \<open>
  The runtime presents an instruction with the accounts of its metas; a flag that a meta asks for is
  set. A sequence of instructions runs when the entry point accepts each in turn.
\<close>

definition presented :: "instruction \<Rightarrow> account_info list \<Rightarrow> bool" where
  "presented ix accounts \<longleftrightarrow>
     list_all2 (\<lambda>m a. ai_key a = am_pubkey m \<and> (am_is_signer m \<longrightarrow> ai_is_signer a) \<and>
       (am_is_writable m \<longrightarrow> ai_is_writable a)) (ix_accounts ix) accounts"

lemma presented_keys: "presented ix accounts \<Longrightarrow> map ai_key accounts = map am_pubkey (ix_accounts ix)"
  by (auto simp: presented_def list_eq_iff_nth_eq list_all2_conv_all_nth)

inductive executed :: "runtime \<Rightarrow> pubkey \<Rightarrow> instruction list \<Rightarrow> world \<Rightarrow> world \<Rightarrow> bool"
  for rt :: runtime and pid :: pubkey where
  executed_Nil: "executed rt pid [] w w"
| executed_Cons: "presented ix accounts \<Longrightarrow>
    process rt pid accounts (ix_data ix) w = Inr w1 \<Longrightarrow> executed rt pid ixs w1 w2 \<Longrightarrow>
    executed rt pid (ix # ixs) w w2"

inductive_cases executed_NilE: "executed rt pid [] w w'"
inductive_cases executed_ConsE: "executed rt pid (ix # ixs) w w'"

lemma process_ser_instruction:
  assumes "list_all rust_string (instruction_strings i)"
  shows "process rt pid accounts (ser_instruction i) w = process_instruction rt pid accounts i w"
  using de_instruction_ser [OF assms, of "[]"] by (simp add: process_def try_from_slice_def)

text \<open>With the accounts the builder derives, the loop skips no entry.\<close>

lemma update_record_refreshes:
  assumes "update_record rt c a b d v t r w = Inr (r', w')" "same_identity e r"
    and "[ai_key v, ai_key t] = map am_pubkey (entry_metas rt (cx_program_id c) (ai_key (cx_stake_pool_info c)) e)"
  shows "vs_last_update_epoch r' = cx_epoch c"
  using assms
  by (auto simp: update_record_def entry_metas_def same_identity_def check_validator_stake_address_def
      check_transient_stake_address_def is_ok_def bindE_pair_eq_Inr case_prod_beta split: if_splits)

lemma update_records_refresh:
  assumes own: "respects_owner rt pid"
  shows "update_records rt c a b d list (4 + i * ENTRY_LEN) accts w = Inr w' \<Longrightarrow>
    map ai_key accts = map am_pubkey (concat (map (entry_metas rt (cx_program_id c) (ai_key (cx_stake_pool_info c))) es)) \<Longrightarrow>
    i + length es \<le> length (list_infos (data_of w list)) \<Longrightarrow>
    list_ok (data_of w list) \<Longrightarrow> owner_of w list = pid \<Longrightarrow>
    (\<forall>j < length es. same_identity (es ! j) (list_infos (data_of w list) ! (i + j))) \<Longrightarrow>
    (\<forall>j < length es. vs_last_update_epoch (list_infos (data_of w' list) ! (i + j)) = cx_epoch c)"
proof (induction es arbitrary: accts i w)
  case (Cons e es)
  let ?xs = "list_infos (data_of w list)"
  obtain x y where "entry_metas rt (cx_program_id c) (ai_key (cx_stake_pool_info c)) e = [x, y]"
    by (simp add: entry_metas_def)
  with Cons.prems(2) obtain v t rest where accts: "accts = v # t # rest"
      and vt: "[ai_key v, ai_key t] = map am_pubkey (entry_metas rt (cx_program_id c) (ai_key (cx_stake_pool_info c)) e)"
      and rest: "map ai_key rest =
        map am_pubkey (concat (map (entry_metas rt (cx_program_id c) (ai_key (cx_stake_pool_info c))) es))"
    by (auto simp: map_eq_Cons_conv)
  have i: "i < length ?xs" using Cons.prems(3) by simp
  obtain r w1 w2 where u: "update_record rt c a b d v t (?xs ! i) w = Inr (r, w1)"
      and rec: "update_records rt c a b d list (4 + Suc i * ENTRY_LEN) rest w2 = Inr w'"
      and put: "list_ok (data_of w2 list)" "list_infos (data_of w2 list) = ?xs[i := r]" "owner_of w2 list = pid"
    using update_records_step [OF own Cons.prems(1) [unfolded accts] i Cons.prems(4,5)] by blast
  have len: "length rest = 2 * length es"
    using arg_cong [OF rest, of length] by (simp add: entry_metas_def length_concat comp_def sum_list_triv)
  have le: "Suc i + length es \<le> length (list_infos (data_of w2 list))" using Cons.prems(3) put(2) by simp
  have ids: "\<forall>j < length es. same_identity (es ! j) (list_infos (data_of w2 list) ! (Suc i + j))"
    using Cons.prems(6) put(2) by (auto simp: nth_list_update dest: spec [of _ "Suc _"])
  note ih = Cons.IH [OF rec rest le put(1,3) ids]
  have "same_identity e (?xs ! i)" using Cons.prems(6) by force
  from update_record_refreshes [OF u this vt] have "vs_last_update_epoch r = cx_epoch c" .
  moreover have "list_infos (data_of w' list) ! i = r"
    using update_records_effect [OF own rec _ put(1,3)] le len i put(2) by (auto simp: slice_updated_def)
  ultimately show ?case using ih by (auto simp: less_Suc_eq_0_disj)
qed simp

abbreviation list_of_pool :: "world \<Rightarrow> stake_pool \<Rightarrow> bytes" where
  "list_of_pool w sp \<equiv> acc_data (w (sp_validator_list sp))"

text \<open>One built instruction brings its chunk to the current epoch and changes nothing else of the list.\<close>

lemma list_update_refreshes:
  assumes own: "respects_owner rt pid"
    and clock: "\<And>info w. ai_key info = id_clock ids \<Longrightarrow> rt_clock_from_account_info rt info w = Inr epoch"
    and start: "start < 2 ^ 32"
    and keys: "presented (list_update_ix rt ids pid sp vl pool nm start) accounts"
    and run: "process rt pid accounts (ix_data (list_update_ix rt ids pid sp vl pool nm start)) w = Inr w'"
    and ok: "list_ok (list_of_pool w sp)"
    and ids: "list_all2 same_identity (vl_validators vl) (list_infos (list_of_pool w sp))"
  shows "list_ok (list_of_pool w' sp) \<and>
    list_all2 same_identity (vl_validators vl) (list_infos (list_of_pool w' sp)) \<and>
    (\<forall>j < length (vl_validators vl).
      if start \<le> j \<and> j < start + MAX_VALIDATORS_TO_UPDATE
      then vs_last_update_epoch (list_infos (list_of_pool w' sp) ! j) = epoch
      else list_infos (list_of_pool w' sp) ! j = list_infos (list_of_pool w sp) ! j)"
proof -
  let ?es = "take MAX_VALIDATORS_TO_UPDATE (drop start (vl_validators vl))"
  let ?xs = "list_infos (list_of_pool w sp)" and ?ys = "list_infos (list_of_pool w' sp)"
  from presented_keys [OF keys] obtain p auth l reserve clk hist prog accts where
      accounts: "accounts = p # auth # l # reserve # clk # hist # prog # accts"
      and k: "ai_key p = pool" "ai_key l = sp_validator_list sp" "ai_key clk = id_clock ids"
      and accts: "map ai_key accts = map am_pubkey (concat (map (entry_metas rt pid pool) ?es))"
    by (auto simp: list_update_ix_def update_list_metas_def map_eq_Cons_conv)
  have data: "data_of v l = list_of_pool v sp" for v using k(2) by (simp add: data_of_def)
  have n: "length accts div 2 = length ?es"
    using arg_cong [OF accts, of length] by (simp add: entry_metas_def length_concat comp_def sum_list_triv)
  from run have run': "process_update_validator_list_balance rt pid accounts (word_of_nat start) nm w = Inr w'"
    by (simp add: list_update_ix_def process_ser_instruction del: ser_instruction.simps)
  have s: "unat (word_of_nat start :: u32) = start" using start by (simp add: unsigned_of_nat take_bit_nat_eq_self)
  obtain sp' where own_l: "owner_of w l = pid"
      and le: "start + length ?es \<le> length ?xs"
      and up: "update_records rt
        \<lparr>cx_program_id = pid, cx_stake_pool_info = p, cx_stake_pool = sp',
         cx_withdraw_authority_info = auth, cx_clock_info = clk, cx_epoch = epoch\<rparr>
        reserve hist nm l (4 + start * ENTRY_LEN) accts w = Inr w'" (is "update_records rt ?c _ _ _ _ _ _ _ = _")
    using update_list_run [OF run' [unfolded accounts] ok [folded data]] clock [OF k(3)]
    unfolding s data n by (metis sum.inject(2))
  have len: "length ?xs = length (vl_validators vl)" using ids by (simp add: list_all2_lengthD)
  have id: "\<forall>j < length ?es. same_identity (?es ! j) (list_infos (data_of w l) ! (start + j))"
    using list_all2_nthD [OF ids] by (auto simp: data)
  have fresh: "\<forall>j < length ?es. vs_last_update_epoch (?ys ! (start + j)) = epoch"
    using update_records_refresh [OF own up _ _ ok [folded data] own_l id] accts le k(1) by (simp add: data)
  have upd: "list_ok (list_of_pool w' sp)" "slice_updated epoch start (length ?es) ?xs ?ys"
    using update_records_effect [OF own up _ ok [folded data] own_l] le by (simp_all add: data n)
  from upd(2) have "list_all2 same_identity ?xs ?ys"
    by (auto simp: list_all2_conv_all_nth slice_updated_def entry_updated_def same_identity_def split: if_splits)
  with ids have ids': "list_all2 same_identity (vl_validators vl) ?ys"
    by (rule list_all2_trans [rotated]) (auto simp: same_identity_def)
  have "if start \<le> j \<and> j < start + MAX_VALIDATORS_TO_UPDATE
      then vs_last_update_epoch (?ys ! j) = epoch else ?ys ! j = ?xs ! j" if "j < length (vl_validators vl)" for j
    using that len fresh [rule_format, of "j - start"] upd(2)
    by (auto simp: slice_updated_def less_diff_conv2 add.commute)
  with upd(1) ids' show ?thesis by blast
qed

lemma executed_refreshes:
  assumes own: "respects_owner rt pid"
    and clock: "\<And>info w. ai_key info = id_clock ids \<Longrightarrow> rt_clock_from_account_info rt info w = Inr epoch"
  shows "executed rt pid (map (list_update_ix rt ids pid sp vl pool nm) ss) w w' \<Longrightarrow>
    \<forall>s \<in> set ss. s < 2 ^ 32 \<Longrightarrow> list_ok (list_of_pool w sp) \<Longrightarrow>
    list_all2 same_identity (vl_validators vl) (list_infos (list_of_pool w sp)) \<Longrightarrow>
    list_ok (list_of_pool w' sp) \<and>
    list_all2 same_identity (vl_validators vl) (list_infos (list_of_pool w' sp)) \<and>
    (\<forall>j < length (vl_validators vl).
      if \<exists>s \<in> set ss. s \<le> j \<and> j < s + MAX_VALIDATORS_TO_UPDATE
      then vs_last_update_epoch (list_infos (list_of_pool w' sp) ! j) = epoch
      else list_infos (list_of_pool w' sp) ! j = list_infos (list_of_pool w sp) ! j)"
proof (induction ss arbitrary: w)
  case (Cons s ss)
  from Cons.prems(1) obtain accounts w1 where
      keys: "presented (list_update_ix rt ids pid sp vl pool nm s) accounts"
      and run: "process rt pid accounts (ix_data (list_update_ix rt ids pid sp vl pool nm s)) w = Inr w1"
      and rest: "executed rt pid (map (list_update_ix rt ids pid sp vl pool nm) ss) w1 w'"
    by (auto elim: executed_ConsE)
  note first = list_update_refreshes [OF own clock _ keys run Cons.prems(3,4)]
  note ih = Cons.IH [OF rest]
  show ?case using first ih Cons.prems(2) by (auto split: if_splits)
qed (auto elim: executed_NilE)

text \<open>When every entry is up to date, the sum over the entries does not find the list out of date.\<close>

lemma sum_records_fresh:
  "\<forall>r \<in> set rs. epoch \<le> vs_last_update_epoch r \<Longrightarrow> sum_records epoch rs t \<noteq> Inl (pool_err StakeListOutOfDate)"
  by (induction rs arbitrary: t)
    (auto simp: ok_iff bindE_def stake_lamports_def into_err_def ok_or_def error_code_def split: sum.splits option.splits)

end
