(* ===== verification/Builder_Theorems.thy ===== *)
theory Builder_Theorems
  imports Builder_Effects Sample_Pool
begin

section \<open>Theorems on the instruction builders\<close>

text \<open>
  The properties of the functions that build instructions for clients: an epoch update covers the
  whole list and, once its instructions have run, the pool can be updated; the accounts of a stake
  move pass the checks of the handler; a deposit or withdrawal is accepted only with the accounts
  of the pool.
\<close>

subsection \<open>Sample instructions\<close>

definition sample_ids :: known_ids where
  "sample_ids = \<lparr>id_rent = 13, id_clock = 14, id_stake_history = 15, id_stake_config = 16\<rparr>"

text \<open>The sample pool in the epoch before, with one validator.\<close>

definition stale_entry :: validator_stake_info where
  "stale_entry = sample_entry\<lparr>vs_last_update_epoch := 4\<rparr>"

definition stale_list_data :: bytes where
  "stale_list_data = ser_header sample_header @ bv_image [ser_vsi stale_entry] (replicate 600 0)"

definition stale_list :: validator_list where
  "stale_list = \<lparr>vl_header = sample_header, vl_validators = [stale_entry]\<rparr>"

definition stale_world :: world where
  "stale_world = sample_world(LIST := sample_account 1000 stale_list_data PROGRAM)"

lemma stale_vec_wf: "bv_wf ENTRY_LEN [ser_vsi stale_entry]"
  by (simp add: bv_wf_def)

lemma stale_list_simps [simp]:
  "list_ok stale_list_data" "list_infos stale_list_data = [stale_entry]"
  "drop HEADER_LEN stale_list_data = bv_image [ser_vsi stale_entry] (replicate 600 0)"
  "deserialize_vec stale_list_data = Inr (sample_header, bv_image [ser_vsi stale_entry] (replicate 600 0))"
proof -
  show d: "drop HEADER_LEN stale_list_data = bv_image [ser_vsi stale_entry] (replicate 600 0)"
    by (simp add: stale_list_data_def)
  show "list_infos stale_list_data = [stale_entry]"
    using stale_vec_wf by (simp add: list_infos_def d)
  show "list_ok stale_list_data"
    using bv_invar_image [OF stale_vec_wf] by (simp add: list_ok_def d) (simp add: stale_list_data_def)
  show "deserialize_vec stale_list_data = Inr (sample_header, bv_image [ser_vsi stale_entry] (replicate 600 0))"
    using d by (simp add: deserialize_vec_def stale_list_data_def chd.de_ser)
qed

lemma stale_entry_at [simp]: "entry_at (bv_image [ser_vsi stale_entry] (replicate 600 0)) 4 = stale_entry"
  using list_infos_nth [of 0 stale_list_data] by simp

lemma stale_entry_simps [simp]:
  "vs_last_update_epoch stale_entry = 4" "vs_transient_stake_lamports stale_entry = 0"
  "vs_transient_seed_suffix stale_entry = 0" "vs_validator_seed_suffix stale_entry = 0"
  "vs_status stale_entry = status_to_u8 Active" "vs_vote_account_address stale_entry = VOTE"
  by (simp_all add: stale_entry_def del: status_to_u8.simps)

lemma stale_world_simps [simp]:
  "stale_world LIST = sample_account 1000 stale_list_data PROGRAM"
  "stale_world POOL = sample_world POOL" "stale_world RESERVE = sample_world RESERVE"
  "stale_world VALIDATOR_STAKE = sample_world VALIDATOR_STAKE"
  "stale_world TRANSIENT_STAKE = sample_world TRANSIENT_STAKE"
  by (simp_all add: stale_world_def)

lemma stale_pool [simp]: "load_stake_pool PROGRAM stale_world (view POOL) = Inr sample_stake_pool"
  using sample_read_pool(2)
  by (simp add: load_stake_pool_def check_account_owner_def owner_of_def read_stake_pool_def data_of_def)

lemma stale_slice:
  "\<exists>s. bv_deserialize_slice ENTRY_LEN 0 (Suc 0) (bv_image [ser_vsi stale_entry] (replicate 600 0)) = Inr (4, s)"
  using stale_vec_wf
  by (simp add: bv_deserialize_slice_def VEC_SIZE_BYTES_def slice_def length_bv_image [OF stale_vec_wf])

lemma stale_update_list:
  "is_ok (process_update_validator_list_balance sample_rt PROGRAM update_list_accounts 0 False stale_world)"
  using stale_slice
  by (auto simp: process_update_validator_list_balance_def update_list_accounts_def
    update_record_def update_transient_def update_active_def usable_def stake_state_of_def
    update_active_delegated_def run_eval simp del: status_to_u8.simps)

lemma stale_starts [simp]: "list_starts stale_list = [0]"
  by (simp add: stale_list_def slice_chunks.simps MAX_VALIDATORS_TO_UPDATE_def)

lemma stale_presented:
  "presented (list_update_ix sample_rt sample_ids PROGRAM sample_stake_pool stale_list POOL False 0) update_list_accounts"
  by (simp add: presented_def list_update_ix_def update_list_metas_def entry_metas_def stale_list_def sample_ids_def
      update_list_accounts_def MAX_VALIDATORS_TO_UPDATE_def run_eval)

lemma stale_executed:
  "\<exists>w'. executed sample_rt PROGRAM
     [list_update_ix sample_rt sample_ids PROGRAM sample_stake_pool stale_list POOL False 0] stale_world w'"
proof -
  obtain w' where "process_update_validator_list_balance sample_rt PROGRAM update_list_accounts 0 False stale_world = Inr w'"
    using run_of [OF stale_update_list] by blast
  then have "process sample_rt PROGRAM update_list_accounts
      (ix_data (list_update_ix sample_rt sample_ids PROGRAM sample_stake_pool stale_list POOL False 0)) stale_world = Inr w'"
    by (simp add: list_update_ix_def process_ser_instruction del: ser_instruction.simps)
  with stale_presented show ?thesis by (blast intro: executed_Nil executed_Cons)
qed

subsection \<open>The epoch update\<close>

lemma concat_map_entries:
  "concat (map (\<lambda>c. concat (map f c)) cs) = concat (map f (concat cs))"
  by (induction cs) simp_all

text \<open>\<open>update_stake_pool\<close> returns for every list of at most \<open>2 ^ 32\<close> entries without a failing \<open>unwrap\<close>. Its list
  updates, at most five entries each, name the two stake accounts of every entry of the list exactly once and in order, each
  with the index of its first entry; \<open>update_stale_stake_pool\<close> returns those of them that have an entry not yet
  updated in the epoch.\<close>

lemma update_stake_pool_covers_list:
  assumes "length (vl_validators vl) \<le> 2 ^ 32"
  shows "\<exists>updates finals. update_stake_pool_ix rt ids pid sp vl pool nm = Inr (updates, finals) \<and>
    length updates = (length (vl_validators vl) + 4) div 5 \<and>
    concat (map (\<lambda>ix. drop 7 (ix_accounts ix)) updates) = concat (map (entry_metas rt pid pool) (vl_validators vl)) \<and>
    (\<forall>k < length updates. length (ix_accounts (updates ! k)) \<le> 17 \<and>
      ix_data (updates ! k) = ser_instruction (UpdateValidatorListBalance (word_of_nat (5 * k)) nm)) \<and>
    update_stale_stake_pool_ix rt ids pid sp vl pool nm epoch =
      Inr (map (\<lambda>k. updates ! k)
        (filter (\<lambda>k. \<exists>r \<in> set (take 5 (drop (5 * k) (vl_validators vl))). vs_last_update_epoch r < epoch)
          [0..<length updates]), finals)"
proof -
  let ?n = "length (slice_chunks MAX_VALIDATORS_TO_UPDATE (vl_validators vl))"
  let ?ix = "list_update_ix rt ids pid sp vl pool nm"
  let ?updates = "map ?ix (list_starts vl)"
  note five = MAX_VALIDATORS_TO_UPDATE_def
  have n: "?n = (length (vl_validators vl) + 4) div 5" by (simp add: slice_chunks_length five)
  have chunks: "map (\<lambda>k. take 5 (drop (k * 5) (vl_validators vl))) [0..<?n] =
      slice_chunks MAX_VALIDATORS_TO_UPDATE (vl_validators vl)"
    by (rule nth_equalityI) (simp_all add: slice_chunks_nth, simp add: five)
  have "map (\<lambda>ix. drop 7 (ix_accounts ix)) ?updates =
      map (\<lambda>c. concat (map (entry_metas rt pid pool) c)) (map (\<lambda>k. take 5 (drop (k * 5) (vl_validators vl))) [0..<?n])"
    by (simp add: list_update_ix_def update_list_metas_def five)
  then have accts: "concat (map (\<lambda>ix. drop 7 (ix_accounts ix)) ?updates) =
      concat (map (entry_metas rt pid pool) (vl_validators vl))"
    unfolding chunks using concat_map_entries [of _ "slice_chunks MAX_VALIDATORS_TO_UPDATE (vl_validators vl)"]
    by (simp add: slice_chunks_concat)
  have stale: "map ?ix (filter (\<lambda>s. \<not> chunk_fresh epoch vl s) (list_starts vl)) =
      map (\<lambda>k. ?updates ! k)
        (filter (\<lambda>k. \<exists>r \<in> set (take 5 (drop (5 * k) (vl_validators vl))). vs_last_update_epoch r < epoch) [0..<?n])"
    by (auto simp: filter_map comp_def chunk_fresh_def list_all_iff five not_le mult.commute intro!: map_cong filter_cong)
  have "\<forall>k < ?n. length (ix_accounts (?updates ! k)) \<le> 17 \<and>
      ix_data (?updates ! k) = ser_instruction (UpdateValidatorListBalance (word_of_nat (5 * k)) nm)"
    by (auto simp: list_update_ix_def update_list_metas_def five length_concat comp_def entry_metas_def sum_list_triv
        mult.commute min_def simp del: ser_instruction.simps of_nat_mult)
  then show ?thesis
    using update_stake_pool_ix_built [OF assms] update_stale_stake_pool_ix_built [OF assms] n accts stale
    by (intro exI [of _ ?updates] exI) (simp del: map_map ser_instruction.simps)
qed

text \<open>C23: Once the list updates built by \<open>update_stake_pool\<close> or \<open>update_stale_stake_pool\<close> from the list on chain have run in
  the current epoch, the list has the same validators and no entry is out of date, so that the sum of
  \<open>UpdateStakePoolBalance\<close> over it does not fail with \<open>StakeListOutOfDate\<close>.\<close>

theorem built_updates_refresh_list:
  assumes "respects_owner rt pid"
    and "\<And>info w. ai_key info = id_clock ids \<Longrightarrow> rt_clock_from_account_info rt info w = Inr epoch"
    and "list_ok (acc_data (w (sp_validator_list sp)))"
    and "vl_validators vl = validators_of sp w" "length (vl_validators vl) \<le> 2 ^ 32"
    and "update_stake_pool_ix rt ids pid sp vl pool nm = Inr (updates, finals) \<or>
      update_stale_stake_pool_ix rt ids pid sp vl pool nm epoch = Inr (updates, finals)"
    and "executed rt pid updates w w'"
  shows "list_ok (acc_data (w' (sp_validator_list sp))) \<and>
    list_all2 same_identity (vl_validators vl) (validators_of sp w') \<and>
    (\<forall>r \<in> set (validators_of sp w'). epoch \<le> vs_last_update_epoch r) \<and>
    sum_records epoch (validators_of sp w') t \<noteq> Inl (pool_err StakeListOutOfDate)"
proof -
  let ?vs = "vl_validators vl" and ?ys = "validators_of sp w'"
  obtain ss where ss: "updates = map (list_update_ix rt ids pid sp vl pool nm) ss" "set ss \<subseteq> set (list_starts vl)"
      and cover: "\<And>s. s \<in> set (list_starts vl) \<Longrightarrow> s \<notin> set ss \<Longrightarrow> chunk_fresh epoch vl s"
  proof (use assms(6) in \<open>elim disjE\<close>, goal_cases)
    case 1
    with update_stake_pool_ix_built [OF assms(5), of rt ids pid sp pool nm] show ?case
      by (intro 1(1) [of "list_starts vl"]) (simp_all del: map_map set_map)
  next
    case 2
    with update_stale_stake_pool_ix_built [OF assms(5), of rt ids pid sp pool nm epoch] show ?case
      by (intro 2(1) [of "filter (\<lambda>s. \<not> chunk_fresh epoch vl s) (list_starts vl)"])
        (auto simp del: map_map set_map)
  qed
  have small: "\<forall>s \<in> set ss. s < 2 ^ 32"
    using ss(2) slice_chunks_bound [OF MAX_pos] assms(5) by fastforce
  have "list_all2 same_identity ?vs (validators_of sp w)"
    by (simp add: assms(4) list_all2_same same_identity_def)
  note run = executed_refreshes [OF assms(1,2) assms(7) [unfolded ss(1)] small assms(3) this]
  then have "list_all2 same_identity ?vs ?ys" by blast
  then have len: "length ?ys = length ?vs" by (rule list_all2_lengthD [symmetric])
  have "epoch \<le> vs_last_update_epoch (?ys ! j)" if j: "j < length ?vs" for j
  proof -
    let ?s = "j div MAX_VALIDATORS_TO_UPDATE * MAX_VALIDATORS_TO_UPDATE"
    note c = slice_chunks_cover [OF MAX_pos j]
    show ?thesis
    proof (cases "\<exists>s \<in> set ss. s \<le> j \<and> j < s + MAX_VALIDATORS_TO_UPDATE")
      case False
      then have "?s \<notin> set ss" using c by blast
      then have "chunk_fresh epoch vl ?s" using c(1) by (intro cover) auto
      moreover have "?vs ! j \<in> set (take MAX_VALIDATORS_TO_UPDATE (drop ?s ?vs))"
        using nth_in_chunk [OF c(2,3) j] .
      ultimately have "epoch \<le> vs_last_update_epoch (?vs ! j)" by (simp add: chunk_fresh_def list_all_iff)
      then show ?thesis using run j False assms(4) by auto
    qed (use run j in auto)
  qed
  then have "\<forall>r \<in> set ?ys. epoch \<le> vs_last_update_epoch r" by (auto simp: in_set_conv_nth len)
  with run sum_records_fresh show ?thesis by blast
qed

theorem built_updates_refresh_list_witness:
  "\<exists>updates finals w'.
     update_stale_stake_pool_ix sample_rt sample_ids PROGRAM sample_stake_pool stale_list POOL False 5 = Inr (updates, finals) \<and>
     length updates = 1 \<and> executed sample_rt PROGRAM updates stale_world w' \<and>
     (\<forall>r \<in> set (list_infos (acc_data (w' LIST))). 5 \<le> vs_last_update_epoch r)"
proof -
  have "\<not> chunk_fresh 5 stale_list 0" by (simp add: chunk_fresh_def stale_list_def MAX_VALIDATORS_TO_UPDATE_def)
  then have built: "update_stale_stake_pool_ix sample_rt sample_ids PROGRAM sample_stake_pool stale_list POOL False 5 =
      Inr ([list_update_ix sample_rt sample_ids PROGRAM sample_stake_pool stale_list POOL False 0],
        final_ixs sample_rt PROGRAM sample_stake_pool POOL)"
    by (subst update_stale_stake_pool_ix_built) (simp_all del: map_map, simp add: stale_list_def)
  obtain w' where run: "executed sample_rt PROGRAM
     [list_update_ix sample_rt sample_ids PROGRAM sample_stake_pool stale_list POOL False 0] stale_world w'"
    using stale_executed by blast
  have "\<forall>r \<in> set (list_infos (acc_data (w' LIST))). 5 \<le> vs_last_update_epoch r"
    using built_updates_refresh_list [OF sample_respects_owner _ _ _ _ disjI2 [OF built] run]
    by (simp add: stale_list_def)
  with built run show ?thesis by auto
qed

subsection \<open>Moving stake\<close>

text \<open>The checks of an increase or a decrease on the accounts of the pool and of the entry \<open>r\<close>.\<close>

definition move_accepted ::
    "runtime \<Rightarrow> pubkey \<Rightarrow> pubkey \<Rightarrow> stake_pool \<Rightarrow> validator_stake_info \<Rightarrow> u64 \<Rightarrow> account_info \<Rightarrow> account_info \<Rightarrow>
      account_info \<Rightarrow> account_info \<Rightarrow> account_info \<Rightarrow> account_info \<Rightarrow> account_info \<Rightarrow> bool" where
  "move_accepted rt pid pool sp r seed staker auth list reserve ephemeral transient validator_stake \<longleftrightarrow>
     check_staker sp staker = Inr () \<and>
     check_authority_withdraw rt sp (ai_key auth) pid pool = Inr () \<and>
     check_validator_list sp list = Inr () \<and>
     check_reserve_stake sp reserve = Inr () \<and>
     is_ok (check_ephemeral_stake_address rt pid pool (ai_key ephemeral) seed) \<and>
     is_ok (check_transient_stake_address rt pid pool (ai_key transient) (vs_vote_account_address r)
       (vs_transient_seed_suffix r)) \<and>
     check_validator_stake_address rt pid pool (ai_key validator_stake) (vs_vote_account_address r)
       (vs_validator_seed_suffix r) = Inr ()"

lemma vl_find_vote: "vl_find vl vote = Some r \<Longrightarrow> vs_vote_account_address r = vote"
  by (auto simp: vl_find_def find_Some_iff)

lemma move_acceptedI:
  assumes "rt_create_program_address rt [ser_pubkey pool, AUTHORITY_WITHDRAW, [sp_stake_withdraw_bump_seed sp]] pid =
      Inr (fst (find_withdraw_authority_program_address rt pid pool))"
    and "ai_key staker = sp_staker sp" "ai_is_signer staker" "ai_key list = sp_validator_list sp"
    and "ai_key auth = fst (find_withdraw_authority_program_address rt pid pool)" "ai_key reserve = sp_reserve_stake sp"
    and "ai_key ephemeral = fst (find_ephemeral_stake_program_address rt pid pool seed)"
    and "ai_key transient = fst (find_transient_stake_program_address rt pid (vs_vote_account_address r) pool
      (vs_transient_seed_suffix r))"
    and "ai_key validator_stake = fst (find_stake_program_address rt pid (vs_vote_account_address r) pool
      (vs_validator_seed_suffix r))"
  shows "move_accepted rt pid pool sp r seed staker auth list reserve ephemeral transient validator_stake"
  using assms
  by (simp add: move_accepted_def check_staker_def check_authority_withdraw_def check_program_derived_authority_def
      check_validator_list_def check_reserve_stake_def check_ephemeral_stake_address_def
      check_transient_stake_address_def check_validator_stake_address_def case_prod_beta)


lemma presented_signers: "presented ix (map (\<lambda>m. signer (am_pubkey m)) (ix_accounts ix))"
  by (simp add: presented_def list_all2_map2 list_all2_same)


subsection \<open>Deposits and withdrawals\<close>

text \<open>A \<open>DepositSol\<close> built by \<open>deposit_sol\<close> or one of its variants is accepted only when the accounts it was built with are those of the pool:
  the reserve, the mint, the token program, the manager's fee account and, where the pool asks for one, the deposit authority.
  The lamports and the minimum are those of the client.\<close>

lemma built_deposit_sol_accounts:
  assumes "presented (deposit_sol_internal_ix rt pid pool auth reserve from dest fee_account referrer mint token
      deposit_authority lamports minimum) accounts"
    and "process rt pid accounts (ix_data (deposit_sol_internal_ix rt pid pool auth reserve from dest fee_account referrer
      mint token deposit_authority lamports minimum)) w = Inr w'"
  shows "\<exists>p sp a. ai_key p = pool \<and> load_stake_pool pid w p = Inr sp \<and>
    reserve = sp_reserve_stake sp \<and> mint = sp_pool_mint sp \<and> token = sp_token_program_id sp \<and>
    fee_account = sp_manager_fee_account sp \<and>
    (sp_sol_deposit_authority sp = None \<or> sp_sol_deposit_authority sp = deposit_authority) \<and>
    deposit_sol_amounts sp lamports minimum = Inr a"
proof -
  from presented_keys [OF assms(1)] obtain p au re fr de fe rf mi sy tk rest where
      accounts: "accounts = p # au # re # fr # de # fe # rf # mi # sy # tk # rest"
      and k: "ai_key p = pool" "ai_key re = reserve" "ai_key mi = mint" "ai_key tk = token" "ai_key fe = fee_account"
      and rest: "map ai_key rest = (case deposit_authority of None \<Rightarrow> [] | Some k \<Rightarrow> [k])"
    by (auto simp: deposit_sol_internal_ix_def map_eq_Cons_conv split: option.splits)
  from assms(2) have "process_deposit_sol rt pid accounts lamports minimum w = Inr w'"
    by (auto simp: deposit_sol_internal_ix_def process_ser_instruction simp del: ser_instruction.simps split: option.splits)
  from deposit_sol_effect [OF this [unfolded accounts]] obtain sp a where
      sp: "load_stake_pool pid w p = Inr sp" "ai_key re = sp_reserve_stake sp" "ai_key mi = sp_pool_mint sp"
        "ai_key tk = sp_token_program_id sp" "ai_key fe = sp_manager_fee_account sp"
      and au: "\<forall>k. sp_sol_deposit_authority sp = Some k \<longrightarrow> (\<exists>i rest'. rest = i # rest' \<and> ai_key i = k \<and> ai_is_signer i)"
      and am: "deposit_sol_amounts sp lamports minimum = Inr a" by blast
  have "sp_sol_deposit_authority sp = None \<or> sp_sol_deposit_authority sp = deposit_authority"
    using au rest by (cases "sp_sol_deposit_authority sp") (auto split: option.splits)
  then show ?thesis using sp k am by blast
qed

end
