(* ===== verification/Client_Withdraw.thy ===== *)
theory Client_Withdraw
  imports Checks
begin

section \<open>The withdrawal plan of the command-line client\<close>

text \<open>
  The part of \<open>src/clients/cli/src\<close> that computes: reading the accounts of a pool (\<open>client.rs\<close>), the
  check of the fees of a new pool, and the choice of the accounts that a withdrawal of stake takes its
  lamports from (\<open>check_stake_pool_fees\<close>, \<open>sorted_accounts\<close>, \<open>prepare_withdraw_accounts\<close> and the first half of
  \<open>command_withdraw_stake\<close> of \<open>main.rs\<close>).

  What the client asks the node for is a field of the record \<open>cli_env\<close>, as is the decoding of token and
  stake accounts by other crates. An error message is a value of the type \<open>cli_error\<close>. The operators of Rust
  on integers panic on overflow in a debug build and wrap in a release build; the field
  \<open>env_overflow_checks\<close> tells which, and a panic is the error \<open>CliPanic\<close>. A loop that never ends is the error \<open>CliDiverges\<close>, and \<open>exit\<close> the error \<open>CliExit\<close>.
\<close>

subsection \<open>Environment and arithmetic\<close>

datatype cli_error =
    RpcError
  | InvalidAccount
  | InvalidTokenMint
  | EpochFeeZero
  | WithdrawalAndDepositFeeZero
  | NotEnoughStake
  | NotEnoughTokens
  | VoteAccountMismatch
  | VoteAccountNotInPool
  | NotEnoughLamports
  | InsufficientFeePayerBalance
  | NoUnitsConsumed
  | IntegerConversion
  | WrongMintAuthority
  | InvalidMint
  | WrongStakeState
  | InvalidDepositAuthority
  | NoSolDepositAuthority
  | NoSolWithdrawAuthority
  | NotEnoughSol
  | IncorrectTokenProgram
  | CliPanic
  | CliDiverges
  | CliExit

record cli_env =
  env_get_account :: "pubkey \<Rightarrow> cli_error + account"
  env_minimum_balance_for_rent_exemption :: "nat \<Rightarrow> cli_error + u64"
  env_stake_minimum_delegation :: "cli_error + u64"
  env_unpack_mint :: "bytes \<Rightarrow> u8 option"
  env_unpack_token_account :: "bytes \<Rightarrow> (pubkey \<times> u64) option"
  env_stake_state :: "bytes \<Rightarrow> stake_state option"
  env_overflow_checks :: bool

definition add_u64 :: "cli_env \<Rightarrow> u64 \<Rightarrow> u64 \<Rightarrow> cli_error + u64" where
  "add_u64 env a b =
     (if env_overflow_checks env \<and> 2 ^ 64 \<le> unat a + unat b then Inl CliPanic else Inr (a + b))"

definition sub_u64 :: "cli_env \<Rightarrow> u64 \<Rightarrow> u64 \<Rightarrow> cli_error + u64" where
  "sub_u64 env a b = (if env_overflow_checks env \<and> unat a < unat b then Inl CliPanic else Inr (a - b))"

definition mul_u64 :: "cli_env \<Rightarrow> u64 \<Rightarrow> u64 \<Rightarrow> cli_error + u64" where
  "mul_u64 env a b =
     (if env_overflow_checks env \<and> 2 ^ 64 \<le> unat a * unat b then Inl CliPanic else Inr (a * b))"

definition div_u64 :: "u64 \<Rightarrow> u64 \<Rightarrow> cli_error + u64" where
  "div_u64 a b = (if b = 0 then Inl CliPanic else Inr (a div b))"

definition STAKE_STATE_LEN :: nat where
  "STAKE_STATE_LEN = 200"

subsection \<open>Reading accounts\<close>

definition get_account_data :: "cli_env \<Rightarrow> pubkey \<Rightarrow> cli_error + bytes" where
  "get_account_data env address = bindE (env_get_account env address) (\<lambda>a. Inr (acc_data a))"

definition get_stake_pool :: "cli_env \<Rightarrow> pubkey \<Rightarrow> cli_error + stake_pool" where
  "get_stake_pool env stake_pool_address =
     bindE (get_account_data env stake_pool_address) (\<lambda>account_data.
     bindE (ok_or (de_stake_pool account_data) InvalidAccount) (\<lambda>(stake_pool, _).
     Inr stake_pool))"

definition get_validator_list :: "cli_env \<Rightarrow> pubkey \<Rightarrow> cli_error + validator_list" where
  "get_validator_list env validator_list_address =
     bindE (get_account_data env validator_list_address) (\<lambda>account_data.
     bindE (ok_or (de_validator_list account_data) InvalidAccount) (\<lambda>(validator_list, _).
     Inr validator_list))"

definition get_token_account :: "cli_env \<Rightarrow> pubkey \<Rightarrow> pubkey \<Rightarrow> cli_error + (pubkey \<times> u64)" where
  "get_token_account env token_account_address expected_token_mint =
     bindE (get_account_data env token_account_address) (\<lambda>account_data.
     bindE (ok_or (env_unpack_token_account env account_data) InvalidAccount) (\<lambda>token_account.
     if fst token_account \<noteq> expected_token_mint then Inl InvalidTokenMint else Inr token_account))"

definition get_token_mint :: "cli_env \<Rightarrow> pubkey \<Rightarrow> cli_error + u8" where
  "get_token_mint env token_mint_address =
     bindE (get_account_data env token_mint_address) (\<lambda>account_data.
     ok_or (env_unpack_mint env account_data) InvalidAccount)"

subsection \<open>The fees of a new pool\<close>

definition check_stake_pool_fees :: "fee \<Rightarrow> fee \<Rightarrow> fee \<Rightarrow> cli_error + unit" where
  "check_stake_pool_fees epoch_fee withdrawal_fee deposit_fee =
     (if numerator epoch_fee = 0 \<or> denominator epoch_fee = 0 then Inl EpochFeeZero
      else
        let is_withdrawal_fee_zero = numerator withdrawal_fee = 0 \<or> denominator withdrawal_fee = 0;
            is_deposit_fee_zero = numerator deposit_fee = 0 \<or> denominator deposit_fee = 0 in
        if is_withdrawal_fee_zero \<and> is_deposit_fee_zero then Inl WithdrawalAndDepositFeeZero
        else Inr ())"

subsection \<open>The order of the accounts\<close>

datatype ordering = OrdLess | OrdEqual | OrdGreater

text \<open>\<open>slice::sort_by\<close> is a stable sort, here by insertion from the right.\<close>

fun insert_by :: "('a \<Rightarrow> 'a \<Rightarrow> ordering) \<Rightarrow> 'a \<Rightarrow> 'a list \<Rightarrow> 'a list" where
  "insert_by compare x [] = [x]"
| "insert_by compare x (y # ys) =
     (if compare x y = OrdGreater then y # insert_by compare x ys else x # y # ys)"

definition sort_by :: "('a \<Rightarrow> 'a \<Rightarrow> ordering) \<Rightarrow> 'a list \<Rightarrow> 'a list" where
  "sort_by compare xs = foldr (insert_by compare) xs []"

type_synonym candidate = "pubkey \<times> u64 \<times> pubkey option"

definition account_order :: "pubkey option \<Rightarrow> candidate \<Rightarrow> candidate \<Rightarrow> ordering" where
  "account_order preferred left right =
     (if snd (snd left) = preferred then OrdLess
      else if snd (snd right) = preferred then OrdGreater
      else if fst (snd right) < fst (snd left) then OrdLess
      else if fst (snd right) = fst (snd left) then OrdEqual else OrdGreater)"

definition sorted_accounts ::
    "validator_list \<Rightarrow> stake_pool \<Rightarrow> (validator_stake_info \<Rightarrow> candidate) \<Rightarrow> candidate list" where
  "sorted_accounts validator_list stake_pool get_info =
     sort_by (account_order (sp_preferred_withdraw_validator_vote_address stake_pool))
       (map get_info (vl_validators validator_list))"

subsection \<open>The plan\<close>

record withdraw_account =
  wa_stake_address :: pubkey
  wa_vote_address :: "pubkey option"
  wa_pool_amount :: u64

text \<open>The pool tokens for which an account of the given balance has lamports.\<close>

definition available_for_withdrawal ::
    "cli_env \<Rightarrow> stake_pool \<Rightarrow> bool \<Rightarrow> fee \<Rightarrow> u64 \<Rightarrow> cli_error + u64" where
  "available_for_withdrawal env stake_pool skip_fee inverse_fee lamports =
     bindE (ok_or (calc_pool_tokens_for_deposit stake_pool lamports) CliPanic) (\<lambda>available_wo_fee.
     if skip_fee then Inr available_wo_fee
     else
       bindE (mul_u64 env available_wo_fee (denominator inverse_fee)) (\<lambda>product.
       div_u64 product (numerator inverse_fee)))"

text \<open>The loop over the accounts; the result is the plan and the amount that is left.\<close>

fun withdraw_loop ::
    "cli_env \<Rightarrow> stake_pool \<Rightarrow> bool \<Rightarrow> fee \<Rightarrow> u64 \<Rightarrow> candidate list \<Rightarrow> u64 \<Rightarrow>
      cli_error + (withdraw_account list \<times> u64)" where
  "withdraw_loop env stake_pool skip_fee inverse_fee min_balance [] remaining_amount = Inr ([], remaining_amount)"
| "withdraw_loop env stake_pool skip_fee inverse_fee min_balance
       ((stake_address, lamports, vote_address_opt) # accounts) remaining_amount =
     (if lamports \<le> min_balance then
        withdraw_loop env stake_pool skip_fee inverse_fee min_balance accounts remaining_amount
      else
        bindE (available_for_withdrawal env stake_pool skip_fee inverse_fee lamports) (\<lambda>available.
        let pool_amount = min available remaining_amount;
            item = \<lparr>wa_stake_address = stake_address, wa_vote_address = vote_address_opt,
                    wa_pool_amount = pool_amount\<rparr>;
            remaining = remaining_amount - pool_amount in
        if remaining = 0 then Inr ([item], 0)
        else
          bindE (withdraw_loop env stake_pool skip_fee inverse_fee min_balance accounts remaining)
            (\<lambda>(withdraw_from, left). Inr (item # withdraw_from, left))))"

definition active_candidate ::
    "runtime \<Rightarrow> pubkey \<Rightarrow> pubkey \<Rightarrow> validator_stake_info \<Rightarrow> candidate" where
  "active_candidate rt program_id stake_pool_address validator =
     (fst (find_stake_program_address rt program_id (vs_vote_account_address validator) stake_pool_address
             (vs_validator_seed_suffix validator)),
      vs_active_stake_lamports validator, Some (vs_vote_account_address validator))"

definition transient_candidate ::
    "runtime \<Rightarrow> pubkey \<Rightarrow> pubkey \<Rightarrow> u64 \<Rightarrow> validator_stake_info \<Rightarrow> candidate" where
  "transient_candidate rt program_id stake_pool_address min_balance validator =
     (fst (find_transient_stake_program_address rt program_id (vs_vote_account_address validator)
             stake_pool_address (vs_transient_seed_suffix validator)),
      saturating_sub (vs_transient_stake_lamports validator) min_balance,
      Some (vs_vote_account_address validator))"

definition prepare_withdraw_accounts ::
    "cli_env \<Rightarrow> runtime \<Rightarrow> pubkey \<Rightarrow> stake_pool \<Rightarrow> u64 \<Rightarrow> pubkey \<Rightarrow> bool \<Rightarrow>
      cli_error + withdraw_account list" where
  "prepare_withdraw_accounts env rt program_id stake_pool pool_amount stake_pool_address skip_fee =
     bindE (env_stake_minimum_delegation env) (\<lambda>stake_minimum_delegation.
     let stake_pool_minimum_delegation = minimum_delegation stake_minimum_delegation in
     bindE (env_minimum_balance_for_rent_exemption env STAKE_STATE_LEN) (\<lambda>rent.
     let min_balance = saturating_add rent stake_pool_minimum_delegation in
     bindE (get_token_mint env (sp_pool_mint stake_pool)) (\<lambda>pool_mint.
     bindE (get_validator_list env (sp_validator_list stake_pool)) (\<lambda>validator_list.
     let accounts =
           sorted_accounts validator_list stake_pool (active_candidate rt program_id stake_pool_address) @
           sorted_accounts validator_list stake_pool
             (transient_candidate rt program_id stake_pool_address min_balance) in
     bindE (env_get_account env (sp_reserve_stake stake_pool)) (\<lambda>reserve_stake.
     bindE (env_minimum_balance_for_rent_exemption env STAKE_STATE_LEN) (\<lambda>rent.
     bindE (sub_u64 env (acc_lamports reserve_stake) rent) (\<lambda>lamports.
     bindE (sub_u64 env lamports MINIMUM_RESERVE_LAMPORTS) (\<lambda>lamports.
     let accounts = accounts @ [(sp_reserve_stake stake_pool, lamports, None)];
         fee = sp_stake_withdrawal_fee stake_pool in
     bindE (sub_u64 env (denominator fee) (numerator fee)) (\<lambda>inverse_numerator.
     let inverse_fee = \<lparr>denominator = denominator fee, numerator = inverse_numerator\<rparr> in
     bindE (withdraw_loop env stake_pool skip_fee inverse_fee min_balance accounts pool_amount)
       (\<lambda>(withdraw_from, remaining_amount).
     if remaining_amount > 0 then Inl NotEnoughStake else Inr withdraw_from))))))))))"

subsection \<open>The accounts of a withdrawal\<close>

text \<open>
  \<open>command_withdraw_stake\<close> up to the choice of the accounts. The amount is given as a number of
  tokens in the interface, converted by another crate with the decimals of the mint; the token account
  is the one of the command line or the associated account of the owner. The receiver counts when it is a
  delegated stake account; the value is the vote account it is delegated to.
\<close>

definition stake_receiver_vote :: "cli_env \<Rightarrow> runtime \<Rightarrow> pubkey option \<Rightarrow> pubkey option" where
  "stake_receiver_vote env rt stake_receiver_param =
     (case stake_receiver_param of
        None \<Rightarrow> None
      | Some stake_receiver_pubkey \<Rightarrow>
          (case env_get_account env stake_receiver_pubkey of
             Inl _ \<Rightarrow> None
           | Inr stake_account \<Rightarrow>
               (case env_stake_state env (acc_data stake_account) of
                  Some (SS_Stake _ delegation) \<Rightarrow>
                    if acc_owner stake_account = rt_stake_program rt then Some (voter_pubkey delegation)
                    else None
                | _ \<Rightarrow> None)))"

definition validator_withdraw_account ::
    "cli_env \<Rightarrow> runtime \<Rightarrow> pubkey \<Rightarrow> stake_pool \<Rightarrow> pubkey \<Rightarrow> u64 \<Rightarrow> u64 \<Rightarrow> u64 \<Rightarrow> pubkey \<Rightarrow>
      cli_error + withdraw_account list" where
  "validator_withdraw_account env rt program_id stake_pool stake_pool_address pool_amount
       stake_pool_minimum_delegation stake_account_rent_exemption vote_account =
     bindE (get_validator_list env (sp_validator_list stake_pool)) (\<lambda>validator_list.
     bindE (ok_or (vl_find validator_list vote_account) VoteAccountNotInPool) (\<lambda>validator_stake_info.
     let stake_account_address =
           fst (find_stake_program_address rt program_id vote_account stake_pool_address
                  (vs_validator_seed_suffix validator_stake_info)) in
     bindE (env_get_account env stake_account_address) (\<lambda>stake_account.
     bindE (ok_or (calc_lamports_withdraw_amount stake_pool
                (saturating_sub (saturating_sub (acc_lamports stake_account) stake_pool_minimum_delegation)
                  stake_account_rent_exemption)) CliPanic) (\<lambda>available_for_withdrawal.
     if available_for_withdrawal < pool_amount then Inl NotEnoughLamports
     else Inr [\<lparr>wa_stake_address = stake_account_address, wa_vote_address = Some vote_account,
                wa_pool_amount = pool_amount\<rparr>]))))"

record withdraw_request =
  wr_stake_pool :: stake_pool
  wr_pool_amount :: u64
  wr_pool_token_account :: pubkey
  wr_rent_exemption :: u64

definition withdraw_request_of ::
    "cli_env \<Rightarrow> pubkey \<Rightarrow> (stake_pool \<Rightarrow> pubkey) \<Rightarrow> (u8 \<Rightarrow> u64) \<Rightarrow> cli_error + withdraw_request" where
  "withdraw_request_of env stake_pool_address pool_token_account_of to_amount =
     bindE (get_stake_pool env stake_pool_address) (\<lambda>stake_pool.
     bindE (get_token_mint env (sp_pool_mint stake_pool)) (\<lambda>decimals.
     let pool_amount = to_amount decimals;
         pool_token_account = pool_token_account_of stake_pool in
     bindE (get_token_account env pool_token_account (sp_pool_mint stake_pool)) (\<lambda>token_account.
     bindE (env_minimum_balance_for_rent_exemption env STAKE_STATE_LEN) (\<lambda>stake_account_rent_exemption.
     if snd token_account < pool_amount then Inl NotEnoughTokens
     else
       Inr \<lparr>wr_stake_pool = stake_pool, wr_pool_amount = pool_amount,
            wr_pool_token_account = pool_token_account,
            wr_rent_exemption = stake_account_rent_exemption\<rparr>))))"

definition withdraw_accounts ::
    "cli_env \<Rightarrow> runtime \<Rightarrow> pubkey \<Rightarrow> pubkey \<Rightarrow> bool \<Rightarrow> pubkey option \<Rightarrow> pubkey option \<Rightarrow> withdraw_request \<Rightarrow>
      cli_error + withdraw_account list" where
  "withdraw_accounts env rt program_id stake_pool_address use_reserve vote_account_address
       stake_receiver_param r =
     bindE (env_stake_minimum_delegation env) (\<lambda>stake_minimum_delegation.
     let stake_pool_minimum_delegation = minimum_delegation stake_minimum_delegation;
         from_validator =
           validator_withdraw_account env rt program_id (wr_stake_pool r) stake_pool_address
             (wr_pool_amount r) stake_pool_minimum_delegation (wr_rent_exemption r) in
     if use_reserve then
       Inr [\<lparr>wa_stake_address = sp_reserve_stake (wr_stake_pool r), wa_vote_address = None,
             wa_pool_amount = wr_pool_amount r\<rparr>]
     else
       case stake_receiver_vote env rt stake_receiver_param of
         Some vote_account \<Rightarrow>
           if (case vote_account_address of Some v \<Rightarrow> v \<noteq> vote_account | None \<Rightarrow> False)
           then Inl VoteAccountMismatch
           else from_validator vote_account
       | None \<Rightarrow>
           case vote_account_address of
             Some vote_account \<Rightarrow> from_validator vote_account
           | None \<Rightarrow>
               prepare_withdraw_accounts env rt program_id (wr_stake_pool r) (wr_pool_amount r)
                 stake_pool_address (sp_manager_fee_account (wr_stake_pool r) = wr_pool_token_account r))"

end
