(* ===== verification/Client_Theorems.thy ===== *)
theory Client_Theorems
  imports Client_Withdraw Sample_Pool
begin

section \<open>Theorems on the withdrawal plan\<close>

text \<open>
  What the plan of the client promises: it asks for the amount of the user, from accounts of the pool,
  and from no account for more lamports than it has on record; it fails only when the accounts together have
  too little. And where it goes wrong: it may plan to empty an account that the program does
  not let anybody empty, it divides by zero for a pool without a withdrawal fee, and its check of a single
  account mixes lamports with pool tokens.
\<close>

subsection \<open>Sorting\<close>

lemma set_insert_by [simp]: "set (insert_by c x ys) = insert x (set ys)"
  by (induction ys) auto

lemma set_sort_by [simp]: "set (sort_by c xs) = set xs"
  by (induction xs) (simp_all add: sort_by_def)

lemma sum_list_insert_by [simp]:
  "sum_list (map f (insert_by c x ys)) = f x + (sum_list (map f ys) :: nat)"
  by (induction ys) auto

lemma sum_list_sort_by [simp]: "sum_list (map f (sort_by c xs)) = (sum_list (map f xs) :: nat)"
  by (induction xs) (simp_all add: sort_by_def)

subsection \<open>The loop\<close>

text \<open>The tokens that a candidate is good for; an account at or below the minimum is passed over.\<close>

definition offer :: "cli_env \<Rightarrow> stake_pool \<Rightarrow> bool \<Rightarrow> fee \<Rightarrow> u64 \<Rightarrow> candidate \<Rightarrow> nat" where
  "offer env sp skip ifee min_balance c =
     (if fst (snd c) \<le> min_balance then 0
      else case available_for_withdrawal env sp skip ifee (fst (snd c)) of Inl _ \<Rightarrow> 0 | Inr a \<Rightarrow> unat a)"

text \<open>An item of the plan belongs to a candidate and asks for no more than it is good for.\<close>

definition planned ::
    "cli_env \<Rightarrow> stake_pool \<Rightarrow> bool \<Rightarrow> fee \<Rightarrow> u64 \<Rightarrow> candidate list \<Rightarrow> withdraw_account \<Rightarrow> bool" where
  "planned env sp skip ifee mb accts w \<longleftrightarrow>
     (\<exists>l a. (wa_stake_address w, l, wa_vote_address w) \<in> set accts \<and> mb < l \<and>
       available_for_withdrawal env sp skip ifee l = Inr a \<and> wa_pool_amount w \<le> a)"

lemma planned_Cons: "planned env sp skip ifee mb accts w \<Longrightarrow> planned env sp skip ifee mb (c # accts) w"
  by (auto simp: planned_def)

lemma withdraw_loop_sound:
  "withdraw_loop env sp skip ifee mb accts rem = Inr (ws, left) \<Longrightarrow>
    sum_list (map (\<lambda>w. unat (wa_pool_amount w)) ws) + unat left = unat rem \<and>
    (\<forall>w \<in> set ws. planned env sp skip ifee mb accts w)"
proof (induction env sp skip ifee mb accts rem arbitrary: ws rule: withdraw_loop.induct)
  case (2 env sp skip ifee mb addr l v accts rem)
  show ?case
  proof (cases "l \<le> mb")
    case True
    then have "withdraw_loop env sp skip ifee mb accts rem = Inr (ws, left)" using "2.prems" by simp
    from "2.IH"(1) [OF True this] show ?thesis by (auto intro: planned_Cons)
  next
    case False
    with "2.prems" obtain a where a: "available_for_withdrawal env sp skip ifee l = Inr a"
      by (auto simp: ok_iff)
    let ?p = "min a rem"
    have le: "?p \<le> rem" "?p \<le> a" by simp_all
    have sub: "unat (rem - ?p) + unat ?p = unat rem" using le(1) by (simp add: unat_sub word_le_nat_alt)
    have item: "planned env sp skip ifee mb ((addr, l, v) # accts)
        \<lparr>wa_stake_address = addr, wa_vote_address = v, wa_pool_amount = ?p\<rparr>"
      using le(2) a False by (auto simp: planned_def not_le)
    show ?thesis
    proof (cases "rem - ?p = 0")
      case True
      then have "ws = [\<lparr>wa_stake_address = addr, wa_vote_address = v, wa_pool_amount = ?p\<rparr>]" "left = 0"
        using "2.prems" False a by (simp_all add: Let_def)
      then show ?thesis using True sub item by simp
    next
      case more: False
      then obtain ws' where rec: "withdraw_loop env sp skip ifee mb accts (rem - ?p) = Inr (ws', left)"
          and ws: "ws = \<lparr>wa_stake_address = addr, wa_vote_address = v, wa_pool_amount = ?p\<rparr> # ws'"
        using "2.prems" False a by (auto simp: Let_def ok_iff)
      from "2.IH"(2) [OF False refl refl refl more rec] show ?thesis
        using sub item unfolding ws by (auto intro: planned_Cons)
    qed
  qed
qed simp

lemma withdraw_loop_complete:
  "\<forall>c \<in> set accts. mb < fst (snd c) \<longrightarrow> is_ok (available_for_withdrawal env sp skip ifee (fst (snd c))) \<Longrightarrow>
    \<exists>ws left. withdraw_loop env sp skip ifee mb accts rem = Inr (ws, left) \<and>
      unat left = unat rem - sum_list (map (offer env sp skip ifee mb) accts)"
proof (induction env sp skip ifee mb accts rem rule: withdraw_loop.induct)
  case (2 env sp skip ifee mb addr l v accts rem)
  show ?case
  proof (cases "l \<le> mb")
    case True
    then show ?thesis using "2.IH"(1) "2.prems" by (auto simp: offer_def)
  next
    case False
    with "2.prems" obtain a where a: "available_for_withdrawal env sp skip ifee l = Inr a"
      by (auto simp: not_le is_ok_iff)
    let ?p = "min a rem"
    have sub: "unat (rem - ?p) = unat rem - unat a"
      by (cases "a \<le> rem") (auto simp: unat_sub min_def word_le_nat_alt)
    show ?thesis
    proof (cases "rem - ?p = 0")
      case True
      then have "unat rem \<le> unat a" using sub by simp
      then show ?thesis using True False a by (auto simp: Let_def offer_def)
    next
      case more: False
      from "2.IH"(2) [OF False refl refl refl more] "2.prems" show ?thesis
        using more False a sub by (auto simp: Let_def offer_def)
    qed
  qed
qed simp

subsection \<open>What an account is good for\<close>

text \<open>The tokens of an offer, less the fee of the program, are worth no more than the lamports of the account.\<close>

lemma available_burnt:
  assumes avail: "available_for_withdrawal env sp skip ifee lam = Inr a" "t \<le> a"
    and wo: "calc_pool_tokens_for_deposit sp lam = Some wo"
    and fee: "fee_at_most_one (sp_stake_withdrawal_fee sp)"
      "ifee = \<lparr>denominator = denominator (sp_stake_withdrawal_fee sp),
        numerator = denominator (sp_stake_withdrawal_fee sp) - numerator (sp_stake_withdrawal_fee sp)\<rparr>"
    and f: "(if skip then Some 0 else calc_pool_tokens_stake_withdrawal_fee sp t) = Some f"
    and b: "checked_sub t f = Some b"
  shows "unat b \<le> unat wo"
proof (cases skip)
  case True
  then show ?thesis using avail wo f b by (simp add: available_for_withdrawal_def int_ops word_le_nat_alt)
next
  case False
  let ?fee = "sp_stake_withdrawal_fee sp"
  let ?d = "unat (denominator ?fee)" and ?m = "unat (numerator ?fee)"
  have md: "?m \<le> ?d" using fee(1) by (simp add: fee_at_most_one_def word_le_nat_alt not_less)
  have n: "denominator ?fee - numerator ?fee \<noteq> 0" and a: "a = wo * denominator ?fee div (denominator ?fee - numerator ?fee)"
    using avail(1) False wo fee(2)
    by (auto simp: available_for_withdrawal_def mul_u64_def div_u64_def ok_iff split: if_splits)
  have un: "unat (denominator ?fee - numerator ?fee) = ?d - ?m" using md by (simp add: unat_sub word_le_nat_alt)
  have pos: "0 < ?d - ?m" using n un unat_gt_0 by metis
  then have d0: "denominator ?fee \<noteq> 0" by auto
  have "unat a = unat (wo * denominator ?fee) div (?d - ?m)" unfolding a by (simp only: unat_div un)
  also have "\<dots> \<le> (unat wo * ?d) div (?d - ?m)"
    by (intro div_le_mono) (simp only: unat_word_ariths mod_less_eq_dividend)
  finally have "unat a * (?d - ?m) \<le> unat wo * ?d" using pos by (simp add: less_eq_div_iff_mult_less_eq)
  moreover have "unat t \<le> unat a" using avail(2) by (simp add: word_le_nat_alt)
  ultimately have t: "unat t * (?d - ?m) \<le> unat wo * ?d" by (meson le_trans mult_le_mono1)
  have "unat f = fee_amount ?fee (unat t)" using f False by (simp add: int_ops)
  then have f_le: "unat t * ?m \<le> unat f * ?d" using fee_amount_le_iff [OF d0, of "unat t" "unat f"] by simp
  have "unat t * ?d = unat b * ?d + unat f * ?d" using b by (simp add: int_ops add_mult_distrib)
  then have "unat b * ?d \<le> unat t * (?d - ?m)" using f_le unfolding diff_mult_distrib2 by linarith
  then have "unat b * ?d \<le> unat wo * ?d" using t by linarith
  then show ?thesis using pos by simp
qed

lemma withdrawn_le_deposited:
  assumes "calc_pool_tokens_for_deposit sp lam = Some wo" "calc_lamports_withdraw_amount sp b = Some l"
    and "unat b \<le> unat wo"
  shows "l \<le> lam"
proof (cases "pool_total sp = 0 \<or> pool_supply sp = 0")
  case True
  then show ?thesis using assms(2) by (auto simp: int_ops withdraw_lamports_of_def word_le_nat_alt)
next
  case False
  have "unat l * pool_supply sp \<le> unat b * pool_total sp" using assms(2) by (simp add: int_ops withdraw_lamports_fair)
  also have "\<dots> \<le> unat wo * pool_total sp" using assms(3) by simp
  also have "\<dots> \<le> unat lam * pool_supply sp" using assms(1) False by (simp add: int_ops deposit_tokens_fair)
  finally show ?thesis using False by (simp add: word_le_nat_alt)
qed

subsection \<open>The plan\<close>

definition withdraw_candidates ::
    "runtime \<Rightarrow> pubkey \<Rightarrow> pubkey \<Rightarrow> stake_pool \<Rightarrow> validator_list \<Rightarrow> u64 \<Rightarrow> u64 \<Rightarrow> candidate list" where
  "withdraw_candidates rt pid pool sp vl mb reserve_lamports =
     map (active_candidate rt pid pool) (vl_validators vl) @
     map (transient_candidate rt pid pool mb) (vl_validators vl) @ [(sp_reserve_stake sp, reserve_lamports, None)]"

abbreviation inverse_of :: "fee \<Rightarrow> fee" where
  "inverse_of f \<equiv> \<lparr>denominator = denominator f, numerator = denominator f - numerator f\<rparr>"

text \<open>A successful plan is the plan of the loop over the candidates, in some order.\<close>

lemma prepare_withdraw_accounts_Inr:
  assumes "prepare_withdraw_accounts env rt pid sp amount pool skip = Inr ws"
  obtains rent md vl a l cs where
    "env_minimum_balance_for_rent_exemption env STAKE_STATE_LEN = Inr rent"
    "env_stake_minimum_delegation env = Inr md"
    "get_validator_list env (sp_validator_list sp) = Inr vl" "env_get_account env (sp_reserve_stake sp) = Inr a"
    "sub_u64 env (acc_lamports a) rent = Inr l"
    "sub_u64 env l MINIMUM_RESERVE_LAMPORTS = Inr (l - MINIMUM_RESERVE_LAMPORTS)"
    "set cs = set (withdraw_candidates rt pid pool sp vl (saturating_add rent (minimum_delegation md))
      (l - MINIMUM_RESERVE_LAMPORTS))"
    "withdraw_loop env sp skip (inverse_of (sp_stake_withdrawal_fee sp))
       (saturating_add rent (minimum_delegation md)) cs amount = Inr (ws, 0)"
proof -
  from assms obtain rent md vl a l l' n where
      h: "env_minimum_balance_for_rent_exemption env STAKE_STATE_LEN = Inr rent"
      "env_stake_minimum_delegation env = Inr md"
      "get_validator_list env (sp_validator_list sp) = Inr vl" "env_get_account env (sp_reserve_stake sp) = Inr a"
      "sub_u64 env (acc_lamports a) rent = Inr l" "sub_u64 env l MINIMUM_RESERVE_LAMPORTS = Inr l'"
      "sub_u64 env (denominator (sp_stake_withdrawal_fee sp)) (numerator (sp_stake_withdrawal_fee sp)) = Inr n"
    and loop: "withdraw_loop env sp skip \<lparr>denominator = denominator (sp_stake_withdrawal_fee sp), numerator = n\<rparr>
       (saturating_add rent (minimum_delegation md))
       ((sorted_accounts vl sp (active_candidate rt pid pool) @
         sorted_accounts vl sp (transient_candidate rt pid pool (saturating_add rent (minimum_delegation md)))) @
        [(sp_reserve_stake sp, l', None)]) amount = Inr (ws, 0)"
    by (auto simp: prepare_withdraw_accounts_def ok_iff Let_def word_gt_0 split: if_splits)
  have "l' = l - MINIMUM_RESERVE_LAMPORTS"
      "n = denominator (sp_stake_withdrawal_fee sp) - numerator (sp_stake_withdrawal_fee sp)"
    using h(6,7) by (auto simp: sub_u64_def split: if_splits)
  then show thesis using that [OF h(1-5) _ _ loop [unfolded \<open>n = _\<close>]] h(6)
    by (auto simp: withdraw_candidates_def sorted_accounts_def)
qed

text \<open>Which account of the pool a plan item stands for, and the lamports it has on record.\<close>

definition plan_source ::
    "cli_env \<Rightarrow> runtime \<Rightarrow> pubkey \<Rightarrow> pubkey \<Rightarrow> stake_pool \<Rightarrow> validator_list \<Rightarrow> withdraw_account \<Rightarrow> u64 \<Rightarrow> bool" where
  "plan_source env rt pid pool sp vl w lamports \<longleftrightarrow>
     (\<exists>r \<in> set (vl_validators vl). wa_vote_address w = Some (vs_vote_account_address r) \<and>
       (wa_stake_address w = fst (find_stake_program_address rt pid (vs_vote_account_address r) pool
            (vs_validator_seed_suffix r)) \<and> lamports = vs_active_stake_lamports r \<or>
        wa_stake_address w = fst (find_transient_stake_program_address rt pid (vs_vote_account_address r) pool
            (vs_transient_seed_suffix r)) \<and> lamports = vs_transient_stake_lamports r)) \<or>
     wa_vote_address w = None \<and> wa_stake_address w = sp_reserve_stake sp \<and>
       (\<exists>a. env_get_account env (sp_reserve_stake sp) = Inr a \<and> lamports = acc_lamports a)"

lemma candidate_source:
  assumes "(wa_stake_address w, l, wa_vote_address w) \<in> set (withdraw_candidates rt pid pool sp vl mb rl)"
    and "env_get_account env (sp_reserve_stake sp) = Inr a" "rl \<le> acc_lamports a"
  shows "\<exists>lamports. plan_source env rt pid pool sp vl w lamports \<and> l \<le> lamports"
  using assms
  by (auto simp: withdraw_candidates_def plan_source_def active_candidate_def transient_candidate_def word_le_nat_alt
      int_ops intro: exI [of _ "vs_active_stake_lamports _"] exI [of _ "vs_transient_stake_lamports _"])

text \<open>A chain as the client sees it: the sample world.\<close>

definition sample_env :: cli_env where
  "sample_env =
     \<lparr>env_get_account = (\<lambda>k. Inr (sample_world k)),
      env_minimum_balance_for_rent_exemption = (\<lambda>_. Inr 100),
      env_stake_minimum_delegation = Inr 1,
      env_unpack_mint = (\<lambda>_. Some 9),
      env_unpack_token_account = (\<lambda>_. Some (MINT, 5000000)),
      env_stake_state = sample_stake_state,
      env_overflow_checks = True\<rparr>"

lemma sample_env_list:
  "get_validator_list sample_env LIST = Inr \<lparr>vl_header = sample_header, vl_validators = [sample_entry, sample_removed]\<rparr>"
proof -
  let ?vl = "\<lparr>vl_header = sample_header, vl_validators = [sample_entry, sample_removed]\<rparr>"
  have data: "sample_list_data = ser_validator_list ?vl @ replicate 584 0"
    by (simp add: sample_list_data_def sample_vec_def bv_image_def ser_validator_list_def ser_vec_def)
  have "de_validator_list sample_list_data = Some (?vl, replicate 584 0)"
    unfolding data by (rule de_ser_validator_list) simp
  then show ?thesis by (simp add: get_validator_list_def get_account_data_def sample_env_def)
qed

lemma sample_env_simps [simp]:
  "env_get_account sample_env k = Inr (sample_world k)"
  "env_minimum_balance_for_rent_exemption sample_env n = Inr 100" "env_stake_minimum_delegation sample_env = Inr 1"
  "get_token_mint sample_env k = Inr 9" "env_overflow_checks sample_env"
  by (simp_all add: sample_env_def get_token_mint_def get_account_data_def)

lemma sample_prices:
  "calc_pool_tokens_for_deposit sample_stake_pool 2000100 = Some 1666750"
  "calc_lamports_withdraw_amount sample_stake_pool 1666750 = Some 2000100"
  "calc_lamports_withdraw_amount sample_stake_pool 1000000 = Some 1200000"
  "calc_lamports_withdraw_amount sample_stake_pool 1200000 = Some 1440000"
  by (simp_all add: int_ops deposit_tokens_def withdraw_lamports_of_def)

lemmas plan_eval = prepare_withdraw_accounts_def sample_env_list sample_prices sorted_accounts_def sort_by_def account_order_def
  active_candidate_def transient_candidate_def available_for_withdrawal_def sub_u64_def mul_u64_def div_u64_def
  MINIMUM_RESERVE_LAMPORTS_def run_eval

text \<open>C26: A withdrawal planned by the client asks for exactly the tokens of the user. Each item is taken from the validator stake account or the transient
  account of an entry of the list, or from the reserve, and what the program pays for its tokens after its fee is no more than the lamports
  that account has on record. (In a build without overflow checks the reserve must have its minimum.)\<close>

theorem withdraw_plan_sound:
  assumes "prepare_withdraw_accounts env rt pid sp amount pool skip = Inr ws"
    and "fee_at_most_one (sp_stake_withdrawal_fee sp)"
    and "env_overflow_checks env \<or> (\<forall>a rent. env_get_account env (sp_reserve_stake sp) = Inr a \<longrightarrow>
      env_minimum_balance_for_rent_exemption env STAKE_STATE_LEN = Inr rent \<longrightarrow>
      unat rent + unat MINIMUM_RESERVE_LAMPORTS \<le> unat (acc_lamports a))"
  shows "sum_list (map (\<lambda>w. unat (wa_pool_amount w)) ws) = unat amount \<and>
    (\<exists>vl. get_validator_list env (sp_validator_list sp) = Inr vl \<and>
      (\<forall>w \<in> set ws. \<exists>lamports. plan_source env rt pid pool sp vl w lamports \<and>
        (\<forall>f b l. (if skip then Some 0 else calc_pool_tokens_stake_withdrawal_fee sp (wa_pool_amount w)) = Some f \<longrightarrow>
          checked_sub (wa_pool_amount w) f = Some b \<longrightarrow> calc_lamports_withdraw_amount sp b = Some l \<longrightarrow>
          l \<le> lamports)))"
proof (rule prepare_withdraw_accounts_Inr [OF assms(1)], goal_cases)
  case (1 rent md vl a l cs)
  let ?mb = "saturating_add rent (minimum_delegation md)" and ?fee = "inverse_of (sp_stake_withdrawal_fee sp)"
  have reserve: "l - MINIMUM_RESERVE_LAMPORTS \<le> acc_lamports a"
    using assms(3) 1(1,4,5,6) by (auto simp: sub_u64_def word_le_nat_alt unat_sub_if' not_less split: if_splits)
  note plan = withdraw_loop_sound [OF 1(8)]
  have "\<exists>lamports. plan_source env rt pid pool sp vl w lamports \<and>
        (\<forall>f b l. (if skip then Some 0 else calc_pool_tokens_stake_withdrawal_fee sp (wa_pool_amount w)) = Some f \<longrightarrow>
          checked_sub (wa_pool_amount w) f = Some b \<longrightarrow> calc_lamports_withdraw_amount sp b = Some l \<longrightarrow> l \<le> lamports)"
    if w: "w \<in> set ws" for w
  proof -
    from plan w obtain x y where x: "(wa_stake_address w, x, wa_vote_address w) \<in> set cs"
        "available_for_withdrawal env sp skip ?fee x = Inr y" "wa_pool_amount w \<le> y" by (auto simp: planned_def)
    from candidate_source [OF x(1) [unfolded 1(7)] 1(4) reserve] obtain lamports where
        lam: "plan_source env rt pid pool sp vl w lamports" "x \<le> lamports" by blast
    from x(2) obtain wo where wo: "calc_pool_tokens_for_deposit sp x = Some wo"
      by (auto simp: available_for_withdrawal_def ok_iff)
    note burnt = available_burnt [OF x(2,3) wo assms(2) refl]
    show ?thesis using lam withdrawn_le_deposited [OF wo] burnt by (meson order_trans)
  qed
  then show ?case using plan 1(3) by simp
qed

theorem withdraw_plan_sound_witness:
  "\<exists>ws. prepare_withdraw_accounts sample_env sample_rt PROGRAM sample_stake_pool 100000 POOL False = Inr ws \<and>
     sum_list (map (\<lambda>w. unat (wa_pool_amount w)) ws) = 100000"
proof -
  have "is_ok (prepare_withdraw_accounts sample_env sample_rt PROGRAM sample_stake_pool 100000 POOL False)"
    by (simp add: plan_eval)
  then obtain ws where ws: "prepare_withdraw_accounts sample_env sample_rt PROGRAM sample_stake_pool 100000 POOL False = Inr ws"
    using run_of by blast
  from withdraw_plan_sound [OF ws] show ?thesis using ws by (auto simp: fee_at_most_one_def)
qed



subsection \<open>Defects\<close>

lemma sample_source_too_much:
  assumes "l \<in> {1440000, 2000100}"
  shows "select_withdraw_source sample_rt PROGRAM (view POOL) sample_stake_pool sample_vec (view VALIDATOR_STAKE) l sample_world
    = Inl (pool_err StakeLamportsNotEqualToMinimum)"
proof -
  have p: "get_lamports_per_pool_token sample_stake_pool = Some 2" by (simp add: int_ops)
  have "bv_find ENTRY_LEN (\<lambda>x. active_lamports_greater_than x 1000102 \<and> is_active x) sample_vec = Inr (Some 4)"
    using sample_vec_wf by (simp add: sample_vec_def bv_find_image layout_ser_vsi)
  moreover have "bv_find ENTRY_LEN (\<lambda>x. transient_lamports_greater_than x 1000102 \<and> is_active x) sample_vec = Inr None"
    using sample_vec_wf by (simp add: sample_vec_def bv_find_image layout_ser_vsi)
  ultimately show ?thesis using p assms
    by (auto simp: select_withdraw_source_def withdraw_source_of_def withdraw_limits_def check_preferred_withdraw_def run_eval)
qed

text \<open>C28: The plan may empty the stake account of an active validator, for which the program demands that the minimum stays: the client
  offers the whole balance, and the program rejects the planned withdrawal with \<open>StakeLamportsNotEqualToMinimum\<close>.\<close>

theorem withdraw_plan_drains_account:
  "prepare_withdraw_accounts sample_env sample_rt PROGRAM sample_stake_pool 1666750 POOL True =
     Inr [\<lparr>wa_stake_address = VALIDATOR_STAKE, wa_vote_address = Some VOTE, wa_pool_amount = 1666750\<rparr>] \<and>
   calc_lamports_withdraw_amount sample_stake_pool 1666750 = Some 2000100 \<and>
   select_withdraw_source sample_rt PROGRAM (view POOL) sample_stake_pool sample_vec (view VALIDATOR_STAKE) 2000100 sample_world =
     Inl (pool_err StakeLamportsNotEqualToMinimum)"
  using sample_source_too_much [of 2000100] by (simp add: plan_eval)

text \<open>The check of a single account takes lamports for pool tokens: it accepts an amount that is worth more than
  the account can give.\<close>

lemma single_account_check_mixes_units:
  "validator_withdraw_account sample_env sample_rt PROGRAM sample_stake_pool POOL 1200000 1000000 100 VOTE =
     Inr [\<lparr>wa_stake_address = VALIDATOR_STAKE, wa_vote_address = Some VOTE, wa_pool_amount = 1200000\<rparr>]"
  "calc_lamports_withdraw_amount sample_stake_pool 1200000 = Some 1440000"
  "select_withdraw_source sample_rt PROGRAM (view POOL) sample_stake_pool sample_vec (view VALIDATOR_STAKE) 1440000 sample_world =
     Inl (pool_err StakeLamportsNotEqualToMinimum)"
  using sample_source_too_much [of 1440000]
  by (simp_all add: validator_withdraw_account_def vl_find_def plan_eval)

text \<open>A pool whose withdrawal fee is all or nothing (\<open>0/0\<close> included) has no plan: the first account divides by zero.\<close>

lemma no_plan_without_inverse_fee:
  assumes "prepare_withdraw_accounts env rt pid sp amount pool False = Inr ws"
    and "numerator (sp_stake_withdrawal_fee sp) = denominator (sp_stake_withdrawal_fee sp)"
  shows "ws = []"
proof (rule prepare_withdraw_accounts_Inr [OF assms(1)], goal_cases)
  case (1 rent md vl a l cs)
  have "\<not> planned env sp False (inverse_of (sp_stake_withdrawal_fee sp)) mb cs w" for mb w
    using assms(2) by (auto simp: planned_def available_for_withdrawal_def div_u64_def ok_iff)
  then show ?case using withdraw_loop_sound [OF 1(8)] by (cases ws) auto
qed

end
