(* ===== verification/Client.thy ===== *)
theory Client
  imports Client_Withdraw Instruction_Builders
begin

section \<open>Sessions of the command-line client\<close>

text \<open>
  A command of \<open>src/clients/cli/src/main.rs\<close> reads accounts from a node, builds transactions and sends
  them. Its state is a \<open>session\<close>: the world the node sees, the transactions sent so far and the number of
  key pairs generated. A command is a function on sessions that returns an error or a value \<^emph>\<open>and\<close> the
  session in which it stops: what was sent before an error stays sent.

  The record \<open>node\<close> holds what is not part of the repository: the answers of the node, what sending a
  transaction does, the random key pairs, signing, and the functions of the token crates. A signer is its public key. An
  amount given as a decimal number is converted by another crate; the commands take the result.
  Messages to the terminal are left out.
\<close>

subsection \<open>Transactions\<close>

datatype tx_instruction =
    ClientIx client_instruction
  | SystemCreateAccount pubkey pubkey u64 u64 pubkey
  | SystemTransferIx pubkey pubkey u64
  | StakeInitialize pubkey pubkey pubkey
  | TokenApprove pubkey pubkey pubkey pubkey u64
  | TokenInitializeMint pubkey pubkey pubkey "pubkey option" u8
  | CreateAssociatedTokenAccount pubkey pubkey pubkey pubkey
  | SetComputeUnitPrice u64
  | SetComputeUnitLimit u32

abbreviation pool_ix :: "instruction \<Rightarrow> tx_instruction" where
  "pool_ix ix \<equiv> ClientIx (PoolInstruction ix)"

record transaction =
  tx_payer :: pubkey
  tx_instructions :: "tx_instruction list"
  tx_signers :: "pubkey list"

datatype compute_unit_limit = DefaultLimit | StaticLimit u32 | SimulatedLimit

text \<open>\<open>OutputFormat\<close> of another crate, as far as the client chooses it.\<close>

datatype output_format = Json | JsonCompact | Display | DisplayVerbose

record config =
  cfg_stake_pool_program_id :: pubkey
  cfg_verbose :: bool
  cfg_output_format :: output_format
  cfg_manager :: pubkey
  cfg_staker :: pubkey
  cfg_funding_authority :: "pubkey option"
  cfg_token_owner :: pubkey
  cfg_fee_payer :: pubkey
  cfg_dry_run :: bool
  cfg_no_update :: bool
  cfg_compute_unit_price :: "u64 option"
  cfg_compute_unit_limit :: compute_unit_limit

subsection \<open>The node\<close>

record node =
  nd_env :: "world \<Rightarrow> cli_env"
  nd_get_balance :: "world \<Rightarrow> pubkey \<Rightarrow> cli_error + u64"
  nd_get_maybe_account :: "world \<Rightarrow> pubkey \<Rightarrow> cli_error + account option"
  nd_program_accounts :: "world \<Rightarrow> pubkey \<Rightarrow> nat \<Rightarrow> bytes \<Rightarrow> cli_error + (pubkey \<times> account) list"
  nd_epoch :: "world \<Rightarrow> cli_error + u64"
  nd_latest_blockhash :: "world \<Rightarrow> cli_error + u64"
  nd_fee_for_message :: "world \<Rightarrow> pubkey \<Rightarrow> tx_instruction list \<Rightarrow> cli_error + u64"
  nd_units_consumed :: "world \<Rightarrow> pubkey \<Rightarrow> tx_instruction list \<Rightarrow> cli_error + u64 option"
  nd_simulate_transaction :: "world \<Rightarrow> transaction \<Rightarrow> cli_error + unit"
  nd_can_sign :: "transaction \<Rightarrow> bool"
  nd_send :: "transaction \<Rightarrow> world \<Rightarrow> (cli_error + unit) \<times> world"
  nd_send_no_wait :: "transaction \<Rightarrow> world \<Rightarrow> (cli_error + unit) \<times> world"
  nd_keypair :: "nat \<Rightarrow> pubkey"
  nd_associated_token_address :: "pubkey \<Rightarrow> pubkey \<Rightarrow> pubkey \<Rightarrow> pubkey"
  nd_is_token_program :: "pubkey \<Rightarrow> bool"
  nd_spl_token :: pubkey
  nd_unpack_mint_authority :: "bytes \<Rightarrow> pubkey option option"
  nd_mint_len :: nat
  nd_token_account_len :: nat
  nd_native_decimals :: u8
  nd_stake_pool_packed_len :: nat

record session =
  se_world :: world
  se_sent :: "transaction list"
  se_keys :: nat

type_synonym 'a command = "session \<Rightarrow> (cli_error + 'a) \<times> session"

definition returnC :: "'a \<Rightarrow> 'a command" where
  "returnC x s = (Inr x, s)"

definition throwC :: "cli_error \<Rightarrow> 'a command" where
  "throwC e s = (Inl e, s)"

definition bindC :: "'a command \<Rightarrow> ('a \<Rightarrow> 'b command) \<Rightarrow> 'b command" where
  "bindC m f s = (case m s of (Inl e, s') \<Rightarrow> (Inl e, s') | (Inr x, s') \<Rightarrow> f x s')"

text \<open>A question to the node, and a pure result.\<close>

definition askC :: "(world \<Rightarrow> cli_error + 'a) \<Rightarrow> 'a command" where
  "askC q s = (q (se_world s), s)"

definition liftC :: "cli_error + 'a \<Rightarrow> 'a command" where
  "liftC r s = (r, s)"

text \<open>\<open>Keypair::new\<close>.\<close>

definition new_keypair :: "node \<Rightarrow> pubkey command" where
  "new_keypair nd s = (Inr (nd_keypair nd (se_keys s)), s\<lparr>se_keys := Suc (se_keys s)\<rparr>)"

definition keypair_or_new :: "node \<Rightarrow> pubkey option \<Rightarrow> pubkey command" where
  "keypair_or_new nd k = (case k of Some k \<Rightarrow> returnC k | None \<Rightarrow> new_keypair nd)"

definition unwrap_or :: "'a option \<Rightarrow> 'a \<Rightarrow> 'a" where
  "unwrap_or x d = (case x of Some y \<Rightarrow> y | None \<Rightarrow> d)"

definition rent_exemption :: "node \<Rightarrow> nat \<Rightarrow> u64 command" where
  "rent_exemption nd n = askC (\<lambda>w. env_minimum_balance_for_rent_exemption (nd_env nd w) n)"

definition addC :: "node \<Rightarrow> u64 \<Rightarrow> u64 \<Rightarrow> u64 command" where
  "addC nd a b = askC (\<lambda>w. add_u64 (nd_env nd w) a b)"

lemma returnC_bind [simp]: "bindC (returnC x) f = f x"
  by (simp add: bindC_def returnC_def fun_eq_iff)

subsection \<open>Signers, and the instructions of other programs\<close>

text \<open>
  The macro \<open>unique_signers\<close>: sorted by key, without repetition. Keys are compared byte by byte, which
  is the order of the numbers their bytes are in big-endian notation.
\<close>

definition key_rank :: "pubkey \<Rightarrow> nat" where
  "key_rank k = of_le (rev (ser_pubkey k))"

definition unique_signers :: "pubkey list \<Rightarrow> pubkey list" where
  "unique_signers signers = remdups_adj (sort_key key_rank signers)"

lemma set_unique_signers [simp]: "set (unique_signers xs) = set xs"
  by (simp add: unique_signers_def)

lemma key_rank_eq [simp]: "key_rank a = key_rank b \<longleftrightarrow> a = b"
proof
  assume "key_rank a = key_rank b"
  then have "rev (ser_pubkey a) = rev (ser_pubkey b)"
    using le_bytes_of_le [of "rev (ser_pubkey a)"] le_bytes_of_le [of "rev (ser_pubkey b)"]
    by (simp add: key_rank_def)
  then show "a = b" using cpk.de_ser [of a "[]"] cpk.de_ser [of b "[]"] by simp
qed simp

lemma distinct_remdups_adj_sorted_map:
  "sorted (map key_rank xs) \<Longrightarrow> distinct (remdups_adj xs)"
proof (induction xs rule: remdups_adj.induct)
  case (3 x y xs)
  show ?case
  proof (cases "x = y")
    case True
    then show ?thesis using "3.IH"(1) "3.prems" by simp
  next
    case False
    have "x \<notin> set xs"
    proof
      assume "x \<in> set xs"
      then have "key_rank x = key_rank y" using "3.prems" by (intro order_antisym) auto
      with False show False by simp
    qed
    then show ?thesis using "3.IH"(2) "3.prems" False by simp
  qed
qed simp_all

lemma distinct_unique_signers [simp]: "distinct (unique_signers xs)"
  by (simp add: unique_signers_def distinct_remdups_adj_sorted_map)

text \<open>The builders of the token crate check the token program.\<close>

definition token_approve :: "node \<Rightarrow> pubkey \<Rightarrow> pubkey \<Rightarrow> pubkey \<Rightarrow> pubkey \<Rightarrow> u64 \<Rightarrow> tx_instruction command" where
  "token_approve nd token_program source delegate owner amount =
     (if nd_is_token_program nd token_program
      then returnC (TokenApprove token_program source delegate owner amount)
      else throwC IncorrectTokenProgram)"

definition token_initialize_mint ::
    "node \<Rightarrow> pubkey \<Rightarrow> pubkey \<Rightarrow> pubkey \<Rightarrow> pubkey option \<Rightarrow> u8 \<Rightarrow> tx_instruction command" where
  "token_initialize_mint nd token_program mint authority freeze decimals =
     (if nd_is_token_program nd token_program
      then returnC (TokenInitializeMint token_program mint authority freeze decimals)
      else throwC IncorrectTokenProgram)"

subsection \<open>Building and sending transactions\<close>

definition check_fee_payer_balance :: "config \<Rightarrow> node \<Rightarrow> u64 \<Rightarrow> unit command" where
  "check_fee_payer_balance cfg nd required_balance =
     bindC (askC (\<lambda>w. nd_get_balance nd w (cfg_fee_payer cfg))) (\<lambda>balance.
     if balance < required_balance then throwC InsufficientFeePayerBalance else returnC ())"

text \<open>
  The limit of the simulation is the last instruction of the simulated message; the limit in the
  result replaces it.
\<close>

definition MAX_COMPUTE_UNIT_LIMIT :: u32 where
  "MAX_COMPUTE_UNIT_LIMIT = 1400000"

definition add_compute_unit_limit_from_simulation ::
    "node \<Rightarrow> tx_instruction list \<Rightarrow> pubkey \<Rightarrow> tx_instruction list command" where
  "add_compute_unit_limit_from_simulation nd instructions payer =
     bindC (askC (\<lambda>w. nd_units_consumed nd w payer
              (instructions @ [SetComputeUnitLimit MAX_COMPUTE_UNIT_LIMIT]))) (\<lambda>units.
     bindC (liftC (ok_or units NoUnitsConsumed)) (\<lambda>units_consumed.
     if 2 ^ 32 \<le> unat units_consumed then throwC IntegerConversion
     else returnC (instructions @ [SetComputeUnitLimit (ucast units_consumed)])))"

definition checked_transaction_with_signers_and_additional_fee ::
    "config \<Rightarrow> node \<Rightarrow> tx_instruction list \<Rightarrow> pubkey list \<Rightarrow> u64 \<Rightarrow> transaction command" where
  "checked_transaction_with_signers_and_additional_fee cfg nd instructions signers additional_fee =
     bindC (askC (nd_latest_blockhash nd)) (\<lambda>recent_blockhash.
     let instructions =
           (case cfg_compute_unit_price cfg of
              Some price \<Rightarrow> instructions @ [SetComputeUnitPrice price]
            | None \<Rightarrow> instructions) in
     bindC (case cfg_compute_unit_limit cfg of
              DefaultLimit \<Rightarrow> returnC instructions
            | StaticLimit limit \<Rightarrow> returnC (instructions @ [SetComputeUnitLimit limit])
            | SimulatedLimit \<Rightarrow>
                add_compute_unit_limit_from_simulation nd instructions (cfg_fee_payer cfg)) (\<lambda>instructions.
     bindC (askC (\<lambda>w. nd_fee_for_message nd w (cfg_fee_payer cfg) instructions)) (\<lambda>fee.
     bindC (check_fee_payer_balance cfg nd (saturating_add additional_fee fee)) (\<lambda>_.
     let tx = \<lparr>tx_payer = cfg_fee_payer cfg, tx_instructions = instructions, tx_signers = signers\<rparr> in
     if nd_can_sign nd tx then returnC tx else throwC CliPanic))))"

definition checked_transaction_with_signers ::
    "config \<Rightarrow> node \<Rightarrow> tx_instruction list \<Rightarrow> pubkey list \<Rightarrow> transaction command" where
  "checked_transaction_with_signers cfg nd instructions signers =
     checked_transaction_with_signers_and_additional_fee cfg nd instructions signers 0"

definition deliver ::
    "(transaction \<Rightarrow> world \<Rightarrow> (cli_error + unit) \<times> world) \<Rightarrow> transaction \<Rightarrow> unit command" where
  "deliver send tx s =
     (let (r, w) = send tx (se_world s) in (r, s\<lparr>se_world := w, se_sent := se_sent s @ [tx]\<rparr>))"

definition send_transaction_no_wait :: "config \<Rightarrow> node \<Rightarrow> transaction \<Rightarrow> unit command" where
  "send_transaction_no_wait cfg nd tx =
     (if cfg_dry_run cfg then askC (\<lambda>w. nd_simulate_transaction nd w tx) else deliver (nd_send_no_wait nd) tx)"

definition send_transaction :: "config \<Rightarrow> node \<Rightarrow> transaction \<Rightarrow> unit command" where
  "send_transaction cfg nd tx =
     (if cfg_dry_run cfg then askC (\<lambda>w. nd_simulate_transaction nd w tx) else deliver (nd_send nd) tx)"

text \<open>Building a transaction and sending it, as most commands end.\<close>

definition submit :: "config \<Rightarrow> node \<Rightarrow> tx_instruction list \<Rightarrow> pubkey list \<Rightarrow> u64 \<Rightarrow> unit command" where
  "submit cfg nd instructions signers additional_fee =
     bindC (checked_transaction_with_signers_and_additional_fee cfg nd instructions signers additional_fee)
       (send_transaction cfg nd)"

subsection \<open>Helpers\<close>

definition new_stake_account ::
    "node \<Rightarrow> runtime \<Rightarrow> pubkey \<Rightarrow> tx_instruction list \<Rightarrow> u64 \<Rightarrow> (pubkey \<times> tx_instruction list) command" where
  "new_stake_account nd rt fee_payer instructions lamports =
     bindC (new_keypair nd) (\<lambda>stake_receiver.
     returnC (stake_receiver,
       instructions @ [SystemCreateAccount fee_payer stake_receiver lamports (of_nat STAKE_STATE_LEN)
                         (rt_stake_program rt)]))"

definition cli_get_stake_state :: "cli_env \<Rightarrow> pubkey \<Rightarrow> cli_error + stake_state" where
  "cli_get_stake_state env stake_address =
     bindE (get_account_data env stake_address) (\<lambda>account_data.
     ok_or (env_stake_state env account_data) InvalidAccount)"

text \<open>
  The account is returned with the instructions and the balances that it adds. The question for the
  rent is unwrapped: an error of the node there is a panic.
\<close>

definition add_associated_token_account ::
    "config \<Rightarrow> node \<Rightarrow> pubkey \<Rightarrow> pubkey \<Rightarrow> pubkey \<Rightarrow> tx_instruction list \<Rightarrow> u64 \<Rightarrow>
      (pubkey \<times> tx_instruction list \<times> u64) command" where
  "add_associated_token_account cfg nd mint token_program_id owner instructions rent_free_balances =
     (let account = nd_associated_token_address nd owner mint token_program_id in
      bindC (askC (\<lambda>w. Inr (is_ok (get_token_account (nd_env nd w) account mint)))) (\<lambda>exists.
      if \<not> exists then
        bindC (askC (\<lambda>w.
            case env_minimum_balance_for_rent_exemption (nd_env nd w) (nd_token_account_len nd) of
              Inl _ \<Rightarrow> Inl CliPanic
            | Inr l \<Rightarrow> Inr l)) (\<lambda>min_account_balance.
        bindC (addC nd rent_free_balances min_account_balance) (\<lambda>rent_free_balances.
        returnC (account,
          instructions @ [CreateAssociatedTokenAccount (cfg_fee_payer cfg) owner mint token_program_id],
          rent_free_balances)))
      else returnC (account, instructions, rent_free_balances)))"

text \<open>The stake accounts of a staker: the staker is at byte 12 of a stake account. The order of the set is the node's.\<close>

definition get_all_stake :: "node \<Rightarrow> runtime \<Rightarrow> pubkey \<Rightarrow> pubkey list command" where
  "get_all_stake nd rt authorized_staker =
     bindC (askC (\<lambda>w. nd_program_accounts nd w (rt_stake_program rt) 12 (ser_pubkey authorized_staker)))
       (\<lambda>accounts. returnC (remdups (map fst accounts)))"

text \<open>
  The pools of the program: accounts whose first byte is 1 (the base-58 digit \<open>2\<close>), with their lists;
  what does not decode is passed over.
\<close>

definition get_stake_pools ::
    "node \<Rightarrow> runtime \<Rightarrow> pubkey \<Rightarrow> (pubkey \<times> stake_pool \<times> validator_list \<times> pubkey) list command" where
  "get_stake_pools nd rt stake_pool_program_id =
     askC (\<lambda>w.
       bindE (nd_program_accounts nd w stake_pool_program_id 0 [1]) (\<lambda>accounts.
       Inr (List.map_filter (\<lambda>(address, account).
         let pool_withdraw_authority =
               fst (find_withdraw_authority_program_address rt stake_pool_program_id address) in
         case de_stake_pool (acc_data account) of
           None \<Rightarrow> None
         | Some (stake_pool, _) \<Rightarrow>
             (case get_validator_list (nd_env nd w) (sp_validator_list stake_pool) of
                Inl _ \<Rightarrow> None
              | Inr validator_list \<Rightarrow> Some (address, stake_pool, validator_list, pool_withdraw_authority)))
         accounts)))"

end
