(* ===== verification/Client_Commands.thy ===== *)
theory Client_Commands
  imports Client
begin

section \<open>The commands of the client\<close>

text \<open>
  The functions \<open>command_*\<close> of \<open>src/clients/cli/src/main.rs\<close> that change something, with the helpers
  that set up a pool, in the order of the source. \<open>cfg\<close> and \<open>nd\<close> are the configuration and the node, \<open>rt\<close> and
  \<open>ids\<close> the derivation of addresses and the well-known addresses of the builders.
\<close>

definition pool_at :: "node \<Rightarrow> pubkey \<Rightarrow> stake_pool command" where
  "pool_at nd address = askC (\<lambda>w. get_stake_pool (nd_env nd w) address)"

definition list_at :: "node \<Rightarrow> pubkey \<Rightarrow> validator_list command" where
  "list_at nd address = askC (\<lambda>w. get_validator_list (nd_env nd w) address)"

text \<open>\<open>get_account\<close> where the result is inspected and not propagated.\<close>

definition try_account :: "node \<Rightarrow> pubkey \<Rightarrow> (cli_error + account) command" where
  "try_account nd address = askC (\<lambda>w. Inr (env_get_account (nd_env nd w) address))"

subsection \<open>Creating a pool\<close>

definition setup_reserve_stake_account ::
    "config \<Rightarrow> node \<Rightarrow> runtime \<Rightarrow> pubkey \<Rightarrow> u64 \<Rightarrow> pubkey \<Rightarrow> unit command" where
  "setup_reserve_stake_account cfg nd rt reserve reserve_stake_balance withdraw_authority =
     bindC (try_account nd reserve) (\<lambda>reserve_account_info.
     let create =
       submit cfg nd
         [SystemCreateAccount (cfg_fee_payer cfg) reserve reserve_stake_balance (of_nat STAKE_STATE_LEN)
            (rt_stake_program rt),
          StakeInitialize reserve withdraw_authority withdraw_authority]
         [cfg_fee_payer cfg, reserve] 0 in
     case reserve_account_info of
       Inr account \<Rightarrow>
         if acc_owner account = rt_stake_program rt then
           (if list_ex (\<lambda>x. x \<noteq> 0) (acc_data account) then returnC ()
            else submit cfg nd [StakeInitialize reserve withdraw_authority withdraw_authority]
                   [cfg_fee_payer cfg] 0)
         else create
     | Inl _ \<Rightarrow> create)"

definition setup_mint_account ::
    "config \<Rightarrow> node \<Rightarrow> pubkey \<Rightarrow> u64 \<Rightarrow> pubkey \<Rightarrow> u8 \<Rightarrow> pubkey command" where
  "setup_mint_account cfg nd mint mint_account_balance withdraw_authority default_decimals =
     bindC (try_account nd mint) (\<lambda>mint_account_info.
     let create =
       bindC (token_initialize_mint nd (nd_spl_token nd) mint withdraw_authority None default_decimals)
         (\<lambda>initialize.
       bindC (submit cfg nd
         [SystemCreateAccount (cfg_fee_payer cfg) mint mint_account_balance (of_nat (nd_mint_len nd))
            (nd_spl_token nd), initialize]
         [cfg_fee_payer cfg, mint] 0) (\<lambda>_.
       returnC (nd_spl_token nd))) in
     case mint_account_info of
       Inr account \<Rightarrow>
         if nd_is_token_program nd (acc_owner account) then
           (if list_ex (\<lambda>x. x \<noteq> 0) (acc_data account) then
              (case nd_unpack_mint_authority nd (acc_data account) of
                 Some authority \<Rightarrow>
                   if authority \<noteq> Some withdraw_authority then throwC WrongMintAuthority
                   else returnC (acc_owner account)
               | None \<Rightarrow> throwC InvalidMint)
            else
              bindC (token_initialize_mint nd (acc_owner account) mint withdraw_authority None
                       default_decimals) (\<lambda>initialize.
              bindC (submit cfg nd [initialize] [cfg_fee_payer cfg] 0) (\<lambda>_.
              returnC (acc_owner account))))
         else create
     | Inl _ \<Rightarrow> create)"

definition setup_pool_fee_account ::
    "config \<Rightarrow> node \<Rightarrow> pubkey \<Rightarrow> pubkey \<Rightarrow> u64 \<Rightarrow> u64 command" where
  "setup_pool_fee_account cfg nd mint token_program_id total_rent_free_balances =
     (let pool_fee_account = nd_associated_token_address nd (cfg_manager cfg) mint token_program_id in
      bindC (try_account nd pool_fee_account) (\<lambda>pool_fee_account_info.
      if (case pool_fee_account_info of Inr account \<Rightarrow> nd_is_token_program nd (acc_owner account) | Inl _ \<Rightarrow> False)
      then returnC total_rent_free_balances
      else
        bindC (add_associated_token_account cfg nd mint token_program_id (cfg_manager cfg) []
                 total_rent_free_balances) (\<lambda>(_, instructions, total_rent_free_balances).
        bindC (submit cfg nd instructions [cfg_fee_payer cfg] 0) (\<lambda>_.
        returnC total_rent_free_balances))))"

text \<open>
  Whether an account of the program is there, is empty, or is in use; an account of another owner
  is taken for granted.
\<close>

datatype account_setup = SetupMissing | SetupReady | SetupInUse

definition account_setup_of :: "config \<Rightarrow> cli_error + account \<Rightarrow> account_setup" where
  "account_setup_of cfg info =
     (case info of
        Inl _ \<Rightarrow> SetupMissing
      | Inr account \<Rightarrow>
          if acc_owner account = cfg_stake_pool_program_id cfg then
            (if list_all (\<lambda>x. x = 0) (acc_data account) then SetupReady else SetupInUse)
          else SetupReady)"

definition setup_and_initialize_validator_list_with_stake_pool ::
    "config \<Rightarrow> node \<Rightarrow> pubkey \<Rightarrow> pubkey \<Rightarrow> pubkey \<Rightarrow> pubkey \<Rightarrow> pubkey \<Rightarrow> pubkey \<Rightarrow> pubkey option \<Rightarrow>
      fee \<Rightarrow> fee \<Rightarrow> fee \<Rightarrow> u8 \<Rightarrow> u32 \<Rightarrow> pubkey \<Rightarrow> u64 \<Rightarrow> nat \<Rightarrow> unit command" where
  "setup_and_initialize_validator_list_with_stake_pool cfg nd stake_pool validator_list reserve mint
       token_program_id pool_fee_account deposit_authority epoch_fee withdrawal_fee deposit_fee
       referral_fee max_validators withdraw_authority validator_list_balance validator_list_size =
     bindC (try_account nd stake_pool) (\<lambda>stake_pool_account_info.
     bindC (try_account nd validator_list) (\<lambda>validator_list_account_info.
     bindC (rent_exemption nd (nd_stake_pool_packed_len nd)) (\<lambda>stake_pool_account_lamports.
     let list_setup = account_setup_of cfg validator_list_account_info;
         pool_setup = account_setup_of cfg stake_pool_account_info in
     if list_setup = SetupInUse \<or> pool_setup = SetupInUse then returnC ()
     else
       submit cfg nd
         ((if list_setup = SetupMissing then
             [SystemCreateAccount (cfg_fee_payer cfg) validator_list validator_list_balance
                (of_nat validator_list_size) (cfg_stake_pool_program_id cfg)]
           else []) @
          (if pool_setup = SetupMissing then
             [SystemCreateAccount (cfg_fee_payer cfg) stake_pool stake_pool_account_lamports
                (of_nat (nd_stake_pool_packed_len nd)) (cfg_stake_pool_program_id cfg)]
           else []) @
          [pool_ix (initialize_ix (cfg_stake_pool_program_id cfg) stake_pool (cfg_manager cfg)
             (cfg_staker cfg) withdraw_authority validator_list reserve mint pool_fee_account
             token_program_id deposit_authority epoch_fee withdrawal_fee deposit_fee referral_fee
             max_validators)])
         (unique_signers
            ([cfg_fee_payer cfg, cfg_manager cfg] @
             (if list_setup = SetupMissing then [validator_list] else []) @ [stake_pool] @
             (case deposit_authority of Some deposit_auth \<Rightarrow> [deposit_auth] | None \<Rightarrow> [])))
         0)))"

definition command_create_pool ::
    "config \<Rightarrow> node \<Rightarrow> runtime \<Rightarrow> pubkey option \<Rightarrow> fee \<Rightarrow> fee \<Rightarrow> fee \<Rightarrow> u8 \<Rightarrow> u32 \<Rightarrow> pubkey option \<Rightarrow>
      pubkey option \<Rightarrow> pubkey option \<Rightarrow> pubkey option \<Rightarrow> bool \<Rightarrow> unit command" where
  "command_create_pool cfg nd rt deposit_authority epoch_fee withdrawal_fee deposit_fee referral_fee
       max_validators stake_pool_keypair validator_list_keypair mint_keypair reserve_keypair unsafe_fees =
     bindC (if \<not> unsafe_fees then liftC (check_stake_pool_fees epoch_fee withdrawal_fee deposit_fee)
            else returnC ()) (\<lambda>_.
     bindC (keypair_or_new nd reserve_keypair) (\<lambda>reserve.
     bindC (keypair_or_new nd mint_keypair) (\<lambda>mint.
     bindC (keypair_or_new nd stake_pool_keypair) (\<lambda>stake_pool.
     bindC (keypair_or_new nd validator_list_keypair) (\<lambda>validator_list.
     bindC (rent_exemption nd STAKE_STATE_LEN) (\<lambda>stake_rent.
     bindC (addC nd stake_rent MINIMUM_RESERVE_LAMPORTS) (\<lambda>reserve_stake_balance.
     bindC (rent_exemption nd (nd_mint_len nd)) (\<lambda>mint_account_balance.
     bindC (rent_exemption nd (nd_token_account_len nd)) (\<lambda>pool_fee_account_balance.
     bindC (rent_exemption nd (nd_stake_pool_packed_len nd)) (\<lambda>stake_pool_account_lamports.
     let validator_list_size = length (ser_validator_list (validator_list_new max_validators)) in
     bindC (rent_exemption nd validator_list_size) (\<lambda>validator_list_balance.
     bindC (addC nd reserve_stake_balance mint_account_balance) (\<lambda>total.
     bindC (addC nd total pool_fee_account_balance) (\<lambda>total.
     bindC (addC nd total stake_pool_account_lamports) (\<lambda>total.
     bindC (addC nd total validator_list_balance) (\<lambda>total_rent_free_balances.
     let withdraw_authority =
           fst (find_withdraw_authority_program_address rt (cfg_stake_pool_program_id cfg) stake_pool) in
     bindC (setup_reserve_stake_account cfg nd rt reserve reserve_stake_balance withdraw_authority) (\<lambda>_.
     bindC (setup_mint_account cfg nd mint mint_account_balance withdraw_authority
              (nd_native_decimals nd)) (\<lambda>token_program_id.
     bindC (setup_pool_fee_account cfg nd mint token_program_id total_rent_free_balances) (\<lambda>_.
     let pool_fee_account = nd_associated_token_address nd (cfg_manager cfg) mint token_program_id in
     setup_and_initialize_validator_list_with_stake_pool cfg nd stake_pool validator_list reserve mint
       token_program_id pool_fee_account deposit_authority epoch_fee withdrawal_fee deposit_fee
       referral_fee max_validators withdraw_authority validator_list_balance
       validator_list_size))))))))))))))))))"

definition create_token_metadata ::
    "config \<Rightarrow> node \<Rightarrow> runtime \<Rightarrow> pubkey \<Rightarrow> bytes \<Rightarrow> bytes \<Rightarrow> bytes \<Rightarrow> unit command" where
  "create_token_metadata cfg nd rt stake_pool_address name symbol uri =
     bindC (pool_at nd stake_pool_address) (\<lambda>stake_pool.
     submit cfg nd
       [pool_ix (create_token_metadata_ix rt (cfg_stake_pool_program_id cfg) stake_pool_address
          (sp_manager stake_pool) (sp_pool_mint stake_pool) (cfg_fee_payer cfg) name symbol uri)]
       (unique_signers [cfg_fee_payer cfg, cfg_manager cfg]) 0)"

definition update_token_metadata ::
    "config \<Rightarrow> node \<Rightarrow> runtime \<Rightarrow> pubkey \<Rightarrow> bytes \<Rightarrow> bytes \<Rightarrow> bytes \<Rightarrow> unit command" where
  "update_token_metadata cfg nd rt stake_pool_address name symbol uri =
     bindC (pool_at nd stake_pool_address) (\<lambda>stake_pool.
     submit cfg nd
       [pool_ix (update_token_metadata_ix rt (cfg_stake_pool_program_id cfg) stake_pool_address
          (sp_manager stake_pool) (sp_pool_mint stake_pool) name symbol uri)]
       (unique_signers [cfg_fee_payer cfg, cfg_manager cfg]) 0)"

subsection \<open>The epoch update\<close>

text \<open>The first list updates are sent without waiting, each in a transaction of its own.\<close>

fun send_updates :: "config \<Rightarrow> node \<Rightarrow> instruction list \<Rightarrow> unit command" where
  "send_updates cfg nd [] = returnC ()"
| "send_updates cfg nd (ix # ixs) =
     bindC (checked_transaction_with_signers cfg nd [pool_ix ix] [cfg_fee_payer cfg]) (\<lambda>tx.
     bindC (send_transaction_no_wait cfg nd tx) (\<lambda>_. send_updates cfg nd ixs))"

definition panic_of :: "'e + 'a \<Rightarrow> cli_error + 'a" where
  "panic_of r = (case r of Inl _ \<Rightarrow> Inl CliPanic | Inr x \<Rightarrow> Inr x)"

definition command_update ::
    "config \<Rightarrow> node \<Rightarrow> runtime \<Rightarrow> known_ids \<Rightarrow> pubkey \<Rightarrow> bool \<Rightarrow> bool \<Rightarrow> bool \<Rightarrow> unit command" where
  "command_update cfg nd rt ids stake_pool_address force no_merge stale_only =
     (if cfg_no_update cfg then returnC ()
      else
      bindC (pool_at nd stake_pool_address) (\<lambda>stake_pool.
      bindC (askC (nd_epoch nd)) (\<lambda>epoch.
      if sp_last_update_epoch stake_pool = epoch \<and> \<not> force then returnC ()
      else
      bindC (list_at nd (sp_validator_list stake_pool)) (\<lambda>validator_list.
      bindC (liftC (panic_of
               (if stale_only then
                  update_stale_stake_pool_ix rt ids (cfg_stake_pool_program_id cfg) stake_pool
                    validator_list stake_pool_address no_merge epoch
                else
                  update_stake_pool_ix rt ids (cfg_stake_pool_program_id cfg) stake_pool validator_list
                    stake_pool_address no_merge))) (\<lambda>(update_list_instructions, final_instructions).
      bindC (if update_list_instructions \<noteq> [] then
               bindC (send_updates cfg nd (butlast update_list_instructions)) (\<lambda>_.
               submit cfg nd [pool_ix (last update_list_instructions)] [cfg_fee_payer cfg] 0)
             else returnC ()) (\<lambda>_.
      submit cfg nd (map pool_ix final_instructions) [cfg_fee_payer cfg] 0))))))"

text \<open>The update at the start of a command.\<close>

definition update_first ::
    "config \<Rightarrow> node \<Rightarrow> runtime \<Rightarrow> known_ids \<Rightarrow> pubkey \<Rightarrow> unit command" where
  "update_first cfg nd rt ids stake_pool_address =
     (if \<not> cfg_no_update cfg then command_update cfg nd rt ids stake_pool_address False False False
      else returnC ())"

end
