(* ===== verification/Client_Operations.thy ===== *)
theory Client_Operations
  imports Client_Commands
begin

section \<open>The commands on an existing pool\<close>

text \<open>
  The functions \<open>command_*\<close> of \<open>src/clients/cli/src/main.rs\<close> for validators, deposits, withdrawals and
  the settings of a pool, in the order of the source. An amount of SOL is an argument in lamports; an amount of pool tokens
  is a function of the decimals of the mint, as the conversion is.
\<close>

subsection \<open>Validators\<close>

text \<open>
  The search for a seed. The loop asks for the reserve of the pool, and leaves when that account is there.
  The counter is a \<open>u32\<close>: after its last value the program panics, or starts again in a build
  without overflow checks. The first argument counts the values that are left.
\<close>

fun find_seed :: "nat \<Rightarrow> node \<Rightarrow> stake_pool \<Rightarrow> u32 \<Rightarrow> u32 command" where
  "find_seed 0 nd stake_pool i =
     askC (\<lambda>w. Inl (if env_overflow_checks (nd_env nd w) then CliPanic else CliDiverges))"
| "find_seed (Suc n) nd stake_pool i =
     bindC (askC (\<lambda>w. nd_get_maybe_account nd w (sp_reserve_stake stake_pool))) (\<lambda>maybe_account.
     if maybe_account \<noteq> None then returnC i else find_seed n nd stake_pool (i + 1))"

definition command_vsa_add ::
    "config \<Rightarrow> node \<Rightarrow> runtime \<Rightarrow> known_ids \<Rightarrow> pubkey \<Rightarrow> pubkey \<Rightarrow> unit command" where
  "command_vsa_add cfg nd rt ids stake_pool_address vote_account =
     bindC (pool_at nd stake_pool_address) (\<lambda>stake_pool.
     bindC (list_at nd (sp_validator_list stake_pool)) (\<lambda>validator_list.
     if vl_contains validator_list vote_account then returnC ()
     else
       bindC (update_first cfg nd rt ids stake_pool_address) (\<lambda>_.
       bindC (find_seed (2 ^ 32) nd stake_pool 0) (\<lambda>validator_seed.
       submit cfg nd
         [pool_ix (add_validator_to_pool_with_vote_ix rt ids (cfg_stake_pool_program_id cfg) stake_pool
            stake_pool_address vote_account validator_seed)]
         (unique_signers [cfg_fee_payer cfg, cfg_staker cfg]) 0))))"

text \<open>The pool and the entry of a validator, after the update.\<close>

definition updated_entry ::
    "config \<Rightarrow> node \<Rightarrow> runtime \<Rightarrow> known_ids \<Rightarrow> pubkey \<Rightarrow> pubkey \<Rightarrow>
      (stake_pool \<times> validator_stake_info) command" where
  "updated_entry cfg nd rt ids stake_pool_address vote_account =
     bindC (update_first cfg nd rt ids stake_pool_address) (\<lambda>_.
     bindC (pool_at nd stake_pool_address) (\<lambda>stake_pool.
     bindC (list_at nd (sp_validator_list stake_pool)) (\<lambda>validator_list.
     bindC (liftC (ok_or (vl_find validator_list vote_account) VoteAccountNotInPool))
       (\<lambda>validator_stake_info. returnC (stake_pool, validator_stake_info)))))"

definition command_vsa_remove ::
    "config \<Rightarrow> node \<Rightarrow> runtime \<Rightarrow> known_ids \<Rightarrow> pubkey \<Rightarrow> pubkey \<Rightarrow> unit command" where
  "command_vsa_remove cfg nd rt ids stake_pool_address vote_account =
     bindC (updated_entry cfg nd rt ids stake_pool_address vote_account)
       (\<lambda>(stake_pool, validator_stake_info).
     submit cfg nd
       [pool_ix (remove_validator_from_pool_with_vote_ix rt ids (cfg_stake_pool_program_id cfg) stake_pool
          stake_pool_address vote_account (vs_validator_seed_suffix validator_stake_info)
          (vs_transient_seed_suffix validator_stake_info))]
       (unique_signers [cfg_fee_payer cfg, cfg_staker cfg]) 0)"

definition command_increase_validator_stake ::
    "config \<Rightarrow> node \<Rightarrow> runtime \<Rightarrow> known_ids \<Rightarrow> pubkey \<Rightarrow> pubkey \<Rightarrow> u64 \<Rightarrow> unit command" where
  "command_increase_validator_stake cfg nd rt ids stake_pool_address vote_account lamports =
     bindC (updated_entry cfg nd rt ids stake_pool_address vote_account)
       (\<lambda>(stake_pool, validator_stake_info).
     submit cfg nd
       [pool_ix (increase_validator_stake_with_vote_ix rt ids (cfg_stake_pool_program_id cfg) stake_pool
          stake_pool_address vote_account lamports (vs_validator_seed_suffix validator_stake_info)
          (vs_transient_seed_suffix validator_stake_info))]
       (unique_signers [cfg_fee_payer cfg, cfg_staker cfg]) 0)"

definition command_decrease_validator_stake ::
    "config \<Rightarrow> node \<Rightarrow> runtime \<Rightarrow> known_ids \<Rightarrow> pubkey \<Rightarrow> pubkey \<Rightarrow> u64 \<Rightarrow> unit command" where
  "command_decrease_validator_stake cfg nd rt ids stake_pool_address vote_account lamports =
     bindC (updated_entry cfg nd rt ids stake_pool_address vote_account)
       (\<lambda>(stake_pool, validator_stake_info).
     submit cfg nd
       [pool_ix (decrease_validator_stake_with_vote_ix rt ids (cfg_stake_pool_program_id cfg) stake_pool
          stake_pool_address vote_account lamports (vs_validator_seed_suffix validator_stake_info)
          (vs_transient_seed_suffix validator_stake_info))]
       (unique_signers [cfg_fee_payer cfg, cfg_staker cfg]) 0)"

definition command_set_preferred_validator ::
    "config \<Rightarrow> node \<Rightarrow> pubkey \<Rightarrow> preferred_validator_type \<Rightarrow> pubkey option \<Rightarrow> unit command" where
  "command_set_preferred_validator cfg nd stake_pool_address preferred_type vote_address =
     bindC (pool_at nd stake_pool_address) (\<lambda>stake_pool.
     submit cfg nd
       [pool_ix (set_preferred_validator_ix (cfg_stake_pool_program_id cfg) stake_pool_address
          (cfg_staker cfg) (sp_validator_list stake_pool) preferred_type vote_address)]
       (unique_signers [cfg_fee_payer cfg, cfg_staker cfg]) 0)"

subsection \<open>Deposits\<close>

text \<open>
  The account for the tokens: the argument of \<open>unwrap_or\<close> is computed before the call, so that the
  associated account is added to the instructions even when the user names another one.
\<close>

definition token_receiver ::
    "config \<Rightarrow> node \<Rightarrow> stake_pool \<Rightarrow> pubkey option \<Rightarrow> tx_instruction list \<Rightarrow> u64 \<Rightarrow>
      (pubkey \<times> tx_instruction list \<times> u64) command" where
  "token_receiver cfg nd stake_pool pool_token_receiver_account instructions rent_free_balances =
     bindC (add_associated_token_account cfg nd (sp_pool_mint stake_pool) (sp_token_program_id stake_pool)
              (cfg_token_owner cfg) instructions rent_free_balances)
       (\<lambda>(account, instructions, rent_free_balances).
     returnC (unwrap_or pool_token_receiver_account account, instructions, rent_free_balances))"

text \<open>The validator stake account that a deposited stake account goes to.\<close>

definition deposit_target ::
    "config \<Rightarrow> node \<Rightarrow> runtime \<Rightarrow> pubkey \<Rightarrow> validator_list \<Rightarrow> pubkey \<Rightarrow> pubkey command" where
  "deposit_target cfg nd rt stake_pool_address validator_list vote_account =
     bindC (liftC (ok_or (vl_find validator_list vote_account) VoteAccountNotInPool))
       (\<lambda>validator_stake_info.
     let validator_stake_account =
           fst (find_stake_program_address rt (cfg_stake_pool_program_id cfg) vote_account
                  stake_pool_address (vs_validator_seed_suffix validator_stake_info)) in
     bindC (askC (\<lambda>w. cli_get_stake_state (nd_env nd w) validator_stake_account)) (\<lambda>_.
     returnC validator_stake_account))"

definition voter_of :: "stake_state \<Rightarrow> cli_error + pubkey" where
  "voter_of stake_state =
     (case stake_state of SS_Stake _ delegation \<Rightarrow> Inr (voter_pubkey delegation) | _ \<Rightarrow> Inl WrongStakeState)"

definition check_stake_depositor :: "config \<Rightarrow> stake_pool \<Rightarrow> cli_error + unit" where
  "check_stake_depositor cfg stake_pool =
     (case cfg_funding_authority cfg of
        Some authority \<Rightarrow>
          if authority \<noteq> sp_stake_deposit_authority stake_pool then Inl InvalidDepositAuthority else Inr ()
      | None \<Rightarrow> Inr ())"

definition deposit_stake_instructions ::
    "config \<Rightarrow> runtime \<Rightarrow> known_ids \<Rightarrow> pubkey \<Rightarrow> stake_pool \<Rightarrow> pubkey \<Rightarrow> pubkey \<Rightarrow> pubkey \<Rightarrow> pubkey \<Rightarrow> pubkey \<Rightarrow>
      tx_instruction list" where
  "deposit_stake_instructions cfg rt ids stake_pool_address stake_pool stake withdraw_authority
       validator_stake_account pool_token_receiver_account referrer_token_account =
     (let pool_withdraw_authority =
        fst (find_withdraw_authority_program_address rt (cfg_stake_pool_program_id cfg)
               stake_pool_address) in
      map ClientIx
        (case cfg_funding_authority cfg of
           Some stake_deposit_authority \<Rightarrow>
             deposit_stake_with_authority_ix rt ids (cfg_stake_pool_program_id cfg) stake_pool_address
               (sp_validator_list stake_pool) stake_deposit_authority pool_withdraw_authority stake
               withdraw_authority validator_stake_account (sp_reserve_stake stake_pool)
               pool_token_receiver_account (sp_manager_fee_account stake_pool) referrer_token_account
               (sp_pool_mint stake_pool) (sp_token_program_id stake_pool)
         | None \<Rightarrow>
             deposit_stake_ix rt ids (cfg_stake_pool_program_id cfg) stake_pool_address
               (sp_validator_list stake_pool) pool_withdraw_authority stake withdraw_authority
               validator_stake_account (sp_reserve_stake stake_pool) pool_token_receiver_account
               (sp_manager_fee_account stake_pool) referrer_token_account (sp_pool_mint stake_pool)
               (sp_token_program_id stake_pool)))"

definition option_signer :: "pubkey option \<Rightarrow> pubkey list" where
  "option_signer k = (case k of Some k \<Rightarrow> [k] | None \<Rightarrow> [])"

definition command_deposit_stake ::
    "config \<Rightarrow> node \<Rightarrow> runtime \<Rightarrow> known_ids \<Rightarrow> pubkey \<Rightarrow> pubkey \<Rightarrow> pubkey \<Rightarrow> pubkey option \<Rightarrow> pubkey option \<Rightarrow>
      unit command" where
  "command_deposit_stake cfg nd rt ids stake_pool_address stake withdraw_authority
       pool_token_receiver_account referrer_token_account =
     bindC (update_first cfg nd rt ids stake_pool_address) (\<lambda>_.
     bindC (pool_at nd stake_pool_address) (\<lambda>stake_pool.
     bindC (askC (\<lambda>w. cli_get_stake_state (nd_env nd w) stake)) (\<lambda>stake_state.
     bindC (liftC (voter_of stake_state)) (\<lambda>vote_account.
     bindC (list_at nd (sp_validator_list stake_pool)) (\<lambda>validator_list.
     bindC (deposit_target cfg nd rt stake_pool_address validator_list vote_account)
       (\<lambda>validator_stake_account.
     bindC (token_receiver cfg nd stake_pool pool_token_receiver_account [] 0)
       (\<lambda>(pool_token_receiver_account, instructions, total_rent_free_balances).
     let referrer_token_account = unwrap_or referrer_token_account pool_token_receiver_account in
     bindC (liftC (check_stake_depositor cfg stake_pool)) (\<lambda>_.
     submit cfg nd
       (instructions @
        deposit_stake_instructions cfg rt ids stake_pool_address stake_pool stake withdraw_authority
          validator_stake_account pool_token_receiver_account referrer_token_account)
       (unique_signers ([cfg_fee_payer cfg, withdraw_authority] @ option_signer (cfg_funding_authority cfg)))
       total_rent_free_balances))))))))"

fun deposit_stakes ::
    "config \<Rightarrow> node \<Rightarrow> runtime \<Rightarrow> known_ids \<Rightarrow> pubkey \<Rightarrow> stake_pool \<Rightarrow> validator_list \<Rightarrow> pubkey \<Rightarrow> pubkey \<Rightarrow> pubkey \<Rightarrow>
      pubkey list \<Rightarrow> unit command" where
  "deposit_stakes cfg nd rt ids stake_pool_address stake_pool validator_list withdraw_authority
       pool_token_receiver_account referrer_token_account [] = returnC ()"
| "deposit_stakes cfg nd rt ids stake_pool_address stake_pool validator_list withdraw_authority
       pool_token_receiver_account referrer_token_account (stake_address # stake_addresses) =
     bindC (askC (\<lambda>w. cli_get_stake_state (nd_env nd w) stake_address)) (\<lambda>stake_state.
     bindC (liftC (voter_of stake_state)) (\<lambda>vote_account.
     bindC (deposit_target cfg nd rt stake_pool_address validator_list vote_account)
       (\<lambda>validator_stake_account.
     bindC (submit cfg nd
       (deposit_stake_instructions cfg rt ids stake_pool_address stake_pool stake_address withdraw_authority
          validator_stake_account pool_token_receiver_account referrer_token_account)
       (unique_signers ([cfg_fee_payer cfg, withdraw_authority] @ option_signer (cfg_funding_authority cfg)))
       0) (\<lambda>_.
     deposit_stakes cfg nd rt ids stake_pool_address stake_pool validator_list withdraw_authority
       pool_token_receiver_account referrer_token_account stake_addresses))))"

definition command_deposit_all_stake ::
    "config \<Rightarrow> node \<Rightarrow> runtime \<Rightarrow> known_ids \<Rightarrow> pubkey \<Rightarrow> pubkey \<Rightarrow> pubkey \<Rightarrow> pubkey option \<Rightarrow> pubkey option \<Rightarrow>
      unit command" where
  "command_deposit_all_stake cfg nd rt ids stake_pool_address stake_authority withdraw_authority
       pool_token_receiver_account referrer_token_account =
     bindC (update_first cfg nd rt ids stake_pool_address) (\<lambda>_.
     bindC (get_all_stake nd rt stake_authority) (\<lambda>stake_addresses.
     bindC (pool_at nd stake_pool_address) (\<lambda>stake_pool.
     bindC (token_receiver cfg nd stake_pool pool_token_receiver_account [] 0)
       (\<lambda>(pool_token_receiver_account, create_token_account_instructions, total_rent_free_balances).
     bindC (if create_token_account_instructions \<noteq> [] then
              submit cfg nd create_token_account_instructions [cfg_fee_payer cfg] total_rent_free_balances
            else returnC ()) (\<lambda>_.
     let referrer_token_account = unwrap_or referrer_token_account pool_token_receiver_account in
     bindC (list_at nd (sp_validator_list stake_pool)) (\<lambda>validator_list.
     bindC (liftC (check_stake_depositor cfg stake_pool)) (\<lambda>_.
     deposit_stakes cfg nd rt ids stake_pool_address stake_pool validator_list withdraw_authority
       pool_token_receiver_account referrer_token_account stake_addresses)))))))"

definition check_sol_authority ::
    "config \<Rightarrow> pubkey option \<Rightarrow> cli_error \<Rightarrow> cli_error + unit" where
  "check_sol_authority cfg expected missing =
     (case cfg_funding_authority cfg of
        Some authority \<Rightarrow>
          bindE (ok_or expected missing) (\<lambda>expected_authority.
          if authority \<noteq> expected_authority then Inl InvalidDepositAuthority else Inr ())
      | None \<Rightarrow> Inr ())"

definition command_deposit_sol ::
    "config \<Rightarrow> node \<Rightarrow> runtime \<Rightarrow> known_ids \<Rightarrow> pubkey \<Rightarrow> pubkey option \<Rightarrow> pubkey option \<Rightarrow> pubkey option \<Rightarrow> u64 \<Rightarrow>
      unit command" where
  "command_deposit_sol cfg nd rt ids stake_pool_address from_keypair pool_token_receiver_account
       referrer_token_account amount =
     bindC (update_first cfg nd rt ids stake_pool_address) (\<lambda>_.
     let from_pubkey = unwrap_or from_keypair (cfg_fee_payer cfg) in
     bindC (askC (\<lambda>w. nd_get_balance nd w from_pubkey)) (\<lambda>from_balance.
     if from_balance < amount then throwC NotEnoughSol
     else
     bindC (pool_at nd stake_pool_address) (\<lambda>stake_pool.
     bindC (new_keypair nd) (\<lambda>user_sol_transfer.
     bindC (token_receiver cfg nd stake_pool pool_token_receiver_account
              [SystemTransferIx from_pubkey user_sol_transfer amount] 0)
       (\<lambda>(pool_token_receiver_account, instructions, total_rent_free_balances).
     let referrer_token_account = unwrap_or referrer_token_account pool_token_receiver_account;
         pool_withdraw_authority =
           fst (find_withdraw_authority_program_address rt (cfg_stake_pool_program_id cfg)
                  stake_pool_address) in
     bindC (liftC (check_sol_authority cfg (sp_sol_deposit_authority stake_pool) NoSolDepositAuthority))
       (\<lambda>_.
     let deposit_instruction =
       (case cfg_funding_authority cfg of
          Some deposit_authority \<Rightarrow>
            deposit_sol_with_authority_ix rt (cfg_stake_pool_program_id cfg) stake_pool_address
              deposit_authority pool_withdraw_authority (sp_reserve_stake stake_pool) user_sol_transfer
              pool_token_receiver_account (sp_manager_fee_account stake_pool) referrer_token_account
              (sp_pool_mint stake_pool) (sp_token_program_id stake_pool) amount
        | None \<Rightarrow>
            deposit_sol_ix rt (cfg_stake_pool_program_id cfg) stake_pool_address pool_withdraw_authority
              (sp_reserve_stake stake_pool) user_sol_transfer pool_token_receiver_account
              (sp_manager_fee_account stake_pool) referrer_token_account (sp_pool_mint stake_pool)
              (sp_token_program_id stake_pool) amount) in
     submit cfg nd (instructions @ [pool_ix deposit_instruction])
       (unique_signers ([cfg_fee_payer cfg, user_sol_transfer] @ option_signer from_keypair @
          option_signer (cfg_funding_authority cfg)))
       total_rent_free_balances))))))"

subsection \<open>Withdrawals\<close>

text \<open>
  The account that receives a withdrawal: a new one, unless the user names one that is not
  delegated. The instructions, the rent of the new accounts and the new accounts are carried along.
\<close>

definition withdraw_receiver ::
    "config \<Rightarrow> node \<Rightarrow> runtime \<Rightarrow> u64 \<Rightarrow> pubkey option \<Rightarrow> bool \<Rightarrow> tx_instruction list \<times> u64 \<times> pubkey list \<Rightarrow>
      (pubkey \<times> tx_instruction list \<times> u64 \<times> pubkey list) command" where
  "withdraw_receiver cfg nd rt rent stake_receiver_param delegated =
     (\<lambda>(instructions, total_rent_free_balances, new_stake_keypairs).
     if stake_receiver_param = None \<or> delegated then
       bindC (new_stake_account nd rt (cfg_fee_payer cfg) instructions rent) (\<lambda>(stake_keypair, instructions).
       bindC (addC nd total_rent_free_balances rent) (\<lambda>total_rent_free_balances.
       returnC (stake_keypair, instructions, total_rent_free_balances, new_stake_keypairs @ [stake_keypair])))
     else
       case stake_receiver_param of
         Some stake_receiver \<Rightarrow>
           returnC (stake_receiver, instructions, total_rent_free_balances, new_stake_keypairs)
       | None \<Rightarrow> throwC CliPanic)"

text \<open>The loop over the accounts of a stake withdrawal.\<close>

fun withdraw_from_accounts ::
    "config \<Rightarrow> node \<Rightarrow> runtime \<Rightarrow> known_ids \<Rightarrow> pubkey \<Rightarrow> withdraw_request \<Rightarrow> pubkey option \<Rightarrow> bool \<Rightarrow> pubkey \<Rightarrow>
      withdraw_account list \<Rightarrow> tx_instruction list \<times> u64 \<times> pubkey list \<Rightarrow>
      (tx_instruction list \<times> u64 \<times> pubkey list) command" where
  "withdraw_from_accounts cfg nd rt ids stake_pool_address r stake_receiver_param delegated
       user_transfer_authority [] st = returnC st"
| "withdraw_from_accounts cfg nd rt ids stake_pool_address r stake_receiver_param delegated
       user_transfer_authority (withdraw_account # accounts)
       (instructions, total_rent_free_balances, new_stake_keypairs) =
     (let stake_pool = wr_stake_pool r in
      bindC (liftC (ok_or (calc_lamports_withdraw_amount stake_pool (wa_pool_amount withdraw_account))
               CliPanic)) (\<lambda>sol_withdraw_amount.
      bindC (withdraw_receiver cfg nd rt (wr_rent_exemption r) stake_receiver_param delegated
               (instructions, total_rent_free_balances, new_stake_keypairs))
        (\<lambda>(stake_receiver, instructions, total_rent_free_balances, new_stake_keypairs).
      withdraw_from_accounts cfg nd rt ids stake_pool_address r stake_receiver_param delegated
        user_transfer_authority accounts
        (instructions @
           [pool_ix (withdraw_stake_ix rt ids (cfg_stake_pool_program_id cfg) stake_pool_address
              (sp_validator_list stake_pool)
              (fst (find_withdraw_authority_program_address rt (cfg_stake_pool_program_id cfg)
                 stake_pool_address))
              (wa_stake_address withdraw_account) stake_receiver (cfg_staker cfg)
              user_transfer_authority (wr_pool_token_account r) (sp_manager_fee_account stake_pool)
              (sp_pool_mint stake_pool) (sp_token_program_id stake_pool)
              (wa_pool_amount withdraw_account))],
         total_rent_free_balances, new_stake_keypairs))))"

definition token_account_of :: "config \<Rightarrow> node \<Rightarrow> pubkey option \<Rightarrow> stake_pool \<Rightarrow> pubkey" where
  "token_account_of cfg nd pool_token_account stake_pool =
     unwrap_or pool_token_account
       (nd_associated_token_address nd (cfg_token_owner cfg) (sp_pool_mint stake_pool)
          (sp_token_program_id stake_pool))"

definition merge_instructions :: "config \<Rightarrow> pubkey option \<Rightarrow> bool \<Rightarrow> pubkey list \<Rightarrow> tx_instruction list" where
  "merge_instructions cfg stake_receiver_param delegated new_stake_keypairs =
     (case stake_receiver_param of
        Some stake_receiver \<Rightarrow>
          if delegated then
            map (\<lambda>k. ClientIx (StakeInstruction (StakeMerge stake_receiver k (cfg_fee_payer cfg))))
              new_stake_keypairs
          else []
      | None \<Rightarrow> [])"

definition receiver_delegated :: "cli_env \<Rightarrow> runtime \<Rightarrow> pubkey option \<Rightarrow> bool" where
  "receiver_delegated env rt stake_receiver_param \<longleftrightarrow>
     stake_receiver_vote env rt stake_receiver_param \<noteq> None"

definition command_withdraw_stake ::
    "config \<Rightarrow> node \<Rightarrow> runtime \<Rightarrow> known_ids \<Rightarrow> pubkey \<Rightarrow> bool \<Rightarrow> pubkey option \<Rightarrow> pubkey option \<Rightarrow> pubkey option \<Rightarrow>
      (u8 \<Rightarrow> u64) \<Rightarrow> unit command" where
  "command_withdraw_stake cfg nd rt ids stake_pool_address use_reserve vote_account_address
       stake_receiver_param pool_token_account to_amount =
     bindC (update_first cfg nd rt ids stake_pool_address) (\<lambda>_.
     bindC (askC (\<lambda>w. withdraw_request_of (nd_env nd w) stake_pool_address
              (token_account_of cfg nd pool_token_account) to_amount)) (\<lambda>r.
     bindC (askC (\<lambda>w. Inr (receiver_delegated (nd_env nd w) rt stake_receiver_param)))
       (\<lambda>delegated.
     bindC (askC (\<lambda>w. withdraw_accounts (nd_env nd w) rt (cfg_stake_pool_program_id cfg)
              stake_pool_address use_reserve vote_account_address stake_receiver_param r))
       (\<lambda>withdraw_accounts.
     bindC (new_keypair nd) (\<lambda>user_transfer_authority.
     bindC (token_approve nd (sp_token_program_id (wr_stake_pool r)) (wr_pool_token_account r)
              user_transfer_authority (cfg_token_owner cfg) (wr_pool_amount r)) (\<lambda>approve.
     bindC (withdraw_from_accounts cfg nd rt ids stake_pool_address r stake_receiver_param delegated
              user_transfer_authority withdraw_accounts ([approve], 0, []))
       (\<lambda>(instructions, total_rent_free_balances, new_stake_keypairs).
     submit cfg nd
       (instructions @ merge_instructions cfg stake_receiver_param delegated new_stake_keypairs)
       (unique_signers ([cfg_fee_payer cfg, cfg_token_owner cfg, user_transfer_authority] @
          new_stake_keypairs))
       total_rent_free_balances)))))))"

definition command_withdraw_sol ::
    "config \<Rightarrow> node \<Rightarrow> runtime \<Rightarrow> known_ids \<Rightarrow> pubkey \<Rightarrow> pubkey option \<Rightarrow> pubkey \<Rightarrow> (u8 \<Rightarrow> u64) \<Rightarrow>
      unit command" where
  "command_withdraw_sol cfg nd rt ids stake_pool_address pool_token_account sol_receiver to_amount =
     bindC (update_first cfg nd rt ids stake_pool_address) (\<lambda>_.
     bindC (pool_at nd stake_pool_address) (\<lambda>stake_pool.
     bindC (askC (\<lambda>w. get_token_mint (nd_env nd w) (sp_pool_mint stake_pool))) (\<lambda>decimals.
     let pool_amount = to_amount decimals;
         pool_token_account = token_account_of cfg nd pool_token_account stake_pool in
     bindC (askC (\<lambda>w. get_token_account (nd_env nd w) pool_token_account (sp_pool_mint stake_pool)))
       (\<lambda>token_account.
     if snd token_account < pool_amount then throwC NotEnoughTokens
     else
     bindC (new_keypair nd) (\<lambda>user_transfer_authority.
     bindC (token_approve nd (sp_token_program_id stake_pool) pool_token_account user_transfer_authority
              (cfg_token_owner cfg) pool_amount) (\<lambda>approve.
     let pool_withdraw_authority =
           fst (find_withdraw_authority_program_address rt (cfg_stake_pool_program_id cfg)
                  stake_pool_address) in
     bindC (liftC (check_sol_authority cfg (sp_sol_withdraw_authority stake_pool) NoSolWithdrawAuthority))
       (\<lambda>_.
     let withdraw_instruction =
       (case cfg_funding_authority cfg of
          Some withdraw_authority \<Rightarrow>
            withdraw_sol_with_authority_ix rt ids (cfg_stake_pool_program_id cfg) stake_pool_address
              withdraw_authority pool_withdraw_authority user_transfer_authority pool_token_account
              (sp_reserve_stake stake_pool) sol_receiver (sp_manager_fee_account stake_pool)
              (sp_pool_mint stake_pool) (sp_token_program_id stake_pool) pool_amount
        | None \<Rightarrow>
            withdraw_sol_ix rt ids (cfg_stake_pool_program_id cfg) stake_pool_address
              pool_withdraw_authority user_transfer_authority pool_token_account
              (sp_reserve_stake stake_pool) sol_receiver (sp_manager_fee_account stake_pool)
              (sp_pool_mint stake_pool) (sp_token_program_id stake_pool) pool_amount) in
     submit cfg nd [approve, pool_ix withdraw_instruction]
       (unique_signers ([cfg_fee_payer cfg, cfg_token_owner cfg, user_transfer_authority] @
          option_signer (cfg_funding_authority cfg)))
       0)))))))"

subsection \<open>Settings\<close>

definition command_set_manager ::
    "config \<Rightarrow> node \<Rightarrow> runtime \<Rightarrow> known_ids \<Rightarrow> pubkey \<Rightarrow> pubkey option \<Rightarrow> pubkey option \<Rightarrow> unit command" where
  "command_set_manager cfg nd rt ids stake_pool_address new_manager new_fee_receiver =
     bindC (update_first cfg nd rt ids stake_pool_address) (\<lambda>_.
     bindC (pool_at nd stake_pool_address) (\<lambda>stake_pool.
     let new_manager_pubkey = unwrap_or new_manager (sp_manager stake_pool) in
     bindC (case new_fee_receiver of
              None \<Rightarrow> returnC (sp_manager_fee_account stake_pool)
            | Some value \<Rightarrow>
                bindC (askC (\<lambda>w. get_token_account (nd_env nd w) value (sp_pool_mint stake_pool)))
                  (\<lambda>token_account.
                if fst token_account \<noteq> sp_pool_mint stake_pool then throwC InvalidTokenMint
                else returnC value)) (\<lambda>new_fee_receiver.
     submit cfg nd
       [pool_ix (set_manager_ix (cfg_stake_pool_program_id cfg) stake_pool_address (cfg_manager cfg)
          new_manager_pubkey new_fee_receiver)]
       (unique_signers (option_signer new_manager @ [cfg_fee_payer cfg, cfg_manager cfg])) 0)))"

text \<open>The other settings: an update, then one instruction signed by the manager.\<close>

definition manager_command ::
    "config \<Rightarrow> node \<Rightarrow> runtime \<Rightarrow> known_ids \<Rightarrow> pubkey \<Rightarrow> instruction \<Rightarrow> unit command" where
  "manager_command cfg nd rt ids stake_pool_address ix =
     bindC (update_first cfg nd rt ids stake_pool_address) (\<lambda>_.
     submit cfg nd [pool_ix ix] (unique_signers [cfg_fee_payer cfg, cfg_manager cfg]) 0)"

definition command_set_staker ::
    "config \<Rightarrow> node \<Rightarrow> runtime \<Rightarrow> known_ids \<Rightarrow> pubkey \<Rightarrow> pubkey \<Rightarrow> unit command" where
  "command_set_staker cfg nd rt ids stake_pool_address new_staker =
     manager_command cfg nd rt ids stake_pool_address
       (set_staker_ix (cfg_stake_pool_program_id cfg) stake_pool_address (cfg_manager cfg) new_staker)"

definition command_set_funding_authority ::
    "config \<Rightarrow> node \<Rightarrow> runtime \<Rightarrow> known_ids \<Rightarrow> pubkey \<Rightarrow> pubkey option \<Rightarrow> funding_type \<Rightarrow> unit command" where
  "command_set_funding_authority cfg nd rt ids stake_pool_address new_authority funding_type =
     manager_command cfg nd rt ids stake_pool_address
       (set_funding_authority_ix (cfg_stake_pool_program_id cfg) stake_pool_address (cfg_manager cfg)
          new_authority funding_type)"

definition command_set_fee ::
    "config \<Rightarrow> node \<Rightarrow> runtime \<Rightarrow> known_ids \<Rightarrow> pubkey \<Rightarrow> fee_type \<Rightarrow> unit command" where
  "command_set_fee cfg nd rt ids stake_pool_address new_fee =
     manager_command cfg nd rt ids stake_pool_address
       (set_fee_ix (cfg_stake_pool_program_id cfg) stake_pool_address (cfg_manager cfg) new_fee)"

definition command_set_max_validator_stake ::
    "config \<Rightarrow> node \<Rightarrow> runtime \<Rightarrow> known_ids \<Rightarrow> pubkey \<Rightarrow> u64 option \<Rightarrow> unit command" where
  "command_set_max_validator_stake cfg nd rt ids stake_pool_address max_stake =
     manager_command cfg nd rt ids stake_pool_address
       (set_max_validator_stake_ix (cfg_stake_pool_program_id cfg) stake_pool_address (cfg_manager cfg)
          max_stake)"

end
