(* ===== verification/Client_Output.thy ===== *)
theory Client_Output
  imports Client_Operations
begin

section \<open>What the client shows\<close>

text \<open>
  \<open>src/clients/cli/src/output.rs\<close>: the structures that the client prints, their conversions from the
  records of the program and their texts, and the two commands of \<open>main.rs\<close> that print them. The texts of addresses, of
  amounts of SOL and of floating-point numbers come from other crates and are fields of the record
  \<open>display\<close>; a floating-point number is its bit pattern. A status byte that is none of the five makes the conversion panic.
\<close>

subsection \<open>Numbers and lines\<close>

record display =
  dp_pubkey :: "pubkey \<Rightarrow> string"
  dp_sol :: "u64 \<Rightarrow> string"
  dp_f64 :: "u64 \<Rightarrow> string"
  dp_amount_to_ui_amount :: "u64 \<Rightarrow> u8 \<Rightarrow> u64"

definition digit_char :: "nat \<Rightarrow> char" where
  "digit_char d = char_of (48 + d)"

fun show_nat :: "nat \<Rightarrow> string" where
  "show_nat n = (if n < 10 then [digit_char n] else show_nat (n div 10) @ [digit_char (n mod 10)])"

declare show_nat.simps [simp del]

definition line :: "string \<Rightarrow> string" where
  "line s = s @ [CHR 0x0A]"

definition tab :: string where
  "tab = [CHR 0x09]"

subsection \<open>The structures\<close>

record cli_stake_pool_fee =
  cf_denominator :: u64
  cf_numerator :: u64

definition cli_fee_from :: "fee \<Rightarrow> cli_stake_pool_fee" where
  "cli_fee_from f = \<lparr>cf_denominator = denominator f, cf_numerator = numerator f\<rparr>"

definition show_fee :: "cli_stake_pool_fee \<Rightarrow> string" where
  "show_fee f = show_nat (unat (cf_numerator f)) @ ''/'' @ show_nat (unat (cf_denominator f))"

record cli_stake_pool_lockup =
  ck_unix_timestamp :: u64
  ck_epoch :: u64
  ck_custodian :: string

definition cli_lockup_from :: "display \<Rightarrow> lockup \<Rightarrow> cli_stake_pool_lockup" where
  "cli_lockup_from dp l =
     \<lparr>ck_unix_timestamp = unix_timestamp l, ck_epoch = lockup_epoch l,
      ck_custodian = dp_pubkey dp (custodian l)\<rparr>"

datatype cli_stake_pool_validator_stake_status =
    CliActive | CliDeactivatingTransient | CliReadyForRemoval | CliDeactivatingValidator | CliDeactivatingAll

definition cli_status_from :: "u8 \<Rightarrow> cli_error + cli_stake_pool_validator_stake_status" where
  "cli_status_from s =
     (case status_try_from s of
        Inl _ \<Rightarrow> Inl CliPanic
      | Inr Active \<Rightarrow> Inr CliActive
      | Inr DeactivatingTransient \<Rightarrow> Inr CliDeactivatingTransient
      | Inr ReadyForRemoval \<Rightarrow> Inr CliReadyForRemoval
      | Inr DeactivatingValidator \<Rightarrow> Inr CliDeactivatingValidator
      | Inr DeactivatingAll \<Rightarrow> Inr CliDeactivatingAll)"

record cli_stake_pool_validator =
  cv_active_stake_lamports :: u64
  cv_transient_stake_lamports :: u64
  cv_last_update_epoch :: u64
  cv_transient_seed_suffix :: u64
  cv_unused :: u32
  cv_validator_seed_suffix :: u32
  cv_status :: cli_stake_pool_validator_stake_status
  cv_vote_account_address :: string

definition cli_validator_from :: "display \<Rightarrow> validator_stake_info \<Rightarrow> cli_error + cli_stake_pool_validator" where
  "cli_validator_from dp v =
     bindE (cli_status_from (vs_status v)) (\<lambda>status.
     Inr \<lparr>cv_active_stake_lamports = vs_active_stake_lamports v,
          cv_transient_stake_lamports = vs_transient_stake_lamports v,
          cv_last_update_epoch = vs_last_update_epoch v,
          cv_transient_seed_suffix = vs_transient_seed_suffix v,
          cv_unused = vs_unused v,
          cv_validator_seed_suffix = vs_validator_seed_suffix v,
          cv_status = status,
          cv_vote_account_address = dp_pubkey dp (vs_vote_account_address v)\<rparr>)"

fun cli_validators_from ::
    "display \<Rightarrow> validator_stake_info list \<Rightarrow> cli_error + cli_stake_pool_validator list" where
  "cli_validators_from dp [] = Inr []"
| "cli_validators_from dp (v # vs) =
     bindE (cli_validator_from dp v) (\<lambda>c.
     bindE (cli_validators_from dp vs) (\<lambda>cs. Inr (c # cs)))"

record cli_stake_pool_stake_account_info =
  ca_vote_account_address :: string
  ca_stake_account_address :: string
  ca_validator_active_stake_lamports :: u64
  ca_validator_last_update_epoch :: u64
  ca_validator_lamports :: u64
  ca_validator_transient_stake_account_address :: string
  ca_validator_transient_stake_lamports :: u64
  ca_update_required :: bool

record cli_stake_pool_details =
  cd_reserve_stake_account_address :: string
  cd_reserve_stake_lamports :: u64
  cd_minimum_reserve_stake_balance :: u64
  cd_stake_accounts :: "cli_stake_pool_stake_account_info list"
  cd_total_lamports :: u64
  cd_total_pool_tokens :: u64
  cd_current_number_of_validators :: u32
  cd_max_number_of_validators :: u32
  cd_update_required :: bool

record cli_stake_pool =
  cs_address :: string
  cs_pool_withdraw_authority :: string
  cs_manager :: string
  cs_staker :: string
  cs_stake_deposit_authority :: string
  cs_stake_withdraw_bump_seed :: u8
  cs_max_validators :: u32
  cs_validator_list :: "cli_stake_pool_validator list"
  cs_validator_list_storage_account :: string
  cs_reserve_stake :: string
  cs_pool_mint :: string
  cs_manager_fee_account :: string
  cs_token_program_id :: string
  cs_total_lamports :: u64
  cs_pool_token_supply :: u64
  cs_last_update_epoch :: u64
  cs_lockup :: cli_stake_pool_lockup
  cs_epoch_fee :: cli_stake_pool_fee
  cs_next_epoch_fee :: "cli_stake_pool_fee option"
  cs_preferred_deposit_validator_vote_address :: "string option"
  cs_preferred_withdraw_validator_vote_address :: "string option"
  cs_stake_deposit_fee :: cli_stake_pool_fee
  cs_stake_withdrawal_fee :: cli_stake_pool_fee
  cs_next_stake_withdrawal_fee :: "cli_stake_pool_fee option"
  cs_stake_referral_fee :: u8
  cs_sol_deposit_authority :: "string option"
  cs_sol_deposit_fee :: cli_stake_pool_fee
  cs_sol_referral_fee :: u8
  cs_sol_withdraw_authority :: "string option"
  cs_sol_withdrawal_fee :: cli_stake_pool_fee
  cs_next_sol_withdrawal_fee :: "cli_stake_pool_fee option"
  cs_last_epoch_pool_token_supply :: u64
  cs_last_epoch_total_lamports :: u64
  cs_max_validator_stake :: "u64 option"
  cs_details :: "cli_stake_pool_details option"

definition cli_stake_pool_from ::
    "display \<Rightarrow> pubkey \<times> stake_pool \<times> validator_list \<times> pubkey \<Rightarrow> cli_error + cli_stake_pool" where
  "cli_stake_pool_from dp = (\<lambda>(address, stake_pool, validator_list, pool_withdraw_authority).
     bindE (cli_validators_from dp (vl_validators validator_list)) (\<lambda>validators.
     Inr \<lparr>cs_address = dp_pubkey dp address,
          cs_pool_withdraw_authority = dp_pubkey dp pool_withdraw_authority,
          cs_manager = dp_pubkey dp (sp_manager stake_pool),
          cs_staker = dp_pubkey dp (sp_staker stake_pool),
          cs_stake_deposit_authority = dp_pubkey dp (sp_stake_deposit_authority stake_pool),
          cs_stake_withdraw_bump_seed = sp_stake_withdraw_bump_seed stake_pool,
          cs_max_validators = vl_max_validators (vl_header validator_list),
          cs_validator_list = validators,
          cs_validator_list_storage_account = dp_pubkey dp (sp_validator_list stake_pool),
          cs_reserve_stake = dp_pubkey dp (sp_reserve_stake stake_pool),
          cs_pool_mint = dp_pubkey dp (sp_pool_mint stake_pool),
          cs_manager_fee_account = dp_pubkey dp (sp_manager_fee_account stake_pool),
          cs_token_program_id = dp_pubkey dp (sp_token_program_id stake_pool),
          cs_total_lamports = sp_total_lamports stake_pool,
          cs_pool_token_supply = sp_pool_token_supply stake_pool,
          cs_last_update_epoch = sp_last_update_epoch stake_pool,
          cs_lockup = cli_lockup_from dp (sp_lockup stake_pool),
          cs_epoch_fee = cli_fee_from (sp_epoch_fee stake_pool),
          cs_next_epoch_fee = map_option cli_fee_from (option_of_future_epoch (sp_next_epoch_fee stake_pool)),
          cs_preferred_deposit_validator_vote_address = map_option (dp_pubkey dp) (sp_preferred_deposit_validator_vote_address stake_pool),
          cs_preferred_withdraw_validator_vote_address = map_option (dp_pubkey dp) (sp_preferred_withdraw_validator_vote_address stake_pool),
          cs_stake_deposit_fee = cli_fee_from (sp_stake_deposit_fee stake_pool),
          cs_stake_withdrawal_fee = cli_fee_from (sp_stake_withdrawal_fee stake_pool),
          cs_next_stake_withdrawal_fee = map_option cli_fee_from (option_of_future_epoch (sp_next_stake_withdrawal_fee stake_pool)),
          cs_stake_referral_fee = sp_stake_referral_fee stake_pool,
          cs_sol_deposit_authority = map_option (dp_pubkey dp) (sp_sol_deposit_authority stake_pool),
          cs_sol_deposit_fee = cli_fee_from (sp_sol_deposit_fee stake_pool),
          cs_sol_referral_fee = sp_sol_referral_fee stake_pool,
          cs_sol_withdraw_authority = map_option (dp_pubkey dp) (sp_sol_withdraw_authority stake_pool),
          cs_sol_withdrawal_fee = cli_fee_from (sp_sol_withdrawal_fee stake_pool),
          cs_next_sol_withdrawal_fee = map_option cli_fee_from (option_of_future_epoch (sp_next_sol_withdrawal_fee stake_pool)),
          cs_last_epoch_pool_token_supply = sp_last_epoch_pool_token_supply stake_pool,
          cs_last_epoch_total_lamports = sp_last_epoch_total_lamports stake_pool,
          cs_max_validator_stake = sp_max_validator_stake stake_pool,
          cs_details = None\<rparr>))"

record cli_stake_pools =
  cps_pools :: "cli_stake_pool list"

subsection \<open>The texts\<close>

definition show_pools :: "cli_stake_pools \<Rightarrow> string" where
  "show_pools ps =
     concat (map (\<lambda>pool.
       line (''Address: '' @ cs_address pool @ tab @ ''Manager: '' @ cs_manager pool @ tab @ ''Lamports: '' @
         show_nat (unat (cs_total_lamports pool)) @ tab @ ''Pool tokens: '' @
         show_nat (unat (cs_pool_token_supply pool)) @ tab @ ''Validators: '' @
         show_nat (length (cs_validator_list pool)))) (cps_pools ps)) @
     line (''Total number of pools: '' @ show_nat (length (cps_pools ps)))"

definition optional_line :: "string \<Rightarrow> string \<Rightarrow> string option \<Rightarrow> string" where
  "optional_line before after s = (case s of None \<Rightarrow> [] | Some s \<Rightarrow> line (before @ s @ after))"

definition show_preferred :: "cli_stake_pool \<Rightarrow> string" where
  "show_preferred p =
     optional_line ''Preferred Deposit Validator: '' [] (cs_preferred_deposit_validator_vote_address p) @
     optional_line ''Preferred Withdraw Validator: '' [] (cs_preferred_withdraw_validator_vote_address p)"

definition show_deposit_fees :: "display \<Rightarrow> cli_stake_pool \<Rightarrow> string" where
  "show_deposit_fees dp p =
     line (''Stake Deposit Fee: '' @ show_fee (cs_stake_deposit_fee p) @ '' of deposit amount'') @
     line (''SOL Deposit Fee: '' @ show_fee (cs_sol_deposit_fee p) @ '' of deposit amount'') @
     line (''Stake Deposit Referral Fee: '' @ show_nat (unat (cs_stake_referral_fee p)) @
       ''% of Stake Deposit Fee'') @
     line (''SOL Deposit Referral Fee: '' @ show_nat (unat (cs_sol_referral_fee p)) @
       ''% of SOL Deposit Fee'') @
     optional_line ''Max Validator Stake: '' [] (map_option (dp_sol dp) (cs_max_validator_stake p))"

definition show_pool :: "display \<Rightarrow> cli_stake_pool \<Rightarrow> string" where
  "show_pool dp p =
     line (''Stake Pool: '' @ cs_address p) @
     line (''Validator List: '' @ cs_validator_list_storage_account p) @
     line (''Pool Token Mint: '' @ cs_pool_mint p) @
     show_preferred p @
     line (''Epoch Fee: '' @ show_fee (cs_epoch_fee p) @ '' of epoch rewards'') @
     line (''Stake Withdrawal Fee: '' @ show_fee (cs_stake_withdrawal_fee p) @ '' of withdrawal amount'') @
     line (''SOL Withdrawal Fee: '' @ show_fee (cs_sol_withdrawal_fee p) @ '' of withdrawal amount'') @
     show_deposit_fees dp p"

definition update_mark :: "bool \<Rightarrow> string" where
  "update_mark b = (if b then '' [UPDATE REQUIRED]'' else [])"

definition show_totals :: "display \<Rightarrow> cli_stake_pool_details \<Rightarrow> string" where
  "show_totals dp d =
     line (''Total Pool Stake: '' @ dp_sol dp (cd_total_lamports d) @ '' '' @ update_mark (cd_update_required d)) @
     line (''Total Pool Tokens: '' @ dp_f64 dp (cd_total_pool_tokens d)) @
     line (''Current Number of Validators: '' @ show_nat (unat (cd_current_number_of_validators d))) @
     line (''Max Number of Validators: '' @ show_nat (unat (cd_max_number_of_validators d)))"

definition show_reserve :: "cli_env \<Rightarrow> display \<Rightarrow> cli_stake_pool_details \<Rightarrow> cli_error + string" where
  "show_reserve env dp d =
     bindE (sub_u64 env (cd_reserve_stake_lamports d) (cd_minimum_reserve_stake_balance d)) (\<lambda>available.
     Inr (line (''Reserve Account: '' @ cd_reserve_stake_account_address d @ tab @ ''Available Balance: '' @
       dp_sol dp available)))"

definition show_details :: "cli_env \<Rightarrow> display \<Rightarrow> cli_stake_pool_details \<Rightarrow> cli_error + string" where
  "show_details env dp d =
     bindE (show_reserve env dp d) (\<lambda>reserve.
     Inr (reserve @
       concat (map (\<lambda>a.
         line (''Vote Account: '' @ ca_vote_account_address a @ tab @ ''Balance: '' @
           dp_sol dp (ca_validator_lamports a) @ tab @ ''Last Update Epoch: '' @
           show_nat (unat (ca_validator_last_update_epoch a)))) (cd_stake_accounts d)) @
       show_totals dp d))"

definition verbose_details :: "cli_env \<Rightarrow> display \<Rightarrow> cli_stake_pool_details \<Rightarrow> cli_error + string" where
  "verbose_details env dp d =
     bindE (show_reserve env dp d) (\<lambda>reserve.
     Inr (line ''Stake Accounts'' @ line ''--------------'' @ reserve @
       concat (map (\<lambda>a.
         line (''Vote Account: '' @ ca_vote_account_address a @ tab @ ''Stake Account: '' @
           ca_stake_account_address a @ tab @ ''Active Balance: '' @
           dp_sol dp (ca_validator_active_stake_lamports a) @ tab @ ''Transient Stake Account: '' @
           ca_validator_transient_stake_account_address a @ tab @ ''Transient Balance: '' @
           dp_sol dp (ca_validator_transient_stake_lamports a) @ tab @ ''Last Update Epoch: '' @
           show_nat (unat (ca_validator_last_update_epoch a)) @ update_mark (ca_update_required a)))
         (cd_stake_accounts d)) @
       show_totals dp d))"

definition verbose_pool :: "cli_env \<Rightarrow> display \<Rightarrow> cli_stake_pool \<Rightarrow> cli_error + string" where
  "verbose_pool env dp p =
     bindE (case cs_details p of None \<Rightarrow> Inr [] | Some details \<Rightarrow> verbose_details env dp details)
       (\<lambda>details.
     Inr (line ''Stake Pool Info'' @ line ''==============='' @
       line (''Stake Pool: '' @ cs_address p) @
       line (''Validator List: '' @ cs_validator_list_storage_account p) @
       line (''Manager: '' @ cs_manager p) @
       line (''Staker: '' @ cs_staker p) @
       line (''Depositor: '' @ cs_stake_deposit_authority p) @
       line (''SOL Deposit Authority: '' @ unwrap_or (cs_sol_deposit_authority p) ''None'') @
       line (''SOL Withdraw Authority: '' @ unwrap_or (cs_sol_withdraw_authority p) ''None'') @
       line (''Withdraw Authority: '' @ cs_pool_withdraw_authority p) @
       line (''Pool Token Mint: '' @ cs_pool_mint p) @
       line (''Fee Account: '' @ cs_manager_fee_account p) @
       show_preferred p @
       line (''Epoch Fee: '' @ show_fee (cs_epoch_fee p) @ '' of epoch rewards'') @
       optional_line ''Next Epoch Fee: '' '' of epoch rewards'' (map_option show_fee (cs_next_epoch_fee p)) @
       line (''Stake Withdrawal Fee: '' @ show_fee (cs_stake_withdrawal_fee p) @ '' of withdrawal amount'') @
       optional_line ''Next Stake Withdrawal Fee: '' '' of withdrawal amount''
         (map_option show_fee (cs_next_stake_withdrawal_fee p)) @
       line (''SOL Withdrawal Fee: '' @ show_fee (cs_sol_withdrawal_fee p) @ '' of withdrawal amount'') @
       optional_line ''Next SOL Withdrawal Fee: '' '' of withdrawal amount''
         (map_option show_fee (cs_next_sol_withdrawal_fee p)) @
       show_deposit_fees dp p @ line [] @ details))"

subsection \<open>The commands\<close>

definition stake_account_info ::
    "config \<Rightarrow> runtime \<Rightarrow> display \<Rightarrow> pubkey \<Rightarrow> u64 \<Rightarrow> validator_stake_info \<Rightarrow>
      cli_error + cli_stake_pool_stake_account_info" where
  "stake_account_info cfg rt dp stake_pool_address epoch validator =
     (let vote = vs_vote_account_address validator;
          stake_account_address =
            fst (find_stake_program_address rt (cfg_stake_pool_program_id cfg) vote stake_pool_address
                   (vs_validator_seed_suffix validator));
          transient_stake_account_address =
            fst (find_transient_stake_program_address rt (cfg_stake_pool_program_id cfg) vote
                   stake_pool_address (vs_transient_seed_suffix validator)) in
      bindE (panic_of (stake_lamports validator)) (\<lambda>validator_lamports.
      Inr \<lparr>ca_vote_account_address = dp_pubkey dp vote,
           ca_stake_account_address = dp_pubkey dp stake_account_address,
           ca_validator_active_stake_lamports = vs_active_stake_lamports validator,
           ca_validator_last_update_epoch = vs_last_update_epoch validator,
           ca_validator_lamports = validator_lamports,
           ca_validator_transient_stake_account_address = dp_pubkey dp transient_stake_account_address,
           ca_validator_transient_stake_lamports = vs_transient_stake_lamports validator,
           ca_update_required = (vs_last_update_epoch validator \<noteq> epoch)\<rparr>))"

fun stake_account_infos ::
    "config \<Rightarrow> runtime \<Rightarrow> display \<Rightarrow> pubkey \<Rightarrow> u64 \<Rightarrow> validator_stake_info list \<Rightarrow>
      cli_error + cli_stake_pool_stake_account_info list" where
  "stake_account_infos cfg rt dp stake_pool_address epoch [] = Inr []"
| "stake_account_infos cfg rt dp stake_pool_address epoch (v # vs) =
     bindE (stake_account_info cfg rt dp stake_pool_address epoch v) (\<lambda>a.
     bindE (stake_account_infos cfg rt dp stake_pool_address epoch vs) (\<lambda>as. Inr (a # as)))"

text \<open>The result is the structure that is printed.\<close>

definition command_list :: "config \<Rightarrow> node \<Rightarrow> runtime \<Rightarrow> display \<Rightarrow> pubkey \<Rightarrow> cli_stake_pool command" where
  "command_list cfg nd rt dp stake_pool_address =
     bindC (pool_at nd stake_pool_address) (\<lambda>stake_pool.
     bindC (list_at nd (sp_validator_list stake_pool)) (\<lambda>validator_list.
     bindC (askC (\<lambda>w. get_token_mint (nd_env nd w) (sp_pool_mint stake_pool))) (\<lambda>decimals.
     bindC (askC (nd_epoch nd)) (\<lambda>epoch.
     let pool_withdraw_authority =
           fst (find_withdraw_authority_program_address rt (cfg_stake_pool_program_id cfg)
                  stake_pool_address) in
     bindC (askC (\<lambda>w. env_get_account (nd_env nd w) (sp_reserve_stake stake_pool))) (\<lambda>reserve_stake.
     bindC (rent_exemption nd STAKE_STATE_LEN) (\<lambda>stake_rent.
     bindC (addC nd stake_rent MINIMUM_RESERVE_LAMPORTS) (\<lambda>minimum_reserve_stake_balance.
     bindC (liftC (stake_account_infos cfg rt dp stake_pool_address epoch (vl_validators validator_list)))
       (\<lambda>stake_accounts.
     bindC (liftC (cli_stake_pool_from dp
              (stake_pool_address, stake_pool, validator_list, pool_withdraw_authority)))
       (\<lambda>cli_stake_pool.
     returnC (cli_stake_pool\<lparr>cs_details := Some
       \<lparr>cd_reserve_stake_account_address = dp_pubkey dp (sp_reserve_stake stake_pool),
        cd_reserve_stake_lamports = acc_lamports reserve_stake,
        cd_minimum_reserve_stake_balance = minimum_reserve_stake_balance,
        cd_stake_accounts = stake_accounts,
        cd_total_lamports = sp_total_lamports stake_pool,
        cd_total_pool_tokens = dp_amount_to_ui_amount dp (sp_pool_token_supply stake_pool) decimals,
        cd_current_number_of_validators = of_nat (length (vl_validators validator_list)),
        cd_max_number_of_validators = vl_max_validators (vl_header validator_list),
        cd_update_required = (sp_last_update_epoch stake_pool \<noteq> epoch)\<rparr>\<rparr>))))))))))"

fun cli_stake_pools_from ::
    "display \<Rightarrow> (pubkey \<times> stake_pool \<times> validator_list \<times> pubkey) list \<Rightarrow> cli_error + cli_stake_pool list" where
  "cli_stake_pools_from dp [] = Inr []"
| "cli_stake_pools_from dp (p # ps) =
     bindE (cli_stake_pool_from dp p) (\<lambda>c.
     bindE (cli_stake_pools_from dp ps) (\<lambda>cs. Inr (c # cs)))"

definition command_list_all_pools :: "config \<Rightarrow> node \<Rightarrow> runtime \<Rightarrow> display \<Rightarrow> cli_stake_pools command" where
  "command_list_all_pools cfg nd rt dp =
     bindC (get_stake_pools nd rt (cfg_stake_pool_program_id cfg)) (\<lambda>all_pools.
     bindC (liftC (cli_stake_pools_from dp all_pools)) (\<lambda>pools.
     returnC \<lparr>cps_pools = pools\<rparr>))"

end
