(* ===== verification/Client_Main.thy ===== *)
theory Client_Main
  imports Client_Output
begin

section \<open>The client as a whole\<close>

text \<open>
  \<open>main\<close> of \<open>src/clients/cli/src/main.rs\<close> after the command line has been split into arguments: the
  configuration and the choice of the command. The table of arguments belongs to another crate: the record
  \<open>arg_matches\<close> has its lookups, and those that read addresses and key files. Reading numbers is written out, as in the standard library;
  floating-point numbers are bit patterns, and the record \<open>floats\<close> converts them. A missing value that the code
  unwraps is a panic, one that ends the program with a message the error \<open>CliExit\<close>.
\<close>

subsection \<open>Reading numbers\<close>

definition digit_of :: "char \<Rightarrow> nat option" where
  "digit_of c = (let k = of_char c in if 48 \<le> k \<and> k \<le> 57 then Some (k - 48) else None)"

fun parse_digits :: "nat \<Rightarrow> nat \<Rightarrow> string \<Rightarrow> nat option" where
  "parse_digits bound acc [] = Some acc"
| "parse_digits bound acc (c # cs) =
     (case digit_of c of
        None \<Rightarrow> None
      | Some d \<Rightarrow> if 10 * acc + d < bound then parse_digits bound (10 * acc + d) cs else None)"

definition parse_uint :: "nat \<Rightarrow> string \<Rightarrow> nat option" where
  "parse_uint bound s =
     (case s of
        [] \<Rightarrow> None
      | c # cs \<Rightarrow>
          if c = CHR ''+'' then (if cs = [] then None else parse_digits bound 0 cs)
          else parse_digits bound 0 (c # cs))"

definition parse_u64 :: "string \<Rightarrow> u64 option" where
  "parse_u64 s = map_option of_nat (parse_uint (2 ^ 64) s)"

definition parse_u32 :: "string \<Rightarrow> u32 option" where
  "parse_u32 s = map_option of_nat (parse_uint (2 ^ 32) s)"

definition parse_u8 :: "string \<Rightarrow> u8 option" where
  "parse_u8 s = map_option of_nat (parse_uint (2 ^ 8) s)"

fun str_contains :: "string \<Rightarrow> string \<Rightarrow> bool" where
  "str_contains [] needle = (needle = [])"
| "str_contains (c # cs) needle =
     (take (length needle) (c # cs) = needle \<or> str_contains cs needle)"

subsection \<open>Arguments\<close>

record arg_matches =
  ag_value_of :: "string \<Rightarrow> string option"
  ag_is_present :: "string \<Rightarrow> bool"
  ag_pubkey_of :: "string \<Rightarrow> pubkey option"
  ag_keypair_of :: "string \<Rightarrow> pubkey option"
  ag_signer_from_path :: "string \<Rightarrow> string \<Rightarrow> bool \<Rightarrow> pubkey option"

record floats =
  fl_parse :: "string \<Rightarrow> u64 option"
  fl_sol_to_lamports :: "u64 \<Rightarrow> u64"
  fl_ui_amount_to_amount :: "u64 \<Rightarrow> u8 \<Rightarrow> u64"

text \<open>The settings of the client that come from its configuration file, and the addresses of the deployed programs.\<close>

record cli_config =
  cc_json_rpc_url :: string
  cc_keypair_path :: string
  cc_stake_pool_id :: pubkey
  cc_devnet_stake_pool_id :: pubkey

definition value_or_exit :: "arg_matches \<Rightarrow> string \<Rightarrow> (string \<Rightarrow> 'a option) \<Rightarrow> cli_error + 'a" where
  "value_or_exit args name parse =
     (case Option.bind (ag_value_of args name) parse of None \<Rightarrow> Inl CliExit | Some x \<Rightarrow> Inr x)"

definition value_or :: "arg_matches \<Rightarrow> string \<Rightarrow> (string \<Rightarrow> 'a option) \<Rightarrow> 'a \<Rightarrow> 'a" where
  "value_or args name parse d = unwrap_or (Option.bind (ag_value_of args name) parse) d"

definition pubkey_arg :: "arg_matches \<Rightarrow> string \<Rightarrow> cli_error + pubkey" where
  "pubkey_arg args name = ok_or (ag_pubkey_of args name) CliPanic"

definition choice_arg :: "arg_matches \<Rightarrow> string \<Rightarrow> (string \<times> 'a) list \<Rightarrow> cli_error + 'a" where
  "choice_arg args name choices = ok_or (Option.bind (ag_value_of args name) (map_of choices)) CliPanic"

definition string_bytes :: "string \<Rightarrow> bytes" where
  "string_bytes s = map of_char s"

definition get_signer :: "arg_matches \<Rightarrow> string \<Rightarrow> string \<Rightarrow> bool \<Rightarrow> cli_error + pubkey" where
  "get_signer args keypair_name keypair_path allow_null_signer =
     (case ag_signer_from_path args (unwrap_or (ag_value_of args keypair_name) keypair_path)
             keypair_name allow_null_signer of
        None \<Rightarrow> Inl CliExit
      | Some k \<Rightarrow> Inr k)"

definition is_compute_unit_limit_or_simulated :: "string \<Rightarrow> bool" where
  "is_compute_unit_limit_or_simulated s \<longleftrightarrow> parse_u32 s \<noteq> None \<or> s = ''DEFAULT''"

definition parse_compute_unit_limit :: "string \<Rightarrow> compute_unit_limit option" where
  "parse_compute_unit_limit s =
     (case parse_u32 s of
        Some limit \<Rightarrow> Some (StaticLimit limit)
      | None \<Rightarrow> if s = ''DEFAULT'' then Some DefaultLimit else None)"

definition default_stake_pool_id :: "cli_config \<Rightarrow> string \<Rightarrow> pubkey" where
  "default_stake_pool_id cc json_rpc_url =
     (if str_contains json_rpc_url ''devnet'' then cc_devnet_stake_pool_id cc else cc_stake_pool_id cc)"

definition main_config :: "cli_config \<Rightarrow> arg_matches \<Rightarrow> cli_error + config" where
  "main_config cc matches =
     (let json_rpc_url = unwrap_or (ag_value_of matches ''json_rpc_url'') (cc_json_rpc_url cc);
          path = cc_keypair_path cc in
      bindE (get_signer matches ''staker'' path False) (\<lambda>staker.
      bindE (if ag_is_present matches ''funding_authority''
             then bindE (get_signer matches ''funding_authority'' path False) (\<lambda>k. Inr (Some k))
             else Inr None) (\<lambda>funding_authority.
      bindE (get_signer matches ''manager'' path False) (\<lambda>manager.
      bindE (get_signer matches ''token_owner'' path False) (\<lambda>token_owner.
      bindE (get_signer matches ''fee_payer'' path False) (\<lambda>fee_payer.
      let stake_pool_program_id =
            unwrap_or (ag_pubkey_of matches ''program_id'') (default_stake_pool_id cc json_rpc_url);
          verbose = ag_is_present matches ''verbose'';
          compute_unit_price = Option.bind (ag_value_of matches ''compute_unit_price'') parse_u64 in
      bindE (case ag_value_of matches ''output_format'' of
               Some x \<Rightarrow> ok_or (map_of [(''json'', Json), (''json-compact'', JsonCompact)] x) CliPanic
             | None \<Rightarrow> Inr (if verbose then DisplayVerbose else Display)) (\<lambda>output_format.
      bindE (case ag_value_of matches ''compute_unit_limit'' of
               Some x \<Rightarrow> ok_or (parse_compute_unit_limit x) CliPanic
             | None \<Rightarrow> Inr (if compute_unit_price \<noteq> None then SimulatedLimit else DefaultLimit))
        (\<lambda>compute_unit_limit.
      Inr \<lparr>cfg_stake_pool_program_id = stake_pool_program_id, cfg_verbose = verbose,
           cfg_output_format = output_format, cfg_manager = manager,
           cfg_staker = staker, cfg_funding_authority = funding_authority,
           cfg_token_owner = token_owner, cfg_fee_payer = fee_payer,
           cfg_dry_run = ag_is_present matches ''dry_run'',
           cfg_no_update = ag_is_present matches ''no_update'',
           cfg_compute_unit_price = compute_unit_price,
           cfg_compute_unit_limit = compute_unit_limit\<rparr>))))))))"

subsection \<open>The commands and their arguments\<close>

text \<open>
  One arm of the dispatch per subcommand: it reads the arguments and gives the command to run.
\<close>

definition arm_create_pool :: "config \<Rightarrow> node \<Rightarrow> runtime \<Rightarrow> arg_matches \<Rightarrow> cli_error + unit command" where
  "arm_create_pool cfg nd rt args =
     (let number = (\<lambda>name. value_or args name parse_u64 0) in
      bindE (value_or_exit args ''epoch_fee_numerator'' parse_u64) (\<lambda>e_numerator.
      bindE (value_or_exit args ''epoch_fee_denominator'' parse_u64) (\<lambda>e_denominator.
      bindE (value_or_exit args ''max_validators'' parse_u32) (\<lambda>max_validators.
      Inr (command_create_pool cfg nd rt (ag_keypair_of args ''deposit_authority'')
        \<lparr>denominator = e_denominator, numerator = e_numerator\<rparr>
        \<lparr>denominator = number ''withdrawal_fee_denominator'', numerator = number ''withdrawal_fee_numerator''\<rparr>
        \<lparr>denominator = number ''deposit_fee_denominator'', numerator = number ''deposit_fee_numerator''\<rparr>
        (value_or args ''referral_fee'' parse_u8 0) max_validators
        (ag_keypair_of args ''pool_keypair'') (ag_keypair_of args ''validator_list_keypair'')
        (ag_keypair_of args ''mint_keypair'') (ag_keypair_of args ''reserve_keypair'')
        (ag_is_present args ''unsafe_fees''))))))"

definition arm_token_metadata ::
    "(pubkey \<Rightarrow> bytes \<Rightarrow> bytes \<Rightarrow> bytes \<Rightarrow> unit command) \<Rightarrow> arg_matches \<Rightarrow> cli_error + unit command" where
  "arm_token_metadata command args =
     bindE (pubkey_arg args ''pool'') (\<lambda>stake_pool_address.
     bindE (value_or_exit args ''name'' Some) (\<lambda>name.
     bindE (value_or_exit args ''symbol'' Some) (\<lambda>symbol.
     bindE (value_or_exit args ''uri'' Some) (\<lambda>uri.
     Inr (command stake_pool_address (string_bytes name) (string_bytes symbol) (string_bytes uri))))))"

definition arm_validator :: "(pubkey \<Rightarrow> pubkey \<Rightarrow> unit command) \<Rightarrow> arg_matches \<Rightarrow> cli_error + unit command" where
  "arm_validator command args =
     bindE (pubkey_arg args ''pool'') (\<lambda>stake_pool_address.
     bindE (pubkey_arg args ''vote_account'') (\<lambda>vote_account.
     Inr (command stake_pool_address vote_account)))"

definition arm_validator_stake ::
    "floats \<Rightarrow> (pubkey \<Rightarrow> pubkey \<Rightarrow> u64 \<Rightarrow> unit command) \<Rightarrow> arg_matches \<Rightarrow> cli_error + unit command" where
  "arm_validator_stake fl command args =
     bindE (pubkey_arg args ''pool'') (\<lambda>stake_pool_address.
     bindE (pubkey_arg args ''vote_account'') (\<lambda>vote_account.
     bindE (value_or_exit args ''amount'' (fl_parse fl)) (\<lambda>amount.
     Inr (command stake_pool_address vote_account (fl_sol_to_lamports fl amount)))))"

definition arm_set_preferred_validator :: "config \<Rightarrow> node \<Rightarrow> arg_matches \<Rightarrow> cli_error + unit command" where
  "arm_set_preferred_validator cfg nd args =
     bindE (pubkey_arg args ''pool'') (\<lambda>stake_pool_address.
     bindE (choice_arg args ''preferred_type'' [(''deposit'', PreferredDeposit), (''withdraw'', PreferredWithdraw)])
       (\<lambda>preferred_type.
     Inr (command_set_preferred_validator cfg nd stake_pool_address preferred_type
       (ag_pubkey_of args ''vote_account''))))"

definition arm_deposit_stake ::
    "config \<Rightarrow> node \<Rightarrow> runtime \<Rightarrow> known_ids \<Rightarrow> cli_config \<Rightarrow> arg_matches \<Rightarrow> cli_error + unit command" where
  "arm_deposit_stake cfg nd rt ids cc args =
     bindE (pubkey_arg args ''pool'') (\<lambda>stake_pool_address.
     bindE (pubkey_arg args ''stake_account'') (\<lambda>stake_account.
     bindE (get_signer args ''withdraw_authority'' (cc_keypair_path cc) False) (\<lambda>withdraw_authority.
     Inr (command_deposit_stake cfg nd rt ids stake_pool_address stake_account withdraw_authority
       (ag_pubkey_of args ''token_receiver'') (ag_pubkey_of args ''referrer'')))))"

definition arm_deposit_sol ::
    "config \<Rightarrow> node \<Rightarrow> runtime \<Rightarrow> known_ids \<Rightarrow> floats \<Rightarrow> arg_matches \<Rightarrow> cli_error + unit command" where
  "arm_deposit_sol cfg nd rt ids fl args =
     bindE (pubkey_arg args ''pool'') (\<lambda>stake_pool_address.
     bindE (value_or_exit args ''amount'' (fl_parse fl)) (\<lambda>amount.
     Inr (command_deposit_sol cfg nd rt ids stake_pool_address (ag_keypair_of args ''from'')
       (ag_pubkey_of args ''token_receiver'') (ag_pubkey_of args ''referrer'')
       (fl_sol_to_lamports fl amount))))"

definition arm_list :: "config \<Rightarrow> node \<Rightarrow> runtime \<Rightarrow> display \<Rightarrow> arg_matches \<Rightarrow> cli_error + unit command" where
  "arm_list cfg nd rt dp args =
     bindE (pubkey_arg args ''pool'') (\<lambda>stake_pool_address.
     Inr (bindC (command_list cfg nd rt dp stake_pool_address) (\<lambda>_. returnC ())))"

definition arm_update :: "config \<Rightarrow> node \<Rightarrow> runtime \<Rightarrow> known_ids \<Rightarrow> arg_matches \<Rightarrow> cli_error + unit command" where
  "arm_update cfg nd rt ids args =
     bindE (pubkey_arg args ''pool'') (\<lambda>stake_pool_address.
     Inr (command_update cfg nd rt ids stake_pool_address (ag_is_present args ''force'')
       (ag_is_present args ''no_merge'') (ag_is_present args ''stale_only'')))"

definition arm_withdraw_stake ::
    "config \<Rightarrow> node \<Rightarrow> runtime \<Rightarrow> known_ids \<Rightarrow> floats \<Rightarrow> arg_matches \<Rightarrow> cli_error + unit command" where
  "arm_withdraw_stake cfg nd rt ids fl args =
     bindE (pubkey_arg args ''pool'') (\<lambda>stake_pool_address.
     bindE (value_or_exit args ''amount'' (fl_parse fl)) (\<lambda>pool_amount.
     Inr (command_withdraw_stake cfg nd rt ids stake_pool_address (ag_is_present args ''use_reserve'')
       (ag_pubkey_of args ''vote_account'') (ag_pubkey_of args ''stake_receiver'')
       (ag_pubkey_of args ''pool_account'') (fl_ui_amount_to_amount fl pool_amount))))"

definition arm_withdraw_sol ::
    "config \<Rightarrow> node \<Rightarrow> runtime \<Rightarrow> known_ids \<Rightarrow> floats \<Rightarrow> cli_config \<Rightarrow> arg_matches \<Rightarrow> cli_error + unit command" where
  "arm_withdraw_sol cfg nd rt ids fl cc args =
     bindE (pubkey_arg args ''pool'') (\<lambda>stake_pool_address.
     bindE (value_or_exit args ''amount'' (fl_parse fl)) (\<lambda>pool_amount.
     bindE (get_signer args ''sol_receiver'' (cc_keypair_path cc) True) (\<lambda>sol_receiver.
     Inr (command_withdraw_sol cfg nd rt ids stake_pool_address (ag_pubkey_of args ''pool_account'')
       sol_receiver (fl_ui_amount_to_amount fl pool_amount)))))"

definition arm_set_manager :: "config \<Rightarrow> node \<Rightarrow> runtime \<Rightarrow> known_ids \<Rightarrow> arg_matches \<Rightarrow> cli_error + unit command" where
  "arm_set_manager cfg nd rt ids args =
     bindE (pubkey_arg args ''pool'') (\<lambda>stake_pool_address.
     bindE (case ag_value_of args ''new_manager'' of
              Some path \<Rightarrow> bindE (get_signer args ''new-manager'' path True) (\<lambda>k. Inr (Some k))
            | None \<Rightarrow> Inr None) (\<lambda>new_manager.
     Inr (command_set_manager cfg nd rt ids stake_pool_address new_manager
       (ag_pubkey_of args ''new_fee_receiver''))))"

definition arm_set_staker :: "config \<Rightarrow> node \<Rightarrow> runtime \<Rightarrow> known_ids \<Rightarrow> arg_matches \<Rightarrow> cli_error + unit command" where
  "arm_set_staker cfg nd rt ids args =
     bindE (pubkey_arg args ''pool'') (\<lambda>stake_pool_address.
     bindE (pubkey_arg args ''new_staker'') (\<lambda>new_staker.
     Inr (command_set_staker cfg nd rt ids stake_pool_address new_staker)))"

definition arm_set_funding_authority ::
    "config \<Rightarrow> node \<Rightarrow> runtime \<Rightarrow> known_ids \<Rightarrow> arg_matches \<Rightarrow> cli_error + unit command" where
  "arm_set_funding_authority cfg nd rt ids args =
     bindE (pubkey_arg args ''pool'') (\<lambda>stake_pool_address.
     bindE (choice_arg args ''funding_type''
              [(''sol-deposit'', FundingSolDeposit), (''stake-deposit'', FundingStakeDeposit),
               (''sol-withdraw'', FundingSolWithdraw)]) (\<lambda>funding_type.
     Inr (command_set_funding_authority cfg nd rt ids stake_pool_address (ag_pubkey_of args ''new_authority'')
       funding_type)))"

definition arm_set_fee :: "config \<Rightarrow> node \<Rightarrow> runtime \<Rightarrow> known_ids \<Rightarrow> arg_matches \<Rightarrow> cli_error + unit command" where
  "arm_set_fee cfg nd rt ids args =
     bindE (pubkey_arg args ''pool'') (\<lambda>stake_pool_address.
     bindE (value_or_exit args ''fee_numerator'' parse_u64) (\<lambda>num.
     bindE (value_or_exit args ''fee_denominator'' parse_u64) (\<lambda>denom.
     bindE (choice_arg args ''fee_type''
              [(''epoch'', Epoch), (''stake-deposit'', StakeDeposit), (''sol-deposit'', SolDeposit),
               (''stake-withdrawal'', StakeWithdrawal), (''sol-withdrawal'', SolWithdrawal)])
       (\<lambda>fee_type.
     Inr (command_set_fee cfg nd rt ids stake_pool_address
       (fee_type \<lparr>denominator = denom, numerator = num\<rparr>))))))"

definition arm_set_referral_fee ::
    "config \<Rightarrow> node \<Rightarrow> runtime \<Rightarrow> known_ids \<Rightarrow> arg_matches \<Rightarrow> cli_error + unit command" where
  "arm_set_referral_fee cfg nd rt ids args =
     bindE (pubkey_arg args ''pool'') (\<lambda>stake_pool_address.
     bindE (value_or_exit args ''fee'' parse_u8) (\<lambda>fee.
     if \<not> fee \<le> 100 then Inl CliPanic
     else
       bindE (choice_arg args ''fee_type'' [(''sol'', SolReferral), (''stake'', StakeReferral)])
         (\<lambda>fee_type.
       Inr (command_set_fee cfg nd rt ids stake_pool_address (fee_type fee)))))"

definition arm_set_max_validator_stake ::
    "config \<Rightarrow> node \<Rightarrow> runtime \<Rightarrow> known_ids \<Rightarrow> floats \<Rightarrow> arg_matches \<Rightarrow> cli_error + unit command" where
  "arm_set_max_validator_stake cfg nd rt ids fl args =
     bindE (pubkey_arg args ''pool'') (\<lambda>stake_pool_address.
     bindE (ok_or (ag_value_of args ''max_stake'') CliPanic) (\<lambda>max_stake.
     bindE (if max_stake = ''none'' then Inr None
            else (case fl_parse fl max_stake of
                    None \<Rightarrow> Inl CliExit
                  | Some amount \<Rightarrow> Inr (Some (fl_sol_to_lamports fl amount)))) (\<lambda>max_stake.
     Inr (command_set_max_validator_stake cfg nd rt ids stake_pool_address max_stake))))"

definition arm_deposit_all_stake ::
    "config \<Rightarrow> node \<Rightarrow> runtime \<Rightarrow> known_ids \<Rightarrow> cli_config \<Rightarrow> arg_matches \<Rightarrow> cli_error + unit command" where
  "arm_deposit_all_stake cfg nd rt ids cc args =
     bindE (pubkey_arg args ''pool'') (\<lambda>stake_pool_address.
     bindE (pubkey_arg args ''stake_authority'') (\<lambda>stake_authority.
     bindE (get_signer args ''withdraw_authority'' (cc_keypair_path cc) False) (\<lambda>withdraw_authority.
     Inr (command_deposit_all_stake cfg nd rt ids stake_pool_address stake_authority withdraw_authority
       (ag_pubkey_of args ''token_receiver'') (ag_pubkey_of args ''referrer'')))))"

text \<open>The commands by name, and the whole program.\<close>

definition subcommands ::
    "config \<Rightarrow> node \<Rightarrow> runtime \<Rightarrow> known_ids \<Rightarrow> floats \<Rightarrow> display \<Rightarrow> cli_config \<Rightarrow>
      (string \<times> (arg_matches \<Rightarrow> cli_error + unit command)) list" where
  "subcommands cfg nd rt ids fl dp cc =
     [(''create-pool'', arm_create_pool cfg nd rt),
      (''create-token-metadata'', arm_token_metadata (create_token_metadata cfg nd rt)),
      (''update-token-metadata'', arm_token_metadata (update_token_metadata cfg nd rt)),
      (''add-validator'', arm_validator (command_vsa_add cfg nd rt ids)),
      (''remove-validator'', arm_validator (command_vsa_remove cfg nd rt ids)),
      (''increase-validator-stake'', arm_validator_stake fl (command_increase_validator_stake cfg nd rt ids)),
      (''decrease-validator-stake'', arm_validator_stake fl (command_decrease_validator_stake cfg nd rt ids)),
      (''set-preferred-validator'', arm_set_preferred_validator cfg nd),
      (''deposit-stake'', arm_deposit_stake cfg nd rt ids cc),
      (''deposit-sol'', arm_deposit_sol cfg nd rt ids fl),
      (''list'', arm_list cfg nd rt dp),
      (''update'', arm_update cfg nd rt ids),
      (''withdraw-stake'', arm_withdraw_stake cfg nd rt ids fl),
      (''withdraw-sol'', arm_withdraw_sol cfg nd rt ids fl cc),
      (''set-manager'', arm_set_manager cfg nd rt ids),
      (''set-staker'', arm_set_staker cfg nd rt ids),
      (''set-funding-authority'', arm_set_funding_authority cfg nd rt ids),
      (''set-fee'', arm_set_fee cfg nd rt ids),
      (''set-referral-fee'', arm_set_referral_fee cfg nd rt ids),
      (''set-max-validator-stake'', arm_set_max_validator_stake cfg nd rt ids fl),
      (''list-all'', \<lambda>_. Inr (bindC (command_list_all_pools cfg nd rt dp) (\<lambda>_. returnC ()))),
      (''deposit-all-stake'', arm_deposit_all_stake cfg nd rt ids cc)]"

definition run_arm :: "cli_error + unit command \<Rightarrow> unit command" where
  "run_arm arm = bindC (liftC arm) (\<lambda>command. command)"

definition client_main ::
    "node \<Rightarrow> runtime \<Rightarrow> known_ids \<Rightarrow> floats \<Rightarrow> display \<Rightarrow> cli_config \<Rightarrow> arg_matches \<Rightarrow> string \<Rightarrow> arg_matches \<Rightarrow>
      unit command" where
  "client_main nd rt ids fl dp cc matches subcommand args =
     bindC (liftC (main_config cc matches)) (\<lambda>cfg.
     case map_of (subcommands cfg nd rt ids fl dp cc) subcommand of
       Some arm \<Rightarrow> run_arm (arm args)
     | None \<Rightarrow> throwC CliPanic)"

end
