(* ===== verification/Client_Arguments.thy ===== *)
theory Client_Arguments
  imports Client_Main
begin

section \<open>The arguments of the client\<close>

text \<open>
  The declaration of the command line in \<open>main\<close> of \<open>src/clients/cli/src/main.rs\<close>, as a table: global
  arguments, and per subcommand its arguments and groups. Names of values and help texts are left out.
  The parser that reads a command line by this table is code of another crate, and so are most validators:
  \<open>fits\<close> says what its documentation promises of the arguments it accepts.
\<close>

subsection \<open>Declarations\<close>

datatype arg_check =
    Unchecked
  | IsUrl
  | IsValidSigner
  | IsPubkey
  | IsValidPubkey
  | IsKeypairOrAskKeyword
  | IsAmount
  | IsValidPercentage
  | IsParsableU64
  | IsParsableU32
  | IsComputeUnitLimit
  | PossibleValues "string list"

record arg =
  ar_name :: string
  ar_long :: "string option"
  ar_short :: "char option"
  ar_index :: "nat option"
  ar_takes_value :: bool
  ar_required :: bool
  ar_requires :: "string option"
  ar_check :: arg_check

record arg_group =
  gr_name :: string
  gr_args :: "string list"
  gr_required :: bool
  gr_multiple :: bool

record arg_table =
  de_name :: string
  de_args :: "arg list"
  de_groups :: "arg_group list"

text \<open>\<open>Arg::with_name\<close>, and the combinations of its builders that the table uses.\<close>

definition with_name :: "string \<Rightarrow> arg" where
  "with_name name =
     \<lparr>ar_name = name, ar_long = None, ar_short = None, ar_index = None, ar_takes_value = False,
      ar_required = False, ar_requires = None, ar_check = Unchecked\<rparr>"

definition flag :: "string \<Rightarrow> string \<Rightarrow> arg" where
  "flag name long = (with_name name)\<lparr>ar_long := Some long\<rparr>"

definition option_arg :: "string \<Rightarrow> string \<Rightarrow> arg_check \<Rightarrow> arg" where
  "option_arg name long check = (flag name long)\<lparr>ar_takes_value := True, ar_check := check\<rparr>"

definition optional_at :: "nat \<Rightarrow> string \<Rightarrow> arg_check \<Rightarrow> arg" where
  "optional_at i name check =
     (with_name name)\<lparr>ar_index := Some i, ar_takes_value := True, ar_check := check\<rparr>"

definition required_at :: "nat \<Rightarrow> string \<Rightarrow> arg_check \<Rightarrow> arg" where
  "required_at i name check = (optional_at i name check)\<lparr>ar_required := True\<rparr>"

lemmas arg_builders = with_name_def flag_def option_arg_def optional_at_def required_at_def

subsection \<open>The table\<close>

text \<open>
  The arguments before a subcommand; all of them are global. The argument for the price of compute units is
  declared by another crate and gets a validator here. The default of \<open>config_file\<close> comes from another crate, too: the
  parser gives it as the value of an argument that was left out.
\<close>

definition global_args :: "arg \<Rightarrow> arg list" where
  "global_args compute_unit_price_arg =
     [(option_arg ''config_file'' ''config'' Unchecked)\<lparr>ar_short := Some CHR ''C''\<rparr>,
      (flag ''verbose'' ''verbose'')\<lparr>ar_short := Some CHR ''v''\<rparr>,
      option_arg ''output_format'' ''output'' (PossibleValues [''json'', ''json-compact'']),
      flag ''dry_run'' ''dry-run'',
      flag ''no_update'' ''no-update'',
      option_arg ''json_rpc_url'' ''url'' IsUrl,
      option_arg ''staker'' ''staker'' IsValidSigner,
      option_arg ''manager'' ''manager'' IsValidSigner,
      option_arg ''funding_authority'' ''funding-authority'' IsValidSigner,
      option_arg ''token_owner'' ''token-owner'' IsValidSigner,
      option_arg ''fee_payer'' ''fee-payer'' IsValidSigner,
      compute_unit_price_arg\<lparr>ar_check := IsParsableU64\<rparr>,
      option_arg ''compute_unit_limit'' ''--with-compute-unit-limit'' IsComputeUnitLimit,
      option_arg ''program_id'' ''program-id'' IsPubkey]"

definition declare_create_pool :: arg_table where
  "declare_create_pool =
     \<lparr>de_name = ''create-pool'',
      de_args =
        [(option_arg ''epoch_fee_numerator'' ''epoch-fee-numerator'' IsParsableU64)
           \<lparr>ar_short := Some CHR ''n'', ar_required := True\<rparr>,
         (option_arg ''epoch_fee_denominator'' ''epoch-fee-denominator'' IsParsableU64)
           \<lparr>ar_short := Some CHR ''d'', ar_required := True\<rparr>,
         (option_arg ''withdrawal_fee_numerator'' ''withdrawal-fee-numerator'' IsParsableU64)
           \<lparr>ar_requires := Some ''withdrawal_fee_denominator''\<rparr>,
         (option_arg ''withdrawal_fee_denominator'' ''withdrawal-fee-denominator'' IsParsableU64)
           \<lparr>ar_requires := Some ''withdrawal_fee_numerator''\<rparr>,
         (option_arg ''deposit_fee_numerator'' ''deposit-fee-numerator'' IsParsableU64)
           \<lparr>ar_requires := Some ''deposit_fee_denominator''\<rparr>,
         (option_arg ''deposit_fee_denominator'' ''deposit-fee-denominator'' IsParsableU64)
           \<lparr>ar_requires := Some ''deposit_fee_numerator''\<rparr>,
         option_arg ''referral_fee'' ''referral-fee'' IsValidPercentage,
         (option_arg ''max_validators'' ''max-validators'' IsParsableU32)
           \<lparr>ar_short := Some CHR ''m'', ar_required := True\<rparr>,
         (option_arg ''deposit_authority'' ''deposit-authority'' IsValidSigner)\<lparr>ar_short := Some CHR ''a''\<rparr>,
         (option_arg ''pool_keypair'' ''pool-keypair'' IsKeypairOrAskKeyword)\<lparr>ar_short := Some CHR ''p''\<rparr>,
         option_arg ''validator_list_keypair'' ''validator-list-keypair'' IsKeypairOrAskKeyword,
         option_arg ''mint_keypair'' ''mint-keypair'' IsKeypairOrAskKeyword,
         option_arg ''reserve_keypair'' ''reserve-keypair'' IsKeypairOrAskKeyword,
         flag ''unsafe_fees'' ''unsafe-fees''],
      de_groups = []\<rparr>"

definition declare_create_token_metadata :: arg_table where
  "declare_create_token_metadata =
     \<lparr>de_name = ''create-token-metadata'',
      de_args = [required_at 1 ''pool'' IsPubkey, required_at 2 ''name'' Unchecked,
                 required_at 3 ''symbol'' Unchecked, required_at 4 ''uri'' Unchecked],
      de_groups = []\<rparr>"

definition declare_update_token_metadata :: arg_table where
  "declare_update_token_metadata =
     \<lparr>de_name = ''update-token-metadata'',
      de_args = [required_at 1 ''pool'' IsPubkey, required_at 2 ''name'' Unchecked,
                 required_at 3 ''symbol'' Unchecked, required_at 4 ''uri'' Unchecked],
      de_groups = []\<rparr>"

definition declare_add_validator :: arg_table where
  "declare_add_validator =
     \<lparr>de_name = ''add-validator'',
      de_args = [required_at 1 ''pool'' IsPubkey, required_at 2 ''vote_account'' IsPubkey],
      de_groups = []\<rparr>"

definition declare_remove_validator :: arg_table where
  "declare_remove_validator =
     \<lparr>de_name = ''remove-validator'',
      de_args = [required_at 1 ''pool'' IsPubkey, required_at 2 ''vote_account'' IsPubkey],
      de_groups = []\<rparr>"

definition declare_increase_validator_stake :: arg_table where
  "declare_increase_validator_stake =
     \<lparr>de_name = ''increase-validator-stake'',
      de_args = [required_at 1 ''pool'' IsPubkey, required_at 2 ''vote_account'' IsPubkey,
                 optional_at 3 ''amount'' IsAmount],
      de_groups = []\<rparr>"

definition declare_decrease_validator_stake :: arg_table where
  "declare_decrease_validator_stake =
     \<lparr>de_name = ''decrease-validator-stake'',
      de_args = [required_at 1 ''pool'' IsPubkey, required_at 2 ''vote_account'' IsPubkey,
                 optional_at 3 ''amount'' IsAmount],
      de_groups = []\<rparr>"

definition declare_set_preferred_validator :: arg_table where
  "declare_set_preferred_validator =
     \<lparr>de_name = ''set-preferred-validator'',
      de_args = [required_at 1 ''pool'' IsPubkey,
                 required_at 2 ''preferred_type'' (PossibleValues [''deposit'', ''withdraw'']),
                 option_arg ''vote_account'' ''vote-account'' IsPubkey,
                 flag ''unset'' ''unset''],
      de_groups = [\<lparr>gr_name = ''validator'', gr_args = [''vote_account'', ''unset''],
                    gr_required = True, gr_multiple = False\<rparr>]\<rparr>"

text \<open>An argument with neither an index nor an option name is positional: \<open>referrer\<close> of the stake deposits.\<close>

definition declare_deposit_stake :: arg_table where
  "declare_deposit_stake =
     \<lparr>de_name = ''deposit-stake'',
      de_args = [required_at 1 ''pool'' IsPubkey, required_at 2 ''stake_account'' IsPubkey,
                 option_arg ''withdraw_authority'' ''withdraw-authority'' IsValidSigner,
                 option_arg ''token_receiver'' ''token-receiver'' IsPubkey,
                 (with_name ''referrer'')\<lparr>ar_takes_value := True, ar_check := IsPubkey\<rparr>],
      de_groups = []\<rparr>"

definition declare_deposit_all_stake :: arg_table where
  "declare_deposit_all_stake =
     \<lparr>de_name = ''deposit-all-stake'',
      de_args = [required_at 1 ''pool'' IsPubkey, required_at 2 ''stake_authority'' IsPubkey,
                 option_arg ''withdraw_authority'' ''withdraw-authority'' IsValidSigner,
                 option_arg ''token_receiver'' ''token-receiver'' IsPubkey,
                 (with_name ''referrer'')\<lparr>ar_takes_value := True, ar_check := IsPubkey\<rparr>],
      de_groups = []\<rparr>"

definition declare_deposit_sol :: arg_table where
  "declare_deposit_sol =
     \<lparr>de_name = ''deposit-sol'',
      de_args = [required_at 1 ''pool'' IsPubkey, optional_at 2 ''amount'' IsAmount,
                 option_arg ''from'' ''from'' IsValidSigner,
                 option_arg ''token_receiver'' ''token-receiver'' IsPubkey,
                 option_arg ''referrer'' ''referrer'' IsPubkey],
      de_groups = []\<rparr>"

definition declare_list :: arg_table where
  "declare_list = \<lparr>de_name = ''list'', de_args = [required_at 1 ''pool'' IsPubkey], de_groups = []\<rparr>"

definition declare_update :: arg_table where
  "declare_update =
     \<lparr>de_name = ''update'',
      de_args = [required_at 1 ''pool'' IsPubkey, flag ''force'' ''force'', flag ''no_merge'' ''no-merge'',
                 flag ''stale_only'' ''stale-only''],
      de_groups = []\<rparr>"

definition declare_withdraw_stake :: arg_table where
  "declare_withdraw_stake =
     \<lparr>de_name = ''withdraw-stake'',
      de_args = [required_at 1 ''pool'' IsPubkey, required_at 2 ''amount'' IsAmount,
                 option_arg ''pool_account'' ''pool-account'' IsPubkey,
                 (option_arg ''stake_receiver'' ''stake-receiver'' IsPubkey)
                   \<lparr>ar_requires := Some ''withdraw_from''\<rparr>,
                 option_arg ''vote_account'' ''vote-account'' IsPubkey,
                 flag ''use_reserve'' ''use-reserve''],
      de_groups = [\<lparr>gr_name = ''withdraw_from'', gr_args = [''use_reserve'', ''vote_account''],
                    gr_required = False, gr_multiple = False\<rparr>]\<rparr>"

definition declare_withdraw_sol :: arg_table where
  "declare_withdraw_sol =
     \<lparr>de_name = ''withdraw-sol'',
      de_args = [required_at 1 ''pool'' IsPubkey, required_at 2 ''sol_receiver'' IsValidPubkey,
                 required_at 3 ''amount'' IsAmount,
                 option_arg ''pool_account'' ''pool-account'' IsPubkey],
      de_groups = []\<rparr>"

definition declare_set_manager :: arg_table where
  "declare_set_manager =
     \<lparr>de_name = ''set-manager'',
      de_args = [required_at 1 ''pool'' IsPubkey,
                 option_arg ''new_manager'' ''new-manager'' IsValidSigner,
                 option_arg ''new_fee_receiver'' ''new-fee-receiver'' IsPubkey],
      de_groups = [\<lparr>gr_name = ''new_accounts'', gr_args = [''new_manager'', ''new_fee_receiver''],
                    gr_required = True, gr_multiple = True\<rparr>]\<rparr>"

definition declare_set_staker :: arg_table where
  "declare_set_staker =
     \<lparr>de_name = ''set-staker'',
      de_args = [required_at 1 ''pool'' IsPubkey, optional_at 2 ''new_staker'' IsPubkey],
      de_groups = []\<rparr>"

definition declare_set_funding_authority :: arg_table where
  "declare_set_funding_authority =
     \<lparr>de_name = ''set-funding-authority'',
      de_args = [required_at 1 ''pool'' IsPubkey,
                 required_at 2 ''funding_type'' (PossibleValues [''stake-deposit'', ''sol-deposit'', ''sol-withdraw'']),
                 optional_at 3 ''new_authority'' IsPubkey,
                 flag ''unset'' ''unset''],
      de_groups = [\<lparr>gr_name = ''validator'', gr_args = [''new_authority'', ''unset''],
                    gr_required = True, gr_multiple = False\<rparr>]\<rparr>"

definition declare_set_fee :: arg_table where
  "declare_set_fee =
     \<lparr>de_name = ''set-fee'',
      de_args = [required_at 1 ''pool'' IsPubkey,
                 required_at 2 ''fee_type'' (PossibleValues [''epoch'', ''stake-deposit'', ''sol-deposit'',
                   ''stake-withdrawal'', ''sol-withdrawal'']),
                 required_at 3 ''fee_numerator'' IsParsableU64,
                 required_at 4 ''fee_denominator'' IsParsableU64],
      de_groups = []\<rparr>"

definition declare_set_referral_fee :: arg_table where
  "declare_set_referral_fee =
     \<lparr>de_name = ''set-referral-fee'',
      de_args = [required_at 1 ''pool'' IsPubkey,
                 required_at 2 ''fee_type'' (PossibleValues [''stake'', ''sol'']),
                 required_at 3 ''fee'' IsValidPercentage],
      de_groups = []\<rparr>"

definition declare_set_max_validator_stake :: arg_table where
  "declare_set_max_validator_stake =
     \<lparr>de_name = ''set-max-validator-stake'',
      de_args = [required_at 1 ''pool'' IsPubkey, required_at 2 ''max_stake'' Unchecked],
      de_groups = []\<rparr>"

definition declare_list_all :: arg_table where
  "declare_list_all = \<lparr>de_name = ''list-all'', de_args = [], de_groups = []\<rparr>"

definition app_declarations :: "arg_table list" where
  "app_declarations =
     [declare_create_pool, declare_create_token_metadata, declare_update_token_metadata, declare_add_validator,
      declare_remove_validator, declare_increase_validator_stake, declare_decrease_validator_stake,
      declare_set_preferred_validator, declare_deposit_stake, declare_deposit_all_stake, declare_deposit_sol,
      declare_list, declare_update, declare_withdraw_stake, declare_withdraw_sol, declare_set_manager,
      declare_set_staker, declare_set_funding_authority, declare_set_fee, declare_set_referral_fee,
      declare_set_max_validator_stake, declare_list_all]"

lemmas declare_defs = declare_create_pool_def declare_create_token_metadata_def declare_update_token_metadata_def
  declare_add_validator_def declare_remove_validator_def declare_increase_validator_stake_def
  declare_decrease_validator_stake_def declare_set_preferred_validator_def declare_deposit_stake_def
  declare_deposit_all_stake_def declare_deposit_sol_def declare_list_def declare_update_def
  declare_withdraw_stake_def declare_withdraw_sol_def declare_set_manager_def declare_set_staker_def
  declare_set_funding_authority_def declare_set_fee_def declare_set_referral_fee_def
  declare_set_max_validator_stake_def declare_list_all_def

subsection \<open>What the parser accepts\<close>

text \<open>
  The validators of other crates. \<open>is_parsable\<close> parses, as the standard library does, and
  \<open>possible_values\<close> lists the values.
\<close>

record validators =
  vd_is_url :: "string \<Rightarrow> bool"
  vd_is_valid_signer :: "string \<Rightarrow> bool"
  vd_is_pubkey :: "string \<Rightarrow> bool"
  vd_is_valid_pubkey :: "string \<Rightarrow> bool"
  vd_is_keypair_or_ask_keyword :: "string \<Rightarrow> bool"
  vd_is_amount :: "string \<Rightarrow> bool"
  vd_is_valid_percentage :: "string \<Rightarrow> bool"

fun check_value :: "validators \<Rightarrow> arg_check \<Rightarrow> string \<Rightarrow> bool" where
  "check_value vd Unchecked s = True"
| "check_value vd IsUrl s = vd_is_url vd s"
| "check_value vd IsValidSigner s = vd_is_valid_signer vd s"
| "check_value vd IsPubkey s = vd_is_pubkey vd s"
| "check_value vd IsValidPubkey s = vd_is_valid_pubkey vd s"
| "check_value vd IsKeypairOrAskKeyword s = vd_is_keypair_or_ask_keyword vd s"
| "check_value vd IsAmount s = vd_is_amount vd s"
| "check_value vd IsValidPercentage s = vd_is_valid_percentage vd s"
| "check_value vd IsParsableU64 s = (parse_u64 s \<noteq> None)"
| "check_value vd IsParsableU32 s = (parse_u32 s \<noteq> None)"
| "check_value vd IsComputeUnitLimit s = is_compute_unit_limit_or_simulated s"
| "check_value vd (PossibleValues values) s = (s \<in> set values)"

text \<open>
  An argument as declared: required ones have a value, a value passes its validator, and an argument that
  requires another one, or one of a group, comes with it.
\<close>

definition arg_fits :: "validators \<Rightarrow> arg_group list \<Rightarrow> arg_matches \<Rightarrow> arg \<Rightarrow> bool" where
  "arg_fits vd groups args a \<longleftrightarrow>
     (ar_required a \<longrightarrow> ag_value_of args (ar_name a) \<noteq> None) \<and>
     (case ag_value_of args (ar_name a) of None \<Rightarrow> True | Some s \<Rightarrow> check_value vd (ar_check a) s) \<and>
     (ar_takes_value a \<longrightarrow> (ag_is_present args (ar_name a) \<longleftrightarrow> ag_value_of args (ar_name a) \<noteq> None)) \<and>
     (case ar_requires a of
        None \<Rightarrow> True
      | Some other \<Rightarrow> ag_is_present args (ar_name a) \<longrightarrow>
          (case find (\<lambda>g. gr_name g = other) groups of
             Some g \<Rightarrow> list_ex (ag_is_present args) (gr_args g)
           | None \<Rightarrow> ag_is_present args other))"

text \<open>A group: at least one of its arguments when it is required, at most one unless it allows more.\<close>

definition group_fits :: "arg_matches \<Rightarrow> arg_group \<Rightarrow> bool" where
  "group_fits args g \<longleftrightarrow>
     (gr_required g \<longrightarrow> list_ex (ag_is_present args) (gr_args g)) \<and>
     (gr_multiple g \<or> length (filter (ag_is_present args) (gr_args g)) \<le> 1)"

definition fits :: "validators \<Rightarrow> arg_table \<Rightarrow> arg_matches \<Rightarrow> bool" where
  "fits vd d args \<longleftrightarrow>
     list_all (arg_fits vd (de_groups d) args) (de_args d) \<and> list_all (group_fits args) (de_groups d)"

lemmas fits_defs = fits_def arg_fits_def group_fits_def

text \<open>
  What the other crates document: an address that its validator accepts is read as an address, an argument without
  a value as none; an amount is a number, and a percentage a number up to 100.
\<close>

definition reads_addresses :: "validators \<Rightarrow> arg_matches \<Rightarrow> bool" where
  "reads_addresses vd args \<longleftrightarrow>
     (\<forall>name. case ag_value_of args name of
        None \<Rightarrow> ag_pubkey_of args name = None
      | Some s \<Rightarrow> vd_is_pubkey vd s \<longrightarrow> ag_pubkey_of args name \<noteq> None)"

definition validators_ok :: "validators \<Rightarrow> floats \<Rightarrow> bool" where
  "validators_ok vd fl \<longleftrightarrow>
     (\<forall>s. vd_is_amount vd s \<longrightarrow> fl_parse fl s \<noteq> None) \<and>
     (\<forall>s. vd_is_valid_percentage vd s \<longrightarrow> (\<exists>p. parse_u8 s = Some p \<and> p \<le> 100))"

text \<open>What the parser documents: it returns arguments that fit the table, for a subcommand of the table.\<close>

definition parser_ok ::
    "validators \<Rightarrow> arg \<Rightarrow>
      (arg list \<Rightarrow> arg_table list \<Rightarrow> (arg_matches \<times> string \<times> arg_matches) option) \<Rightarrow> bool" where
  "parser_ok vd compute_unit_price_arg get_matches \<longleftrightarrow>
     (case get_matches (global_args compute_unit_price_arg) app_declarations of
        None \<Rightarrow> True
      | Some (matches, name, args) \<Rightarrow>
          list_all (arg_fits vd [] matches) (global_args compute_unit_price_arg) \<and>
          reads_addresses vd args \<and> list_ex (\<lambda>d. de_name d = name \<and> fits vd d args) app_declarations)"

subsection \<open>The whole program\<close>

text \<open>The configuration file, by a reader of another crate.\<close>

definition read_cli_config :: "(string \<Rightarrow> cli_config option) \<Rightarrow> cli_config \<Rightarrow> arg_matches \<Rightarrow> cli_config" where
  "read_cli_config load default_config matches =
     (case ag_value_of matches ''config_file'' of
        Some config_file \<Rightarrow> unwrap_or (load config_file) default_config
      | None \<Rightarrow> default_config)"

text \<open>\<open>main\<close>. The parser ends the program when the command line does not fit the table.\<close>

definition cli_main ::
    "(arg list \<Rightarrow> arg_table list \<Rightarrow> (arg_matches \<times> string \<times> arg_matches) option) \<Rightarrow> arg \<Rightarrow>
      (string \<Rightarrow> cli_config option) \<Rightarrow> cli_config \<Rightarrow>
      node \<Rightarrow> runtime \<Rightarrow> known_ids \<Rightarrow> floats \<Rightarrow> display \<Rightarrow> unit command" where
  "cli_main get_matches compute_unit_price_arg load default_config nd rt ids fl dp =
     (case get_matches (global_args compute_unit_price_arg) app_declarations of
        None \<Rightarrow> throwC CliExit
      | Some (matches, subcommand, args) \<Rightarrow>
          client_main nd rt ids fl dp (read_cli_config load default_config matches) matches subcommand args)"

end
