(* ===== verification/Client_Frames.thy ===== *)
theory Client_Frames
  imports Client_Main
begin

section \<open>What every command keeps\<close>

text \<open>
  A relation between the session before and after a command. The locale \<open>session_relation\<close> asks for
  the laws of a preorder that a new key pair and a transaction in the name of the fee payer respect,
  and shows that every command, and so the whole client, respects it: a command
  does nothing to a session but through these two steps.
\<close>

definition keeps :: "(session \<Rightarrow> session \<Rightarrow> bool) \<Rightarrow> 'a command \<Rightarrow> bool" where
  "keeps R m \<longleftrightarrow> (\<forall>s. R s (snd (m s)))"

text \<open>A transaction in the name of the fee payer.\<close>

definition paid_by_fee_payer :: "config \<Rightarrow> transaction \<Rightarrow> bool" where
  "paid_by_fee_payer cfg tx \<longleftrightarrow> tx_payer tx = cfg_fee_payer cfg \<and> cfg_fee_payer cfg \<in> set (tx_signers tx)"

named_theorems keep_rules

locale session_relation =
  fixes R :: "session \<Rightarrow> session \<Rightarrow> bool" and cfg :: config and nd :: node
  assumes R_refl: "R s s"
    and R_trans: "R s t \<Longrightarrow> R t u \<Longrightarrow> R s u"
    and R_keys: "R s (s\<lparr>se_keys := Suc (se_keys s)\<rparr>)"
    and R_send: "paid_by_fee_payer cfg tx \<Longrightarrow> R s (snd (send_transaction cfg nd tx s))"
    and R_send_no_wait: "paid_by_fee_payer cfg tx \<Longrightarrow> R s (snd (send_transaction_no_wait cfg nd tx s))"
begin

lemma keeps_basic [keep_rules]:
  "keeps R (returnC x)" "keeps R (throwC e)" "keeps R (askC q)" "keeps R (liftC r)" "keeps R (new_keypair nd)"
  by (simp_all add: keeps_def returnC_def throwC_def askC_def liftC_def new_keypair_def R_refl R_keys)

lemma keeps_bindC [keep_rules]:
  assumes "keeps R m" "\<And>x. keeps R (f x)"
  shows "keeps R (bindC m f)"
  unfolding keeps_def
proof
  fix s
  obtain r t where m: "m s = (r, t)" by fastforce
  with assms(1) have st: "R s t" by (metis keeps_def snd_conv)
  then show "R s (snd (bindC m f s))"
    using assms(2) R_trans [OF st] by (auto simp: bindC_def m keeps_def split: sum.splits)
qed

text \<open>A transaction that was built is paid by the fee payer, and nothing is sent before it.\<close>

lemma keeps_checked:
  assumes "\<And>tx. tx_payer tx = cfg_fee_payer cfg \<Longrightarrow> tx_signers tx = signers \<Longrightarrow> keeps R (f tx)"
  shows "keeps R (bindC (checked_transaction_with_signers_and_additional_fee cfg nd ixs signers fee) f)"
  unfolding keeps_def
proof
  fix s
  let ?m = "checked_transaction_with_signers_and_additional_fee cfg nd ixs signers fee"
  obtain r t where m: "?m s = (r, t)" by fastforce
  have "t = s \<and> (\<forall>tx. r = Inr tx \<longrightarrow> tx_payer tx = cfg_fee_payer cfg \<and> tx_signers tx = signers)"
    using m
    by (auto simp: checked_transaction_with_signers_and_additional_fee_def bindC_def askC_def liftC_def returnC_def
        throwC_def check_fee_payer_balance_def add_compute_unit_limit_from_simulation_def Let_def
        split: sum.splits prod.splits option.splits compute_unit_limit.splits if_splits)
  then show "R s (snd (bindC ?m f s))"
    using assms R_refl by (auto simp: bindC_def m keeps_def split: sum.splits)
qed

lemma keeps_submit [keep_rules]:
  assumes "cfg_fee_payer cfg \<in> set signers"
  shows "keeps R (submit cfg nd ixs signers fee)"
  unfolding submit_def using assms
  by (intro keeps_checked) (simp add: keeps_def paid_by_fee_payer_def R_send)

lemma keeps_send_updates [keep_rules]: "keeps R (send_updates cfg nd ixs)"
proof (induction ixs)
  case (Cons ix ixs)
  then show ?case unfolding send_updates.simps checked_transaction_with_signers_def
    by (intro keeps_checked keeps_bindC) (simp_all add: keeps_def paid_by_fee_payer_def R_send_no_wait)
qed (simp add: keeps_basic)

text \<open>Branches.\<close>

lemma keeps_branches [keep_rules]:
  "(b \<Longrightarrow> keeps R m1) \<Longrightarrow> (\<not> b \<Longrightarrow> keeps R m2) \<Longrightarrow> keeps R (if b then m1 else m2)"
  "keeps R m3 \<Longrightarrow> (\<And>x. keeps R (f x)) \<Longrightarrow> keeps R (case v of None \<Rightarrow> m3 | Some x \<Rightarrow> f x)"
  "(\<And>e. keeps R (g e)) \<Longrightarrow> (\<And>x. keeps R (h x)) \<Longrightarrow> keeps R (case r of Inl e \<Rightarrow> g e | Inr x \<Rightarrow> h x)"
  "(\<And>x y. keeps R (k x y)) \<Longrightarrow> keeps R (case p of (x, y) \<Rightarrow> k x y)"
  by (simp_all split: option.splits sum.splits prod.splits)

lemma keeps_Let [keep_rules]: "keeps R (f x) \<Longrightarrow> keeps R (Let x f)"
  by simp

lemma keeps_helpers [keep_rules]:
  "keeps R (keypair_or_new nd k)" "keeps R (rent_exemption nd n)" "keeps R (addC nd a b)"
  "keeps R (pool_at nd address)" "keeps R (list_at nd address)" "keeps R (try_account nd address)"
  "keeps R (token_approve nd k1 k2 k3 k4 amount)" "keeps R (token_initialize_mint nd k1 k2 k3 freeze decimals)"
  "keeps R (new_stake_account nd rt payer ixs lamports)" "keeps R (get_all_stake nd rt staker)"
  "keeps R (get_stake_pools nd rt program)"
  unfolding keypair_or_new_def rent_exemption_def addC_def pool_at_def list_at_def try_account_def token_approve_def
    token_initialize_mint_def new_stake_account_def get_all_stake_def get_stake_pools_def
  by (intro keep_rules)+

lemma keeps_add_associated_token_account [keep_rules]:
  "keeps R (add_associated_token_account cfg nd mint program owner ixs rent)"
  unfolding add_associated_token_account_def by (intro keep_rules)


lemma keeps_setup [keep_rules]:
  "keeps R (setup_reserve_stake_account cfg nd rt reserve balance authority)"
  "keeps R (setup_mint_account cfg nd mint balance authority decimals)"
  "keeps R (setup_pool_fee_account cfg nd mint program rent)"
  unfolding setup_reserve_stake_account_def setup_mint_account_def setup_pool_fee_account_def
  by (intro keep_rules | simp)+

lemma keeps_setup_pool [keep_rules]:
  "keeps R (setup_and_initialize_validator_list_with_stake_pool cfg nd pool list reserve mint program fee_account
    authority epoch_fee withdrawal_fee deposit_fee referral_fee max_validators withdraw_authority balance list_size)"
  unfolding setup_and_initialize_validator_list_with_stake_pool_def by (intro keep_rules) simp

lemma keeps_create [keep_rules]:
  "keeps R (command_create_pool cfg nd rt authority epoch_fee withdrawal_fee deposit_fee referral_fee max_validators k1 k2 k3 k4 unsafe)"
  unfolding command_create_pool_def by (intro keep_rules)

lemma keeps_metadata [keep_rules]:
  "keeps R (create_token_metadata cfg nd rt pool name symbol uri)"
  "keeps R (update_token_metadata cfg nd rt pool name symbol uri)"
  unfolding create_token_metadata_def update_token_metadata_def by (intro keep_rules | simp)+

lemma keeps_update [keep_rules]: "keeps R (command_update cfg nd rt ids pool force no_merge stale_only)"
  unfolding command_update_def by (intro keep_rules) simp_all

lemma keeps_update_first [keep_rules]: "keeps R (update_first cfg nd rt ids pool)"
  unfolding update_first_def by (intro keep_rules)

lemma keeps_find_seed [keep_rules]: "keeps R (find_seed n nd sp i)"
  by (induction n arbitrary: i) (unfold find_seed.simps, (intro keep_rules; assumption?)+)

lemma keeps_updated_entry [keep_rules]: "keeps R (updated_entry cfg nd rt ids pool vote)"
  unfolding updated_entry_def by (intro keep_rules)

lemma keeps_validator_commands [keep_rules]:
  "keeps R (command_vsa_add cfg nd rt ids pool vote)" "keeps R (command_vsa_remove cfg nd rt ids pool vote)"
  "keeps R (command_increase_validator_stake cfg nd rt ids pool vote lamports)"
  "keeps R (command_decrease_validator_stake cfg nd rt ids pool vote lamports)"
  "keeps R (command_set_preferred_validator cfg nd pool type vote_option)"
  unfolding command_vsa_add_def command_vsa_remove_def command_increase_validator_stake_def
    command_decrease_validator_stake_def command_set_preferred_validator_def
  by (intro keep_rules | simp)+

lemma keeps_deposit_helpers [keep_rules]:
  "keeps R (token_receiver cfg nd sp receiver ixs rent)" "keeps R (deposit_target cfg nd rt pool vl vote)"
  unfolding token_receiver_def deposit_target_def by (intro keep_rules)+

lemma keeps_deposit_stakes [keep_rules]:
  "keeps R (deposit_stakes cfg nd rt ids pool sp vl authority receiver referrer stakes)"
proof (induction stakes)
  case (Cons stake stakes)
  show ?case unfolding deposit_stakes.simps by (intro keep_rules Cons.IH) simp
qed (simp add: keeps_basic)

lemma keeps_deposits [keep_rules]:
  "keeps R (command_deposit_stake cfg nd rt ids pool stake authority receiver referrer)"
  "keeps R (command_deposit_all_stake cfg nd rt ids pool stake_authority authority receiver referrer)"
  "keeps R (command_deposit_sol cfg nd rt ids pool sender receiver referrer amount)"
  unfolding command_deposit_stake_def command_deposit_all_stake_def command_deposit_sol_def
  by (intro keep_rules | simp)+

lemma keeps_withdraw_receiver [keep_rules]: "keeps R (withdraw_receiver cfg nd rt rent receiver delegated st)"
  unfolding withdraw_receiver_def by (intro keep_rules)

lemma keeps_withdraw_from_accounts [keep_rules]:
  "keeps R (withdraw_from_accounts cfg nd rt ids pool r receiver delegated authority accounts st)"
proof (induction accounts arbitrary: st)
  case (Cons a accounts)
  obtain ixs rent keys where st: "st = (ixs, rent, keys)" by (cases st)
  show ?case unfolding st withdraw_from_accounts.simps by (intro keep_rules Cons.IH)
qed (simp add: keeps_basic)

lemma keeps_withdrawals [keep_rules]:
  "keeps R (command_withdraw_stake cfg nd rt ids pool use_reserve vote receiver account to_amount)"
  "keeps R (command_withdraw_sol cfg nd rt ids pool account sol_receiver to_amount)"
  unfolding command_withdraw_stake_def command_withdraw_sol_def by (intro keep_rules | simp)+

lemma keeps_settings [keep_rules]:
  "keeps R (command_set_manager cfg nd rt ids pool new_manager new_fee_receiver)"
  "keeps R (command_set_staker cfg nd rt ids pool new_staker)"
  "keeps R (command_set_funding_authority cfg nd rt ids pool new_authority funding_type)"
  "keeps R (command_set_fee cfg nd rt ids pool new_fee)"
  "keeps R (command_set_max_validator_stake cfg nd rt ids pool max_stake)"
  unfolding command_set_manager_def command_set_staker_def command_set_funding_authority_def command_set_fee_def
    command_set_max_validator_stake_def manager_command_def
  by (intro keep_rules | simp)+

lemma keeps_lists [keep_rules]:
  "keeps R (command_list cfg nd rt dp pool)" "keeps R (command_list_all_pools cfg nd rt dp)"
  unfolding command_list_def command_list_all_pools_def by (intro keep_rules)+

lemmas arm_defs = arm_create_pool_def arm_token_metadata_def arm_validator_def arm_validator_stake_def
  arm_set_preferred_validator_def arm_deposit_stake_def arm_deposit_sol_def arm_list_def arm_update_def
  arm_withdraw_stake_def arm_withdraw_sol_def arm_set_manager_def arm_set_staker_def arm_set_funding_authority_def
  arm_set_fee_def arm_set_referral_fee_def arm_set_max_validator_stake_def arm_deposit_all_stake_def

lemma keeps_run_arm [keep_rules]:
  "(\<And>x. keeps R (run_arm (f x))) \<Longrightarrow> keeps R (run_arm (bindE m f))"
  "keeps R command \<Longrightarrow> keeps R (run_arm (Inr command))" "keeps R (run_arm (Inl e))"
  "(b \<Longrightarrow> keeps R (run_arm r1)) \<Longrightarrow> (\<not> b \<Longrightarrow> keeps R (run_arm r2)) \<Longrightarrow> keeps R (run_arm (if b then r1 else r2))"
  "keeps R (run_arm (f x)) \<Longrightarrow> keeps R (run_arm (Let x f))"
  by (cases m; simp add: keeps_def run_arm_def bindC_def liftC_def R_refl)+

lemma keeps_subcommands:
  "(name, arm) \<in> set (subcommands cfg nd rt ids fl dp cc) \<Longrightarrow> keeps R (run_arm (arm args))"
  unfolding subcommands_def list.set insert_iff empty_iff prod.inject arm_defs
  by (elim disjE conjE FalseE; hypsubst; intro keep_rules)

end

text \<open>The whole client, once its configuration is read.\<close>

lemma client_main_keeps:
  assumes "\<And>cfg. session_relation (R cfg) cfg nd"
    and "main_config cc matches = Inr cfg"
  shows "R cfg s (snd (client_main nd rt ids fl dp cc matches name args s))"
proof (cases "map_of (subcommands cfg nd rt ids fl dp cc) name")
  case (Some arm)
  then have "keeps (R cfg) (run_arm (arm args))"
    using session_relation.keeps_subcommands [OF assms(1)] map_of_SomeD by fast
  then show ?thesis using Some by (simp add: client_main_def bindC_def liftC_def assms(2) keeps_def)
next
  case None
  then show ?thesis
    using session_relation.R_refl [OF assms(1)] by (simp add: client_main_def bindC_def liftC_def throwC_def assms(2))
qed

end
