(* ===== verification/Command_Effects.thy ===== *)
theory Command_Effects
  imports Client_Frames Builder_Effects Machine
begin

section \<open>Successful commands\<close>

text \<open>
  What a successful step of a command says about its answers, and what a submitted transaction
  contains: the instructions of the command, followed at most by those that set the price and the limit of
  compute units. The collection \<open>command_ok\<close> turns a successful command into these facts.
\<close>

named_theorems command_ok "successful commands"

lemma bindC_Inr [command_ok]:
  "bindC m f s = (Inr y, s') \<longleftrightarrow> (\<exists>x t. m s = (Inr x, t) \<and> f x t = (Inr y, s'))"
  by (auto simp: bindC_def split: prod.splits sum.splits)

lemma step_Inr [command_ok]:
  "returnC x s = (Inr y, s') \<longleftrightarrow> y = x \<and> s' = s"
  "throwC e s = (Inr y, s') \<longleftrightarrow> False"
  "askC q s = (Inr y, s') \<longleftrightarrow> q (se_world s) = Inr y \<and> s' = s"
  "liftC r s = (Inr y, s') \<longleftrightarrow> r = Inr y \<and> s' = s"
  by (auto simp: returnC_def throwC_def askC_def liftC_def)

lemma new_keypair_Inr [command_ok]:
  "new_keypair nd s = (Inr k, s') \<longleftrightarrow> k = nd_keypair nd (se_keys s) \<and> s' = s\<lparr>se_keys := Suc (se_keys s)\<rparr>"
  by (auto simp: new_keypair_def)

declare pool_at_def [command_ok] list_at_def [command_ok] rent_exemption_def [command_ok] addC_def [command_ok]

subsection \<open>Submitted transactions\<close>

definition budget_instruction :: "tx_instruction \<Rightarrow> bool" where
  "budget_instruction i = (case i of SetComputeUnitPrice _ \<Rightarrow> True | SetComputeUnitLimit _ \<Rightarrow> True | _ \<Rightarrow> False)"

lemma budget_instruction_simps [simp]:
  "budget_instruction (SetComputeUnitPrice p)" "budget_instruction (SetComputeUnitLimit l)"
  "\<not> budget_instruction (ClientIx i)" "\<not> budget_instruction (TokenApprove a b c d e)"
  by (simp_all add: budget_instruction_def)

lemma check_fee_payer_balance_Inr: "check_fee_payer_balance cfg nd b s = (Inr u, s') \<Longrightarrow> s' = s"
  by (auto simp: check_fee_payer_balance_def command_ok split: if_splits)

lemma unit_limit_Inr:
  "(case limit of
      DefaultLimit \<Rightarrow> returnC ixs
    | StaticLimit n \<Rightarrow> returnC (ixs @ [SetComputeUnitLimit n])
    | SimulatedLimit \<Rightarrow> add_compute_unit_limit_from_simulation nd ixs payer) s = (Inr ixs', s') \<Longrightarrow>
    s' = s \<and> (\<exists>extra. list_all budget_instruction extra \<and> ixs' = ixs @ extra)"
  by (cases limit)
    (auto simp: command_ok add_compute_unit_limit_from_simulation_def split: if_splits)

lemma checked_transaction_Inr:
  assumes "checked_transaction_with_signers_and_additional_fee cfg nd ixs signers fee s = (Inr tx, s')"
  shows "s' = s \<and> (\<exists>extra. list_all budget_instruction extra \<and>
    tx = \<lparr>tx_payer = cfg_fee_payer cfg, tx_instructions = ixs @ extra, tx_signers = signers\<rparr>)"
proof -
  let ?price = "case cfg_compute_unit_price cfg of Some price \<Rightarrow> [SetComputeUnitPrice price] | None \<Rightarrow> []"
  have price: "(case cfg_compute_unit_price cfg of
      Some price \<Rightarrow> ixs @ [SetComputeUnitPrice price] | None \<Rightarrow> ixs) = ixs @ ?price"
    by (cases "cfg_compute_unit_price cfg") simp_all
  have b: "list_all budget_instruction ?price" by (cases "cfg_compute_unit_price cfg") simp_all
  from assms obtain ixs' s1 s2 h c u where
      limit: "(case cfg_compute_unit_limit cfg of
          DefaultLimit \<Rightarrow> returnC (ixs @ ?price)
        | StaticLimit limit \<Rightarrow> returnC ((ixs @ ?price) @ [SetComputeUnitLimit limit])
        | SimulatedLimit \<Rightarrow>
            add_compute_unit_limit_from_simulation nd (ixs @ ?price) (cfg_fee_payer cfg)) s = (Inr ixs', s1)"
      and check: "check_fee_payer_balance cfg nd c s1 = (Inr u, s2)"
      and tx: "(let tx = \<lparr>tx_payer = cfg_fee_payer cfg, tx_instructions = ixs', tx_signers = signers\<rparr> in
        if nd_can_sign nd tx then returnC tx else throwC CliPanic) s2 = (Inr tx, s')"
    unfolding checked_transaction_with_signers_and_additional_fee_def price bindC_Inr step_Inr Let_def by blast
  from tx have "s' = s2" "tx = \<lparr>tx_payer = cfg_fee_payer cfg, tx_instructions = ixs', tx_signers = signers\<rparr>"
    by (auto simp: step_Inr Let_def split: if_splits)
  then show ?thesis
    using check_fee_payer_balance_Inr [OF check] unit_limit_Inr [OF limit] b by fastforce
qed

text \<open>The session after a transaction was confirmed.\<close>

definition confirmed :: "node \<Rightarrow> transaction \<Rightarrow> session \<Rightarrow> session \<Rightarrow> bool" where
  "confirmed nd tx s s' \<longleftrightarrow> nd_send nd tx (se_world s) = (Inr (), se_world s') \<and>
     se_sent s' = se_sent s @ [tx] \<and> se_keys s' = se_keys s"

lemma submit_Inr:
  assumes "submit cfg nd ixs signers fee s = (Inr (), s')" "\<not> cfg_dry_run cfg"
  shows "\<exists>extra. list_all budget_instruction extra \<and>
    confirmed nd \<lparr>tx_payer = cfg_fee_payer cfg, tx_instructions = ixs @ extra, tx_signers = signers\<rparr> s s'"
proof -
  from assms(1) obtain tx t where
      built: "checked_transaction_with_signers_and_additional_fee cfg nd ixs signers fee s = (Inr tx, t)"
      and sent: "send_transaction cfg nd tx t = (Inr (), s')"
    by (auto simp: submit_def command_ok)
  from checked_transaction_Inr [OF built] sent assms(2) show ?thesis
    by (auto simp: confirmed_def send_transaction_def deliver_def Let_def split: prod.splits)
qed

subsection \<open>Instructions of the pool in a transaction\<close>

fun pool_instruction :: "tx_instruction \<Rightarrow> instruction option" where
  "pool_instruction (ClientIx (PoolInstruction ix)) = Some ix"
| "pool_instruction _ = None"

definition pool_instructions :: "transaction \<Rightarrow> instruction list" where
  "pool_instructions tx = List.map_filter pool_instruction (tx_instructions tx)"

lemma map_filter_append [simp]: "List.map_filter f (xs @ ys) = List.map_filter f xs @ List.map_filter f ys"
  by (induction xs) (simp_all add: map_filter_simps split: option.splits)

lemma map_filter_pool_ix [simp]: "List.map_filter pool_instruction (map pool_ix ixs) = ixs"
  by (induction ixs) (simp_all add: map_filter_simps)

lemma budget_no_pool_instruction:
  "list_all budget_instruction extra \<Longrightarrow> List.map_filter pool_instruction extra = []"
proof (induction extra)
  case (Cons i extra)
  then show ?case by (cases i) (auto simp: map_filter_simps budget_instruction_def)
qed (simp add: map_filter_simps)

text \<open>A transaction without instructions of other programs, the compute budget aside.\<close>

definition pool_transaction :: "transaction \<Rightarrow> bool" where
  "pool_transaction tx \<longleftrightarrow> list_all (\<lambda>i. pool_instruction i \<noteq> None \<or> budget_instruction i) (tx_instructions tx)"

lemma pool_transaction_of:
  assumes "list_all budget_instruction extra"
  shows "pool_transaction \<lparr>tx_payer = p, tx_instructions = map pool_ix ixs @ extra, tx_signers = ks\<rparr>"
    "pool_instructions \<lparr>tx_payer = p, tx_instructions = map pool_ix ixs @ extra, tx_signers = ks\<rparr> = ixs"
  using assms by (auto simp: pool_transaction_def pool_instructions_def list_all_iff budget_no_pool_instruction)

subsection \<open>The end of an epoch update\<close>

lemma update_pool_current:
  assumes "process_update_stake_pool_balance rt pid
      (pool # auth # list # reserve # fee_acc # mint # token_program # rest) w = Inr w'"
  shows "\<exists>sp epoch. read_stake_pool w' pool = Inr sp \<and> rt_clock_get rt = Inr epoch \<and>
    epoch \<le> sp_last_update_epoch sp"
proof -
  from assms obtain sp epoch total s w1 where ck: "rt_clock_get rt = Inr epoch"
      and wr: "write_stake_pool w1 pool
        ((advance_epoch sp epoch (sp_total_lamports sp) (sp_pool_token_supply sp))
          \<lparr>sp_total_lamports := total, sp_pool_token_supply := s\<rparr>) = Inr w'"
    by (simp add: process_update_stake_pool_balance_def ok_iff Let_def case_prod_beta
        cong: if_cong split del: if_split) blast
  from read_written_stake_pool [OF wr] ck show ?thesis
    by (auto simp: advance_epoch_def not_less split: if_splits)
qed

lemma cleanup_epoch:
  assumes run: "process_cleanup_removed_validator_entries rt pid (pool # list # rest) w = Inr w'"
    and ne: "ai_key pool \<noteq> ai_key list" and sp: "read_stake_pool w pool = Inr sp"
  shows "\<exists>sp'. read_stake_pool w' pool = Inr sp' \<and> sp_last_update_epoch sp' = sp_last_update_epoch sp"
proof -
  have read: "read_stake_pool (set_list_vec w list v) pool = Inr sp" for v
    unfolding sp [symmetric] using ne
    by (simp add: read_stake_pool_def data_of_def set_list_vec_def set_data_def)
  from run obtain v where "(if ai_is_writable pool then
         bindE (read_stake_pool (set_list_vec w list v) pool) (\<lambda>stake_pool.
         bindE (recheck_preferred v (sp_preferred_deposit_validator_vote_address stake_pool)) (\<lambda>d.
         bindE (recheck_preferred v (sp_preferred_withdraw_validator_vote_address stake_pool)) (\<lambda>x.
         write_stake_pool (set_list_vec w list v) pool
           (stake_pool\<lparr>sp_preferred_deposit_validator_vote_address := d,
                       sp_preferred_withdraw_validator_vote_address := x\<rparr>))))
       else Inr (set_list_vec w list v)) = Inr w'"
    by (simp add: process_cleanup_removed_validator_entries_def bindE_pair_eq_Inr bindE_eq_Inr
        Let_def cong: if_cong split del: if_split) blast
  then show ?thesis unfolding read
    by (auto simp: bindE_eq_Inr read dest!: read_written_stake_pool split: if_splits)
qed

text \<open>Once the two final instructions of an update have run, the pool is up to date.\<close>

lemma final_ixs_current:
  assumes run: "executed rt pid (final_ixs rt pid sp (ai_key pool)) w w'"
    and ne: "ai_key pool \<noteq> sp_validator_list sp"
  shows "\<exists>sp' epoch. read_stake_pool w' pool = Inr sp' \<and> rt_clock_get rt = Inr epoch \<and>
    epoch \<le> sp_last_update_epoch sp'"
proof -
  from run obtain as bs w1 where
      a: "presented (update_stake_pool_balance_ix pid (ai_key pool)
          (fst (find_withdraw_authority_program_address rt pid (ai_key pool))) (sp_validator_list sp)
          (sp_reserve_stake sp) (sp_manager_fee_account sp) (sp_pool_mint sp) (sp_token_program_id sp)) as"
        "process_instruction rt pid as UpdateStakePoolBalance w = Inr w1"
      and b: "presented (cleanup_removed_validator_entries_ix pid (ai_key pool) (sp_validator_list sp)) bs"
        "process_instruction rt pid bs CleanupRemovedValidatorEntries w1 = Inr w'"
    by (auto simp: final_ixs_def update_stake_pool_balance_ix_def cleanup_removed_validator_entries_ix_def
        process_ser_instruction simp del: ser_instruction.simps elim!: executed_ConsE executed_NilE)
  have read: "read_stake_pool v p = read_stake_pool v pool" if "ai_key p = ai_key pool" for v p
    using that by (simp add: read_stake_pool_def data_of_def)
  from presented_keys [OF a(1)] obtain p auth l reserve fee_acc mint token where
      as: "as = [p, auth, l, reserve, fee_acc, mint, token]" and p: "ai_key p = ai_key pool"
    by (auto simp: update_stake_pool_balance_ix_def map_eq_Cons_conv)
  from update_pool_current [of rt pid p auth l reserve fee_acc mint token "[]" w w1] a(2) obtain sp1 epoch where
      sp1: "read_stake_pool w1 pool = Inr sp1" "rt_clock_get rt = Inr epoch" "epoch \<le> sp_last_update_epoch sp1"
    unfolding as read [OF p] by auto
  from presented_keys [OF b(1)] obtain q l2 where
      bs: "bs = [q, l2]" and q: "ai_key q = ai_key pool" "ai_key l2 = sp_validator_list sp"
    by (auto simp: cleanup_removed_validator_entries_ix_def map_eq_Cons_conv)
  from cleanup_epoch [of rt pid q l2 "[]" w1 w' sp1] b(2) sp1(1) ne show ?thesis
    unfolding bs read [OF q(1)] using sp1(2,3) q by auto
qed

end
