(* ===== verification/Client_Samples.thy ===== *)
theory Client_Samples
  imports Command_Effects Builder_Theorems
begin

section \<open>A small client\<close>

text \<open>
  A node in front of the sample chain, and a client that talks to it. The node runs the instructions of
  the pool in a transaction one after the other, all or none, and answers every question from the world.
\<close>

definition info_of :: "account_meta \<Rightarrow> account_info" where
  "info_of m = \<lparr>ai_key = am_pubkey m, ai_is_signer = am_is_signer m, ai_is_writable = am_is_writable m\<rparr>"

lemma info_of_simps [simp]:
  "info_of (am_new k False) = view k" "info_of (am_new k True) = signer k"
  "ai_key (info_of (am_new_readonly k s)) = k" "ai_is_signer (info_of (am_new_readonly k s)) = s"
  "\<not> ai_is_writable (info_of (am_new_readonly k s))"
  by (simp_all add: info_of_def view_def signer_def)

fun run_instructions :: "runtime \<Rightarrow> pubkey \<Rightarrow> instruction list \<Rightarrow> world \<Rightarrow> program_error + world" where
  "run_instructions rt pid [] w = Inr w"
| "run_instructions rt pid (ix # ixs) w =
     bindE (process rt pid (map info_of (ix_accounts ix)) (ix_data ix) w) (run_instructions rt pid ixs)"

lemma presented_info_of: "presented ix (map info_of (ix_accounts ix))"
  by (simp add: presented_def info_of_def list_all2_conv_all_nth)

lemma run_instructions_executed: "run_instructions rt pid ixs w = Inr w' \<Longrightarrow> executed rt pid ixs w w'"
  by (induction ixs arbitrary: w)
    (auto simp: bindE_eq_Inr intro: executed_Nil executed_Cons presented_info_of)

definition sample_send :: "transaction \<Rightarrow> world \<Rightarrow> (cli_error + unit) \<times> world" where
  "sample_send tx w =
     (case run_instructions sample_rt PROGRAM (pool_instructions tx) w of
        Inl _ \<Rightarrow> (Inl RpcError, w)
      | Inr w' \<Rightarrow> (Inr (), w'))"

lemma sample_send_executed:
  "sample_send tx w = (Inr (), w') \<Longrightarrow> executed sample_rt PROGRAM (pool_instructions tx) w w'"
  by (auto simp: sample_send_def intro: run_instructions_executed split: sum.splits)

definition client_env :: "world \<Rightarrow> cli_env" where
  "client_env w =
     \<lparr>env_get_account = (\<lambda>k. Inr (w k)),
      env_minimum_balance_for_rent_exemption = (\<lambda>_. Inr 100),
      env_stake_minimum_delegation = Inr 1,
      env_unpack_mint = (\<lambda>_. Some 9),
      env_unpack_token_account = (\<lambda>d. if d = [3] then Some (MINT, 5000000) else None),
      env_stake_state = sample_stake_state,
      env_overflow_checks = True\<rparr>"

definition sample_node :: node where
  "sample_node =
     \<lparr>nd_env = client_env,
      nd_get_balance = (\<lambda>w k. Inr (acc_lamports (w k))),
      nd_get_maybe_account = (\<lambda>w k. Inr (Some (w k))),
      nd_program_accounts = (\<lambda>w p offset data. Inr []),
      nd_epoch = (\<lambda>w. Inr 5),
      nd_latest_blockhash = (\<lambda>w. Inr 0),
      nd_fee_for_message = (\<lambda>w payer ixs. Inr 5000),
      nd_units_consumed = (\<lambda>w payer ixs. Inr (Some 1000)),
      nd_simulate_transaction = (\<lambda>w tx. Inr ()),
      nd_can_sign = (\<lambda>tx. True),
      nd_send = sample_send,
      nd_send_no_wait = sample_send,
      nd_keypair = (\<lambda>n. 2000 + of_nat n),
      nd_associated_token_address = (\<lambda>owner mint program. 12),
      nd_is_token_program = (\<lambda>k. k = TOKEN_PROGRAM),
      nd_spl_token = TOKEN_PROGRAM,
      nd_unpack_mint_authority = (\<lambda>d. Some (Some WITHDRAW_AUTHORITY)),
      nd_mint_len = 82, nd_token_account_len = 165, nd_native_decimals = 9, nd_stake_pool_packed_len = 611\<rparr>"

lemma client_env_simps [simp]:
  "env_get_account (client_env w) k = Inr (w k)"
  "env_minimum_balance_for_rent_exemption (client_env w) n = Inr 100"
  "env_stake_minimum_delegation (client_env w) = Inr 1"
  "env_unpack_mint (client_env w) d = Some 9"
  "env_unpack_token_account (client_env w) d = (if d = [3] then Some (MINT, 5000000) else None)"
  "env_overflow_checks (client_env w)"
  by (simp_all add: client_env_def)

lemma sample_node_simps [simp]:
  "nd_env sample_node = client_env" "nd_get_balance sample_node w k = Inr (acc_lamports (w k))"
  "nd_get_maybe_account sample_node w k = Inr (Some (w k))" "nd_epoch sample_node w = Inr 5"
  "nd_latest_blockhash sample_node w = Inr 0" "nd_fee_for_message sample_node w k ixs = Inr 5000"
  "nd_simulate_transaction sample_node w tx = Inr ()" "nd_can_sign sample_node tx"
  "nd_send sample_node = sample_send" "nd_keypair sample_node n = 2000 + of_nat n"
  "nd_associated_token_address sample_node k1 k2 k3 = 12"
  "nd_is_token_program sample_node k \<longleftrightarrow> k = TOKEN_PROGRAM" "nd_token_account_len sample_node = 165"
  by (simp_all add: sample_node_def)

definition sample_config :: config where
  "sample_config =
     \<lparr>cfg_stake_pool_program_id = PROGRAM, cfg_verbose = False, cfg_output_format = Display, cfg_manager = 4, cfg_staker = 3, cfg_funding_authority = None,
      cfg_token_owner = 11, cfg_fee_payer = 11, cfg_dry_run = False, cfg_no_update = False,
      cfg_compute_unit_price = None, cfg_compute_unit_limit = DefaultLimit\<rparr>"

lemma sample_config_simps [simp]:
  "cfg_stake_pool_program_id sample_config = PROGRAM" "cfg_manager sample_config = 4"
  "cfg_staker sample_config = 3" "cfg_funding_authority sample_config = None"
  "cfg_token_owner sample_config = 11" "cfg_fee_payer sample_config = 11"
  "\<not> cfg_dry_run sample_config" "\<not> cfg_no_update sample_config"
  "cfg_compute_unit_price sample_config = None" "cfg_compute_unit_limit sample_config = DefaultLimit"
  by (simp_all add: sample_config_def)

definition session_of :: "world \<Rightarrow> session" where
  "session_of w = \<lparr>se_world = w, se_sent = [], se_keys = 0\<rparr>"

lemma session_of_simps [simp]:
  "se_world (session_of w) = w" "se_sent (session_of w) = []" "se_keys (session_of w) = 0"
  by (simp_all add: session_of_def)

text \<open>Evaluation of commands.\<close>

named_theorems command_eval "computation of commands"

declare bindC_def [command_eval] returnC_def [command_eval] throwC_def [command_eval] askC_def [command_eval]
  liftC_def [command_eval] new_keypair_def [command_eval] pool_at_def [command_eval] list_at_def [command_eval]
  rent_exemption_def [command_eval] addC_def [command_eval] add_u64_def [command_eval] submit_def [command_eval]
  checked_transaction_with_signers_and_additional_fee_def [command_eval] check_fee_payer_balance_def [command_eval]
  send_transaction_def [command_eval] deliver_def [command_eval] Let_def [command_eval]
  update_first_def [command_eval] command_update_def [command_eval] saturating_add_def [command_eval]

lemma sample_get_pool [command_eval]:
  "w POOL = sample_world POOL \<Longrightarrow> get_stake_pool (client_env w) POOL = Inr sample_stake_pool"
  by (simp add: get_stake_pool_def get_account_data_def csp.de_ser)

text \<open>A call of the client: \<open>set-staker\<close>, simulated.\<close>

definition dry_run_matches :: arg_matches where
  "dry_run_matches =
     \<lparr>ag_value_of = (\<lambda>_. None), ag_is_present = (\<lambda>n. n = ''dry_run''), ag_pubkey_of = (\<lambda>_. Some PROGRAM),
      ag_keypair_of = (\<lambda>_. None), ag_signer_from_path = (\<lambda>path name null. Some 11)\<rparr>"

definition set_staker_args :: arg_matches where
  "set_staker_args =
     \<lparr>ag_value_of = (\<lambda>_. None), ag_is_present = (\<lambda>_. False),
      ag_pubkey_of = (\<lambda>n. if n = ''pool'' then Some POOL else Some 21),
      ag_keypair_of = (\<lambda>_. None), ag_signer_from_path = (\<lambda>path name null. None)\<rparr>"

definition sample_floats :: floats where
  "sample_floats = \<lparr>fl_parse = parse_u64, fl_sol_to_lamports = (\<lambda>x. x), fl_ui_amount_to_amount = (\<lambda>x _. x)\<rparr>"

definition sample_display :: display where
  "sample_display =
     \<lparr>dp_pubkey = (\<lambda>k. show_nat (unat k)), dp_sol = (\<lambda>l. show_nat (unat l)), dp_f64 = (\<lambda>x. show_nat (unat x)),
      dp_amount_to_ui_amount = (\<lambda>x _. x)\<rparr>"

definition sample_cli_config :: cli_config where
  "sample_cli_config =
     \<lparr>cc_json_rpc_url = ''http://localhost:8899'', cc_keypair_path = ''id.json'', cc_stake_pool_id = PROGRAM,
      cc_devnet_stake_pool_id = 101\<rparr>"

end
