(* ===== verification/Command_Theorems.thy ===== *)
theory Command_Theorems
  imports Client_Samples Client_Theorems Access_Theorems
begin

section \<open>Theorems on the commands of the client\<close>

text \<open>
  Two properties hold of every command: a dry run sends nothing, and everything that is sent is paid
  and signed by the fee payer. Then the update command, and two commands that do not do what they are meant to.
\<close>

subsection \<open>Every command\<close>

interpretation dry: session_relation
    "\<lambda>s t. cfg_dry_run cfg \<longrightarrow> se_world t = se_world s \<and> se_sent t = se_sent s" cfg nd
  for cfg :: config and nd :: node
  by unfold_locales (auto simp: send_transaction_def send_transaction_no_wait_def askC_def)

interpretation paid: session_relation
    "\<lambda>s t. \<exists>new. se_sent t = se_sent s @ new \<and> list_all (paid_by_fee_payer cfg) new" cfg nd
  for cfg :: config and nd :: node
  by unfold_locales
    (auto simp: send_transaction_def send_transaction_no_wait_def askC_def deliver_def Let_def case_prod_beta
      intro: exI [of _ "_ @ _"])

lemma main_config_dry_run:
  "main_config cc matches = Inr cfg \<Longrightarrow> cfg_dry_run cfg \<longleftrightarrow> ag_is_present matches ''dry_run''"
  by (auto simp: main_config_def Let_def ok_iff)

lemma client_main_no_config:
  "main_config cc matches = Inl e \<Longrightarrow> client_main nd rt ids fl dp cc matches name args s = (Inl e, s)"
  by (simp add: client_main_def bindC_def liftC_def)

text \<open>C29: With \<open>--dry-run\<close> the client, whatever the command and its arguments, sends no transaction and leaves the chain as it was.\<close>

theorem dry_run_sends_nothing:
  assumes "ag_is_present matches ''dry_run''"
    and "client_main nd rt ids fl dp cc matches name args s = (r, s')"
  shows "se_world s' = se_world s \<and> se_sent s' = se_sent s"
proof (cases "main_config cc matches")
  case (Inl e)
  then show ?thesis using client_main_no_config assms(2) by fastforce
next
  case (Inr cfg)
  then have "cfg_dry_run cfg" using main_config_dry_run assms(1) by simp
  with client_main_keeps [where s = s and name = name and args = args and nd = nd and rt = rt and ids = ids and fl = fl and dp = dp,
      OF dry.session_relation_axioms Inr] show ?thesis
    using assms(2) by simp
qed

lemma sample_dry_run:
  "client_main sample_node sample_rt sample_ids sample_floats sample_display sample_cli_config dry_run_matches
     ''set-staker'' set_staker_args (session_of sample_world) = (Inr (), session_of sample_world)"
  by (simp add: client_main_def run_arm_def main_config_def get_signer_def dry_run_matches_def sample_cli_config_def unwrap_or_def
      subcommands_def arm_set_staker_def pubkey_arg_def set_staker_args_def command_set_staker_def manager_command_def
      command_eval)

theorem dry_run_sends_nothing_witness:
  "\<exists>s'. client_main sample_node sample_rt sample_ids sample_floats sample_display sample_cli_config dry_run_matches
     ''set-staker'' set_staker_args (session_of sample_world) = (Inr (), s') \<and> se_sent s' = []"
  using dry_run_sends_nothing [OF _ sample_dry_run] sample_dry_run by (auto simp: dry_run_matches_def)

text \<open>C30: Every transaction that the client sends, whatever the command, is paid by the configured fee payer, who is among its
  signers; what was sent before stays sent.\<close>

theorem sent_transactions_paid:
  assumes "main_config cc matches = Inr cfg"
    and "client_main nd rt ids fl dp cc matches name args s = (r, s')"
  shows "\<exists>new. se_sent s' = se_sent s @ new \<and>
    (\<forall>tx \<in> set new. tx_payer tx = cfg_fee_payer cfg \<and> cfg_fee_payer cfg \<in> set (tx_signers tx))"
  using client_main_keeps [where s = s and name = name and args = args and nd = nd and rt = rt and ids = ids and fl = fl and dp = dp,
      OF paid.session_relation_axioms assms(1)] assms(2)
  by (auto simp: list_all_iff paid_by_fee_payer_def)


text \<open>The client sends a transaction: \<open>set-staker\<close> by the manager of the sample pool.\<close>

definition manager_matches :: arg_matches where
  "manager_matches = dry_run_matches\<lparr>ag_is_present := (\<lambda>_. False), ag_signer_from_path := (\<lambda>path name null.
     if name = ''fee_payer'' then Some 11 else Some 4)\<rparr>"

definition manager_config :: config where
  "manager_config = sample_config\<lparr>cfg_staker := 4, cfg_token_owner := 4\<rparr>"

lemma manager_main_config: "main_config sample_cli_config manager_matches = Inr manager_config"
  by (simp add: main_config_def get_signer_def manager_matches_def dry_run_matches_def sample_cli_config_def
      unwrap_or_def manager_config_def sample_config_def)

lemma sample_set_staker_sent:
  "\<exists>s' tx. client_main sample_node sample_rt sample_ids sample_floats sample_display sample_cli_config manager_matches
     ''set-staker'' set_staker_args (session_of sample_world) = (Inr (), s') \<and> se_sent s' = [tx]"
proof -
  let ?ix = "set_staker_ix PROGRAM POOL 4 21"
  let ?tx = "\<lparr>tx_payer = 11, tx_instructions = [pool_ix ?ix], tx_signers = unique_signers [11, 4]\<rparr>"
  have "is_ok (process sample_rt PROGRAM (map info_of (ix_accounts ?ix)) (ix_data ?ix) sample_world)"
    by (simp add: set_staker_ix_def process_ser_instruction process_set_staker_def run_eval del: ser_instruction.simps)
  then obtain w' where "process sample_rt PROGRAM (map info_of (ix_accounts ?ix)) (ix_data ?ix) sample_world = Inr w'"
    using run_of by blast
  then have send: "sample_send ?tx sample_world = (Inr (), w')"
    by (simp add: sample_send_def pool_instructions_def map_filter_simps)
  then show ?thesis
    by (simp add: client_main_def run_arm_def manager_main_config manager_config_def
      subcommands_def arm_set_staker_def pubkey_arg_def set_staker_args_def command_set_staker_def manager_command_def
      command_eval)
qed

theorem sent_transactions_paid_witness:
  "\<exists>s' tx. client_main sample_node sample_rt sample_ids sample_floats sample_display sample_cli_config manager_matches
     ''set-staker'' set_staker_args (session_of sample_world) = (Inr (), s') \<and> se_sent s' = [tx] \<and> tx_payer tx = 11"
proof -
  obtain s' tx where run: "client_main sample_node sample_rt sample_ids sample_floats sample_display sample_cli_config
      manager_matches ''set-staker'' set_staker_args (session_of sample_world) = (Inr (), s')" "se_sent s' = [tx]"
    using sample_set_staker_sent by blast
  with sent_transactions_paid [OF manager_main_config run(1)] show ?thesis by (auto simp: manager_config_def)
qed

subsection \<open>The update command\<close>

lemma final_instructions_built:
  "update_stake_pool_ix rt ids pid sp vl pool nm = Inr (updates, finals) \<Longrightarrow> finals = final_ixs rt pid sp pool"
  "update_stale_stake_pool_ix rt ids pid sp vl pool nm epoch = Inr (updates, finals) \<Longrightarrow> finals = final_ixs rt pid sp pool"
  by (auto simp: update_stake_pool_ix_def update_stale_stake_pool_ix_def final_ixs_def Let_def ok_iff)

text \<open>What a successful update did: nothing when the pool is up to date, or the final instructions last.\<close>

lemma command_update_Inr:
  assumes run: "command_update cfg nd rt ids pool force no_merge stale_only s = (Inr (), s')"
    and "\<not> cfg_no_update cfg" "\<not> cfg_dry_run cfg"
  shows "\<exists>sp epoch. get_stake_pool (nd_env nd (se_world s)) pool = Inr sp \<and> nd_epoch nd (se_world s) = Inr epoch \<and>
    (s' = s \<and> sp_last_update_epoch sp = epoch \<or>
     (\<exists>t extra. list_all budget_instruction extra \<and>
       confirmed nd \<lparr>tx_payer = cfg_fee_payer cfg,
         tx_instructions = map pool_ix (final_ixs rt (cfg_stake_pool_program_id cfg) sp pool) @ extra,
         tx_signers = [cfg_fee_payer cfg]\<rparr> t s'))"
proof -
  from run assms(2) obtain sp epoch where
      sp: "get_stake_pool (nd_env nd (se_world s)) pool = Inr sp" and e: "nd_epoch nd (se_world s) = Inr epoch"
      and rest: "s' = s \<and> sp_last_update_epoch sp = epoch \<or>
        (\<exists>t finals. submit cfg nd (map pool_ix finals) [cfg_fee_payer cfg] 0 t = (Inr (), s') \<and>
          finals = final_ixs rt (cfg_stake_pool_program_id cfg) sp pool)"
    by (auto simp: command_update_def command_ok panic_of_def final_instructions_built
        split: if_splits sum.splits) (metis final_instructions_built)+
  from rest show ?thesis
  proof
    assume "\<exists>t finals. submit cfg nd (map pool_ix finals) [cfg_fee_payer cfg] 0 t = (Inr (), s') \<and>
          finals = final_ixs rt (cfg_stake_pool_program_id cfg) sp pool"
    with sp e submit_Inr [OF _ assms(3)] show ?thesis by blast
  qed (use sp e in blast)
qed

lemma get_stake_pool_read:
  assumes "\<And>k a. env_get_account env k = Inr a \<Longrightarrow> a = w k"
    and "get_stake_pool env (ai_key pool) = Inr sp"
  shows "read_stake_pool w pool = Inr sp"
  using assms by (auto simp: get_stake_pool_def get_account_data_def read_stake_pool_def data_of_def ok_iff)


text \<open>The sample pool one epoch behind, with an empty list.\<close>

definition late_pool :: stake_pool where
  "late_pool = sample_stake_pool\<lparr>sp_last_update_epoch := 4\<rparr>"

definition late_list_data :: bytes where
  "late_list_data = ser_header sample_header @ bv_image [] (replicate 730 0)"

definition late_world :: world where
  "late_world = sample_world
     (POOL := sample_account 1000 (ser_stake_pool late_pool @ replicate 900 0) PROGRAM,
      LIST := sample_account 1000 late_list_data PROGRAM)"

lemma late_list_simps [simp]:
  "list_ok late_list_data" "list_infos late_list_data = []" "drop HEADER_LEN late_list_data = bv_image [] (replicate 730 0)"
  "deserialize_vec late_list_data = Inr (sample_header, bv_image [] (replicate 730 0))"
proof -
  have wf: "bv_wf ENTRY_LEN []" by (simp add: bv_wf_def)
  show d: "drop HEADER_LEN late_list_data = bv_image [] (replicate 730 0)" by (simp add: late_list_data_def)
  show "list_infos late_list_data = []" using wf by (simp add: list_infos_def d)
  show "list_ok late_list_data"
    using bv_invar_image [OF wf] by (simp add: list_ok_def d) (simp add: late_list_data_def)
  show "deserialize_vec late_list_data = Inr (sample_header, bv_image [] (replicate 730 0))"
    using d by (simp add: deserialize_vec_def late_list_data_def chd.de_ser)
qed

lemma late_world_simps [simp]:
  "late_world POOL = sample_account 1000 (ser_stake_pool late_pool @ replicate 900 0) PROGRAM"
  "late_world LIST = sample_account 1000 late_list_data PROGRAM"
  "late_world RESERVE = sample_world RESERVE" "late_world MINT = sample_world MINT" "late_world 7 = sample_world 7"
  "late_world 11 = sample_world 11"
  by (simp_all add: late_world_def)

lemma late_pool_ok: "pool_ok PROGRAM (view POOL) late_pool late_world"
  by (simp add: pool_ok_def owner_of_def read_stake_pool_def data_of_def csp.de_ser votes_def)
    (simp add: late_pool_def is_valid_def)

lemma late_pool_simps [simp]:
  "sp_manager_fee_account late_pool = 7" "sp_pool_mint late_pool = MINT" "sp_token_program_id late_pool = TOKEN_PROGRAM"
  "sp_reserve_stake late_pool = RESERVE" "sp_validator_list late_pool = LIST" "sp_last_update_epoch late_pool = 4"
  "sp_stake_withdraw_bump_seed late_pool = 255" "sp_total_lamports late_pool = 12000000"
  "sp_pool_token_supply late_pool = 10000000" "sp_lockup late_pool = lockup_default"
  "sp_epoch_fee late_pool = \<lparr>denominator = 10, numerator = 1\<rparr>"
  by (simp_all add: late_pool_def)

lemma late_load [simp]:
  "load_stake_pool PROGRAM late_world (view POOL) = Inr late_pool"
  using late_pool_ok by (simp add: pool_ok_def load_stake_pool_Inr del: read_stake_pool_Inr)

definition updated_pool :: stake_pool where
  "updated_pool = (advance_epoch late_pool 5 12000000 10000000)
     \<lparr>sp_total_lamports := 10099900, sp_pool_token_supply := 10000000\<rparr>"

lemma late_update_pool:
  "process_update_stake_pool_balance sample_rt PROGRAM
     [view POOL, info_of (am_new_readonly WITHDRAW_AUTHORITY False), view LIST, info_of (am_new_readonly RESERVE False),
      view 7, view MINT, info_of (am_new_readonly TOKEN_PROGRAM False)] late_world =
   write_stake_pool late_world (view POOL) updated_pool"
proof -
  have "all_records (bv_image [] (replicate 730 0)) = Inr []"
    using all_records_infos [of late_list_data] by simp
  moreover have "calc_epoch_fee_amount late_pool 0 = Some 0" by (simp add: calc_epoch_fee_amount_def)
  ultimately show ?thesis
    by (simp add: process_update_stake_pool_balance_def reserve_total_def epoch_fee_of_def updated_pool_def run_eval
        del: write_stake_pool_def)
qed

lemma late_final_run:
  "\<exists>w'. run_instructions sample_rt PROGRAM (final_ixs sample_rt PROGRAM late_pool POOL) late_world = Inr w'"
proof -
  obtain w1 where w1: "write_stake_pool late_world (view POOL) updated_pool = Inr w1"
      and len: "length (data_of w1 (view POOL)) = length (data_of late_world (view POOL))"
      and list: "data_of w1 (view LIST) = late_list_data"
    using length_ser_stake_pool_le [of updated_pool]
    by (auto simp: write_stake_pool_Inr data_of_def set_data_def STAKE_POOL_MAX_LEN_def)
  have step: "process_instruction sample_rt PROGRAM
      [view POOL, info_of (am_new_readonly WITHDRAW_AUTHORITY False), view LIST, info_of (am_new_readonly RESERVE False),
       view 7, view MINT, info_of (am_new_readonly TOKEN_PROGRAM False)] UpdateStakePoolBalance late_world = Inr w1"
    using w1 by (simp add: late_update_pool)
  from pool_ok_step [OF sample_respects_owner late_pool_ok step] obtain sp1 where
      ok: "pool_ok PROGRAM (view POOL) sp1 w1" "sp_validator_list sp1 = LIST"
    by (auto simp: same_pool_def)
  have "load_validator_list w1 (view LIST) = Inr (sample_header, bv_image [] (replicate 730 0))"
    by (simp add: load_validator_list_def list)
  from cleanup_returns [OF ok(1) _ this, of sample_rt "[]"] ok(2) len obtain w' where
      "process_cleanup_removed_validator_entries sample_rt PROGRAM [view POOL, view LIST] w1 = Inr w'"
    by (auto simp: data_of_def STAKE_POOL_MAX_LEN_def)
  then show ?thesis using step
    by (simp add: final_ixs_def update_stake_pool_balance_ix_def cleanup_removed_validator_entries_ix_def
        process_ser_instruction find_withdraw_authority_program_address_def del: ser_instruction.simps)
qed

lemma late_update_command:
  "\<exists>s'. command_update sample_config sample_node sample_rt sample_ids POOL False False False (session_of late_world) = (Inr (), s')"
proof -
  let ?vl = "\<lparr>vl_header = sample_header, vl_validators = []\<rparr>"
  have pool: "get_stake_pool (client_env late_world) POOL = Inr late_pool"
    by (simp add: get_stake_pool_def get_account_data_def csp.de_ser)
  have data: "late_list_data = ser_validator_list ?vl @ replicate 730 0"
    by (simp add: late_list_data_def bv_image_def ser_validator_list_def ser_vec_def)
  have "de_validator_list late_list_data = Some (?vl, replicate 730 0)"
    unfolding data by (rule de_ser_validator_list) simp
  then have list: "get_validator_list (client_env late_world) LIST = Inr ?vl"
    by (simp add: get_validator_list_def get_account_data_def)
  have built: "update_stake_pool_ix sample_rt sample_ids PROGRAM late_pool ?vl POOL False =
      Inr ([], final_ixs sample_rt PROGRAM late_pool POOL)"
    using update_stake_pool_ix_built [of ?vl] by (simp add: slice_chunks.simps)
  obtain w' where "run_instructions sample_rt PROGRAM (final_ixs sample_rt PROGRAM late_pool POOL) late_world = Inr w'"
    using late_final_run by blast
  then show ?thesis
    by (simp add: command_eval pool list built panic_of_def sample_send_def pool_instructions_def)
qed


subsection \<open>The seed of a new validator stake account\<close>

text \<open>The loop stops at its first value when the reserve is there, and never otherwise.\<close>

lemma find_seed_missing:
  "nd_get_maybe_account nd (se_world s) (sp_reserve_stake sp) = Inr None \<Longrightarrow>
    find_seed n nd sp i s = (Inl (if env_overflow_checks (nd_env nd (se_world s)) then CliPanic else CliDiverges), s)"
  by (induction n arbitrary: i) (simp_all add: bindC_def askC_def)

lemma find_seed_first:
  "find_seed (Suc n) nd sp i s =
    (case nd_get_maybe_account nd (se_world s) (sp_reserve_stake sp) of
       Inl e \<Rightarrow> (Inl e, s)
     | Inr (Some _) \<Rightarrow> (Inr i, s)
     | Inr None \<Rightarrow> (Inl (if env_overflow_checks (nd_env nd (se_world s)) then CliPanic else CliDiverges), s))"
  using find_seed_missing by (auto simp: bindC_def askC_def returnC_def split: sum.splits option.splits)


text \<open>A client that does not update first, and a node that confirms everything.\<close>

definition quiet_config :: config where
  "quiet_config = sample_config\<lparr>cfg_no_update := True\<rparr>"

definition quiet_node :: node where
  "quiet_node = sample_node\<lparr>nd_send := (\<lambda>tx w. (Inr (), w))\<rparr>"

lemma quiet_simps [simp]:
  "cfg_stake_pool_program_id quiet_config = PROGRAM" "cfg_staker quiet_config = 3"
  "cfg_funding_authority quiet_config = None" "cfg_token_owner quiet_config = 11" "cfg_fee_payer quiet_config = 11"
  "\<not> cfg_dry_run quiet_config" "cfg_no_update quiet_config"
  "cfg_compute_unit_price quiet_config = None" "cfg_compute_unit_limit quiet_config = DefaultLimit"
  "nd_env quiet_node = client_env" "nd_get_balance quiet_node w k = Inr (acc_lamports (w k))"
  "nd_get_maybe_account quiet_node w k = Inr (Some (w k))" "nd_latest_blockhash quiet_node w = Inr 0"
  "nd_fee_for_message quiet_node w k ixs = Inr 5000" "nd_can_sign quiet_node tx"
  "nd_send quiet_node tx w = (Inr (), w)" "nd_keypair quiet_node n = 2000 + of_nat n"
  "nd_associated_token_address quiet_node k1 k2 k3 = 12" "nd_is_token_program quiet_node k \<longleftrightarrow> k = TOKEN_PROGRAM"
  "nd_token_account_len quiet_node = 165"
  by (simp_all add: quiet_config_def quiet_node_def)

lemma sample_client_list [command_eval]:
  "w LIST = sample_world LIST \<Longrightarrow>
    get_validator_list (client_env w) LIST = Inr \<lparr>vl_header = sample_header, vl_validators = [sample_entry, sample_removed]\<rparr>"
  using sample_env_list by (simp add: get_validator_list_def get_account_data_def)

lemma quiet_add_command:
  "\<exists>s'. command_vsa_add quiet_config quiet_node sample_rt sample_ids POOL 23 (session_of sample_world) = (Inr (), s')"
proof -
  have "0 < (2::nat) ^ 32" by simp
  then obtain n where n: "(2::nat) ^ 32 = Suc n" using gr0_implies_Suc by blast
  show ?thesis unfolding command_vsa_add_def n
    by (simp add: command_eval find_seed_first vl_contains_def del: find_seed.simps)
qed


subsection \<open>The account for the tokens of a deposit\<close>

lemma add_associated_token_account_Inr:
  assumes "add_associated_token_account cfg nd mint program owner ixs rent s = (Inr (account, ixs', rent'), s')"
    and "get_token_account (nd_env nd (se_world s)) (nd_associated_token_address nd owner mint program) mint = Inl e"
  shows "s' = s \<and> ixs' = ixs @ [CreateAssociatedTokenAccount (cfg_fee_payer cfg) owner mint program]"
  using assms by (auto simp: add_associated_token_account_def command_ok Let_def split: if_splits)

text \<open>A deposit of SOL creates the associated token account of the owner, at the cost of the fee payer, also when the user names another
  account for the tokens: the fallback of \<open>unwrap_or\<close> is computed first. When the owner has no associated account, every successful deposit into the
  account \<open>receiver\<close> sends a transaction that creates one and mints the tokens to \<open>receiver\<close>.\<close>

lemma deposit_creates_unused_account:
  assumes "\<not> cfg_dry_run cfg" and "cfg_no_update cfg"
    and "get_stake_pool (nd_env nd (se_world s)) pool = Inr sp"
    and "get_token_account (nd_env nd (se_world s))
      (nd_associated_token_address nd (cfg_token_owner cfg) (sp_pool_mint sp) (sp_token_program_id sp)) (sp_pool_mint sp) = Inl e"
    and "command_deposit_sol cfg nd rt ids pool sender (Some receiver) referrer amount s = (Inr (), s')"
  shows "\<exists>tx ix. se_sent s' = se_sent s @ [tx] \<and>
    CreateAssociatedTokenAccount (cfg_fee_payer cfg) (cfg_token_owner cfg) (sp_pool_mint sp) (sp_token_program_id sp)
      \<in> set (tx_instructions tx) \<and>
    pool_instructions tx = [ix] \<and> ix_data ix = ser_instruction (DepositSol amount) \<and>
    am_pubkey (ix_accounts ix ! 4) = receiver"
proof -
  let ?s = "s\<lparr>se_keys := Suc (se_keys s)\<rparr>"
  let ?create = "CreateAssociatedTokenAccount (cfg_fee_payer cfg) (cfg_token_owner cfg) (sp_pool_mint sp) (sp_token_program_id sp)"
  let ?transfer = "SystemTransferIx (unwrap_or sender (cfg_fee_payer cfg)) (nd_keypair nd (se_keys s)) amount"
  let ?authority = "fst (find_withdraw_authority_program_address rt (cfg_stake_pool_program_id cfg) pool)"
  let ?ix = "\<lambda>k ref. case cfg_funding_authority cfg of
      Some authority \<Rightarrow> deposit_sol_with_authority_ix rt (cfg_stake_pool_program_id cfg) pool authority ?authority
        (sp_reserve_stake sp) (nd_keypair nd (se_keys s)) k (sp_manager_fee_account sp) ref (sp_pool_mint sp)
        (sp_token_program_id sp) amount
    | None \<Rightarrow> deposit_sol_ix rt (cfg_stake_pool_program_id cfg) pool ?authority (sp_reserve_stake sp)
        (nd_keypair nd (se_keys s)) k (sp_manager_fee_account sp) ref (sp_pool_mint sp) (sp_token_program_id sp) amount"
  from assms(5) obtain account ixs rent t signers ref where
      tok: "add_associated_token_account cfg nd (sp_pool_mint sp) (sp_token_program_id sp) (cfg_token_owner cfg)
        [?transfer] 0 ?s = (Inr (account, ixs, rent), t)"
      and sub: "submit cfg nd (ixs @ [pool_ix (?ix receiver ref)]) signers rent t = (Inr (), s')"
    using assms(2,3)
    by (auto simp: command_deposit_sol_def update_first_def token_receiver_def unwrap_or_def command_ok Let_def
        split: if_splits)
  have ixs: "t = ?s" "ixs = [?transfer] @ [?create]"
    using add_associated_token_account_Inr [OF tok, of e] assms(4) by simp_all
  have ix: "ix_data (?ix receiver ref) = ser_instruction (DepositSol amount)" "am_pubkey (ix_accounts (?ix receiver ref) ! 4) = receiver"
    by (cases "cfg_funding_authority cfg"; simp add: deposit_sol_with_authority_ix_def deposit_sol_ix_def
        deposit_sol_internal_ix_def nth_append del: ser_instruction.simps)+
  from submit_Inr [OF sub assms(1)] obtain extra where x: "list_all budget_instruction extra"
      "confirmed nd \<lparr>tx_payer = cfg_fee_payer cfg, tx_instructions = (ixs @ [pool_ix (?ix receiver ref)]) @ extra,
        tx_signers = signers\<rparr> t s'" (is "confirmed nd ?tx _ _") by blast
  have "se_sent s' = se_sent s @ [?tx]" using x(2) by (simp add: confirmed_def ixs)
  moreover have "?create \<in> set (tx_instructions ?tx)" by (simp add: ixs)
  moreover have "pool_instructions ?tx = [?ix receiver ref]"
    using budget_no_pool_instruction [OF x(1)] by (simp add: pool_instructions_def ixs map_filter_simps)
  ultimately show ?thesis using ix by blast
qed

lemma quiet_deposit_command:
  "\<exists>s'. command_deposit_sol quiet_config quiet_node sample_rt sample_ids POOL None (Some 18) None 1200
     (session_of sample_world) = (Inr (), s')"
  by (simp add: command_deposit_sol_def token_receiver_def add_associated_token_account_def get_token_account_def
      get_account_data_def check_sol_authority_def unwrap_or_def command_eval)

lemma sample_deposit_creates_account:
  "\<exists>s' tx. command_deposit_sol quiet_config quiet_node sample_rt sample_ids POOL None (Some 18) None 1200
     (session_of sample_world) = (Inr (), s') \<and> se_sent s' = [tx] \<and>
     CreateAssociatedTokenAccount 11 11 MINT TOKEN_PROGRAM \<in> set (tx_instructions tx)"
proof -
  obtain s' where run: "command_deposit_sol quiet_config quiet_node sample_rt sample_ids POOL None (Some 18) None 1200
      (session_of sample_world) = (Inr (), s')"
    using quiet_deposit_command by blast
  from deposit_creates_unused_account [OF _ _ _ _ run, of sample_stake_pool InvalidAccount] run show ?thesis
    by (auto simp: command_eval get_token_account_def get_account_data_def)
qed

end
