(* ===== verification/Client_Transactions.thy ===== *)
theory Client_Transactions
  imports Command_Theorems
begin

section \<open>Withdrawals and texts of the client\<close>

text \<open>
  The transaction that a withdrawal of stake sends spends what it approves; and the numbers that the
  client shows are the numbers it reads.
\<close>

subsection \<open>The transaction of a stake withdrawal\<close>

text \<open>Whatever the choice of the accounts, together they are asked for the amount of the user.\<close>

lemma withdraw_accounts_sum:
  assumes "withdraw_accounts env rt pid pool use_reserve vote receiver r = Inr ws"
  shows "sum_list (map (\<lambda>a. unat (wa_pool_amount a)) ws) = unat (wr_pool_amount r)"
proof -
  have one: "validator_withdraw_account env rt pid sp pool amount md rent v = Inr ws \<Longrightarrow>
      sum_list (map (\<lambda>a. unat (wa_pool_amount a)) ws) = unat amount" for sp amount md rent v
    by (auto simp: validator_withdraw_account_def ok_iff Let_def split: if_splits)
  have plan: "prepare_withdraw_accounts env rt pid sp amount pool skip = Inr ws \<Longrightarrow>
      sum_list (map (\<lambda>a. unat (wa_pool_amount a)) ws) = unat amount" for sp amount skip
    by (erule prepare_withdraw_accounts_Inr) (use withdraw_loop_sound in fastforce)
  from assms show ?thesis
    by (auto simp: withdraw_accounts_def ok_iff Let_def split: if_splits option.splits dest: one plan)
qed

text \<open>An instruction that withdraws \<open>n\<close> tokens from \<open>account\<close> in the name of \<open>authority\<close>, for the staker.\<close>

definition withdraws :: "pubkey \<Rightarrow> pubkey \<Rightarrow> pubkey \<Rightarrow> u64 \<Rightarrow> instruction \<Rightarrow> bool" where
  "withdraws staker authority account n ix \<longleftrightarrow> ix_data ix = ser_instruction (WithdrawStake n) \<and>
     am_pubkey (ix_accounts ix ! 5) = staker \<and> am_pubkey (ix_accounts ix ! 6) = authority \<and>
     am_pubkey (ix_accounts ix ! 7) = account"

lemma withdraw_stake_ix_withdraws:
  "withdraws staker authority account n (withdraw_stake_ix rt ids pid pool list auth stake receiver staker authority
     account fee mint program n)"
  by (simp add: withdraws_def withdraw_stake_ix_def withdraw_stake_internal_ix_def del: ser_instruction.simps)

definition no_merge_instruction :: "tx_instruction \<Rightarrow> bool" where
  "no_merge_instruction i = (case i of ClientIx (StakeInstruction _) \<Rightarrow> False | _ \<Rightarrow> True)"

lemma no_merge_instruction_pool_ix [simp]: "no_merge_instruction (pool_ix ix)"
  by (simp add: no_merge_instruction_def)

text \<open>Instructions that come with a new account: none of the pool and none of the stake program.\<close>

definition plain_extension :: "tx_instruction list \<Rightarrow> tx_instruction list \<Rightarrow> bool" where
  "plain_extension ixs ixs' \<longleftrightarrow> (\<exists>new. ixs' = ixs @ new \<and> list_all no_merge_instruction new \<and>
     List.map_filter pool_instruction new = [])"

lemma withdraw_receiver_Inr:
  assumes "withdraw_receiver cfg nd rt rent receiver delegated (ixs, owed, keys) s = (Inr (k, ixs', owed', keys'), s')"
  shows "se_sent s' = se_sent s \<and> se_world s' = se_world s \<and> plain_extension ixs ixs'"
  using assms
  by (auto simp: withdraw_receiver_def new_stake_account_def command_ok plain_extension_def no_merge_instruction_def
      map_filter_simps split: option.splits if_splits)

lemma withdraw_from_accounts_Inr:
  assumes "withdraw_from_accounts cfg nd rt ids pool r receiver delegated u ws (ixs, rent, keys) s =
      (Inr (ixs', rent', keys'), s')"
  shows "se_sent s' = se_sent s \<and> se_world s' = se_world s \<and>
    (\<exists>body. ixs' = ixs @ body \<and> list_all no_merge_instruction body \<and>
      list_all2 (\<lambda>a ix. withdraws (cfg_staker cfg) u (wr_pool_token_account r) (wa_pool_amount a) ix) ws
        (List.map_filter pool_instruction body))"
  using assms
proof (induction ws arbitrary: ixs rent keys s)
  case Nil
  then show ?case by (simp add: command_ok map_filter_simps)
next
  case (Cons a ws)
  from Cons.prems obtain k ixs1 rent1 keys1 s1 where
      step: "withdraw_receiver cfg nd rt (wr_rent_exemption r) receiver delegated (ixs, rent, keys) s =
        (Inr (k, ixs1, rent1, keys1), s1)" and
      rec: "withdraw_from_accounts cfg nd rt ids pool r receiver delegated u ws
        (ixs1 @ [pool_ix (withdraw_stake_ix rt ids (cfg_stake_pool_program_id cfg) pool
           (sp_validator_list (wr_stake_pool r))
           (fst (find_withdraw_authority_program_address rt (cfg_stake_pool_program_id cfg) pool))
           (wa_stake_address a) k (cfg_staker cfg) u (wr_pool_token_account r)
           (sp_manager_fee_account (wr_stake_pool r)) (sp_pool_mint (wr_stake_pool r))
           (sp_token_program_id (wr_stake_pool r)) (wa_pool_amount a))], rent1, keys1) s1 =
        (Inr (ixs', rent', keys'), s')"
    by (auto simp: Let_def command_ok)
  from Cons.IH [OF rec] withdraw_receiver_Inr [OF step] show ?case
    by (auto simp: plain_extension_def map_filter_simps withdraw_stake_ix_withdraws)
qed

lemma merge_instructions_plain:
  "List.map_filter pool_instruction (merge_instructions cfg receiver delegated keys) = []"
  by (auto simp: merge_instructions_def split: option.splits) (induction keys; simp add: map_filter_simps)

text \<open>What a successful withdrawal sent last, and the accounts it chose.\<close>

lemma withdraw_transaction:
  assumes "\<not> cfg_dry_run cfg"
    and "command_withdraw_stake cfg nd rt ids pool use_reserve vote receiver account to_amount s = (Inr (), s')"
  shows "\<exists>w r ws before tx u.
    withdraw_accounts (nd_env nd w) rt (cfg_stake_pool_program_id cfg) pool use_reserve vote receiver r = Inr ws \<and>
    se_sent s' = before @ [tx] \<and>
    hd (tx_instructions tx) = TokenApprove (sp_token_program_id (wr_stake_pool r)) (wr_pool_token_account r) u
      (cfg_token_owner cfg) (wr_pool_amount r) \<and>
    list_all2 (withdraws (cfg_staker cfg) u (wr_pool_token_account r)) (map wa_pool_amount ws) (pool_instructions tx) \<and>
    {cfg_fee_payer cfg, cfg_token_owner cfg, u} \<subseteq> set (tx_signers tx) \<and>
    (\<forall>destination source authority.
      ClientIx (StakeInstruction (StakeMerge destination source authority)) \<in> set (tx_instructions tx) \<longrightarrow>
      authority = cfg_fee_payer cfg)"
proof -
  let ?ap = "\<lambda>r u. TokenApprove (sp_token_program_id (wr_stake_pool r)) (wr_pool_token_account r) u
        (cfg_token_owner cfg) (wr_pool_amount r)"
  let ?u = "\<lambda>t. nd_keypair nd (se_keys t)" and ?delegated = "\<lambda>t. receiver_delegated (nd_env nd (se_world t)) rt receiver"
  from assms(2) obtain t r ws ixs rent keys t3 where
      ws: "withdraw_accounts (nd_env nd (se_world t)) rt (cfg_stake_pool_program_id cfg) pool use_reserve vote receiver r = Inr ws"
      and loop1: "withdraw_from_accounts cfg nd rt ids pool r receiver (?delegated t) (?u t) ws ([?ap r (?u t)], 0, [])
        (t\<lparr>se_keys := Suc (se_keys t)\<rparr>) = (Inr (ixs, rent, keys), t3)"
      and sub1: "submit cfg nd (ixs @ merge_instructions cfg receiver (?delegated t) keys)
        (unique_signers ([cfg_fee_payer cfg, cfg_token_owner cfg, ?u t] @ keys)) rent t3 = (Inr (), s')"
    by (auto simp: command_withdraw_stake_def command_ok token_approve_def split: if_splits)
  define u where "u = ?u t"
  define delegated where "delegated = ?delegated t"
  note loop = loop1 [folded u_def delegated_def] and sub = sub1 [folded u_def delegated_def]
  from withdraw_from_accounts_Inr [OF loop] obtain body where
      body: "ixs = [?ap r u] @ body" "list_all no_merge_instruction body"
        "list_all2 (\<lambda>a ix. withdraws (cfg_staker cfg) u (wr_pool_token_account r) (wa_pool_amount a) ix) ws
          (List.map_filter pool_instruction body)" by blast
  from submit_Inr [OF sub assms(1)] obtain extra where x: "list_all budget_instruction extra"
      "confirmed nd \<lparr>tx_payer = cfg_fee_payer cfg, tx_instructions = (ixs @ merge_instructions cfg receiver delegated keys) @ extra,
        tx_signers = unique_signers ([cfg_fee_payer cfg, cfg_token_owner cfg, u] @ keys)\<rparr> t3 s'" (is "confirmed nd ?tx _ _")
    by blast
  have pool: "pool_instructions ?tx = List.map_filter pool_instruction body"
    using budget_no_pool_instruction [OF x(1)]
    by (simp add: pool_instructions_def body(1) map_filter_simps merge_instructions_plain)
  have "\<forall>destination source authority.
      ClientIx (StakeInstruction (StakeMerge destination source authority)) \<in> set (tx_instructions ?tx) \<longrightarrow>
      authority = cfg_fee_payer cfg"
    using body(2) x(1)
    by (auto simp: body(1) merge_instructions_def list_all_iff no_merge_instruction_def budget_instruction_def
        split: option.splits if_splits)
  moreover have "list_all2 (withdraws (cfg_staker cfg) u (wr_pool_token_account r)) (map wa_pool_amount ws) (pool_instructions ?tx)"
    unfolding pool using body(3) by (simp add: list_all2_map1)
  moreover have "hd (tx_instructions ?tx) = ?ap r u" by (simp add: body(1))
  moreover have "se_sent s' = se_sent t3 @ [?tx]" using x(2) by (simp add: confirmed_def)
  moreover have "{cfg_fee_payer cfg, cfg_token_owner cfg, u} \<subseteq> set (tx_signers ?tx)" by simp
  ultimately show ?thesis using ws by blast
qed


text \<open>A withdrawal from the reserve, by the owner of a token account with enough tokens.\<close>

definition holder_world :: world where
  "holder_world = sample_world(12 := sample_account 1000 [3] TOKEN_PROGRAM)"

lemma holder_world_simps [simp]:
  "holder_world POOL = sample_world POOL" "holder_world 12 = sample_account 1000 [3] TOKEN_PROGRAM"
  "holder_world 11 = sample_world 11"
  by (simp_all add: holder_world_def)

lemma quiet_withdraw_command:
  "\<exists>s'. command_withdraw_stake quiet_config quiet_node sample_rt sample_ids POOL True None None None (\<lambda>_. 1000000)
     (session_of holder_world) = (Inr (), s')"
  by (simp add: command_withdraw_stake_def withdraw_request_of_def get_token_mint_def get_token_account_def get_account_data_def
      token_account_of_def unwrap_or_def withdraw_accounts_def receiver_delegated_def stake_receiver_vote_def token_approve_def
      withdraw_receiver_def new_stake_account_def sample_prices command_eval)


subsection \<open>Numbers that are shown and read\<close>

lemma digit_of_digit_char [simp]: "d < 10 \<Longrightarrow> digit_of (digit_char d) = Some d"
  by (simp add: digit_of_def digit_char_def)

lemma digit_char_neq [simp]: "d < 10 \<Longrightarrow> digit_char d \<noteq> CHR ''+''" "d < 10 \<Longrightarrow> digit_char d \<noteq> CHR ''/''"
  using digit_of_digit_char [of d] by (auto simp: digit_of_def)

lemma show_nat_digits: "c \<in> set (show_nat n) \<Longrightarrow> \<exists>d < 10. c = digit_char d"
proof (induction n rule: show_nat.induct)
  case (1 n)
  have "n mod 10 < 10" by simp
  then show ?case using 1 by (subst (asm) (2) show_nat.simps) (auto split: if_splits intro: exI [of _ "n mod 10"])
qed

lemma show_nat_Cons: "\<exists>d cs. d < 10 \<and> show_nat n = digit_char d # cs"
proof -
  have "show_nat n \<noteq> []" by (subst show_nat.simps) simp
  then obtain c cs where "show_nat n = c # cs" by (cases "show_nat n") auto
  with show_nat_digits [of c n] show ?thesis by auto
qed

lemma parse_digits_append:
  "parse_digits bound acc (cs @ ds) = Option.bind (parse_digits bound acc cs) (\<lambda>acc. parse_digits bound acc ds)"
  by (induction cs arbitrary: acc) (auto split: option.splits)

lemma parse_digits_show: "n < bound \<Longrightarrow> parse_digits bound 0 (show_nat n) = Some n"
proof (induction n rule: show_nat.induct)
  case (1 n)
  show ?case
  proof (cases "n < 10")
    case True
    then show ?thesis using "1.prems" by (subst show_nat.simps) simp
  next
    case False
    then have "parse_digits bound 0 (show_nat (n div 10)) = Some (n div 10)" using 1 by simp
    then show ?thesis using False "1.prems"
      by (subst show_nat.simps) (simp add: parse_digits_append)
  qed
qed

lemma parse_show_u64 [simp]: "parse_u64 (show_nat (unat x)) = Some x"
proof -
  obtain d cs where d: "d < 10" "show_nat (unat x) = digit_char d # cs" using show_nat_Cons by blast
  have "unat x < 2 ^ 64" using unat_lt2p [of x] by simp
  from parse_digits_show [OF this] d show ?thesis by (simp add: parse_u64_def parse_uint_def)
qed

text \<open>A fee that the client shows can be typed in again: read as the numbers before and after the slash, the text of a fee gives the
  numerator and the denominator of the fee, for every fee.\<close>

lemma shown_fee_reads_back:
  "parse_u64 (takeWhile (\<lambda>c. c \<noteq> CHR ''/'') (show_fee (cli_fee_from fee))) = Some (numerator fee) \<and>
   parse_u64 (tl (dropWhile (\<lambda>c. c \<noteq> CHR ''/'') (show_fee (cli_fee_from fee)))) = Some (denominator fee)"
proof -
  have "c \<noteq> CHR ''/''" if "c \<in> set (show_nat n)" for c n using show_nat_digits [OF that] by auto
  then show ?thesis by (simp add: show_fee_def cli_fee_from_def)
qed

text \<open>What the validator of the command line accepts as a limit is what the parser reads, so that unwrapping its result does not panic.\<close>

lemma accepted_limit_parses: "is_compute_unit_limit_or_simulated s \<longleftrightarrow> parse_compute_unit_limit s \<noteq> None"
  by (auto simp: is_compute_unit_limit_or_simulated_def parse_compute_unit_limit_def split: option.splits)

end
