(* ===== verification/Argument_Theorems.thy ===== *)
theory Argument_Theorems
  imports Client_Arguments Client_Transactions
begin

section \<open>Theorems on the arguments of the client\<close>

text \<open>
  What the table of arguments guarantees to the code that reads them: on an accepted command line the client panics over its
  arguments in one case only, and two commands rely on the groups of their arguments.
\<close>

subsection \<open>Reading arguments\<close>

lemma bindE_eq_Inl: "bindE m f = Inl e \<longleftrightarrow> m = Inl e \<or> (\<exists>x. m = Inr x \<and> f x = Inl e)"
  by (cases m) auto

lemma readers_panic:
  "value_or_exit args name parse \<noteq> Inl CliPanic" "get_signer args name path null \<noteq> Inl CliPanic"
  "pubkey_arg args name = Inl CliPanic \<longleftrightarrow> ag_pubkey_of args name = None"
  "choice_arg args name choices = Inl CliPanic \<longleftrightarrow> Option.bind (ag_value_of args name) (map_of choices) = None"
  "ok_or v CliPanic = Inl CliPanic \<longleftrightarrow> v = None"
  by (auto simp: value_or_exit_def get_signer_def pubkey_arg_def choice_arg_def ok_or_def split: option.splits)

text \<open>A required address, a required choice and a required percentage are there to be read.\<close>

lemma accepted_arg: "fits vd d args \<Longrightarrow> a \<in> set (de_args d) \<Longrightarrow> arg_fits vd (de_groups d) args a"
  by (simp add: fits_def list_all_iff)

lemma required_value:
  "arg_fits vd gs args (required_at i name check) \<Longrightarrow> \<exists>s. ag_value_of args name = Some s \<and> check_value vd check s"
  by (auto simp: arg_fits_def arg_builders)

lemma checked_pubkey:
  assumes "reads_addresses vd args" "ag_value_of args name = Some s" "vd_is_pubkey vd s"
  shows "ag_pubkey_of args name \<noteq> None"
  using assms(1) [unfolded reads_addresses_def, rule_format, of name] assms(2,3) by simp

lemma no_value_no_pubkey: "reads_addresses vd args \<Longrightarrow> ag_value_of args name = None \<Longrightarrow> ag_pubkey_of args name = None"
  by (auto simp: reads_addresses_def dest: spec [of _ name])

lemma checked_percentage:
  assumes "validators_ok vd fl" "value_or_exit args name parse_u8 = Inr p"
    "ag_value_of args name = Some s" "vd_is_valid_percentage vd s"
  shows "p \<le> 100"
  using assms by (fastforce simp: value_or_exit_def validators_ok_def)

lemmas arms = arm_create_pool_def arm_token_metadata_def arm_validator_def arm_validator_stake_def
  arm_set_preferred_validator_def arm_deposit_stake_def arm_deposit_sol_def arm_list_def arm_update_def
  arm_withdraw_stake_def arm_withdraw_sol_def arm_set_manager_def arm_set_staker_def arm_set_funding_authority_def
  arm_set_fee_def arm_set_referral_fee_def arm_set_max_validator_stake_def arm_deposit_all_stake_def

text \<open>When an arm panics.\<close>

lemma arm_panicD:
  "arm_create_pool cfg nd rt args = Inl CliPanic \<Longrightarrow> False"
  "arm_token_metadata c args = Inl CliPanic \<Longrightarrow> ag_pubkey_of args ''pool'' = None"
  "arm_validator c' args = Inl CliPanic \<Longrightarrow> ag_pubkey_of args ''pool'' = None \<or> ag_pubkey_of args ''vote_account'' = None"
  "arm_validator_stake fl c'' args = Inl CliPanic \<Longrightarrow>
    ag_pubkey_of args ''pool'' = None \<or> ag_pubkey_of args ''vote_account'' = None"
  "arm_set_preferred_validator cfg nd args = Inl CliPanic \<Longrightarrow> ag_pubkey_of args ''pool'' = None \<or>
    Option.bind (ag_value_of args ''preferred_type'')
      (map_of [(''deposit'', PreferredDeposit), (''withdraw'', PreferredWithdraw)]) = None"
  "arm_deposit_stake cfg nd rt ids cc args = Inl CliPanic \<Longrightarrow>
    ag_pubkey_of args ''pool'' = None \<or> ag_pubkey_of args ''stake_account'' = None"
  "arm_deposit_all_stake cfg nd rt ids cc args = Inl CliPanic \<Longrightarrow>
    ag_pubkey_of args ''pool'' = None \<or> ag_pubkey_of args ''stake_authority'' = None"
  "arm_deposit_sol cfg nd rt ids fl args = Inl CliPanic \<Longrightarrow> ag_pubkey_of args ''pool'' = None"
  "arm_list cfg nd rt dp args = Inl CliPanic \<Longrightarrow> ag_pubkey_of args ''pool'' = None"
  "arm_update cfg nd rt ids args = Inl CliPanic \<Longrightarrow> ag_pubkey_of args ''pool'' = None"
  "arm_withdraw_stake cfg nd rt ids fl args = Inl CliPanic \<Longrightarrow> ag_pubkey_of args ''pool'' = None"
  "arm_withdraw_sol cfg nd rt ids fl cc args = Inl CliPanic \<Longrightarrow> ag_pubkey_of args ''pool'' = None"
  "arm_set_manager cfg nd rt ids args = Inl CliPanic \<Longrightarrow> ag_pubkey_of args ''pool'' = None"
  "arm_set_staker cfg nd rt ids args = Inl CliPanic \<Longrightarrow>
    ag_pubkey_of args ''pool'' = None \<or> ag_pubkey_of args ''new_staker'' = None"
  "arm_set_max_validator_stake cfg nd rt ids fl args = Inl CliPanic \<Longrightarrow>
    ag_pubkey_of args ''pool'' = None \<or> ag_value_of args ''max_stake'' = None"
  by (auto simp: arms bindE_eq_Inl readers_panic Let_def split: if_splits option.splits)

lemma arm_set_panicD:
  "arm_set_funding_authority cfg nd rt ids args = Inl CliPanic \<Longrightarrow> ag_pubkey_of args ''pool'' = None \<or>
    Option.bind (ag_value_of args ''funding_type'')
      (map_of [(''sol-deposit'', FundingSolDeposit), (''stake-deposit'', FundingStakeDeposit),
        (''sol-withdraw'', FundingSolWithdraw)]) = None"
  "arm_set_fee cfg nd rt ids args = Inl CliPanic \<Longrightarrow> ag_pubkey_of args ''pool'' = None \<or>
    Option.bind (ag_value_of args ''fee_type'')
      (map_of [(''epoch'', Epoch), (''stake-deposit'', StakeDeposit), (''sol-deposit'', SolDeposit),
        (''stake-withdrawal'', StakeWithdrawal), (''sol-withdrawal'', SolWithdrawal)]) = None"
  "arm_set_referral_fee cfg nd rt ids args = Inl CliPanic \<Longrightarrow> ag_pubkey_of args ''pool'' = None \<or>
    (\<exists>p. value_or_exit args ''fee'' parse_u8 = Inr p \<and> \<not> p \<le> 100) \<or>
    Option.bind (ag_value_of args ''fee_type'') (map_of [(''sol'', SolReferral), (''stake'', StakeReferral)]) = None"
  by (auto simp: arms bindE_eq_Inl readers_panic simp del: map_of.simps split: if_splits option.splits)

lemma accepted_arm_no_panic:
  assumes "validators_ok vd fl" "reads_addresses vd args" "d \<in> set app_declarations" "fits vd d args"
    "map_of (subcommands cfg nd rt ids fl dp cc) (de_name d) = Some arm" "d \<noteq> declare_set_staker"
  shows "arm args \<noteq> Inl CliPanic"
proof
  assume panic: "arm args = Inl CliPanic"
  show False
    using assms(3-6) panic
    unfolding app_declarations_def list.set insert_iff empty_iff
    by (elim disjE FalseE; hypsubst;
      auto simp: declare_defs subcommands_def fits_def
        dest!: required_value arm_panicD arm_set_panicD
        dest: checked_pubkey [OF assms(2)] checked_percentage [OF assms(1)])
qed

text \<open>The subcommand without an arm that does not panic, and the table and the dispatch have the same names.\<close>

lemma set_staker_panics:
  assumes "reads_addresses vd args" "fits vd declare_set_staker args"
  shows "arm_set_staker cfg nd rt ids args = Inl CliPanic \<longleftrightarrow> ag_value_of args ''new_staker'' = None"
proof -
  have fit: "arg_fits vd [] args (required_at 1 ''pool'' IsPubkey)" "arg_fits vd [] args (optional_at 2 ''new_staker'' IsPubkey)"
    using assms(2) by (simp_all add: fits_def declare_set_staker_def)
  then have "ag_pubkey_of args ''pool'' \<noteq> None"
    using required_value checked_pubkey [OF assms(1)] by fastforce
  moreover have "ag_pubkey_of args ''new_staker'' = None \<longleftrightarrow> ag_value_of args ''new_staker'' = None"
    using fit(2) checked_pubkey [OF assms(1)] no_value_no_pubkey [OF assms(1)]
    by (auto simp: arg_fits_def arg_builders split: option.splits)
  ultimately show ?thesis
    by (auto simp: arm_set_staker_def bindE_eq_Inl readers_panic pubkey_arg_def)
qed

lemma every_table_has_an_arm:
  assumes "d \<in> set app_declarations"
  shows "\<exists>arm. map_of (subcommands cfg nd rt ids fl dp cc) (de_name d) = Some arm"
  using assms unfolding app_declarations_def list.set insert_iff empty_iff
  by (elim disjE FalseE; hypsubst; simp add: declare_defs subcommands_def)

lemma accepted_arm_panics:
  assumes "validators_ok vd fl" "reads_addresses vd args" "d \<in> set app_declarations" "fits vd d args"
    "map_of (subcommands cfg nd rt ids fl dp cc) (de_name d) = Some arm"
  shows "arm args = Inl CliPanic \<longleftrightarrow> de_name d = ''set-staker'' \<and> ag_value_of args ''new_staker'' = None"
proof (cases "d = declare_set_staker")
  case True
  then have "arm = arm_set_staker cfg nd rt ids" using assms(5) by (simp add: declare_defs subcommands_def)
  with set_staker_panics [OF assms(2)] assms(4) True show ?thesis by (simp add: declare_set_staker_def)
next
  case False
  then have "de_name d \<noteq> ''set-staker''" using assms(3) by (auto simp: app_declarations_def declare_defs)
  with accepted_arm_no_panic [OF assms False] show ?thesis by simp
qed

subsection \<open>The configuration\<close>

lemma compute_unit_limit_checked:
  "is_compute_unit_limit_or_simulated s \<Longrightarrow> parse_compute_unit_limit s \<noteq> None"
  by (auto simp: is_compute_unit_limit_or_simulated_def parse_compute_unit_limit_def split: option.splits)

lemma main_config_no_panic:
  assumes "list_all (arg_fits vd [] matches) (global_args price)"
  shows "main_config cc matches \<noteq> Inl CliPanic"
proof -
  have "arg_fits vd [] matches (option_arg ''output_format'' ''output'' (PossibleValues [''json'', ''json-compact'']))"
    "arg_fits vd [] matches (option_arg ''compute_unit_limit'' ''--with-compute-unit-limit'' IsComputeUnitLimit)"
    using assms by (simp_all add: global_args_def)
  then show ?thesis
    by (auto simp: main_config_def bindE_eq_Inl readers_panic arg_fits_def arg_builders Let_def
        dest: compute_unit_limit_checked split: option.splits if_splits)
qed

lemma main_config_errors: "main_config cc matches = Inl e \<Longrightarrow> e = CliExit \<or> e = CliPanic"
  by (auto simp: main_config_def bindE_eq_Inl get_signer_def ok_or_def Let_def split: option.splits if_splits)

text \<open>C34: The client reads every command line that its argument table accepts: it stops over an unreadable key of the configuration,
  or runs the arm of the subcommand, and the only arm that can panic over its arguments is \<open>set-staker\<close>, exactly when the new staker is left
  out. The parser returns only arguments that fit the table, and the validators of amounts, addresses and percentages accept nothing else.\<close>

theorem accepted_line_is_read:
  assumes "validators_ok vd fl" and "parser_ok vd price get_matches"
    and "get_matches (global_args price) app_declarations = Some (matches, name, args)"
    and cc: "cc = read_cli_config load default_config matches"
  shows "(\<forall>s. cli_main get_matches price load default_config nd rt ids fl dp s = (Inl CliExit, s)) \<or>
    (\<exists>cfg arm. main_config cc matches = Inr cfg \<and>
      map_of (subcommands cfg nd rt ids fl dp cc) name = Some arm \<and>
      cli_main get_matches price load default_config nd rt ids fl dp = run_arm (arm args) \<and>
      (arm args = Inl CliPanic \<longleftrightarrow> name = ''set-staker'' \<and> ag_value_of args ''new_staker'' = None))"
proof (cases "main_config cc matches")
  case (Inl e)
  then have "e = CliExit"
    using main_config_errors main_config_no_panic assms(2,3) by (fastforce simp: parser_ok_def)
  then show ?thesis using Inl assms(3) cc by (simp add: cli_main_def client_main_def bindC_def liftC_def)
next
  case (Inr cfg)
  from assms(2,3) obtain d where d: "reads_addresses vd args" "d \<in> set app_declarations" "fits vd d args" "de_name d = name"
    by (auto simp: parser_ok_def list_ex_iff)
  then obtain arm where arm: "map_of (subcommands cfg nd rt ids fl dp cc) name = Some arm"
    using every_table_has_an_arm by metis
  then have "cli_main get_matches price load default_config nd rt ids fl dp = run_arm (arm args)"
    using Inr assms(3) cc by (auto simp: cli_main_def client_main_def bindC_def liftC_def)
  moreover have "arm args = Inl CliPanic \<longleftrightarrow> name = ''set-staker'' \<and> ag_value_of args ''new_staker'' = None"
    using accepted_arm_panics [OF assms(1) d(1-3)] arm d(4) by metis
  ultimately show ?thesis using Inr arm by blast
qed

text \<open>A parser that returns one command line: \<open>set-staker\<close> with a pool and no staker.\<close>

definition sample_validators :: validators where
  "sample_validators =
     \<lparr>vd_is_url = (\<lambda>_. True), vd_is_valid_signer = (\<lambda>_. True), vd_is_pubkey = (\<lambda>_. True), vd_is_valid_pubkey = (\<lambda>_. True),
      vd_is_keypair_or_ask_keyword = (\<lambda>_. True), vd_is_amount = (\<lambda>s. parse_u64 s \<noteq> None),
      vd_is_valid_percentage = (\<lambda>s. case parse_u8 s of None \<Rightarrow> False | Some p \<Rightarrow> p \<le> 100)\<rparr>"

definition given_args :: "(string \<times> string) list \<Rightarrow> arg_matches" where
  "given_args given =
     \<lparr>ag_value_of = map_of given, ag_is_present = (\<lambda>n. map_of given n \<noteq> None),
      ag_pubkey_of = (\<lambda>n. map_option (\<lambda>_. POOL) (map_of given n)), ag_keypair_of = (\<lambda>_. None),
      ag_signer_from_path = (\<lambda>path name null. Some 11)\<rparr>"

definition sample_parser :: "arg list \<Rightarrow> arg_table list \<Rightarrow> (arg_matches \<times> string \<times> arg_matches) option" where
  "sample_parser globals tables = Some (given_args [], ''set-staker'', given_args [(''pool'', ''5'')])"

lemma sample_validators_ok: "validators_ok sample_validators sample_floats"
  by (auto simp: validators_ok_def sample_validators_def sample_floats_def split: option.splits)

lemma given_args_reads: "reads_addresses sample_validators (given_args given)"
  by (simp add: reads_addresses_def given_args_def split: option.splits)

lemma sample_parser_ok: "parser_ok sample_validators (flag ''compute_unit_price'' ''price'') sample_parser"
  by (simp add: parser_ok_def sample_parser_def given_args_reads)
    (simp add: global_args_def app_declarations_def declare_defs fits_defs arg_builders given_args_def sample_validators_def)

abbreviation sample_line :: "unit command" where
  "sample_line \<equiv> cli_main sample_parser (flag ''compute_unit_price'' ''price'') (\<lambda>_. None) sample_cli_config sample_node sample_rt
     sample_ids sample_floats sample_display"

lemma sample_line_config:
  "\<exists>cfg. main_config (read_cli_config (\<lambda>_. None) sample_cli_config (given_args [])) (given_args []) = Inr cfg"
  by (simp add: main_config_def get_signer_def given_args_def read_cli_config_def)

lemma sample_line_no_exit: "\<not> (\<forall>s. sample_line s = (Inl CliExit, s))"
proof -
  obtain cfg where cfg: "main_config (read_cli_config (\<lambda>_. None) sample_cli_config (given_args [])) (given_args []) = Inr cfg"
    using sample_line_config by blast
  have "fst (sample_line (session_of sample_world)) \<noteq> Inl CliExit"
    unfolding cli_main_def sample_parser_def client_main_def
    by (simp add: bindC_def liftC_def cfg subcommands_def run_arm_def arm_set_staker_def pubkey_arg_def)
      (simp add: given_args_def)
  then show ?thesis by (metis fst_conv)
qed

theorem accepted_line_is_read_witness: "\<exists>s. sample_line s = (Inl CliPanic, s)"
proof -
  from accepted_line_is_read [where get_matches = sample_parser, OF sample_validators_ok sample_parser_ok sample_parser_def refl,
      of "\<lambda>_. None" sample_cli_config sample_node sample_rt sample_ids sample_display]
  obtain arm where "sample_line = run_arm (arm (given_args [(''pool'', ''5'')]))"
      "arm (given_args [(''pool'', ''5'')]) = Inl CliPanic"
    using sample_line_no_exit by (auto simp: given_args_def)
  then show ?thesis by (simp add: run_arm_def bindC_def liftC_def)
qed

subsection \<open>Groups of arguments\<close>

text \<open>A preference is set or unset: the two arguments exclude each other, and \<open>unset\<close> leaves no vote account.\<close>

lemma unset_preference:
  assumes "reads_addresses vd args" "fits vd declare_set_preferred_validator args" "ag_is_present args ''unset''"
    and "arm_set_preferred_validator cfg nd args = Inr command"
  shows "\<exists>pool kind. command = command_set_preferred_validator cfg nd pool kind None"
proof -
  have "ag_value_of args ''vote_account'' = None"
    using assms(2,3) by (auto simp: fits_defs declare_set_preferred_validator_def arg_builders split: if_splits)
  then show ?thesis
    using assms(4) no_value_no_pubkey [OF assms(1)] by (auto simp: arm_set_preferred_validator_def ok_iff)
qed

text \<open>A stake account that receives a withdrawal comes with the choice of one account to withdraw from.\<close>

lemma receiver_needs_source:
  assumes "reads_addresses vd args" "fits vd declare_withdraw_stake args" "ag_value_of args ''stake_receiver'' \<noteq> None"
  shows "ag_is_present args ''use_reserve'' \<or> ag_pubkey_of args ''vote_account'' \<noteq> None"
  using assms(2,3) checked_pubkey [OF assms(1)]
  by (auto simp: fits_defs declare_withdraw_stake_def arg_builders split: option.splits if_splits)

lemma withdraw_accounts_single:
  assumes "withdraw_accounts env rt pid pool use_reserve vote receiver r = Inr ws" "use_reserve \<or> vote \<noteq> None"
  shows "\<exists>a. ws = [a]"
  using assms
  by (auto simp: withdraw_accounts_def validator_withdraw_account_def ok_iff Let_def split: if_splits option.splits)


text \<open>A withdrawal from the reserve into an account that holds no stake.\<close>

definition reserve_args :: arg_matches where
  "reserve_args =
     (given_args [(''pool'', ''5''), (''amount'', ''1000000''), (''stake_receiver'', ''30'')])
       \<lparr>ag_is_present := (\<lambda>n. n \<in> set [''pool'', ''amount'', ''stake_receiver'', ''use_reserve''])\<rparr>"

lemma reserve_args_reads: "reads_addresses sample_validators reserve_args"
  by (simp add: reads_addresses_def reserve_args_def given_args_def split: option.splits)

lemma reserve_args_fit: "fits sample_validators declare_withdraw_stake reserve_args"
  by (simp add: fits_defs declare_withdraw_stake_def arg_builders reserve_args_def given_args_def sample_validators_def)
    (simp add: parse_u64_def parse_uint_def digit_of_def)

lemma reserve_arm:
  "arm_withdraw_stake quiet_config quiet_node sample_rt sample_ids sample_floats reserve_args =
     Inr (command_withdraw_stake quiet_config quiet_node sample_rt sample_ids POOL True None (Some POOL) None (\<lambda>_. 1000000))"
  by (simp add: arm_withdraw_stake_def reserve_args_def given_args_def pubkey_arg_def value_or_exit_def sample_floats_def)
    (simp add: parse_u64_def parse_uint_def digit_of_def)

lemma quiet_withdraw_to_account:
  "\<exists>s'. command_withdraw_stake quiet_config quiet_node sample_rt sample_ids POOL True None (Some POOL) None (\<lambda>_. 1000000)
     (session_of holder_world) = (Inr (), s')"
  by (simp add: command_withdraw_stake_def withdraw_request_of_def get_token_mint_def get_token_account_def get_account_data_def
      token_account_of_def unwrap_or_def withdraw_accounts_def receiver_delegated_def stake_receiver_vote_def token_approve_def
      withdraw_receiver_def new_stake_account_def sample_prices command_eval)


end
