(* ===== verification/Documented_Accounts.thy ===== *)
theory Documented_Accounts
  imports Instruction_Builders
begin

section \<open>The documented accounts of the instructions\<close>

text \<open>
  The comments on \<open>StakePoolInstruction\<close> in \<open>src/program/src/instruction.rs\<close> list the accounts of every instruction, with
  the flags \<open>w\<close> (writable) and \<open>s\<close> (signer). They are the interface for clients that build instructions themselves. Here they
  are a table, which the functions that build instructions follow up to the corrections of \<open>corrected_accounts\<close>.
\<close>

subsection \<open>The table\<close>

datatype doc_role = DocPlain | DocW | DocS | DocSW | DocSOrPlain

text \<open>Accounts after those of the list: none, one optional account, or pairs of accounts.\<close>

datatype doc_further = NoFurther | OneFurther doc_role | PairsFurther doc_role

definition doc_initialize :: "doc_role list \<times> doc_further" where
  "doc_initialize =
     ([DocW, DocS, DocPlain, DocPlain, DocW, DocPlain, DocPlain, DocPlain, DocPlain], OneFurther DocPlain)"

definition doc_add_validator :: "doc_role list \<times> doc_further" where
  "doc_add_validator =
     ([DocW, DocS, DocW, DocPlain, DocW, DocW, DocPlain, DocPlain, DocPlain, DocPlain, DocPlain, DocPlain, DocPlain],
      NoFurther)"

definition doc_remove_validator :: "doc_role list \<times> doc_further" where
  "doc_remove_validator = ([DocW, DocS, DocPlain, DocW, DocW, DocW, DocPlain, DocPlain], NoFurther)"

definition doc_decrease_validator_stake :: "doc_role list \<times> doc_further" where
  "doc_decrease_validator_stake =
     ([DocPlain, DocS, DocPlain, DocW, DocW, DocW, DocPlain, DocPlain, DocPlain, DocPlain], NoFurther)"

definition doc_increase_validator_stake :: "doc_role list \<times> doc_further" where
  "doc_increase_validator_stake =
     ([DocPlain, DocS, DocPlain, DocW, DocW, DocW, DocPlain, DocPlain, DocPlain, DocPlain, DocPlain, DocPlain, DocPlain,
       DocPlain], NoFurther)"

definition doc_set_preferred_validator :: "doc_role list \<times> doc_further" where
  "doc_set_preferred_validator = ([DocW, DocS, DocPlain], NoFurther)"

definition doc_update_validator_list_balance :: "doc_role list \<times> doc_further" where
  "doc_update_validator_list_balance =
     ([DocPlain, DocPlain, DocW, DocW, DocPlain, DocPlain, DocPlain], PairsFurther DocPlain)"

definition doc_update_stake_pool_balance :: "doc_role list \<times> doc_further" where
  "doc_update_stake_pool_balance = ([DocW, DocPlain, DocW, DocPlain, DocW, DocW, DocPlain], NoFurther)"

definition doc_cleanup :: "doc_role list \<times> doc_further" where
  "doc_cleanup = ([DocPlain, DocW], NoFurther)"

definition doc_deposit_stake :: "doc_role list \<times> doc_further" where
  "doc_deposit_stake =
     ([DocW, DocW, DocSOrPlain, DocPlain, DocW, DocW, DocW, DocW, DocW, DocW, DocW, DocPlain, DocPlain, DocPlain, DocPlain],
      NoFurther)"

definition doc_withdraw_stake :: "doc_role list \<times> doc_further" where
  "doc_withdraw_stake =
     ([DocW, DocW, DocPlain, DocW, DocW, DocPlain, DocS, DocW, DocW, DocW, DocPlain, DocPlain, DocPlain], NoFurther)"

definition doc_set_manager :: "doc_role list \<times> doc_further" where
  "doc_set_manager = ([DocW, DocS, DocS, DocPlain], NoFurther)"

definition doc_set_fee :: "doc_role list \<times> doc_further" where
  "doc_set_fee = ([DocW, DocS], NoFurther)"

definition doc_set_staker :: "doc_role list \<times> doc_further" where
  "doc_set_staker = ([DocW, DocS, DocPlain], NoFurther)"

definition doc_deposit_sol :: "doc_role list \<times> doc_further" where
  "doc_deposit_sol =
     ([DocW, DocPlain, DocW, DocS, DocW, DocW, DocW, DocW, DocPlain, DocPlain], OneFurther DocS)"

definition doc_set_funding_authority :: "doc_role list \<times> doc_further" where
  "doc_set_funding_authority = ([DocW, DocS], OneFurther DocPlain)"

definition doc_withdraw_sol :: "doc_role list \<times> doc_further" where
  "doc_withdraw_sol =
     ([DocW, DocPlain, DocS, DocW, DocW, DocW, DocW, DocW, DocPlain, DocPlain, DocPlain, DocPlain], OneFurther DocS)"

definition doc_create_token_metadata :: "doc_role list \<times> doc_further" where
  "doc_create_token_metadata =
     ([DocPlain, DocS, DocPlain, DocPlain, DocSW, DocW, DocPlain, DocPlain], NoFurther)"

definition doc_update_token_metadata :: "doc_role list \<times> doc_further" where
  "doc_update_token_metadata = ([DocPlain, DocS, DocPlain, DocW, DocPlain], NoFurther)"

definition doc_increase_additional :: "doc_role list \<times> doc_further" where
  "doc_increase_additional =
     ([DocPlain, DocS, DocPlain, DocW, DocW, DocW, DocW, DocPlain, DocPlain, DocPlain, DocPlain, DocPlain, DocPlain,
       DocPlain], NoFurther)"

definition doc_decrease_additional :: "doc_role list \<times> doc_further" where
  "doc_decrease_additional =
     ([DocPlain, DocS, DocPlain, DocW, DocW, DocW, DocW, DocW, DocPlain, DocPlain, DocPlain, DocPlain], NoFurther)"

definition doc_decrease_with_reserve :: "doc_role list \<times> doc_further" where
  "doc_decrease_with_reserve =
     ([DocPlain, DocS, DocPlain, DocW, DocW, DocW, DocW, DocPlain, DocPlain, DocPlain, DocPlain], NoFurther)"

definition doc_redelegate :: "doc_role list \<times> doc_further" where
  "doc_redelegate =
     ([DocPlain, DocS, DocPlain, DocW, DocW, DocW, DocW, DocW, DocW, DocPlain, DocPlain, DocPlain, DocPlain, DocPlain,
       DocPlain, DocPlain], NoFurther)"

definition doc_deposit_stake_slippage :: "doc_role list \<times> doc_further" where
  "doc_deposit_stake_slippage =
     ([DocW, DocW, DocSOrPlain, DocPlain, DocW, DocW, DocW, DocW, DocW, DocW, DocW, DocPlain, DocPlain, DocPlain, DocPlain],
      NoFurther)"

definition doc_withdraw_stake_slippage :: "doc_role list \<times> doc_further" where
  "doc_withdraw_stake_slippage =
     ([DocW, DocW, DocPlain, DocW, DocW, DocPlain, DocS, DocW, DocW, DocW, DocPlain, DocPlain, DocPlain], NoFurther)"

definition doc_deposit_sol_slippage :: "doc_role list \<times> doc_further" where
  "doc_deposit_sol_slippage =
     ([DocW, DocPlain, DocW, DocS, DocW, DocW, DocW, DocW, DocPlain, DocPlain], OneFurther DocS)"

definition doc_withdraw_sol_slippage :: "doc_role list \<times> doc_further" where
  "doc_withdraw_sol_slippage =
     ([DocW, DocPlain, DocS, DocW, DocW, DocW, DocW, DocW, DocPlain, DocPlain, DocPlain, DocPlain], OneFurther DocS)"

definition doc_set_max_validator_stake :: "doc_role list \<times> doc_further" where
  "doc_set_max_validator_stake = ([DocW, DocS], NoFurther)"

fun documented_accounts :: "stake_pool_instruction \<Rightarrow> doc_role list \<times> doc_further" where
  "documented_accounts (Initialize _ _ _ _ _) = doc_initialize"
| "documented_accounts (AddValidatorToPool _) = doc_add_validator"
| "documented_accounts RemoveValidatorFromPool = doc_remove_validator"
| "documented_accounts (DecreaseValidatorStake _ _) = doc_decrease_validator_stake"
| "documented_accounts (IncreaseValidatorStake _ _) = doc_increase_validator_stake"
| "documented_accounts (SetPreferredValidator _ _) = doc_set_preferred_validator"
| "documented_accounts (UpdateValidatorListBalance _ _) = doc_update_validator_list_balance"
| "documented_accounts UpdateStakePoolBalance = doc_update_stake_pool_balance"
| "documented_accounts CleanupRemovedValidatorEntries = doc_cleanup"
| "documented_accounts DepositStake = doc_deposit_stake"
| "documented_accounts (WithdrawStake _) = doc_withdraw_stake"
| "documented_accounts SetManager = doc_set_manager"
| "documented_accounts (SetFee _) = doc_set_fee"
| "documented_accounts SetStaker = doc_set_staker"
| "documented_accounts (DepositSol _) = doc_deposit_sol"
| "documented_accounts (SetFundingAuthority _) = doc_set_funding_authority"
| "documented_accounts (WithdrawSol _) = doc_withdraw_sol"
| "documented_accounts (CreateTokenMetadata _ _ _) = doc_create_token_metadata"
| "documented_accounts (UpdateTokenMetadata _ _ _) = doc_update_token_metadata"
| "documented_accounts (IncreaseAdditionalValidatorStake _ _ _) = doc_increase_additional"
| "documented_accounts (DecreaseAdditionalValidatorStake _ _ _) = doc_decrease_additional"
| "documented_accounts (DecreaseValidatorStakeWithReserve _ _) = doc_decrease_with_reserve"
| "documented_accounts (Redelegate _ _ _ _) = doc_redelegate"
| "documented_accounts (DepositStakeWithSlippage _) = doc_deposit_stake_slippage"
| "documented_accounts (WithdrawStakeWithSlippage _ _) = doc_withdraw_stake_slippage"
| "documented_accounts (DepositSolWithSlippage _ _) = doc_deposit_sol_slippage"
| "documented_accounts (WithdrawSolWithSlippage _ _) = doc_withdraw_sol_slippage"
| "documented_accounts (SetMaxValidatorStake _) = doc_set_max_validator_stake"

lemmas doc_defs = doc_initialize_def doc_add_validator_def doc_remove_validator_def doc_decrease_validator_stake_def
  doc_increase_validator_stake_def doc_set_preferred_validator_def doc_update_validator_list_balance_def
  doc_update_stake_pool_balance_def doc_cleanup_def doc_deposit_stake_def doc_withdraw_stake_def doc_set_manager_def
  doc_set_fee_def doc_set_staker_def doc_deposit_sol_def doc_set_funding_authority_def doc_withdraw_sol_def
  doc_create_token_metadata_def doc_update_token_metadata_def doc_increase_additional_def doc_decrease_additional_def
  doc_decrease_with_reserve_def doc_redelegate_def doc_deposit_stake_slippage_def doc_withdraw_stake_slippage_def
  doc_deposit_sol_slippage_def doc_withdraw_sol_slippage_def doc_set_max_validator_stake_def

subsection \<open>What the builders pass\<close>

fun role_ok :: "doc_role \<Rightarrow> account_meta \<Rightarrow> bool" where
  "role_ok DocPlain m = (\<not> am_is_signer m \<and> \<not> am_is_writable m)"
| "role_ok DocW m = (\<not> am_is_signer m \<and> am_is_writable m)"
| "role_ok DocS m = (am_is_signer m \<and> \<not> am_is_writable m)"
| "role_ok DocSW m = (am_is_signer m \<and> am_is_writable m)"
| "role_ok DocSOrPlain m = (\<not> am_is_writable m)"

definition conforms :: "doc_role list \<times> doc_further \<Rightarrow> account_meta list \<Rightarrow> bool" where
  "conforms doc metas \<longleftrightarrow>
     (let listed = take (length (fst doc)) metas; further = drop (length (fst doc)) metas in
      list_all2 role_ok (fst doc) listed \<and>
      (case snd doc of
         NoFurther \<Rightarrow> further = []
       | OneFurther r \<Rightarrow> length further \<le> 1 \<and> list_all (role_ok r) further
       | PairsFurther r \<Rightarrow> even (length further) \<and> list_all (role_ok r) further))"

text \<open>
  The corrections: the mint and the fee account of a new pool receive tokens and are passed as writable, and an optional deposit
  authority as a signer; the pairs of an update are merged, so they are writable; the source of a deposit of lamports is writable;
  and the pool of a cleanup is passed as writable, although the handler only reads it.
\<close>

fun corrected_accounts :: "stake_pool_instruction \<Rightarrow> doc_role list \<times> doc_further" where
  "corrected_accounts (Initialize a b c d e) = ((fst doc_initialize)[6 := DocW, 7 := DocW], OneFurther DocS)"
| "corrected_accounts (UpdateValidatorListBalance a b) =
     (fst doc_update_validator_list_balance, PairsFurther DocW)"
| "corrected_accounts CleanupRemovedValidatorEntries = ((fst doc_cleanup)[0 := DocW], NoFurther)"
| "corrected_accounts (DepositSol a) = ((fst doc_deposit_sol)[3 := DocSW], OneFurther DocS)"
| "corrected_accounts (DepositSolWithSlippage a b) = ((fst doc_deposit_sol_slippage)[3 := DocSW], OneFurther DocS)"
| "corrected_accounts i = documented_accounts i"

text \<open>An instruction of the pool that a function of \<open>instruction.rs\<close> builds; the functions left out call one of these.\<close>

inductive built :: "runtime \<Rightarrow> known_ids \<Rightarrow> instruction \<Rightarrow> bool" for rt ids where
  "built rt ids (initialize_ix a b c d e f g h i j k l m n ofs p)"
| "built rt ids (add_validator_to_pool_ix rt ids a b c d e f g h i)"
| "built rt ids (remove_validator_from_pool_ix rt ids a b c d e f g)"
| "built rt ids (decrease_validator_stake_ix rt ids a b c d e f g h i)"
| "built rt ids (decrease_additional_validator_stake_ix rt ids a b c d e f g h i j k l)"
| "built rt ids (decrease_validator_stake_with_reserve_ix rt ids a b c d e f g h i j)"
| "built rt ids (increase_validator_stake_ix rt ids a b c d e f g h i j k)"
| "built rt ids (increase_additional_validator_stake_ix rt ids a b c d e f g h i j k l m)"
| "built rt ids (redelegate_ix rt ids a b c d e f g h i j k l m n ofs p)"
| "built rt ids (set_preferred_validator_ix a b c d e f)"
| "built rt ids (update_validator_list_balance_ix rt ids a b c d e f g h i)"
| "update_validator_list_balance_chunk_ix rt ids a b c d e f g h i = Inr ix \<Longrightarrow> built rt ids ix"
| "built rt ids (update_stake_pool_balance_ix a b c d e f g h)"
| "built rt ids (cleanup_removed_validator_entries_ix a b c)"
| "PoolInstruction ix \<in> set (deposit_stake_internal_ix rt ids a b c d e f g h i j k l m n ofs) \<Longrightarrow> built rt ids ix"
| "built rt ids (deposit_sol_internal_ix rt a b c d e f g h i j k l m)"
| "built rt ids (withdraw_stake_internal_ix rt ids a b c d e f g h i j k l m n)"
| "built rt ids (withdraw_sol_internal_ix rt ids a b c d e f g h i j k l m)"
| "built rt ids (set_manager_ix a b c d e)"
| "built rt ids (set_fee_ix a b c d)"
| "built rt ids (set_staker_ix a b c d)"
| "built rt ids (set_funding_authority_ix a b c d e)"
| "built rt ids (update_token_metadata_ix rt a b c d e f g)"
| "built rt ids (create_token_metadata_ix rt a b c d e f g h)"
| "built rt ids (set_max_validator_stake_ix a b c d)"

lemma entry_metas_pairs:
  "even (length (concat (map (entry_metas rt pid pool) es)))"
  "list_all (role_ok DocW) (concat (map (entry_metas rt pid pool) es))"
  by (induction es) (auto simp: entry_metas_def)

lemma found_metas_pairs:
  "even (length (concat (map (\<lambda>v. case vl_find vl v of Some e \<Rightarrow> entry_metas rt pid pool e | None \<Rightarrow> []) vas)))"
  "list_all (role_ok DocW) (concat (map (\<lambda>v. case vl_find vl v of Some e \<Rightarrow> entry_metas rt pid pool e | None \<Rightarrow> []) vas))"
  by (induction vas) (auto simp: entry_metas_def split: option.splits)

lemma conforms_pairs:
  "list_all2 role_ok fixed listed \<Longrightarrow> even (length pairs) \<Longrightarrow> list_all (role_ok r) pairs \<Longrightarrow>
    conforms (fixed, PairsFurther r) (listed @ pairs)"
  by (simp add: conforms_def Let_def list_all2_lengthD)

lemma update_list_metas_ok:
  "list_all2 role_ok (fst doc_update_validator_list_balance) (update_list_metas rt ids a b c d)"
  by (simp add: update_list_metas_def doc_defs)

lemmas builder_eval = conforms_def doc_defs Let_def initialize_ix_def add_validator_to_pool_ix_def
  remove_validator_from_pool_ix_def decrease_validator_stake_ix_def decrease_additional_validator_stake_ix_def
  decrease_validator_stake_with_reserve_ix_def increase_validator_stake_ix_def increase_additional_validator_stake_ix_def
  redelegate_ix_def set_preferred_validator_ix_def update_stake_pool_balance_ix_def cleanup_removed_validator_entries_ix_def
  deposit_stake_internal_ix_def deposit_sol_internal_ix_def withdraw_stake_internal_ix_def withdraw_sol_internal_ix_def
  set_manager_ix_def set_fee_ix_def set_staker_ix_def set_funding_authority_ix_def update_token_metadata_ix_def
  create_token_metadata_ix_def set_max_validator_stake_ix_def

lemma built_as:
  "ix_data ix = ser_instruction i \<Longrightarrow> conforms (corrected_accounts i) (ix_accounts ix) \<Longrightarrow>
    \<exists>i. ix_data ix = ser_instruction i \<and> conforms (corrected_accounts i) (ix_accounts ix)"
  by blast



end
