(* ===== verification/Entry_Point.thy ===== *)
theory Entry_Point
  imports Builder_Effects Sample_Pool
begin

section \<open>The entry point\<close>

text \<open>
  \<open>src/program/src/entrypoint.rs\<close> and the messages of \<open>impl PrintProgramError for StakePoolError\<close> in
  \<open>processor.rs\<close>: a failed instruction leaves a message in the log of the transaction. The messages for the
  errors of the runtime, and for codes that are none of the program, are those of another crate (\<open>other\<close>). The
  macro that reads the input of the loader belongs to that crate, too.
\<close>

fun error_message :: "stake_pool_error \<Rightarrow> string" where
  "error_message AlreadyInUse =
     ''Error: The account cannot be initialized because it is already being used''"
| "error_message InvalidProgramAddress =
     ''Error: The program address provided doesn'' @ [CHR 0x27] @ ''t match the value generated by the program''"
| "error_message InvalidState =
     ''Error: The stake pool state is invalid''"
| "error_message CalculationFailure =
     ''Error: The calculation failed''"
| "error_message FeeTooHigh =
     ''Error: Stake pool fee > 1''"
| "error_message WrongAccountMint =
     ''Error: Token account is associated with the wrong mint''"
| "error_message WrongManager =
     ''Error: Wrong pool manager account''"
| "error_message SignatureMissing =
     ''Error: Required signature is missing''"
| "error_message InvalidValidatorStakeList =
     ''Error: Invalid validator stake list account''"
| "error_message InvalidFeeAccount =
     ''Error: Invalid manager fee account''"
| "error_message WrongPoolMint =
     ''Error: Specified pool mint account is wrong''"
| "error_message WrongStakeStake =
     ''Error: Stake account is not in the state expected by the program''"
| "error_message UserStakeNotActive =
     ''Error: User stake is not active''"
| "error_message ValidatorAlreadyAdded =
     ''Error: Stake account voting for this validator already exists in the pool''"
| "error_message ValidatorNotFound =
     ''Error: Stake account for this validator not found in the pool''"
| "error_message InvalidStakeAccountAddress =
     ''Error: Stake account address not properly derived from the validator address''"
| "error_message StakeListOutOfDate =
     ''Error: Identify validator stake accounts with old balances and update them''"
| "error_message StakeListAndPoolOutOfDate =
     ''Error: First update old validator stake account balances and then pool stake balance''"
| "error_message UnknownValidatorStakeAccount =
     ''Error: Validator stake account is not found in the list storage''"
| "error_message WrongMintingAuthority =
     ''Error: Wrong minting authority set for mint pool account''"
| "error_message UnexpectedValidatorListAccountSize =
     ''Error: The size of the given validator stake list does match the expected amount''"
| "error_message WrongStaker =
     ''Error: Wrong pool staker account''"
| "error_message NonZeroPoolTokenSupply =
     ''Error: Pool token supply is not zero on initialization''"
| "error_message StakeLamportsNotEqualToMinimum =
     ''Error: The lamports in the validator stake account is not equal to the minimum''"
| "error_message IncorrectDepositVoteAddress =
     ''Error: The provided deposit stake account is not delegated to the preferred deposit vote account''"
| "error_message IncorrectWithdrawVoteAddress =
     ''Error: The provided withdraw stake account is not the preferred deposit vote account''"
| "error_message InvalidMintFreezeAuthority =
     ''Error: The mint has an invalid freeze authority''"
| "error_message FeeIncreaseTooHigh =
     ''Error: The fee cannot increase by a factor exceeding the stipulated ratio''"
| "error_message WithdrawalTooSmall =
     ''Error: Not enough pool tokens provided to withdraw 1-lamport stake''"
| "error_message DepositTooSmall =
     ''Error: Not enough lamports provided for deposit to result in one pool token''"
| "error_message InvalidStakeDepositAuthority =
     ''Error: Provided stake deposit authority does not match the program'' @ [CHR 0x27] @ ''s''"
| "error_message InvalidSolDepositAuthority =
     ''Error: Provided sol deposit authority does not match the program'' @ [CHR 0x27] @ ''s''"
| "error_message InvalidPreferredValidator =
     ''Error: Provided preferred validator is invalid''"
| "error_message TransientAccountInUse =
     ''Error: Provided validator stake account already has a transient stake account in use''"
| "error_message InvalidSolWithdrawAuthority =
     ''Error: Provided sol withdraw authority does not match the program'' @ [CHR 0x27] @ ''s''"
| "error_message SolWithdrawalTooLarge =
     ''Error: Too much SOL withdrawn from the stake pool'' @ [CHR 0x27] @ ''s reserve account''"
| "error_message InvalidMetadataAccount =
     ''Error: Metadata account derived from pool mint account does not match the one passed to program''"
| "error_message UnsupportedMintExtension =
     ''Error: mint has an unsupported extension''"
| "error_message UnsupportedFeeAccountExtension =
     ''Error: fee account has an unsupported extension''"
| "error_message ExceededSlippage =
     ''Error: instruction exceeds desired slippage limit''"
| "error_message IncorrectMintDecimals =
     ''Error: Provided mint does not have 9 decimals to match SOL''"
| "error_message ReserveDepleted =
     ''Error: Pool reserve does not have enough lamports to fund rent-exempt reserve in split destination. Deposit more SOL in reserve, or pre-fund split destination with the rent-exempt reserve for a stake account.''"
| "error_message MissingRequiredSysvar =
     ''Missing required sysvar account''"
| "error_message EpochRewardDistributionInProgress =
     ''Epoch reward distribution is currently in progress, stakes are still being updated''"
| "error_message TooManyValidatorsInPool =
     ''The stake pool has too many validators in the pool''"
| "error_message ExceedsMaxValidatorStake =
     ''Error: Validator stake would exceed maximum allowed stake limit''"

text \<open>\<open>ProgramError::print::<StakePoolError>\<close>: a custom code is decoded by \<open>DecodeError\<close>.\<close>

definition print_error :: "(program_error \<Rightarrow> string) \<Rightarrow> program_error \<Rightarrow> string" where
  "print_error other e =
     (case e of
        Custom c \<Rightarrow> (case error_from_code c of Some e' \<Rightarrow> error_message e' | None \<Rightarrow> other e)
      | _ \<Rightarrow> other e)"

definition entry_point ::
    "(program_error \<Rightarrow> string) \<Rightarrow> runtime \<Rightarrow> pubkey \<Rightarrow> account_info list \<Rightarrow> bytes \<Rightarrow> world \<Rightarrow>
      (program_error + world) \<times> string list" where
  "entry_point other rt program_id accounts instruction_data w =
     (case process rt program_id accounts instruction_data w of
        Inl error \<Rightarrow> (Inl error, [print_error other error])
      | Inr w' \<Rightarrow> (Inr w', []))"

lemma distinct_error_messages: "distinct (map error_message stake_pool_errors)"
  by (simp add: stake_pool_errors_def)

lemma error_message_inject: "error_message e = error_message e' \<longleftrightarrow> e = e'"
  using distinct_error_messages stake_pool_errors_complete by (metis distinct_map inj_onD)

lemma print_pool_error: "print_error other (pool_err e) = error_message e"
  by (simp add: print_error_def pool_err_def error_from_code_error_code)

text \<open>The entry point hands on what the processor does, and the log tells an error of the program apart: success leaves no message,
  a failure one, and a failure with an error of the program leaves the message of that error and of no other.\<close>

lemma entry_point_reports_errors:
  "case process rt pid accounts input w of
     Inr w' \<Rightarrow> entry_point other rt pid accounts input w = (Inr w', [])
   | Inl err \<Rightarrow> \<exists>msg. entry_point other rt pid accounts input w = (Inl err, [msg]) \<and>
       (\<forall>e e'. err = pool_err e \<longrightarrow> (msg = error_message e' \<longleftrightarrow> e' = e))"
  by (auto simp: entry_point_def print_pool_error error_message_inject split: sum.splits)

lemma unsigned_set_staker:
  "process sample_rt PROGRAM [view POOL, view 4, view 21] (ser_instruction SetStaker) sample_world =
     Inl (pool_err SignatureMissing)"
  by (simp add: process_ser_instruction process_set_staker_def run_eval del: ser_instruction.simps)

lemma unsigned_set_staker_logged:
  "entry_point other sample_rt PROGRAM [view POOL, view 4, view 21] (ser_instruction SetStaker) sample_world =
     (Inl (pool_err SignatureMissing), [''Error: Required signature is missing''])"
proof -
  from entry_point_reports_errors [where rt = sample_rt and pid = PROGRAM and accounts = "[view POOL, view 4, view 21]" and
      input = "ser_instruction SetStaker" and w = sample_world and other = other, unfolded unsigned_set_staker sum.case]
  obtain msg where run: "entry_point other sample_rt PROGRAM [view POOL, view 4, view 21] (ser_instruction SetStaker) sample_world =
      (Inl (pool_err SignatureMissing), [msg])"
    and msg: "\<forall>e e'. pool_err SignatureMissing = pool_err e \<longrightarrow> (msg = error_message e' \<longleftrightarrow> e' = e)"
    by (elim exE conjE)
  have "msg = error_message SignatureMissing" using msg [rule_format, OF refl, of SignatureMissing] by simp
  then show ?thesis using run by simp
qed

end
