(* ===== verification/Unit_Tests.thy ===== *)
theory Unit_Tests
  imports Validator_List
begin

section \<open>The unit tests of the program\<close>

text \<open>
  The tests in \<open>src/program/src/state.rs\<close> and \<open>src/program/src/big_vec.rs\<close> as computations of the model: a test is a
  truth value, false when an assertion fails or an \<open>unwrap\<close> panics. A property test is a predicate on its inputs, and the
  generator of the inputs another one. All tests of examples pass in the model; of the property tests,
  two are proved for all inputs of their generators, and one is refuted and its bound corrected. The test of an
  approximate rate with floating-point numbers is left out.
\<close>

subsection \<open>Prices\<close>

definition specific_fee_calculation :: bool where
  "specific_fee_calculation =
     (let LAMPORTS_PER_SOL = 1000000000;
          stake_pool = stake_pool_default
            \<lparr>sp_total_lamports := 100 * LAMPORTS_PER_SOL, sp_pool_token_supply := 100 * LAMPORTS_PER_SOL,
             sp_epoch_fee := \<lparr>denominator = 10, numerator = 1\<rparr>\<rparr>;
          reward_lamports = 10 * LAMPORTS_PER_SOL in
      case calc_epoch_fee_amount stake_pool reward_lamports of
        None \<Rightarrow> False
      | Some pool_token_fee \<Rightarrow>
          let stake_pool = stake_pool
            \<lparr>sp_total_lamports := sp_total_lamports stake_pool + reward_lamports,
             sp_pool_token_supply := sp_pool_token_supply stake_pool + pool_token_fee\<rparr> in
          calc_lamports_withdraw_amount stake_pool pool_token_fee = Some (LAMPORTS_PER_SOL - 1))"

definition zero_withdraw_calculation :: bool where
  "zero_withdraw_calculation =
     (calc_lamports_withdraw_amount (stake_pool_default\<lparr>sp_epoch_fee := \<lparr>denominator = 1, numerator = 0\<rparr>\<rparr>) 0 = Some 0)"

definition divide_by_zero_fee :: bool where
  "divide_by_zero_fee =
     (calc_epoch_fee_amount (stake_pool_default
        \<lparr>sp_total_lamports := 0, sp_epoch_fee := \<lparr>denominator = 10, numerator = 1\<rparr>\<rparr>) 10 = Some 10)"

definition priced_pool :: "u64 \<Rightarrow> u64 \<Rightarrow> stake_pool" where
  "priced_pool total_lamports pool_token_supply =
     stake_pool_default\<lparr>sp_total_lamports := total_lamports, sp_pool_token_supply := pool_token_supply\<rparr>"

definition specific_split_withdrawal :: bool where
  "specific_split_withdrawal =
     (let stake_pool = priced_pool 1100000000000 1000000000000; deposit_stake = 3 in
      case calc_pool_tokens_for_deposit stake_pool deposit_stake of
        None \<Rightarrow> False
      | Some deposit_result \<Rightarrow>
          deposit_result > 0 \<and>
          (let stake_pool = priced_pool (sp_total_lamports stake_pool + deposit_stake)
                 (sp_pool_token_supply stake_pool + deposit_result) in
           case calc_lamports_withdraw_amount stake_pool (deposit_result div 2) of
             None \<Rightarrow> False
           | Some withdraw_result \<Rightarrow> withdraw_result * 2 \<le> deposit_stake))"

text \<open>\<open>withdraw_all\<close>: everything at once; one token, then the rest; all but one, then the rest.\<close>

definition withdraw_then_rest :: "u64 \<Rightarrow> u64 \<Rightarrow> u64 \<Rightarrow> bool" where
  "withdraw_then_rest total_lamports pool_token_supply first =
     (case calc_lamports_withdraw_amount (priced_pool total_lamports pool_token_supply) first of
        None \<Rightarrow> False
      | Some withdraw_result \<Rightarrow>
          let stake_pool = priced_pool (total_lamports - withdraw_result) (pool_token_supply - first) in
          calc_lamports_withdraw_amount stake_pool (sp_pool_token_supply stake_pool) =
            Some (sp_total_lamports stake_pool))"

definition withdraw_all :: bool where
  "withdraw_all =
     (let total_lamports = 1100000000000; pool_token_supply = 1000000000000 in
      calc_lamports_withdraw_amount (priced_pool total_lamports pool_token_supply) pool_token_supply =
        Some total_lamports \<and>
      withdraw_then_rest total_lamports pool_token_supply 1 \<and>
      calc_lamports_withdraw_amount (priced_pool total_lamports pool_token_supply) (pool_token_supply - 1) \<noteq>
        Some total_lamports \<and>
      withdraw_then_rest total_lamports pool_token_supply (pool_token_supply - 1))"

lemmas price_eval = calc_epoch_fee_amount_Some calc_lamports_withdraw_amount_Some calc_pool_tokens_for_deposit_Some
  fee_at_most_one_def epoch_fee_tokens_def fee_amount_def withdraw_lamports_of_def deposit_tokens_def priced_pool_def

lemma specific_fee_calculation_passes: specific_fee_calculation
proof -
  let ?pool = "stake_pool_default\<lparr>sp_total_lamports := 100000000000, sp_pool_token_supply := 100000000000,
    sp_epoch_fee := \<lparr>denominator = 10, numerator = 1\<rparr>\<rparr>"
  have tokens: "calc_epoch_fee_amount ?pool 10000000000 = Some 917431192" by (simp add: price_eval)
  show ?thesis unfolding specific_fee_calculation_def Let_def by (simp add: tokens) (simp add: price_eval)
qed

lemma default_pool_tests_pass: zero_withdraw_calculation divide_by_zero_fee
  by (simp_all add: zero_withdraw_calculation_def divide_by_zero_fee_def price_eval stake_pool_default_def)

lemma specific_split_withdrawal_passes: specific_split_withdrawal
proof -
  have "calc_pool_tokens_for_deposit (priced_pool 1100000000000 1000000000000) 3 = Some 2"
    "calc_lamports_withdraw_amount (priced_pool 1100000000003 1000000000002) 1 = Some 1"
    by (simp_all add: price_eval)
  then show ?thesis by (simp add: specific_split_withdrawal_def) (simp add: priced_pool_def)
qed

lemma withdraw_all_passes: withdraw_all
proof -
  have "calc_lamports_withdraw_amount (priced_pool 1100000000000 1000000000000) 1000000000000 = Some 1100000000000"
    "calc_lamports_withdraw_amount (priced_pool 1100000000000 1000000000000) 1 = Some 1"
    "calc_lamports_withdraw_amount (priced_pool 1100000000000 1000000000000) 999999999999 = Some 1099999999998"
    "calc_lamports_withdraw_amount (priced_pool 1099999999999 999999999999) 999999999999 = Some 1099999999999"
    "calc_lamports_withdraw_amount (priced_pool 2 1) 1 = Some 2"
    by (simp_all add: price_eval)
  then show ?thesis by (simp add: withdraw_all_def withdraw_then_rest_def) (simp add: priced_pool_def)
qed

subsection \<open>The fee on rewards\<close>

text \<open>The generators \<open>fee\<close> and \<open>total_stake_and_rewards\<close>, and the test \<open>fee_calculation\<close>.\<close>

definition fee_generated :: "u64 \<Rightarrow> u64 \<Rightarrow> bool" where
  "fee_generated num denom \<longleftrightarrow> 1 \<le> denom \<and> denom \<le> 65535 \<and> num \<le> denom"

definition total_stake_and_rewards :: "u64 \<Rightarrow> u64 \<Rightarrow> bool" where
  "total_stake_and_rewards total_lamports rewards \<longleftrightarrow>
     1 \<le> unat total_lamports + unat rewards \<and> unat total_lamports + unat rewards < 2 ^ 64 - 1"

definition fee_calculation :: "u64 \<Rightarrow> u64 \<Rightarrow> u64 \<Rightarrow> u64 \<Rightarrow> bool" where
  "fee_calculation num denom total_lamports reward_lamports =
     (let stake_pool = (priced_pool total_lamports total_lamports)
            \<lparr>sp_epoch_fee := \<lparr>denominator = denom, numerator = num\<rparr>\<rparr> in
      case calc_epoch_fee_amount stake_pool reward_lamports of
        None \<Rightarrow> False
      | Some pool_token_fee \<Rightarrow>
          (case (checked_add total_lamports reward_lamports, checked_add total_lamports pool_token_fee) of
             (Some total_after, Some supply_after) \<Rightarrow>
               (case calc_lamports_withdraw_amount (priced_pool total_after supply_after) pool_token_fee of
                  None \<Rightarrow> False
                | Some fee_lamports \<Rightarrow>
                    (case u64_try_from (as_u128 reward_lamports * as_u128 num div as_u128 denom) of
                       None \<Rightarrow> False
                     | Some max_fee_lamports \<Rightarrow>
                         max_fee_lamports \<ge> fee_lamports \<and> total_lamports \<noteq> 0 \<and>
                         max_fee_lamports - fee_lamports \<le> 2 + reward_lamports div total_lamports))
           | _ \<Rightarrow> False))"

text \<open>
  Two inputs of the generators fail: the fee is rounded up, while the test takes the rounded-down fee for the
  maximum; and without stake before the reward the test divides by zero.
\<close>

lemma fee_calculation_fails:
  "fee_generated 1 2 \<and> total_stake_and_rewards 5 1 \<and> \<not> fee_calculation 1 2 5 1"
  "total_stake_and_rewards 0 6 \<and> \<not> fee_calculation 1 2 0 6"
proof -
  let ?pool = "\<lambda>total. (priced_pool total total)\<lparr>sp_epoch_fee := \<lparr>denominator = 2, numerator = 1\<rparr>\<rparr>"
  have "calc_epoch_fee_amount (?pool 5) 1 = Some 1" "calc_epoch_fee_amount (?pool 0) 6 = Some 6"
    "calc_lamports_withdraw_amount (priced_pool 6 6) 1 = Some 1"
    by (simp_all add: price_eval)
  moreover have "u64_try_from (as_u128 1 * as_u128 1 div as_u128 2) = Some 0"
    by (simp add: u64_try_from_Some as_u128_def)
  ultimately show "fee_generated 1 2 \<and> total_stake_and_rewards 5 1 \<and> \<not> fee_calculation 1 2 5 1"
    "total_stake_and_rewards 0 6 \<and> \<not> fee_calculation 1 2 0 6"
    by (auto simp: fee_generated_def total_stake_and_rewards_def fee_calculation_def checked_add_def split: option.splits)
qed

text \<open>What the tokens of the fee are worth: at most the fee, and less only by rounding down tokens and lamports.\<close>

lemma fee_tokens_worth_at_most:
  fixes S F P t :: nat
  assumes "t = S * F div (P - F)" "F < P" "0 < S"
  shows "t * P div (S + t) \<le> F"
proof -
  have "t * (P - F) \<le> S * F" by (simp add: assms(1))
  then have "t * P \<le> F * (S + t)" using assms(2) by (simp add: diff_mult_distrib2 algebra_simps)
  then have "t * P div (S + t) \<le> F * (S + t) div (S + t)" by (rule div_le_mono)
  then show ?thesis using assms(3) by simp
qed

lemma fee_tokens_worth_at_least:
  fixes S F P t w :: nat
  assumes t: "t = S * F div (P - F)" and "F < P" "0 < S" and w: "w = t * P div (S + t)"
  shows "F \<le> w + 1 + P div S"
proof (rule ccontr)
  assume "\<not> F \<le> w + 1 + P div S"
  then obtain k where k: "F = w + 1 + k" "P div S < k" by (metis add.assoc add_diff_inverse_nat nat_add_left_cancel_less not_le order_less_imp_le le_add1 linorder_not_less)
  have "P < k * S" using k(2) assms(3) by (simp add: div_less_iff_less_mult)
  moreover have "k * S \<le> k * (S + t)" by simp
  moreover have "k * (S + t) < P"
  proof -
    have "S * F < (t + 1) * (P - F)" unfolding t using assms(2) dividend_less_div_times [of "P - F" "S * F"] by simp
    then have "S * F + (t + 1) * F < (t + 1) * P" using assms(2) by (simp add: diff_mult_distrib2)
    then have "F * (S + t) + F < t * P + P" by (simp add: algebra_simps)
    moreover have "t * P < (w + 1) * (S + t)" unfolding w using assms(3) dividend_less_div_times [of "S + t" "t * P"] by simp
    ultimately have "F * (S + t) + F < (w + 1) * (S + t) + P" by linarith
    then show ?thesis using k(1) by (simp add: algebra_simps)
  qed
  ultimately show False by linarith
qed



subsection \<open>Deposits and withdrawals\<close>

text \<open>
  The generator \<open>total_tokens_and_deposit\<close> and the test \<open>deposit_and_withdraw\<close>, which passes for every input
  on which the computations do not overflow.
\<close>

definition total_tokens_and_deposit :: "u64 \<Rightarrow> u64 \<Rightarrow> u64 \<Rightarrow> bool" where
  "total_tokens_and_deposit total_lamports pool_token_supply deposit_lamports \<longleftrightarrow>
     1 \<le> unat total_lamports \<and> 1 \<le> unat deposit_lamports \<and> 1 \<le> unat pool_token_supply \<and>
     unat total_lamports + unat deposit_lamports < 2 ^ 64 - 1 \<and>
     (unat pool_token_supply = 1 \<or>
      unat pool_token_supply + unat deposit_lamports \<le> unat total_lamports + unat deposit_lamports)"

definition pool_after_withdrawal :: "stake_pool \<Rightarrow> u64 \<Rightarrow> u64 \<Rightarrow> stake_pool" where
  "pool_after_withdrawal sp tokens lamports =
     sp\<lparr>sp_total_lamports := sp_total_lamports sp - lamports, sp_pool_token_supply := sp_pool_token_supply sp - tokens\<rparr>"

definition deposit_and_withdraw :: "u64 \<Rightarrow> u64 \<Rightarrow> u64 \<Rightarrow> bool" where
  "deposit_and_withdraw total_lamports pool_token_supply deposit_stake =
     (case calc_pool_tokens_for_deposit (priced_pool total_lamports pool_token_supply) deposit_stake of
        None \<Rightarrow> False
      | Some deposit_result \<Rightarrow>
          deposit_result = 0 \<or>
          (case (checked_add total_lamports deposit_stake, checked_add pool_token_supply deposit_result) of
             (Some total_after, Some supply_after) \<Rightarrow>
               let stake_pool = priced_pool total_after supply_after;
                   first_half = deposit_result div 2; second_half = deposit_result - first_half in
               (case calc_lamports_withdraw_amount stake_pool deposit_result of
                  None \<Rightarrow> False
                | Some withdraw_result \<Rightarrow> withdraw_result \<le> deposit_stake) \<and>
               (deposit_result < 2 \<or>
                (case calc_lamports_withdraw_amount stake_pool first_half of
                   None \<Rightarrow> False
                 | Some first_result \<Rightarrow>
                     (case calc_lamports_withdraw_amount (pool_after_withdrawal stake_pool first_half first_result)
                             second_half of
                        None \<Rightarrow> False
                      | Some second_result \<Rightarrow>
                          (case checked_add first_result second_result of
                             None \<Rightarrow> False
                           | Some both \<Rightarrow> both \<le> deposit_stake))))
           | _ \<Rightarrow> False))"

lemma u64_of_nat: "n < 2 ^ 64 \<Longrightarrow> \<exists>w :: u64. unat w = n"
  by (intro exI [of _ "word_of_nat n"]) (simp add: unat_of_nat take_bit_nat_eq_self)

lemma calc_lamports_withdraw_amount_returns:
  assumes "unat p \<le> pool_supply sp"
  shows "\<exists>w. calc_lamports_withdraw_amount sp p = Some w \<and>
    unat w = withdraw_lamports_of (pool_total sp) (pool_supply sp) (unat p) \<and> unat w \<le> pool_total sp"
proof -
  let ?n = "withdraw_lamports_of (pool_total sp) (pool_supply sp) (unat p)"
  have le: "?n \<le> pool_total sp" using assms by (rule withdraw_lamports_le)
  then have "?n < 2 ^ 64" using unat_lt2p [of "sp_total_lamports sp"] by simp
  then obtain w :: u64 where "unat w = ?n" using u64_of_nat by blast
  with le show ?thesis by (intro exI [of _ w]) (simp add: calc_lamports_withdraw_amount_Some)
qed

text \<open>Two withdrawals in a row of the tokens of a deposit.\<close>

lemma split_withdrawal:
  fixes S m h T1 w1 w2 :: nat
  assumes "0 < S" "h \<le> m" "w1 = withdraw_lamports_of T1 (S + m) h"
    and "w2 = withdraw_lamports_of (T1 - w1) (S + m - h) (m - h)" "w1 \<le> T1"
  shows "(w1 + w2) * (S + m) \<le> m * T1"
proof -
  have "w1 * (S + m) \<le> h * T1" "w2 * (S + m - h) \<le> (m - h) * (T1 - w1)"
    using assms(3,4) withdraw_lamports_fair by simp_all
  with withdraw_twice [of "S + m - h" w2 "m - h" "T1 - w1" w1 h] assms(1,2,5) show ?thesis by simp
qed

lemma deposit_and_withdraw_passes:
  assumes "total_tokens_and_deposit T S d"
  shows "deposit_and_withdraw T S d"
proof -
  have pos: "0 < unat T" "0 < unat S" and room: "unat T + unat d < 2 ^ 64"
    and SleT: "unat S \<le> unat T"
    using assms by (auto simp: total_tokens_and_deposit_def)
  let ?m = "deposit_tokens (unat T) (unat S) (unat d)"
  have fair: "?m * unat T \<le> unat d * unat S" using pos by (rule deposit_tokens_fair)
  also have "\<dots> \<le> unat d * unat T" using SleT by simp
  finally have md: "?m \<le> unat d" using pos by simp
  then have "?m < 2 ^ 64" using room by simp
  then obtain m where m: "calc_pool_tokens_for_deposit (priced_pool T S) d = Some m" "unat m = ?m"
    using u64_of_nat by (fastforce simp: calc_pool_tokens_for_deposit_Some priced_pool_def)
  obtain T1 S1 where sums: "checked_add T d = Some T1" "unat T1 = unat T + unat d"
      "checked_add S m = Some S1" "unat S1 = unat S + unat m"
    using u64_of_nat [of "unat T + unat d"] u64_of_nat [of "unat S + unat m"] room SleT md m(2)
    by (auto simp: checked_add_Some)
  let ?pool = "priced_pool T1 S1" and ?h = "m div 2"
  have h: "unat ?h = unat m div 2" "?h \<le> m" by (simp_all add: unat_div word_le_nat_alt)
  then have h: "unat ?h = unat m div 2" "?h \<le> m" "unat ?h \<le> unat S1" using sums(4) by simp_all
  have pool: "pool_total ?pool = unat T1" "pool_supply ?pool = unat S1" by (simp_all add: priced_pool_def)
  from h(2) have rest: "unat (m - ?h) = unat m - unat ?h" by (rule unat_sub)
  have worth: "unat m * unat T1 \<le> unat d * unat S1"
    using fair by (simp add: sums m(2) algebra_simps)
  obtain w where w: "calc_lamports_withdraw_amount ?pool m = Some w" "unat w \<le> unat d"
  proof -
    obtain w where *: "calc_lamports_withdraw_amount ?pool m = Some w" "unat w = withdraw_lamports_of (unat T1) (unat S1) (unat m)"
      using calc_lamports_withdraw_amount_returns [of m ?pool] by (auto simp: priced_pool_def sums)
    have "unat w * unat S1 \<le> unat d * unat S1"
      using worth withdraw_lamports_fair [of "unat T1" "unat S1" "unat m"] unfolding *(2) by linarith
    then show ?thesis using that * pos sums(4) by simp
  qed
  obtain w1 where w1: "calc_lamports_withdraw_amount ?pool ?h = Some w1"
      "unat w1 = withdraw_lamports_of (unat T1) (unat S1) (unat ?h)" "unat w1 \<le> unat T1"
    using calc_lamports_withdraw_amount_returns [of ?h ?pool, unfolded pool] h(3) by blast
  let ?pool1 = "pool_after_withdrawal ?pool ?h w1"
  have pool1: "pool_total ?pool1 = unat T1 - unat w1" "pool_supply ?pool1 = unat S1 - unat ?h"
    using w1(3) h sums(4) by (simp_all add: pool_after_withdrawal_def priced_pool_def unat_sub word_le_nat_alt)
  have fits: "unat (m - ?h) \<le> unat S1 - unat ?h" unfolding rest sums(4) by simp
  obtain w2 where w2: "calc_lamports_withdraw_amount ?pool1 (m - ?h) = Some w2"
      "unat w2 = withdraw_lamports_of (unat T1 - unat w1) (unat S1 - unat ?h) (unat (m - ?h))"
    using calc_lamports_withdraw_amount_returns [of "m - ?h" ?pool1, unfolded pool1] fits by blast
  have "(unat w1 + unat w2) * unat S1 \<le> unat m * unat T1"
    using split_withdrawal [of "unat S" "unat ?h" "unat m" "unat w1" "unat T1" "unat w2"] pos h w1(2,3) w2(2)
    by (simp add: sums rest)
  then have "(unat w1 + unat w2) * unat S1 \<le> unat d * unat S1" using worth by linarith
  then have both: "unat w1 + unat w2 \<le> unat d" using pos sums(4) by simp
  then have "unat w1 + unat w2 < 2 ^ 64" using room by simp
  then obtain b where "checked_add w1 w2 = Some b" "unat b = unat w1 + unat w2"
    using u64_of_nat by (fastforce simp: checked_add_Some)
  then show ?thesis
    using m w w1 w2 sums both by (simp add: deposit_and_withdraw_def Let_def word_le_nat_alt)
qed

subsection \<open>Validator lists\<close>

definition uninitialized_validator_list :: validator_list where
  "uninitialized_validator_list =
     \<lparr>vl_header = \<lparr>vl_account_type = Uninitialized, vl_max_validators = 0\<rparr>, vl_validators = []\<rparr>"

definition test_validator_list :: "u32 \<Rightarrow> validator_list" where
  "test_validator_list max_validators =
     \<lparr>vl_header = \<lparr>vl_account_type = ValidatorList, vl_max_validators = max_validators\<rparr>,
      vl_validators =
        [vsi_default\<lparr>vs_status := status_to_u8 Active, vs_vote_account_address := word_from_le (replicate 32 1),
           vs_active_stake_lamports := word_from_le (replicate 8 255),
           vs_transient_stake_lamports := word_from_le (replicate 8 128),
           vs_last_update_epoch := word_from_le (replicate 8 64)\<rparr>,
         vsi_default\<lparr>vs_status := status_to_u8 DeactivatingTransient,
           vs_vote_account_address := word_from_le (replicate 32 2), vs_active_stake_lamports := 998877665544,
           vs_transient_stake_lamports := 222222222, vs_last_update_epoch := 11223445566\<rparr>,
         vsi_default\<lparr>vs_status := status_to_u8 ReadyForRemoval, vs_vote_account_address := word_from_le (replicate 32 3),
           vs_active_stake_lamports := 0, vs_transient_stake_lamports := 0,
           vs_last_update_epoch := 999999999999999\<rparr>]\<rparr>"

text \<open>
  \<open>get_instance_packed_len\<close> of a list, and \<open>state_packing\<close>: a list written into an account for 10,000 validators
  is read back, whatever follows it.
\<close>

definition packed_len :: "validator_list \<Rightarrow> nat" where
  "packed_len vl = length (ser_validator_list vl)"

definition packs :: "nat \<Rightarrow> validator_list \<Rightarrow> bool" where
  "packs len stake_list =
     (length (ser_validator_list stake_list) \<le> len \<and>
      map_option fst (de_validator_list (splice 0 (ser_validator_list stake_list) (replicate len 0))) =
        Some stake_list)"

definition state_packing :: bool where
  "state_packing =
     (let max_validators = 10000; len = packed_len (validator_list_new max_validators) in
      packs len uninitialized_validator_list \<and>
      packs len \<lparr>vl_header = \<lparr>vl_account_type = ValidatorList, vl_max_validators = 0\<rparr>, vl_validators = []\<rparr> \<and>
      packs len (test_validator_list max_validators))"

lemma length_ser_entries: "length (ser_list ser_vsi vs) = ENTRY_LEN * length vs"
  by (induction vs) simp_all

lemma packed_len_eq: "packed_len vl = HEADER_LEN + 4 + ENTRY_LEN * length (vl_validators vl)"
  by (simp add: packed_len_def ser_validator_list_def ser_vec_def length_ser_entries)

lemma packs_fitting:
  assumes "packed_len vl \<le> len" "length (vl_validators vl) < 2 ^ 32"
  shows "packs len vl"
  using assms de_ser_validator_list by (simp add: packs_def packed_len_def splice_def)

lemma state_packing_passes: state_packing
  unfolding state_packing_def Let_def
  by (intro conjI packs_fitting)
    (simp_all add: packed_len_eq validator_list_new_def uninitialized_validator_list_def test_validator_list_def)

definition validator_list_active_stake :: bool where
  "validator_list_active_stake =
     (let validator_list = test_validator_list 10000;
          emptied = validator_list\<lparr>vl_validators :=
            map (\<lambda>v. v\<lparr>vs_active_stake_lamports := 0\<rparr>) (vl_validators validator_list)\<rparr> in
      has_active_stake validator_list \<and> \<not> has_active_stake emptied)"

lemma validator_list_active_stake_passes: validator_list_active_stake
  by (simp add: validator_list_active_stake_def has_active_stake_def test_validator_list_def)

text \<open>\<open>stake_list_size_calculation\<close>, for every number of validators of the generator.\<close>

definition stake_list_size_calculation :: "u32 \<Rightarrow> bool" where
  "stake_list_size_calculation test_amount =
     (let len = packed_len (validator_list_new test_amount); n = unat test_amount in
      calculate_max_validators len = n \<and>
      calculate_max_validators (len + 1) = n \<and>
      calculate_max_validators (len + ENTRY_LEN) = n + 1 \<and>
      calculate_max_validators (len - 1) = n - 1)"

lemma stake_list_size_calculation_passes: "stake_list_size_calculation test_amount"
  by (cases "unat test_amount")
    (simp_all add: stake_list_size_calculation_def packed_len_eq validator_list_new_def calculate_max_validators_def
      HEADER_LEN_def ENTRY_LEN_def)

text \<open>
  \<open>validator_list_deserialize_mut_slice\<close> and \<open>validator_list_iter\<close>: slices of the list, read in place, and the slices that do not exist.
\<close>

definition list_slice :: "validator_list \<Rightarrow> nat \<Rightarrow> nat \<Rightarrow> program_error + validator_stake_info list" where
  "list_slice stake_list skip n =
     bindE (deserialize_vec (ser_validator_list stake_list)) (\<lambda>(_, big_vec).
     bindE (bv_deserialize_slice ENTRY_LEN skip n big_vec) (\<lambda>(_, part).
     Inr (map pod_vsi (chunks ENTRY_LEN n part))))"

definition validator_list_deserialize_mut_slice :: bool where
  "validator_list_deserialize_mut_slice =
     (let stake_list = test_validator_list 10; vs = vl_validators stake_list in
      map_sum id fst (deserialize_vec (ser_validator_list stake_list)) = Inr (vl_header stake_list) \<and>
      list_slice stake_list 0 3 = Inr vs \<and> list_slice stake_list 1 2 = Inr (drop 1 vs) \<and>
      list_slice stake_list 2 1 = Inr (drop 2 vs) \<and> list_slice stake_list 0 2 = Inr (take 2 vs) \<and>
      list_slice stake_list 0 4 = Inl AccountDataTooSmall \<and> list_slice stake_list 1 3 = Inl AccountDataTooSmall)"

definition validator_list_iter :: bool where
  "validator_list_iter =
     (let stake_list = test_validator_list 10 in list_slice stake_list 0 3 = Inr (vl_validators stake_list))"

lemma deserialize_vec_list:
  "deserialize_vec (ser_validator_list vl) = Inr (vl_header vl, bv_image (map ser_vsi (vl_validators vl)) [])"
  by (simp add: deserialize_vec_def ser_validator_list_def chd.de_ser ser_vec_def bv_image_def ser_list_concat)

lemma list_slice_of:
  assumes "length (vl_validators vl) < 2 ^ 32"
  shows "list_slice vl skip n =
    (if skip + n \<le> length (vl_validators vl) then Inr (take n (drop skip (vl_validators vl))) else Inl AccountDataTooSmall)"
proof -
  let ?vs = "vl_validators vl" and ?v = "bv_image (map ser_vsi (vl_validators vl)) []"
  have wf: "bv_wf ENTRY_LEN (map ser_vsi ?vs)" using assms by (simp add: bv_wf_def)
  note vec = deserialize_vec_list [of vl]
  show ?thesis
  proof (cases "skip + n \<le> length ?vs")
    case True
    let ?part = "map ser_vsi (take n (drop skip ?vs))"
    have "bv_deserialize_slice ENTRY_LEN skip n ?v = Inr (4 + skip * ENTRY_LEN, concat ?part)"
      using bv_deserialize_slice_entries [OF bv_invar_image [OF wf]] True bv_entries_image [OF wf]
      by (simp add: take_map drop_map)
    moreover have "chunks ENTRY_LEN n (concat ?part) = ?part"
      using chunks_concat [of ?part ENTRY_LEN "[]"] True by simp
    ultimately show ?thesis using True by (simp add: list_slice_def vec comp_def)
  next
    case False
    then show ?thesis using assms by (simp add: list_slice_def vec bv_deserialize_slice_def bv_len_image [OF wf] unat_of_nat)
  qed
qed

lemma list_slice_tests_pass: validator_list_deserialize_mut_slice validator_list_iter
  by (simp_all add: validator_list_deserialize_mut_slice_def validator_list_iter_def Let_def list_slice_of
      deserialize_vec_list test_validator_list_def)

subsection \<open>The vector of bytes\<close>

definition test_struct :: "u8 \<Rightarrow> bytes" where
  "test_struct value = value # replicate 7 0"

fun from_slice :: "bytes \<Rightarrow> u8 list \<Rightarrow> program_error + bytes" where
  "from_slice data [] = Inr data"
| "from_slice data (element # vec) = bindE (bv_push (test_struct element) data) (\<lambda>data. from_slice data vec)"

definition check_big_vec_eq :: "bytes \<Rightarrow> u8 list \<Rightarrow> bool" where
  "check_big_vec_eq big_vec expected =
     (case bindE (bv_len big_vec) (\<lambda>n. bv_deserialize_slice 8 0 (unat n) big_vec) of
        Inl _ \<Rightarrow> False
      | Inr (_, part) \<Rightarrow>
          list_all (\<lambda>(a, b). hd a = b) (zip (chunks 8 (length part div 8) part) expected))"

definition test_push :: bool where
  "test_push =
     (let v = from_slice (replicate (4 + 8 * 3) 0) in
      (case v [1] of Inr data \<Rightarrow> check_big_vec_eq data [1] | Inl _ \<Rightarrow> False) \<and>
      (case v [1, 2] of Inr data \<Rightarrow> check_big_vec_eq data [1, 2] | Inl _ \<Rightarrow> False) \<and>
      (case v [1, 2, 3] of
         Inr data \<Rightarrow> check_big_vec_eq data [1, 2, 3] \<and> bv_push (test_struct 4) data = Inl AccountDataTooSmall
       | Inl _ \<Rightarrow> False))"

definition mod_2_predicate :: "bytes \<Rightarrow> bool" where
  "mod_2_predicate data = (case try_from_slice de_u64 data of Some n \<Rightarrow> n mod 2 = 0 | None \<Rightarrow> False)"

definition test_vec :: "program_error + bytes" where
  "test_vec = from_slice (replicate (4 + 8 * 4) 0) [1, 2, 3, 4]"

definition test_retain :: bool where
  "test_retain =
     (case bindE test_vec (bv_retain 8 mod_2_predicate) of
        Inr data \<Rightarrow> check_big_vec_eq data [2, 4]
      | Inl _ \<Rightarrow> False)"

definition find_predicate :: "u8 \<Rightarrow> bytes \<Rightarrow> bool" where
  "find_predicate b a = (if length a \<noteq> 8 then False else hd a = b)"

definition find_element :: "bytes \<Rightarrow> u8 \<Rightarrow> program_error + bytes option" where
  "find_element data b =
     bindE (bv_find 8 (find_predicate b) data) (\<lambda>found.
     Inr (map_option (\<lambda>offset. take 8 (drop offset data)) found))"

definition test_find :: bool where
  "test_find =
     (bindE test_vec (\<lambda>v. find_element v 1) = Inr (Some (test_struct 1)) \<and>
      bindE test_vec (\<lambda>v. find_element v 4) = Inr (Some (test_struct 4)) \<and>
      bindE test_vec (\<lambda>v. find_element v 5) = Inr None)"

definition test_find_mut :: bool where
  "test_find_mut =
     (case bindE test_vec (\<lambda>v. bindE (bv_find 8 (find_predicate 1) v) (\<lambda>found.
             bindE (ok_or found Panicked) (\<lambda>offset. Inr (bv_write offset (replicate 8 0) v)))) of
        Inr data \<Rightarrow> check_big_vec_eq data [0, 2, 3, 4] \<and> bv_find 8 (find_predicate 5) data = Inr None
      | Inl _ \<Rightarrow> False)"

definition test_deserialize_mut_slice :: bool where
  "test_deserialize_mut_slice =
     (case bindE test_vec (\<lambda>v. bindE (bv_deserialize_slice 8 1 2 v) (\<lambda>(start, part).
             Inr (splice start (splice 8 [11] (splice 0 [10] part)) v))) of
        Inr data \<Rightarrow>
          check_big_vec_eq data [1, 10, 11, 4] \<and>
          bv_deserialize_slice 8 1 4 data = Inl AccountDataTooSmall \<and>
          bv_deserialize_slice 8 4 1 data = Inl AccountDataTooSmall
      | Inl _ \<Rightarrow> False)"

lemma test_push_passes: test_push
  by code_simp

lemma big_vec_tests_pass: test_retain test_find test_find_mut test_deserialize_mut_slice
  by code_simp+

end
