(* ===== verification/Spec2Isabelle.thy ===== *)
theory Spec2Isabelle
  imports Validator_Theorems Access_Theorems Data_Theorems Account_Confusion Builder_Theorems Client_Theorems
    Argument_Theorems Documented_Accounts Entry_Point Unit_Tests
begin

text \<open>
  Verification of the stake pool program of \<open>src/program/src\<close> and of its command-line client of \<open>src/clients/cli/src\<close>.

  \<^bold>\<open>The program.\<close> A stake pool takes deposits of SOL and of stake accounts, mints pool tokens for
  them, delegates the lamports of its reserve to a list of validators, and pays withdrawals out
  against burnt pool tokens. Its state is two accounts of the program: the record
  (\<open>StakePool\<close>, \<open>state.rs\<close>) with the total lamports, the token supply, the fees and
  the addresses of its parts; and the validator list (\<open>ValidatorList\<close>, an entry of 73 bytes per validator), which the
  handlers change in place through \<open>BigVec\<close> (\<open>big_vec.rs\<close>). The handlers
  (\<open>processor.rs\<close>) check the accounts they are given, call the system, stake, token and
  metadata programs, and write the two accounts. Once per epoch anybody updates the list
  (\<open>UpdateValidatorListBalance\<close>), then the total (\<open>UpdateStakePoolBalance\<close>); deposits, withdrawals and
  changes of the delegation need an updated pool. The client reads the accounts of a pool from a node, builds transactions
  with the functions of \<open>instruction.rs\<close> and sends them; most of its commands update the pool first.

  \<^bold>\<open>The model.\<close> A handler is a function from the runtime, the program id, the accounts of
  the instruction, its arguments and the \<open>world\<close> (a map from addresses to accounts with lamports, data and
  owner) to an error or a new world. \<open>bindE\<close> is the question mark operator; every early
  return is a branch. Integers have the width of the code (\<open>u64\<close>, \<open>u128\<close> and so on) with the checked and
  saturating operations of Rust. Account data are bytes, and the records are
  read and written through their borsh encoding. Code outside the repository is a field of the record
  \<open>runtime\<close>: address derivation, the sysvars, the decoding of stake, mint and token accounts, and \<open>rt_invoke\<close>, which performs
  a call to another program. What is assumed of it is named: \<open>respects_owner\<close> (a called program does not change data
  or owner of accounts of this program), \<open>tracks_supply\<close> (a supply changes only by minting and burning), \<open>clock_is\<close>
  (the two ways to read the clock agree). A failing transaction has no effect, as on chain, since a failing handler returns no world.
  A command of the client is a function on \<open>session\<close>s (the world the node sees, the transactions sent, the number of key pairs made) that
  returns an error or a value and the session in which it stops, since what was sent before an error stays sent. The answers of the node, what
  it does with a transaction, signing, and the functions of other crates are fields of the records \<open>node\<close>, \<open>cli_env\<close>, \<open>display\<close>, \<open>floats\<close> and \<open>arg_matches\<close>.

  \<^bold>\<open>The theories.\<close>
  \<^item> \<open>Prelude\<close>: the error monad, checked arithmetic, little-endian bytes; \<open>Borsh\<close>: encoders and decoders, with the
    locale \<open>codec\<close> that every format of the program is an interpretation of.
  \<^item> \<open>Errors\<close> (\<open>error.rs\<close>), \<open>Fees\<close> (\<open>Fee\<close>, \<open>FutureEpoch\<close>, \<open>FeeType\<close>), \<open>Stake_Pool\<close> (the record, its encoding and the
    price calculations), \<open>Big_Vec\<close> (the byte vector; the locale \<open>entry_vector\<close> is the abstract
    list it implements), \<open>Validator_List\<close> (entries, statuses, raw predicates, header and list).
  \<^item> \<open>Runtime\<close> (accounts, the runtime, reading and writing of the records), \<open>Checks\<close> (the helper functions of
    \<open>state.rs\<close>, \<open>lib.rs\<close>, \<open>processor.rs\<close> and \<open>inline_mpl_token_metadata.rs\<close>; the locale \<open>call_frame\<close> for relations that the calls keep).
  \<^item> \<open>Processor_Admin\<close>, \<open>Processor_Validators\<close>, \<open>Processor_Update\<close>, \<open>Processor_Funds\<close>: the handlers, long ones split at the
    comments of the code; the locale \<open>pool_setter\<close> is the contract of the setters. \<open>Instruction\<close>: the
    instructions, their encoding and \<open>Processor::process\<close>. \<open>Instruction_Builders\<close>: the functions of \<open>instruction.rs\<close> that build
    instructions for clients. \<open>Entry_Point\<close>: \<open>entrypoint.rs\<close> and the messages for errors. \<open>Documented_Accounts\<close>: the comments on the instructions as
    a table of accounts with their flags, which the builders follow. \<open>Unit_Tests\<close>: the tests in \<open>state.rs\<close> and \<open>big_vec.rs\<close>, run in the model.
  \<^item> \<open>Client_Withdraw\<close>: reading accounts (\<open>client.rs\<close>) and how the client chooses the accounts of a withdrawal; \<open>Client\<close>: sessions, transactions and
    how they are built and sent; \<open>Client_Commands\<close> and \<open>Client_Operations\<close>: the functions \<open>command_*\<close> of \<open>main.rs\<close>; \<open>Client_Output\<close>: \<open>output.rs\<close> and the
    commands that list pools; \<open>Client_Main\<close>: \<open>main\<close>, from the parsed arguments on; \<open>Client_Arguments\<close>: the table
    of the arguments, what its parser accepts, and the whole program \<open>cli_main\<close>. \<open>Client_Frames\<close>: the locale \<open>session_relation\<close> lifts a relation that new key pairs
    and transactions of the fee payer respect to every command; \<open>Command_Effects\<close>: what a successful step of a command says.
  \<^item> \<open>Validator_Effects\<close>, \<open>Update_Effects\<close>, \<open>Fund_Effects\<close>: what a successful run of each handler did. \<open>Builder_Effects\<close>: which
    instructions an epoch update consists of and what the handler does with them. \<open>Frames\<close>: the locales
    \<open>handler_frame\<close> and \<open>full_frame\<close> lift a relation that calls and writes keep to whole instructions; their interpretation
    \<open>isolation\<close> shows that other accounts of the program stay as they are. \<open>Books\<close> and \<open>Supply\<close>: the record
    across instructions and the agreement with the mint. \<open>Machine\<close>: the abstract machine \<open>list_step\<close> on the list of validators, the
    invariant \<open>pool_ok\<close> and the histories \<open>pool_runs\<close>.
  \<^item> \<open>Samples\<close>, \<open>Sample_Runs\<close>, \<open>Sample_Pool\<close>, \<open>Client_Samples\<close>: a small concrete chain on which every handler runs and a node in front of it, so that
    the hypotheses of the theorems are met.
  \<^item> \<open>Fund_Theorems\<close>, \<open>Pool_Theorems\<close>, \<open>Validator_Theorems\<close>, \<open>Access_Theorems\<close>, \<open>Data_Theorems\<close>, \<open>Account_Confusion\<close>,
    \<open>Builder_Theorems\<close>, \<open>Client_Theorems\<close>, \<open>Command_Theorems\<close>, \<open>Client_Transactions\<close>, \<open>Argument_Theorems\<close> and this theory: the properties.

  \<^bold>\<open>What is shown.\<close> Deposits and withdrawals divide the tokens without remainder, keep to the
    limits of the user (with the exception below), book what they move and never lower the value of a pool token; the epoch
    update sets the total to what the pool holds and its fee does not dilute the holders; the supply on
    record stays the supply of the mint under every instruction; over arbitrary histories the pool stays the same pool with
    a well-formed list without duplicates, whose changes are steps of the abstract machine; no instruction touches another pool;
    instructions of the manager and the staker need their signatures; a pool that is out of date is frozen; the byte-level
    operations are the list operations they stand for; the formats round-trip; and the instructions that clients build fit the
    handlers: the updates built for an epoch cover the list, and once they have run the pool can be updated. A withdrawal planned by the command-line client asks for
    the amount of the user and from no account for more than it has, and its transaction spends what it approves. Of every command, with every
    argument: a dry run sends nothing, and what is sent is paid and signed by the fee payer. A successful update command leaves the pool up to date.
    A command line that fits the argument table is read without a panic (but for one argument, below), and a stake account named for a withdrawal receives one withdrawal.
    The builders pass the accounts that the comments document, up to a few missing flags; the tokens of the epoch fee are worth the fee, rounded up.

  \<^bold>\<open>What the code gets wrong.\<close> \<open>initialize_overwrites_list\<close>: pools and lists keep their account type in different bytes, so that
    \<open>Initialize\<close> accepts a list of another pool as a new pool account. \<open>withdraw_stake_below_minimum\<close>: the minimum of a withdrawal is
    checked before the amount is lowered. \<open>check_withdrawal_overflow_accepted\<close>: an overflow makes the
    limit on withdrawal fees pass. In the client, \<open>withdraw_plan_drains_account\<close>: a plan may empty an account that the program keeps at
    a minimum; \<open>single_account_check_mixes_units\<close>: lamports are compared with pool tokens; \<open>no_plan_without_inverse_fee\<close>: a division by zero
    for a pool without a withdrawal fee; \<open>add_command_ignores_seeds\<close>: the search for a free validator stake account looks at the reserve;
    \<open>deposit_creates_unused_account\<close>: a token account is created that nobody asked for; \<open>withdrawal_spends_what_it_approves\<close>: the merge of withdrawn
    stake is signed by the fee payer and not by the staker who owns it; \<open>accepted_line_is_read\<close>: \<open>set-staker\<close> panics without its argument, which the
    table does not require. Of the unit tests, \<open>fee_calculation\<close> fails for some of its inputs (\<open>fee_calculation_fails\<close>).

  \<^bold>\<open>Bounds.\<close> All functions are total. The loops of the code run over the entries of the list or the accounts passed and are
  structural recursions, and the chunks of a slice by their length. The one loop without such a bound, the search for a seed in \<open>command_vsa_add\<close>, has as many rounds as
  its \<open>u32\<close> counter has values: then the counter overflows, and since the question of the loop does not depend on it, it would go on forever. A list has fewer than \<open>2 ^ 32\<close> entries (the count is a \<open>u32\<close>) and the program admits at most 20000. A record
  has at most \<open>STAKE_POOL_MAX_LEN\<close> (877) bytes.

  \<^bold>\<open>Not modelled.\<close> The macro that decodes the input of the loader for the entry point, and the contact data next to it; the argument parser, of another crate (the table it works
  on is modelled, without help texts and the names of values); the JSON form of the output and messages to the terminal; decimal arithmetic on amounts, and the one unit
  test of floating-point numbers; the JavaScript and Python clients; the program tests, which run on a simulated chain, and scripts. The world does not change between two questions of a command, only
  when it sends something. In the handlers, log messages and
  failures of \<open>RefCell\<close> borrows are left out, and an account that appears twice in the accounts of an instruction is
  one account of the world, as on chain. The histories do not contain an \<open>Initialize\<close> whose pool or list account is the pool or
  the list at hand; for the list account this is a real restriction, see \<open>initialize_overwrites_list\<close>.
\<close>

section \<open>Histories of a pool\<close>



text \<open>C6: The validator list implements the abstract machine \<open>list_step\<close>: an encoded instruction that the entry point accepts on a
  pool in order takes its validators by one step of the machine to the validators of the new world.\<close>

theorem entry_point_refines_list_machine:
  assumes "respects_owner rt pid" and "pool_ok pid pool sp w" and "process rt pid (pool # rest) input w = Inr w'"
  shows "\<exists>sp'. pool_ok pid pool sp' w' \<and> same_pool sp sp' \<and> list_step (validators_of sp w) (validators_of sp' w')"
proof -
  from assms(3) obtain i where "process_instruction rt pid (pool # rest) i w = Inr w'" by (auto simp: process_def ok_iff)
  then show ?thesis by (rule pool_ok_step [OF assms(1,2)])
qed

theorem entry_point_refines_list_machine_witness:
  "\<exists>w' sp'. process sample_rt PROGRAM add_validator_accounts (ser_instruction (AddValidatorToPool 7)) sample_world = Inr w' \<and>
     list_step [sample_entry, sample_removed] (validators_of sp' w')"
proof -
  obtain w' where "process_add_validator_to_pool sample_rt PROGRAM add_validator_accounts 7 sample_world = Inr w'"
    using run_of [OF sample_add_validator] by blast
  then have run: "process sample_rt PROGRAM add_validator_accounts (ser_instruction (AddValidatorToPool 7)) sample_world = Inr w'"
    using de_instruction_ser [of "AddValidatorToPool 7" "[]"] by (simp add: process_def try_from_slice_def)
  from entry_point_refines_list_machine [OF sample_respects_owner sample_pool_ok run [unfolded add_validator_accounts_def]]
  show ?thesis using run by (auto simp: add_validator_accounts_def)
qed

text \<open>C15: A validator that is leaving does not come back: while its entry is in the list and not active, no instruction makes an
  entry for its vote account active. It has to be cleaned up first.\<close>

theorem leaving_validator_not_revived:
  assumes "respects_owner rt pid" and "pool_ok pid pool sp w"
    and "process_instruction rt pid (pool # rest) i w = Inr w'"
    and "x \<in> set (validators_of sp w)" and "vs_status x \<noteq> status_to_u8 Active"
  shows "\<exists>sp'. read_stake_pool w' pool = Inr sp' \<and>
    (\<forall>y \<in> set (validators_of sp' w'). vs_vote_account_address y = vs_vote_account_address x \<longrightarrow>
       vs_status y \<noteq> status_to_u8 Active)"
proof -
  from pool_ok_step [OF assms(1-3)] obtain sp' where
      sp': "pool_ok pid pool sp' w'" and st: "list_step (validators_of sp w) (validators_of sp' w')" by blast
  have d: "distinct (vote_list (validators_of sp w))" using assms(2) by (simp add: pool_ok_def votes_def)
  have "vs_status y \<noteq> status_to_u8 Active"
    if y: "y \<in> set (validators_of sp' w')" "vs_vote_account_address y = vs_vote_account_address x" for y
  proof
    assume "vs_status y = status_to_u8 Active"
    from list_step_active [OF st y(1) this] y(2) assms(4) obtain x' where
        x': "x' \<in> set (validators_of sp w)" "vs_vote_account_address x' = vs_vote_account_address x"
        "vs_status x' = status_to_u8 Active"
      by (auto simp del: status_to_u8.simps)
    have "x' = x" using inj_onD [OF distinct_map [THEN iffD1, OF d, THEN conjunct2] x'(2) x'(1) assms(4)] .
    then show False using x'(3) assms(5) by simp
  qed
  then show ?thesis using sp' by (auto simp: pool_ok_def simp del: status_to_u8.simps)
qed

theorem leaving_validator_not_revived_witness:
  "\<exists>w' sp'. process_instruction sample_rt PROGRAM remove_validator_accounts RemoveValidatorFromPool sample_world = Inr w' \<and>
     read_stake_pool w' (view POOL) = Inr sp' \<and>
     filter (\<lambda>y. vs_vote_account_address y = 24 \<and> vs_status y = status_to_u8 Active) (validators_of sp' w') = []"
proof -
  obtain w' where run:
      "process_instruction sample_rt PROGRAM remove_validator_accounts RemoveValidatorFromPool sample_world = Inr w'"
    using run_of [OF sample_remove_validator] by auto
  have x: "sample_removed \<in> set (validators_of sample_stake_pool sample_world)"
      "vs_status sample_removed \<noteq> status_to_u8 Active" by simp_all
  from leaving_validator_not_revived [OF sample_respects_owner sample_pool_ok run [unfolded remove_validator_accounts_def] x]
  show ?thesis using run by (auto simp: filter_empty_conv simp del: status_to_u8.simps)
qed

text \<open>C8: An instruction on one pool cannot touch another: every account of the program other than the pool account and its list
  keeps its owner and its bytes, whatever the instruction and whatever accounts are passed.\<close>

theorem other_accounts_untouched:
  assumes "respects_owner rt pid" and "pool_ok pid pool sp w"
    and "process rt pid (pool # rest) input w = Inr w'"
    and "acc_owner (w k) = pid" and "k \<noteq> ai_key pool" and "k \<noteq> sp_validator_list sp"
  shows "acc_owner (w' k) = pid \<and> acc_data (w' k) = acc_data (w k)"
proof -
  let ?m = "\<lambda>k. k = ai_key pool \<or> k = sp_validator_list sp"
  from assms(3) obtain i where i: "process_instruction rt pid (pool # rest) i w = Inr w'" by (auto simp: process_def ok_iff)
  have "untouched pid ?m w w'"
    using isolation.every_instruction [OF i, where mine = ?m] assms(1,2) by (simp add: pool_ok_def)
  then show ?thesis using assms(4-6) by (simp add: untouched_def)
qed

text \<open>The sample world with one more account of the program.\<close>

definition crowded_world :: world where
  "crowded_world = sample_world(30 := sample_account 7 [1, 2, 3] PROGRAM)"

theorem other_accounts_untouched_witness:
  "\<exists>w'. process sample_rt PROGRAM [view POOL, signer 4, view 21] (ser_instruction SetStaker) crowded_world = Inr w' \<and>
     acc_data (w' 30) = [1, 2, 3]"
proof -
  have ok: "pool_ok PROGRAM (view POOL) sample_stake_pool crowded_world"
    using sample_pool_ok by (simp add: pool_ok_def crowded_world_def owner_of_def read_stake_pool_def data_of_def)
  have "load_stake_pool PROGRAM crowded_world (view POOL) = Inr sample_stake_pool"
    using ok by (simp add: pool_ok_def load_stake_pool_Inr)
  then have "is_ok (process_set_staker sample_rt PROGRAM [view POOL, signer 4, view 21] crowded_world)"
    by (simp add: process_set_staker_def crowded_world_def run_eval)
  then obtain w' where "process_instruction sample_rt PROGRAM [view POOL, signer 4, view 21] SetStaker crowded_world = Inr w'"
    using run_of by auto
  then have run: "process sample_rt PROGRAM [view POOL, signer 4, view 21] (ser_instruction SetStaker) crowded_world = Inr w'"
    using de_instruction_ser [of SetStaker "[]"] by (simp add: process_def try_from_slice_def)
  from other_accounts_untouched [OF sample_respects_owner ok run, of 30] show ?thesis
    using run by (simp add: crowded_world_def)
qed

text \<open>C14: \<open>Initialize\<close> creates a pool in order: with the signature of the manager it leaves a valid record and an empty list,
  fees of at most one, and as many pool tokens on record as lamports, which are those of the reserve above its minimum;
  the supply on record is the supply of the mint.\<close>

theorem initialize_creates_pool:
  assumes own: "respects_owner rt pid"
    and run: "process_initialize rt pid
      (pool # manager # staker # auth # list # reserve # mint # fee_acc # token # rest) ef wfee dfee rf mv w = Inr w'"
  shows "\<exists>sp' meta. pool_ok pid pool sp' w' \<and> validators_of sp' w' = [] \<and> ai_is_signer manager \<and>
    sp_manager sp' = ai_key manager \<and> sp_staker sp' = ai_key staker \<and> sp_validator_list sp' = ai_key list \<and>
    sp_reserve_stake sp' = ai_key reserve \<and> sp_pool_mint sp' = ai_key mint \<and> sp_token_program_id sp' = ai_key token \<and>
    fee_at_most_one (sp_epoch_fee sp') \<and> fee_at_most_one (sp_sol_withdrawal_fee sp') \<and>
    fee_at_most_one (sp_stake_withdrawal_fee sp') \<and> fee_at_most_one (sp_sol_deposit_fee sp') \<and>
    fee_at_most_one (sp_stake_deposit_fee sp') \<and>
    unat mv \<le> 20000 \<and> sp_pool_token_supply sp' = sp_total_lamports sp' \<and>
    rt_stake_state rt (data_of w reserve) = Some (SS_Initialized meta) \<and>
    unat (lamports_of w reserve) = pool_total sp' + unat (minimum_reserve_lamports meta) \<and>
    (counted rt pid (ai_key token) \<longrightarrow> in_sync rt sp' w')"
  using initialize_effect [OF own run] .

theorem initialize_creates_pool_witness:
  "\<exists>w' sp'. process_initialize sample_rt PROGRAM initialize_accounts \<lparr>denominator = 10, numerator = 1\<rparr>
     \<lparr>denominator = 1000, numerator = 1\<rparr> \<lparr>denominator = 100, numerator = 1\<rparr> 50 10 fresh_world = Inr w' \<and>
     pool_ok PROGRAM (view POOL) sp' w' \<and> in_sync sample_rt sp' w' \<and> pool_total sp' = 10099900"
proof -
  let ?f = "\<lparr>denominator = 10, numerator = 1\<rparr>" and ?g = "\<lparr>denominator = 1000, numerator = 1\<rparr>"
    and ?h = "\<lparr>denominator = 100, numerator = 1\<rparr>"
  obtain w' where run: "process_initialize sample_rt PROGRAM initialize_accounts ?f ?g ?h 50 10 fresh_world = Inr w'"
    using run_of [OF sample_initialize] by blast
  from initialize_creates_pool [OF sample_respects_owner run [unfolded initialize_accounts_def]]
  obtain sp' where "pool_ok PROGRAM (view POOL) sp' w'" "in_sync sample_rt sp' w'"
      "unat (lamports_of fresh_world (view RESERVE)) = pool_total sp' + unat (minimum_reserve_lamports sample_meta)"
    using sample_counted by (auto simp: data_of_def)
  then show ?thesis using run by (auto simp: lamports_of_def sample_minimums)
qed

end
